(* ===== verification/Prelude.thy ===== *)
theory Prelude
  imports Main "HOL-Library.Multiset" "HOL-Library.Word"
begin

text \<open>
  Shared ground of the FleetControl development: the collections of simplification rules, the
  byte strings of Go, the error values that cross package boundaries and the generic lemmas on
  keyed tables (lists of rows with a key column) that the SQL model and the components use.
\<close>

named_theorems wire_simps \<open>computation rules of the byte-string, JSON and HTTP layers\<close>
named_theorems effect_simps \<open>computation rules of effectful programs and SQL statements\<close>
named_theorems api_simps \<open>definitions of the handlers, services and repositories\<close>

text \<open>
  A Go string is a sequence of bytes; an Isabelle \<^typ>\<open>char\<close> is exactly one byte.
  A \<open>uuid.UUID\<close> is a 16-byte array, an instant is a number of microseconds (database
  timestamps) or nanoseconds (\<open>time.Now\<close>) since the Unix epoch.
\<close>

type_synonym bytes = string
type_synonym uuid = "128 word"
type_synonym micros = int
type_synonym nanos = int

abbreviation uuid_Nil :: uuid where
  "uuid_Nil \<equiv> 0"

section \<open>Error values\<close>

text \<open>
  The sentinel errors of the packages and the wrapped forms they return. A wrapped error keeps
  its sentinel (the constructor), which is what \<open>errors.Is\<close> looks at, and its reason.
  \<open>PgError\<close> carries the text of a driver or server error of the database.
\<close>

datatype go_error =
    ErrNoRows
  | PgError bytes
  | ErrManagedByOperator
  | ErrInvalidRole
  | BcryptError bytes
  | ErrInvalidPrincipal bytes
  | ErrInvalidToken bytes
  | ErrInvalidJWTConfig bytes
  | ErrPlain bytes

text \<open>The text \<open>err.Error()\<close> of an error, as the \<open>errors.New\<close> and \<open>fmt.Errorf\<close> calls build it.\<close>

fun err_text :: "go_error \<Rightarrow> bytes" where
  "err_text ErrNoRows = ''no rows in result set''"
| "err_text (PgError msg) = msg"
| "err_text ErrManagedByOperator =
     ''satellite is managed by operator and cannot be edited manually''"
| "err_text ErrInvalidRole = ''role must be one of: admin, viewer''"
| "err_text (BcryptError msg) = msg"
| "err_text (ErrInvalidPrincipal reason) = ''invalid principal: '' @ reason"
| "err_text (ErrInvalidToken reason) = ''invalid human token: '' @ reason"
| "err_text (ErrInvalidJWTConfig reason) = ''invalid JWT configuration: '' @ reason"
| "err_text (ErrPlain msg) = msg"

section \<open>Keyed tables\<close>

text \<open>
  A table is a list of rows; \<open>upd_where\<close>, \<open>del_where\<close> and \<open>find\<close> on a key column are the
  effects of UPDATE, DELETE and SELECT with a WHERE clause on that column.
\<close>

definition upd_where :: "('r \<Rightarrow> 'k) \<Rightarrow> 'k \<Rightarrow> ('r \<Rightarrow> 'r) \<Rightarrow> 'r list \<Rightarrow> 'r list" where
  "upd_where key k f rows = map (\<lambda>r. if key r = k then f r else r) rows"

definition del_where :: "('r \<Rightarrow> 'k) \<Rightarrow> 'k \<Rightarrow> 'r list \<Rightarrow> 'r list" where
  "del_where key k rows = filter (\<lambda>r. key r \<noteq> k) rows"

definition sel_where :: "('r \<Rightarrow> 'k) \<Rightarrow> 'k \<Rightarrow> 'r list \<Rightarrow> 'r option" where
  "sel_where key k rows = find (\<lambda>r. key r = k) rows"

lemma sel_where_Nil [simp]: "sel_where key k [] = None"
  by (simp add: sel_where_def)

lemma sel_where_Cons [simp]:
  "sel_where key k (r # rows) = (if key r = k then Some r else sel_where key k rows)"
  by (simp add: sel_where_def)

lemma sel_where_append [simp]:
  "sel_where key k (xs @ ys) = (case sel_where key k xs of Some r \<Rightarrow> Some r | None \<Rightarrow> sel_where key k ys)"
  by (induction xs) auto

lemma sel_where_SomeD: "sel_where key k rows = Some r \<Longrightarrow> r \<in> set rows \<and> key r = k"
  by (induction rows) (auto split: if_splits)

lemma sel_where_None_iff: "sel_where key k rows = None \<longleftrightarrow> k \<notin> key ` set rows"
  by (induction rows) auto

lemma sel_where_in_set:
  "distinct (map key rows) \<Longrightarrow> r \<in> set rows \<Longrightarrow> sel_where key (key r) rows = Some r"
  by (induction rows) (auto simp: rev_image_eqI)

lemma sel_where_upd_where:
  assumes "\<And>r. key (f r) = key r"
  shows "sel_where key j (upd_where key k f rows) =
    (if j = k then map_option f (sel_where key k rows) else sel_where key j rows)"
  using assms by (induction rows) (auto simp: upd_where_def)

lemma sel_where_del_where:
  "sel_where key j (del_where key k rows) = (if j = k then None else sel_where key j rows)"
  by (induction rows) (auto simp: del_where_def)

lemma map_upd_where: "(\<And>r. col (f r) = col r) \<Longrightarrow> map col (upd_where key k f rows) = map col rows"
  by (simp add: upd_where_def)

lemma distinct_del_where: "distinct (map col rows) \<Longrightarrow> distinct (map col (del_where key k rows))"
  by (simp add: del_where_def distinct_map_filter)

lemma set_del_where: "set (del_where key k rows) = {r \<in> set rows. key r \<noteq> k}"
  by (auto simp: del_where_def)

lemma set_upd_where:
  "set (upd_where key k f rows) = (\<lambda>r. if key r = k then f r else r) ` set rows"
  by (simp add: upd_where_def)

lemma upd_where_absent: "k \<notin> key ` set rows \<Longrightarrow> upd_where key k f rows = rows"
  unfolding upd_where_def by (rule map_idI) auto

lemma del_where_absent: "k \<notin> key ` set rows \<Longrightarrow> del_where key k rows = rows"
  by (induction rows) (auto simp: del_where_def)

section \<open>Sums\<close>

lemma sum_case_Inr_iff [simp]:
  "(case x of Inl e \<Rightarrow> False | Inr y \<Rightarrow> P y) \<longleftrightarrow> (\<exists>y. x = Inr y \<and> P y)"
  by (cases x) auto

end
