(* ===== verification/GoStrings.thy ===== *)
theory GoStrings
  imports Prelude
begin

text \<open>
  The parts of Go's \<open>strings\<close>, \<open>unicode\<close>, \<open>unicode/utf8\<close> and \<open>strconv\<close> packages that the
  sources call, on byte strings: UTF-8 decoding and encoding with Go's treatment of invalid
  bytes, white space, trimming, prefixes, and decimal printing. The lemmas show how much input
  each decoding step consumes and that encoding a rune and decoding it again is the identity.
\<close>

section \<open>Bytes and runes\<close>

definition byte :: "char \<Rightarrow> nat" where
  "byte c = of_char c"

definition bchr :: "nat \<Rightarrow> char" where
  "bchr n = char_of n"

lemma byte_less [simp]: "byte c < 256"
  by (simp add: byte_def)

lemma byte_bchr [simp]: "n < 256 \<Longrightarrow> byte (bchr n) = n"
  by (simp add: byte_def bchr_def)

lemma bchr_byte [simp]: "bchr (byte c) = c"
  by (simp add: byte_def bchr_def)

lemma byte_inject [simp]: "byte c = byte d \<longleftrightarrow> c = d"
  by (simp add: byte_def)

definition rune_error :: nat where
  "rune_error = 0xFFFD"

definition cont_byte :: "nat \<Rightarrow> bool" where
  "cont_byte b \<longleftrightarrow> 0x80 \<le> b \<and> b \<le> 0xBF"

text \<open>
  \<open>utf8.DecodeRuneInString\<close>: the first rune and the number of bytes it takes; an invalid or
  truncated encoding is \<open>RuneError\<close> of width 1, the empty string \<open>RuneError\<close> of width 0.
\<close>

fun decode_rune :: "bytes \<Rightarrow> nat \<times> nat" where
  "decode_rune [] = (rune_error, 0)"
| "decode_rune (c # cs) =
     (let b0 = byte c in
      if b0 < 0x80 then (b0, 1)
      else if b0 < 0xC2 \<or> 0xF4 < b0 then (rune_error, 1)
      else if b0 < 0xE0 then
        (case cs of c1 # _ \<Rightarrow>
           if cont_byte (byte c1) then ((b0 - 0xC0) * 64 + (byte c1 - 0x80), 2) else (rune_error, 1)
         | _ \<Rightarrow> (rune_error, 1))
      else if b0 < 0xF0 then
        (case cs of c1 # c2 # _ \<Rightarrow>
           if (if b0 = 0xE0 then 0xA0 else 0x80) \<le> byte c1
              \<and> byte c1 \<le> (if b0 = 0xED then 0x9F else 0xBF) \<and> cont_byte (byte c2)
           then ((b0 - 0xE0) * 4096 + (byte c1 - 0x80) * 64 + (byte c2 - 0x80), 3)
           else (rune_error, 1)
         | _ \<Rightarrow> (rune_error, 1))
      else
        (case cs of c1 # c2 # c3 # _ \<Rightarrow>
           if (if b0 = 0xF0 then 0x90 else 0x80) \<le> byte c1
              \<and> byte c1 \<le> (if b0 = 0xF4 then 0x8F else 0xBF)
              \<and> cont_byte (byte c2) \<and> cont_byte (byte c3)
           then ((b0 - 0xF0) * 262144 + (byte c1 - 0x80) * 4096
                 + (byte c2 - 0x80) * 64 + (byte c3 - 0x80), 4)
           else (rune_error, 1)
         | _ \<Rightarrow> (rune_error, 1)))"

lemma decode_rune_width_le: "snd (decode_rune s) \<le> length s"
  by (cases s) (auto simp: Let_def split: list.splits)

lemma decode_rune_width_pos: "s \<noteq> [] \<Longrightarrow> 0 < snd (decode_rune s)"
  by (cases s) (auto simp: Let_def split: list.splits)

lemma decode_rune_ascii: "byte c < 0x80 \<Longrightarrow> decode_rune (c # cs) = (byte c, 1)"
  by simp

text \<open>\<open>utf8.DecodeLastRuneInString\<close>: look back for a start byte, at most four bytes.\<close>

definition rune_start :: "char \<Rightarrow> bool" where
  "rune_start c \<longleftrightarrow> \<not> cont_byte (byte c)"

definition last_rune_start :: "bytes \<Rightarrow> bytes" where
  "last_rune_start s =
     (case filter (\<lambda>t. rune_start (hd t))
             (map (\<lambda>k. drop (length s - k) s) (filter (\<lambda>k. k \<le> length s) [2, 3, 4])) of
        t # _ \<Rightarrow> t
      | [] \<Rightarrow> if length s \<le> 4 then s else drop (length s - 5) s)"

definition decode_last_rune :: "bytes \<Rightarrow> nat \<times> nat" where
  "decode_last_rune s =
     (if s = [] then (rune_error, 0)
      else if byte (last s) < 0x80 then (byte (last s), 1)
      else if snd (decode_rune (last_rune_start s)) = length (last_rune_start s)
      then decode_rune (last_rune_start s)
      else (rune_error, 1))"

lemma last_rune_start_nonempty:
  assumes "s \<noteq> []"
  shows "last_rune_start s \<noteq> []"
proof -
  define tails where "tails = map (\<lambda>k. drop (length s - k) s) (filter (\<lambda>k. k \<le> length s) [2, 3, 4])"
  have ne: "\<forall>t \<in> set tails. t \<noteq> []" by (auto simp: tails_def)
  show ?thesis
  proof (cases "filter (\<lambda>t. rune_start (hd t)) tails")
    case Nil
    then have "last_rune_start s = (if length s \<le> 4 then s else drop (length s - 5) s)"
      by (simp add: last_rune_start_def tails_def)
    with assms show ?thesis by auto
  next
    case (Cons t ts)
    then have "t \<in> set tails" by (metis filter_is_subset list.set_intros(1) subsetD)
    moreover from Cons have "last_rune_start s = t"
      unfolding last_rune_start_def tails_def [symmetric] by simp
    ultimately show ?thesis using ne by simp
  qed
qed

lemma decode_last_rune_width_pos: "s \<noteq> [] \<Longrightarrow> 0 < snd (decode_last_rune s)"
  by (simp add: decode_last_rune_def last_rune_start_nonempty)

text \<open>\<open>utf8.AppendRune\<close>: surrogates and out-of-range runes are encoded as \<open>RuneError\<close>.\<close>

definition valid_rune :: "nat \<Rightarrow> bool" where
  "valid_rune r \<longleftrightarrow> r < 0xD800 \<or> (0xE000 \<le> r \<and> r < 0x110000)"

definition encode_rune :: "nat \<Rightarrow> bytes" where
  "encode_rune r =
     (if r < 0x80 then [bchr r]
      else if r < 0x800 then [bchr (0xC0 + r div 64), bchr (0x80 + r mod 64)]
      else if \<not> valid_rune r then [bchr 0xEF, bchr 0xBF, bchr 0xBD]
      else if r < 0x10000 then
        [bchr (0xE0 + r div 4096), bchr (0x80 + r div 64 mod 64), bchr (0x80 + r mod 64)]
      else [bchr (0xF0 + r div 262144), bchr (0x80 + r div 4096 mod 64),
            bchr (0x80 + r div 64 mod 64), bchr (0x80 + r mod 64)])"

lemma base64_digits: "(r::nat) = r div 64 * 64 + r mod 64" "r mod 64 < 64"
  by simp_all

lemma decode_two:
  assumes "2 \<le> a" "a < 32" "b < 64"
  shows "decode_rune (bchr (0xC0 + a) # bchr (0x80 + b) # s) = (a * 64 + b, 2)"
  using assms by (simp add: Let_def cont_byte_def)

lemma decode_three:
  assumes "a < 16" "b < 64" "c < 64" "a = 0 \<Longrightarrow> 32 \<le> b" "a = 13 \<Longrightarrow> b \<le> 31"
  shows "decode_rune (bchr (0xE0 + a) # bchr (0x80 + b) # bchr (0x80 + c) # s)
    = (a * 4096 + b * 64 + c, 3)"
  using assms by (simp add: Let_def cont_byte_def)

lemma decode_four:
  assumes "a \<le> 4" "b < 64" "c < 64" "d < 64" "a = 0 \<Longrightarrow> 16 \<le> b" "a = 4 \<Longrightarrow> b \<le> 15"
  shows "decode_rune (bchr (0xF0 + a) # bchr (0x80 + b) # bchr (0x80 + c) # bchr (0x80 + d) # s)
    = (a * 262144 + b * 4096 + c * 64 + d, 4)"
  using assms by (simp add: Let_def cont_byte_def)

lemma decode_encode_2:
  assumes "0x80 \<le> r" "r < 0x800"
  shows "decode_rune (encode_rune r @ s) = (r, length (encode_rune r))"
proof -
  have "2 \<le> r div 64" "r div 64 < 32" using assms by linarith+
  from decode_two [OF this base64_digits(2)] show ?thesis
    using assms by (simp add: encode_rune_def)
qed

lemma decode_encode_3:
  assumes "0x800 \<le> r" "r < 0x10000" "valid_rune r"
  shows "decode_rune (encode_rune r @ s) = (r, length (encode_rune r))"
proof -
  define a b c where abc: "a = r div 4096" "b = r div 64 mod 64" "c = r mod 64"
  have b: "b < 64" and c: "c < 64" by (simp_all add: abc)
  have "r div 64 div 64 = a" by (simp add: abc div_mult2_eq [symmetric])
  then have "r div 64 = a * 64 + b" using base64_digits(1) [of "r div 64"] by (simp add: abc)
  then have r: "r = a * 4096 + b * 64 + c" using base64_digits(1) [of r] unfolding abc by linarith
  have a: "a < 16" using r assms(2) by linarith
  have lo: "a = 0 \<Longrightarrow> 32 \<le> b" using r assms(1) c by linarith
  have hi: "a = 13 \<Longrightarrow> b \<le> 31" using r assms(3) b c unfolding valid_rune_def by linarith
  have "decode_rune (bchr (0xE0 + a) # bchr (0x80 + b) # bchr (0x80 + c) # s) = (r, 3)"
    using decode_three [OF a b c lo hi, of s] unfolding r [symmetric] .
  then show ?thesis using assms by (simp add: encode_rune_def abc del: decode_rune.simps)
qed

lemma decode_encode_4:
  assumes "0x10000 \<le> r" "valid_rune r"
  shows "decode_rune (encode_rune r @ s) = (r, length (encode_rune r))"
proof -
  define a b c d where abcd:
    "a = r div 262144" "b = r div 4096 mod 64" "c = r div 64 mod 64" "d = r mod 64"
  have b: "b < 64" and c: "c < 64" and d: "d < 64" by (simp_all add: abcd)
  have "r div 4096 div 64 = a" "r div 64 div 64 = r div 4096"
    by (simp_all add: abcd div_mult2_eq [symmetric])
  then have "r div 4096 = a * 64 + b" "r div 64 = r div 4096 * 64 + c"
    using base64_digits(1) [of "r div 4096"] base64_digits(1) [of "r div 64"]
    by (simp_all add: abcd)
  then have r: "r = a * 262144 + b * 4096 + c * 64 + d"
    using base64_digits(1) [of r] unfolding abcd by linarith
  have rb: "r < 0x110000" using assms unfolding valid_rune_def by linarith
  have a: "a \<le> 4" using r rb by linarith
  have lo: "a = 0 \<Longrightarrow> 16 \<le> b" using r assms(1) c d by linarith
  have hi: "a = 4 \<Longrightarrow> b \<le> 15" using r rb b c by linarith
  have "decode_rune (bchr (0xF0 + a) # bchr (0x80 + b) # bchr (0x80 + c) # bchr (0x80 + d) # s) = (r, 4)"
    using decode_four [OF a b c d lo hi, of s] unfolding r [symmetric] .
  then show ?thesis using assms by (simp add: encode_rune_def abcd del: decode_rune.simps)
qed

lemma decode_encode_rune:
  assumes "valid_rune r"
  shows "decode_rune (encode_rune r @ s) = (r, length (encode_rune r))"
proof (cases "r < 0x80")
  case True
  then show ?thesis by (simp add: encode_rune_def)
next
  case False
  then show ?thesis
    using assms decode_encode_2 decode_encode_3 decode_encode_4 by (meson linorder_not_less)
qed

lemma encode_rune_nonempty [simp]: "encode_rune r \<noteq> []"
  by (simp add: encode_rune_def)

text \<open>\<open>utf8.ValidString\<close>: no rune of the string is an encoding error.\<close>

function valid_utf8 :: "bytes \<Rightarrow> bool" where
  "valid_utf8 s =
     (if s = [] then True
      else \<not> (fst (decode_rune s) = rune_error \<and> snd (decode_rune s) = 1)
           \<and> valid_utf8 (drop (snd (decode_rune s)) s))"
  by pat_completeness auto
termination
  by (relation "measure length") (auto simp: decode_rune_width_pos)

declare valid_utf8.simps [simp del]

lemma valid_utf8_Nil [simp]: "valid_utf8 []"
  by (subst valid_utf8.simps) simp

lemma valid_utf8_ascii: "list_all (\<lambda>c. byte c < 0x80) s \<Longrightarrow> valid_utf8 s"
proof (induction s)
  case (Cons c cs)
  then have "decode_rune (c # cs) = (byte c, 1)" by simp
  with Cons show ?case by (subst valid_utf8.simps) (simp add: rune_error_def)
qed simp

section \<open>White space and trimming\<close>

text \<open>\<open>unicode.IsSpace\<close>: the Latin-1 spaces and Unicode's White\_Space property above them.\<close>

definition is_space :: "nat \<Rightarrow> bool" where
  "is_space r \<longleftrightarrow>
     r \<in> {0x09, 0x0A, 0x0B, 0x0C, 0x0D, 0x20, 0x85, 0xA0, 0x1680, 0x2028, 0x2029, 0x202F, 0x205F, 0x3000}
     \<or> (0x2000 \<le> r \<and> r \<le> 0x200A)"

text \<open>\<open>strings.TrimLeftFunc\<close> and \<open>strings.TrimRightFunc\<close>, rune by rune.\<close>

function trim_left_func :: "(nat \<Rightarrow> bool) \<Rightarrow> bytes \<Rightarrow> bytes" where
  "trim_left_func p s =
     (if s \<noteq> [] \<and> p (fst (decode_rune s))
      then trim_left_func p (drop (snd (decode_rune s)) s) else s)"
  by pat_completeness auto
termination
  by (relation "measure (\<lambda>(p, s). length s)") (auto simp: decode_rune_width_pos)

declare trim_left_func.simps [simp del]

function trim_right_func :: "(nat \<Rightarrow> bool) \<Rightarrow> bytes \<Rightarrow> bytes" where
  "trim_right_func p s =
     (if s \<noteq> [] \<and> p (fst (decode_last_rune s))
      then trim_right_func p (take (length s - snd (decode_last_rune s)) s) else s)"
  by pat_completeness auto
termination
  by (relation "measure (\<lambda>(p, s). length s)") (auto simp: decode_last_rune_width_pos)

declare trim_right_func.simps [simp del]

definition TrimSpace :: "bytes \<Rightarrow> bytes" where
  "TrimSpace s = trim_right_func is_space (trim_left_func is_space s)"

lemma trim_left_func_stop: "s = [] \<or> \<not> p (fst (decode_rune s)) \<Longrightarrow> trim_left_func p s = s"
  by (subst trim_left_func.simps) auto

lemma trim_right_func_stop: "s = [] \<or> \<not> p (fst (decode_last_rune s)) \<Longrightarrow> trim_right_func p s = s"
  by (subst trim_right_func.simps) auto

text \<open>A string that starts and ends with visible ASCII characters is left alone.\<close>

lemma TrimSpace_id:
  assumes "s \<noteq> []" "byte (hd s) < 0x80" "\<not> is_space (byte (hd s))"
    and "byte (last s) < 0x80" "\<not> is_space (byte (last s))"
  shows "TrimSpace s = s"
proof -
  have "trim_left_func is_space s = s"
    using assms by (intro trim_left_func_stop) (cases s; simp)
  moreover have "trim_right_func is_space s = s"
    using assms by (intro trim_right_func_stop) (simp add: decode_last_rune_def)
  ultimately show ?thesis by (simp add: TrimSpace_def)
qed

lemma TrimSpace_Nil [simp]: "TrimSpace [] = []"
  by (simp add: TrimSpace_def trim_left_func_stop trim_right_func_stop)

section \<open>Prefixes, suffixes and numbers\<close>

definition HasPrefix :: "bytes \<Rightarrow> bytes \<Rightarrow> bool" where
  "HasPrefix s p \<longleftrightarrow> take (length p) s = p"

definition TrimPrefix :: "bytes \<Rightarrow> bytes \<Rightarrow> bytes" where
  "TrimPrefix s p = (if HasPrefix s p then drop (length p) s else s)"

lemma HasPrefix_append [simp]: "HasPrefix (p @ s) p"
  by (simp add: HasPrefix_def)

lemma TrimPrefix_append [simp]: "TrimPrefix (p @ s) p = s"
  by (simp add: TrimPrefix_def)

lemma HasPrefixE: "HasPrefix s p \<Longrightarrow> (\<And>t. s = p @ t \<Longrightarrow> P) \<Longrightarrow> P"
  unfolding HasPrefix_def by (metis append_take_drop_id)

text \<open>Decimal digits, most significant first (\<open>strconv.Itoa\<close> and \<open>%d\<close> on naturals).\<close>

definition digit :: "nat \<Rightarrow> char" where
  "digit n = bchr (48 + n mod 10)"

fun itoa :: "nat \<Rightarrow> bytes" where
  "itoa n = (if n < 10 then [digit n] else itoa (n div 10) @ [digit n])"

declare itoa.simps [simp del]

text \<open>Decimal digits padded with zeros to a fixed width.\<close>

fun pad_int :: "nat \<Rightarrow> nat \<Rightarrow> bytes" where
  "pad_int 0 n = []"
| "pad_int (Suc w) n = pad_int w (n div 10) @ [digit n]"

definition hex_digit :: "nat \<Rightarrow> char" where
  "hex_digit n = (if n < 10 then bchr (48 + n) else bchr (87 + n))"

end
