(* ===== verification/Json.thy ===== *)
theory Json
  imports GoStrings
begin

text \<open>
  The part of Go's \<open>encoding/json\<close> the sources use: the value grammar read by \<open>Decoder.Decode\<close>
  and \<open>Unmarshal\<close> (with Go's depth limit, its replacement of invalid UTF-8 and of lone
  surrogates, and its case-insensitive field names), decoding into string fields, and the
  encoder with HTML escaping. Documents are byte strings on both sides.
\<close>

section \<open>Values\<close>

datatype json =
    JNull
  | JBool bool
  | JNum bytes
  | JStr bytes
  | JArr "json list"
  | JObj "(bytes \<times> json) list"

section \<open>Reading a document\<close>

fun skip_ws :: "bytes \<Rightarrow> bytes" where
  "skip_ws [] = []"
| "skip_ws (c # cs) = (if byte c \<in> {0x20, 0x09, 0x0D, 0x0A} then skip_ws cs else c # cs)"

lemma skip_ws_length: "length (skip_ws s) \<le> length s"
  by (induction s) auto

definition hex_val :: "char \<Rightarrow> nat option" where
  "hex_val c =
     (let b = byte c in
      if 48 \<le> b \<and> b \<le> 57 then Some (b - 48)
      else if 97 \<le> b \<and> b \<le> 102 then Some (b - 87)
      else if 65 \<le> b \<and> b \<le> 70 then Some (b - 55)
      else None)"

text \<open>\<open>getu4\<close>: four hexadecimal digits as a number, with what follows them.\<close>

fun hex4 :: "bytes \<Rightarrow> (nat \<times> bytes) option" where
  "hex4 (a # b # c # d # rest) =
     (case (hex_val a, hex_val b, hex_val c, hex_val d) of
        (Some h3, Some h2, Some h1, Some h0) \<Rightarrow> Some (h3 * 4096 + h2 * 256 + h1 * 16 + h0, rest)
      | _ \<Rightarrow> None)"
| "hex4 _ = None"

lemma hex4_length: "hex4 s = Some (n, rest) \<Longrightarrow> length s = length rest + 4"
  by (induction s rule: hex4.induct) (auto split: option.splits)

definition is_surrogate :: "nat \<Rightarrow> bool" where
  "is_surrogate r \<longleftrightarrow> 0xD800 \<le> r \<and> r < 0xE000"

text \<open>
  A \<open>\u\<close> escape whose number is \<open>r\<close>, followed by \<open>s\<close>: a surrogate joins with the low
  surrogate of a directly following escape, and is the replacement character otherwise.
\<close>

definition unescape_u :: "nat \<Rightarrow> bytes \<Rightarrow> bytes \<times> bytes" where
  "unescape_u r s =
     (if is_surrogate r then
        (case s of
           b # u # t \<Rightarrow>
             (if byte b = 0x5C \<and> byte u = 0x75 then
                (case hex4 t of
                   Some (r1, rest) \<Rightarrow>
                     if r < 0xDC00 \<and> 0xDC00 \<le> r1 \<and> r1 < 0xE000
                     then (encode_rune ((r - 0xD800) * 1024 + (r1 - 0xDC00) + 0x10000), rest)
                     else (encode_rune rune_error, s)
                 | None \<Rightarrow> (encode_rune rune_error, s))
              else (encode_rune rune_error, s))
         | _ \<Rightarrow> (encode_rune rune_error, s))
      else (encode_rune r, s))"

lemma unescape_u_length: "length (snd (unescape_u r s)) \<le> length s"
  by (auto simp: unescape_u_def split: list.splits option.splits dest: hex4_length)

text \<open>The byte an escape letter stands for.\<close>

definition simple_escape :: "char \<Rightarrow> char option" where
  "simple_escape e =
     (let b = byte e in
      if b \<in> {0x22, 0x5C, 0x2F} then Some e
      else if b = 0x62 then Some (bchr 0x08)
      else if b = 0x66 then Some (bchr 0x0C)
      else if b = 0x6E then Some (bchr 0x0A)
      else if b = 0x72 then Some (bchr 0x0D)
      else if b = 0x74 then Some (bchr 0x09)
      else None)"

text \<open>
  The rest of a string literal, after its opening quote: the unquoted bytes and the input after
  the closing quote; \<open>None\<close> for a control character, a bad escape or a missing quote.
\<close>

function string_body :: "bytes \<Rightarrow> (bytes \<times> bytes) option" where
  "string_body [] = None"
| "string_body (c # cs) =
     (if byte c = 0x22 then Some ([], cs)
      else if byte c = 0x5C then
        (case cs of
           [] \<Rightarrow> None
         | e # rest \<Rightarrow>
             (if byte e = 0x75 then
                (case hex4 rest of
                   None \<Rightarrow> None
                 | Some (r, rest') \<Rightarrow>
                     map_option (apfst (append (fst (unescape_u r rest'))))
                       (string_body (snd (unescape_u r rest'))))
              else (case simple_escape e of
                      None \<Rightarrow> None
                    | Some d \<Rightarrow> map_option (apfst (Cons d)) (string_body rest))))
      else if byte c < 0x20 then None
      else map_option (apfst (append (encode_rune (fst (decode_rune (c # cs))))))
             (string_body (drop (snd (decode_rune (c # cs))) (c # cs))))"
  by pat_completeness auto
termination
proof (relation "measure length", goal_cases)
  case 1
  show ?case by simp
next
  case (2 c cs e rest p r rest')
  then show ?case using unescape_u_length [of r rest'] by (auto dest: hex4_length)
next
  case (3 c cs e rest d)
  then show ?case by simp
next
  case (4 c cs)
  then show ?case using decode_rune_width_pos [of "c # cs"]
    by (simp del: decode_rune.simps)
qed

declare string_body.simps [simp del]

lemma string_body_length: "string_body s = Some (t, rest) \<Longrightarrow> length rest < length s"
proof (induction s arbitrary: t rest rule: string_body.induct)
  case 1
  then show ?case by (simp add: string_body.simps)
next
  case (2 c cs)
  have w: "0 < snd (decode_rune (c # cs))" by (rule decode_rune_width_pos) simp
  from 2(4) show ?case
    apply (subst (asm) string_body.simps)
    apply (auto simp del: decode_rune.simps split: if_splits list.splits option.splits)
    subgoal for e rest1 r rest' u
      using 2(1)[of e rest1 "(r, rest')" r rest'] unescape_u_length [of r rest'] hex4_length [of rest1 r rest']
      by fastforce
    subgoal for e rest1 d u using 2(2) by fastforce
    subgoal using 2(3) w by (fastforce simp del: decode_rune.simps)
    done
qed

text \<open>A number literal: sign, integer part, fraction, exponent; the text and what follows it.\<close>

definition is_digit :: "char \<Rightarrow> bool" where
  "is_digit c \<longleftrightarrow> 48 \<le> byte c \<and> byte c \<le> 57"

definition digits1 :: "bytes \<Rightarrow> (bytes \<times> bytes) option" where
  "digits1 s = (if takeWhile is_digit s = [] then None
                else Some (takeWhile is_digit s, dropWhile is_digit s))"

definition number_int :: "bytes \<Rightarrow> (bytes \<times> bytes) option" where
  "number_int s = (case s of c # cs \<Rightarrow> if byte c = 48 then Some ([c], cs) else digits1 s | [] \<Rightarrow> None)"

definition number_frac :: "bytes \<Rightarrow> (bytes \<times> bytes) option" where
  "number_frac s =
     (case s of c # cs \<Rightarrow> if byte c = 0x2E then map_option (apfst (Cons c)) (digits1 cs) else Some ([], s)
      | [] \<Rightarrow> Some ([], []))"

definition number_exp :: "bytes \<Rightarrow> (bytes \<times> bytes) option" where
  "number_exp s =
     (case s of
        e # cs \<Rightarrow>
          if byte e \<in> {0x65, 0x45} then
            (case cs of
               g # ds \<Rightarrow> if byte g \<in> {0x2B, 0x2D} then map_option (apfst (\<lambda>t. e # g # t)) (digits1 ds)
                          else map_option (apfst (Cons e)) (digits1 cs)
             | [] \<Rightarrow> None)
          else Some ([], s)
      | [] \<Rightarrow> Some ([], []))"

definition number_sign :: "bytes \<Rightarrow> bytes \<times> bytes" where
  "number_sign s = (case s of c # cs \<Rightarrow> if byte c = 0x2D then ([c], cs) else ([], s) | [] \<Rightarrow> ([], []))"

definition scan_number :: "bytes \<Rightarrow> (bytes \<times> bytes) option" where
  "scan_number s =
     (let (sg, s1) = number_sign s in
      case number_int s1 of None \<Rightarrow> None | Some (i, s2) \<Rightarrow>
      case number_frac s2 of None \<Rightarrow> None | Some (f, s3) \<Rightarrow>
      case number_exp s3 of None \<Rightarrow> None | Some (e, s4) \<Rightarrow> Some (sg @ i @ f @ e, s4))"

lemma digits1_length: "digits1 s = Some (t, r) \<Longrightarrow> length r < length s"
  unfolding digits1_def
  by (metis length_append length_greater_0_conv less_add_same_cancel2 old.prod.inject option.distinct(1)
      option.inject takeWhile_dropWhile_id)

lemma number_parts_length:
  "number_int s = Some (t, r) \<Longrightarrow> length r < length s"
  "number_frac s = Some (t, r) \<Longrightarrow> length r \<le> length s"
  "number_exp s = Some (t, r) \<Longrightarrow> length r \<le> length s"
  "number_sign s = (t, r) \<Longrightarrow> length r \<le> length s"
  unfolding number_int_def number_frac_def number_exp_def number_sign_def
  by (fastforce split: list.splits if_splits dest: digits1_length)+

lemma scan_number_length: "scan_number s = Some (t, r) \<Longrightarrow> length r < length s"
  unfolding scan_number_def
  by (fastforce split: option.splits prod.splits dest: number_parts_length)

text \<open>
  Values, object members and array elements. The first argument reads a string literal after its
  opening quote (member names are always unquoted). The next is fuel; two units per byte of
  input are enough (\<open>fuel_enough\<close> below). The last before the input is the nesting depth, at most 10000
  as in the scanner of \<open>encoding/json\<close>.
\<close>

definition max_depth :: nat where
  "max_depth = 10000"

definition member_name :: "bytes \<Rightarrow> (bytes \<times> bytes) option" where
  "member_name s =
     (case skip_ws s of
        [] \<Rightarrow> None
      | q # cs \<Rightarrow>
          if byte q \<noteq> 0x22 then None
          else case string_body cs of None \<Rightarrow> None | Some (k, r) \<Rightarrow>
               (case skip_ws r of
                  [] \<Rightarrow> None
                | e # r2 \<Rightarrow> if byte e = 0x3A then Some (k, r2) else None))"

fun parse_value :: "(bytes \<Rightarrow> (bytes \<times> bytes) option) \<Rightarrow> nat \<Rightarrow> nat \<Rightarrow> bytes \<Rightarrow> (json \<times> bytes) option"
  and parse_members :: "(bytes \<Rightarrow> (bytes \<times> bytes) option) \<Rightarrow> nat \<Rightarrow> nat \<Rightarrow> bytes \<Rightarrow> ((bytes \<times> json) list \<times> bytes) option"
  and parse_elems :: "(bytes \<Rightarrow> (bytes \<times> bytes) option) \<Rightarrow> nat \<Rightarrow> nat \<Rightarrow> bytes \<Rightarrow> (json list \<times> bytes) option"
where
  "parse_value q 0 d s = None"
| "parse_value q (Suc f) d s =
     (case skip_ws s of
        [] \<Rightarrow> None
      | c # cs \<Rightarrow>
          if byte c = 0x7B then
            (if max_depth \<le> d then None
             else case skip_ws cs of
                    [] \<Rightarrow> None
                  | b # r \<Rightarrow> if byte b = 0x7D then Some (JObj [], r)
                             else map_option (apfst JObj) (parse_members q f (Suc d) cs))
          else if byte c = 0x5B then
            (if max_depth \<le> d then None
             else case skip_ws cs of
                    [] \<Rightarrow> None
                  | b # r \<Rightarrow> if byte b = 0x5D then Some (JArr [], r)
                             else map_option (apfst JArr) (parse_elems q f (Suc d) cs))
          else if byte c = 0x22 then map_option (apfst JStr) (q cs)
          else if HasPrefix (c # cs) ''null'' then Some (JNull, drop 4 (c # cs))
          else if HasPrefix (c # cs) ''true'' then Some (JBool True, drop 4 (c # cs))
          else if HasPrefix (c # cs) ''false'' then Some (JBool False, drop 5 (c # cs))
          else map_option (apfst JNum) (scan_number (c # cs)))"
| "parse_members q 0 d s = None"
| "parse_members q (Suc f) d s =
     (case member_name s of None \<Rightarrow> None | Some (k, r) \<Rightarrow>
      case parse_value q f d r of None \<Rightarrow> None | Some (v, r2) \<Rightarrow>
        (case skip_ws r2 of
           [] \<Rightarrow> None
         | b # r3 \<Rightarrow>
             if byte b = 0x2C then map_option (apfst (Cons (k, v))) (parse_members q f d r3)
             else if byte b = 0x7D then Some ([(k, v)], r3)
             else None))"
| "parse_elems q 0 d s = None"
| "parse_elems q (Suc f) d s =
     (case parse_value q f d s of None \<Rightarrow> None | Some (v, r) \<Rightarrow>
        (case skip_ws r of
           [] \<Rightarrow> None
         | b # r2 \<Rightarrow>
             if byte b = 0x2C then map_option (apfst (Cons v)) (parse_elems q f d r2)
             else if byte b = 0x5D then Some ([v], r2)
             else None))"

lemma skip_ws_ConsD: "skip_ws s = c # cs \<Longrightarrow> length cs < length s"
  by (metis Suc_le_eq length_Cons skip_ws_length)

lemma member_name_length: "member_name s = Some (k, r) \<Longrightarrow> length r < length s"
  unfolding member_name_def
  by (fastforce split: list.splits option.splits if_splits dest!: skip_ws_ConsD string_body_length)

lemma HasPrefix_drop_length: "HasPrefix s p \<Longrightarrow> p \<noteq> [] \<Longrightarrow> length (drop (length p) s) < length s"
  by (erule HasPrefixE) simp

lemma drop_pos_length: "0 < n \<Longrightarrow> c # cs = t \<Longrightarrow> length (drop n t) < length t"
  by auto

text \<open>
  A reader of string literals consumes input. Everything below holds for both readers: the one
  that unquotes and the one that keeps the literal as it is written.
\<close>

locale literal_reader =
  fixes read_literal :: "bytes \<Rightarrow> (bytes \<times> bytes) option"
  assumes shrinks: "read_literal s = Some (t, r) \<Longrightarrow> length r < length s"
begin

lemma parse_value_length_step:
  assumes "parse_value read_literal (Suc f) d s = Some (v, r)"
    and members: "\<And>d s ms r. parse_members read_literal f d s = Some (ms, r) \<Longrightarrow> length r < length s"
    and elems: "\<And>d s vs r. parse_elems read_literal f d s = Some (vs, r) \<Longrightarrow> length r < length s"
  shows "length r < length s"
proof -
  from assms(1) obtain c cs where ws: "skip_ws s = c # cs" by (auto split: list.splits)
  have len: "length cs < length s" by (rule skip_ws_ConsD [OF ws])
  have "length r \<le> length cs"
    using assms(1) ws members [of "Suc d" cs] elems [of "Suc d" cs]
    by (auto split: if_splits list.splits dest!: skip_ws_ConsD shrinks
        scan_number_length intro: less_imp_le)
  with len show ?thesis by simp
qed

lemma parse_length_aux:
  "(\<forall>d s v r. parse_value read_literal f d s = Some (v, r) \<longrightarrow> length r < length s)
   \<and> (\<forall>d s ms r. parse_members read_literal f d s = Some (ms, r) \<longrightarrow> length r < length s)
   \<and> (\<forall>d s vs r. parse_elems read_literal f d s = Some (vs, r) \<longrightarrow> length r < length s)"
proof (induction f)
  case 0
  show ?case by simp
next
  case (Suc f)
  then have v: "\<And>d s v r. parse_value read_literal f d s = Some (v, r) \<Longrightarrow> length r < length s"
    and m: "\<And>d s ms r. parse_members read_literal f d s = Some (ms, r) \<Longrightarrow> length r < length s"
    and e: "\<And>d s vs r. parse_elems read_literal f d s = Some (vs, r) \<Longrightarrow> length r < length s" by blast+
  have "length r < length s" if "parse_members read_literal (Suc f) d s = Some (ms, r)" for d s ms r
    using that by (fastforce split: if_splits list.splits option.splits
        dest!: skip_ws_ConsD member_name_length v m)
  moreover have "length r < length s" if "parse_elems read_literal (Suc f) d s = Some (vs, r)" for d s vs r
    using that by (fastforce split: if_splits list.splits option.splits
        dest!: skip_ws_ConsD v e)
  ultimately show ?case using parse_value_length_step m e by blast
qed

lemmas parse_length =
  parse_length_aux [THEN conjunct1, rule_format]
  parse_length_aux [THEN conjunct2, THEN conjunct1, rule_format]
  parse_length_aux [THEN conjunct2, THEN conjunct2, rule_format]

text \<open>Any fuel beyond two units per byte gives the same result: running out never shows.\<close>

lemma parse_fuel_aux:
  "(\<forall>f' d s. 2 * length s + 1 < f \<longrightarrow> 2 * length s + 1 < f' \<longrightarrow> parse_value read_literal f d s = parse_value read_literal f' d s)
   \<and> (\<forall>f' d s. 2 * length s + 1 < f \<longrightarrow> 2 * length s + 1 < f' \<longrightarrow> parse_members read_literal f d s = parse_members read_literal f' d s)
   \<and> (\<forall>f' d s. 2 * length s + 2 < f \<longrightarrow> 2 * length s + 2 < f' \<longrightarrow> parse_elems read_literal f d s = parse_elems read_literal f' d s)"
proof (induction f)
  case 0
  show ?case by simp
next
  case (Suc f)
  then have v: "\<And>f' d s. 2 * length s + 1 < f \<Longrightarrow> 2 * length s + 1 < f' \<Longrightarrow> parse_value read_literal f d s = parse_value read_literal f' d s"
    and m: "\<And>f' d s. 2 * length s + 1 < f \<Longrightarrow> 2 * length s + 1 < f' \<Longrightarrow> parse_members read_literal f d s = parse_members read_literal f' d s"
    and e: "\<And>f' d s. 2 * length s + 2 < f \<Longrightarrow> 2 * length s + 2 < f' \<Longrightarrow> parse_elems read_literal f d s = parse_elems read_literal f' d s"
    by blast+
  have vals: "parse_value read_literal (Suc f) d s = parse_value read_literal (Suc g) d s"
    if "2 * length s < f" "2 * length s < g" for g d s
  proof (cases "skip_ws s")
    case (Cons c cs)
    then have "2 * length cs + 2 < f" "2 * length cs + 2 < g"
      using that skip_ws_ConsD [OF Cons] by linarith+
    then have "parse_members read_literal f (Suc d) cs = parse_members read_literal g (Suc d) cs"
      "parse_elems read_literal f (Suc d) cs = parse_elems read_literal g (Suc d) cs" by (intro m e; simp)+
    with Cons show ?thesis by (simp split: list.split)
  qed simp
  have members: "parse_members read_literal (Suc f) d s = parse_members read_literal (Suc g) d s"
    if "2 * length s < f" "2 * length s < g" for g d s
  proof -
    have eqs: "parse_value read_literal f d t = parse_value read_literal g d t" "parse_members read_literal f d t = parse_members read_literal g d t"
      if "length t < length s" for t
      using that \<open>2 * length s < f\<close> \<open>2 * length s < g\<close> by (intro v m; simp)+
    show ?thesis
    proof (cases "member_name s")
      case (Some kr)
      obtain k r where kr: "kr = (k, r)" by (cases kr)
      have r: "length r < length s" using Some kr by (simp add: member_name_length)
      show ?thesis
      proof (cases "parse_value read_literal g d r")
        case None
        with Some kr eqs(1) [OF r] show ?thesis by simp
      next
        case (Some vr)
        obtain v r2 where vr: "vr = (v, r2)" by (cases vr)
        then have "length t < length s" if "skip_ws r2 = b # t" for b t
          using that r Some by (auto dest!: skip_ws_ConsD parse_length(1))
        then show ?thesis
          using Some \<open>member_name s = Some kr\<close> kr vr eqs(1) [OF r] eqs(2) by (simp split: list.split)
      qed
    qed simp
  qed
  have elems: "parse_elems read_literal (Suc f) d s = parse_elems read_literal (Suc g) d s"
    if "2 * length s + 1 < f" "2 * length s + 1 < g" for g d s
  proof -
    have "parse_value read_literal f d s = parse_value read_literal g d s" using that by (intro v)
    moreover have "parse_elems read_literal f d t = parse_elems read_literal g d t" if "length t < length s" for t
      using that \<open>2 * length s + 1 < f\<close> \<open>2 * length s + 1 < g\<close> by (intro e; simp)
    moreover have "length t < length s" if "parse_value read_literal g d s = Some (v, r)" "skip_ws r = b # t" for v r b t
      using that by (auto dest!: skip_ws_ConsD parse_length(1))
    ultimately show ?thesis by (simp split: list.split option.split)
  qed
  show ?case
  proof (intro conjI allI impI)
    fix f' d and s :: bytes
    assume "2 * length s + 1 < Suc f" "2 * length s + 1 < f'"
    then show "parse_value read_literal (Suc f) d s = parse_value read_literal f' d s"
      "parse_members read_literal (Suc f) d s = parse_members read_literal f' d s"
      using vals [of s "f' - 1" d] members [of s "f' - 1" d] by (cases f'; simp)+
  next
    fix f' d and s :: bytes
    assume "2 * length s + 2 < Suc f" "2 * length s + 2 < f'"
    then show "parse_elems read_literal (Suc f) d s = parse_elems read_literal f' d s"
      using elems [of s "f' - 1" d] by (cases f') simp_all
  qed
qed

lemma fuel_enough:
  "2 * length s + 1 < f \<Longrightarrow> parse_value read_literal f 0 s = parse_value read_literal (2 * length s + 2) 0 s"
  using parse_fuel_aux [of f, THEN conjunct1, rule_format, of s "2 * length s + 2" 0] by simp

end

text \<open>
  The literal between its quotes, checked but not unquoted: what the decoder hands to a
  \<open>json.Unmarshaler\<close> such as \<open>time.Time\<close>.
\<close>

definition raw_body :: "bytes \<Rightarrow> (bytes \<times> bytes) option" where
  "raw_body s =
     map_option (\<lambda>(_, rest). (take (length s - Suc (length rest)) s, rest)) (string_body s)"

interpretation unquoted: literal_reader string_body
  by unfold_locales (rule string_body_length)

interpretation raw: literal_reader raw_body
  by unfold_locales (auto simp: raw_body_def dest: string_body_length)

definition parse_json :: "bytes \<Rightarrow> (json \<times> bytes) option" where
  "parse_json s = parse_value string_body (2 * length s + 2) 0 s"

definition parse_raw :: "bytes \<Rightarrow> (json \<times> bytes) option" where
  "parse_raw s = parse_value raw_body (2 * length s + 2) 0 s"

section \<open>Decoding into Go values\<close>

text \<open>\<open>for _, r := range s\<close>: the runes of a string.\<close>

function runes :: "bytes \<Rightarrow> nat list" where
  "runes s = (if s = [] then [] else fst (decode_rune s) # runes (drop (snd (decode_rune s)) s))"
  by pat_completeness auto
termination
  by (relation "measure length") (auto simp: decode_rune_width_pos)

declare runes.simps [simp del]

text \<open>
  Field names match up to Unicode simple folding (\<open>foldName\<close>). The field names of the sources are
  ASCII, and the only other runes that fold to ASCII letters are U+017F (to S) and U+212A (to K).
\<close>

definition fold_rune :: "nat \<Rightarrow> nat" where
  "fold_rune r =
     (if 97 \<le> r \<and> r \<le> 122 then r - 32 else if r = 0x17F then 83 else if r = 0x212A then 75 else r)"

definition key_matches :: "bytes \<Rightarrow> bytes \<Rightarrow> bool" where
  "key_matches name key \<longleftrightarrow> map fold_rune (runes key) = map fold_rune (runes name)"

text \<open>
  One value into a field: the new content and whether it was accepted. A null leaves a string
  alone and clears a pointer; a value of another kind is an \<open>UnmarshalTypeError\<close>, which is
  reported after the rest of the document has been decoded.
\<close>

definition dec_string :: "json \<Rightarrow> bytes \<Rightarrow> bytes \<times> bool" where
  "dec_string v old = (case v of JStr s \<Rightarrow> (s, True) | JNull \<Rightarrow> (old, True) | _ \<Rightarrow> (old, False))"

definition dec_string_ptr :: "json \<Rightarrow> bytes option \<Rightarrow> bytes option \<times> bool" where
  "dec_string_ptr v old = (case v of JStr s \<Rightarrow> (Some s, True) | JNull \<Rightarrow> (None, True) | _ \<Rightarrow> (old, False))"

text \<open>The members of an object in order; later members overwrite earlier ones.\<close>

fun dec_members ::
  "(bytes \<Rightarrow> json \<Rightarrow> 'r \<Rightarrow> 'r \<times> bool) \<Rightarrow> (bytes \<times> json) list \<Rightarrow> 'r \<Rightarrow> 'r \<times> bool" where
  "dec_members step [] r = (r, True)"
| "dec_members step ((k, v) # ms) r =
     (let (r', ok) = step k v r; (r'', oks) = dec_members step ms r' in (r'', ok \<and> oks))"

text \<open>A document into a struct: only an object or null is accepted.\<close>

definition dec_struct :: "(bytes \<Rightarrow> json \<Rightarrow> 'r \<Rightarrow> 'r \<times> bool) \<Rightarrow> 'r \<Rightarrow> json \<Rightarrow> 'r option" where
  "dec_struct step zero v =
     (case v of
        JObj ms \<Rightarrow> (let (r, ok) = dec_members step ms zero in if ok then Some r else None)
      | JNull \<Rightarrow> Some zero
      | _ \<Rightarrow> None)"

text \<open>
  \<open>json.NewDecoder(r.Body).Decode(&req)\<close> reads the first value of the body and ignores what
  follows it; \<open>json.Unmarshal\<close> insists that only white space follows.
\<close>

definition Decode :: "(bytes \<Rightarrow> json \<Rightarrow> 'r \<Rightarrow> 'r \<times> bool) \<Rightarrow> 'r \<Rightarrow> bytes \<Rightarrow> 'r option" where
  "Decode step zero body =
     (case parse_json body of None \<Rightarrow> None | Some (v, _) \<Rightarrow> dec_struct step zero v)"

definition Unmarshal :: "(json \<Rightarrow> 'r option) \<Rightarrow> bytes \<Rightarrow> 'r option" where
  "Unmarshal dec body =
     (case parse_raw body of
        Some (v, rest) \<Rightarrow> if skip_ws rest = [] then dec v else None
      | None \<Rightarrow> None)"

section \<open>Encoding\<close>

definition escape_ascii :: "char \<Rightarrow> bytes" where
  "escape_ascii c =
     (let b = byte c in
      if b \<in> {0x22, 0x5C} then [bchr 0x5C, c]
      else if b = 0x08 then [bchr 0x5C, CHR ''b'']
      else if b = 0x0C then [bchr 0x5C, CHR ''f'']
      else if b = 0x0A then [bchr 0x5C, CHR ''n'']
      else if b = 0x0D then [bchr 0x5C, CHR ''r'']
      else if b = 0x09 then [bchr 0x5C, CHR ''t'']
      else if b < 0x20 \<or> b \<in> {0x3C, 0x3E, 0x26}
      then [bchr 0x5C] @ ''u00'' @ [hex_digit (b div 16), hex_digit (b mod 16)]
      else [c])"

function escape_body :: "bytes \<Rightarrow> bytes" where
  "escape_body [] = []"
| "escape_body (c # cs) =
     (if byte c < 0x80 then escape_ascii c @ escape_body cs
      else let (r, n) = decode_rune (c # cs) in
           if n = 1 then [bchr 0x5C] @ ''ufffd'' @ escape_body cs
           else if r \<in> {0x2028, 0x2029}
           then [bchr 0x5C] @ ''u202'' @ [hex_digit (r mod 16)] @ escape_body (drop n (c # cs))
           else take n (c # cs) @ escape_body (drop n (c # cs)))"
  by pat_completeness auto
termination
proof (relation "measure length", goal_cases)
  case (4 c cs p r n)
  then have "n = snd (decode_rune (c # cs))" by (metis snd_conv)
  then show ?case using decode_rune_width_pos [of "c # cs"] by simp
next
  case (5 c cs p r n)
  then have "n = snd (decode_rune (c # cs))" by (metis snd_conv)
  then show ?case using decode_rune_width_pos [of "c # cs"] by simp
qed simp_all

declare escape_body.simps [simp del]

definition quote_json :: "bytes \<Rightarrow> bytes" where
  "quote_json s = CHR 0x22 # escape_body s @ [CHR 0x22]"

fun join_commas :: "bytes list \<Rightarrow> bytes" where
  "join_commas [] = []"
| "join_commas [x] = x"
| "join_commas (x # xs) = x @ '','' @ join_commas xs"

fun json_text :: "json \<Rightarrow> bytes" where
  "json_text JNull = ''null''"
| "json_text (JBool b) = (if b then ''true'' else ''false'')"
| "json_text (JNum t) = t"
| "json_text (JStr s) = quote_json s"
| "json_text (JArr vs) = ''['' @ join_commas (map json_text vs) @ '']''"
| "json_text (JObj ms) =
     ''{'' @ join_commas (map (\<lambda>(k, v). quote_json k @ '':'' @ json_text v) ms) @ ''}''"

text \<open>\<open>json.NewEncoder(w).Encode(v)\<close>: the document and a newline.\<close>

definition encode_json :: "json \<Rightarrow> bytes" where
  "encode_json v = json_text v @ [bchr 0x0A]"

end
