(* ===== verification/JsonRoundTrip.thy ===== *)
theory JsonRoundTrip
  imports Json
begin

text \<open>
  What survives the wire: \<open>encoding/json\<close> reads back every document it wrote, with the bytes of a
  string that are no UTF-8 replaced by U+FFFD. The lemmas go from runes to strings to documents.
\<close>

section \<open>Runes\<close>

lemma base64_join: "c < 64 \<Longrightarrow> (q * 64 + c) div 64 = q" "c < 64 \<Longrightarrow> (q * 64 + c) mod 64 = (c::nat)"
  by simp_all

lemma encode_two:
  assumes "2 \<le> a" "a < 32" "b < 64"
  shows "encode_rune (a * 64 + b) = [bchr (0xC0 + a), bchr (0x80 + b)] \<and> valid_rune (a * 64 + b)"
proof -
  have "(a * 64 + b) div 64 = a" "(a * 64 + b) mod 64 = b" using assms by simp_all
  moreover have "0x80 \<le> a * 64 + b" "a * 64 + b < 0x800" using assms by linarith+
  ultimately show ?thesis by (simp add: encode_rune_def valid_rune_def)
qed

lemma encode_three:
  assumes "a < 16" "b < 64" "c < 64" "a = 0 \<Longrightarrow> 32 \<le> b" "a = 13 \<Longrightarrow> b \<le> 31"
  defines "r \<equiv> a * 4096 + b * 64 + c"
  shows "encode_rune r = [bchr (0xE0 + a), bchr (0x80 + b), bchr (0x80 + c)] \<and> valid_rune r"
proof -
  have r: "r = (a * 64 + b) * 64 + c" by (simp add: r_def)
  have "r div 64 = a * 64 + b" "r mod 64 = c" unfolding r by (rule base64_join [OF assms(3)])+
  moreover have "r div 4096 = r div 64 div 64" by (simp add: div_mult2_eq [symmetric])
  ultimately have d: "r div 4096 = a" "r div 64 mod 64 = b" "r mod 64 = c" using assms(2) by simp_all
  have lo: "0x800 \<le> r" using assms(4) unfolding r_def by (cases "a = 0") auto
  have hi: "r < 0x10000" using assms(1-3) unfolding r_def by linarith
  have v: "valid_rune r"
  proof (cases "a < 13")
    case True
    then show ?thesis using assms(2,3) unfolding r_def valid_rune_def by linarith
  next
    case False
    show ?thesis
    proof (cases "a = 13")
      case True
      with assms(5) have "b \<le> 31" by simp
      with True assms(3) show ?thesis unfolding r_def valid_rune_def by linarith
    next
      case ge: False
      with False have "14 \<le> a" by simp
      with hi show ?thesis unfolding r_def valid_rune_def by linarith
    qed
  qed
  show ?thesis using d lo hi v by (simp add: encode_rune_def)
qed

lemma encode_four:
  assumes "a \<le> 4" "b < 64" "c < 64" "d < 64" "a = 0 \<Longrightarrow> 16 \<le> b" "a = 4 \<Longrightarrow> b \<le> 15"
  defines "r \<equiv> a * 262144 + b * 4096 + c * 64 + d"
  shows "encode_rune r = [bchr (0xF0 + a), bchr (0x80 + b), bchr (0x80 + c), bchr (0x80 + d)] \<and> valid_rune r"
proof -
  have r: "r = ((a * 64 + b) * 64 + c) * 64 + d" by (simp add: r_def)
  have r64: "r div 64 = (a * 64 + b) * 64 + c" "r mod 64 = d" unfolding r by (rule base64_join [OF assms(4)])+
  have "r div 4096 = r div 64 div 64" by (simp add: div_mult2_eq [symmetric])
  then have r4096: "r div 4096 = a * 64 + b" unfolding r64 by (simp only: base64_join [OF assms(3)])
  have "r div 262144 = r div 4096 div 64" by (simp add: div_mult2_eq [symmetric])
  then have q: "r div 262144 = a" "r div 4096 mod 64 = b" "r div 64 mod 64 = c" "r mod 64 = d"
    unfolding r4096 r64 by (simp_all only: base64_join [OF assms(2)] base64_join [OF assms(3)])
  have lo: "0x10000 \<le> r" using assms(5) unfolding r_def by (cases "a = 0") auto
  have hi: "r < 0x110000"
  proof (cases "a = 4")
    case True
    with assms(6) have "b \<le> 15" by simp
    with True assms(3,4) show ?thesis unfolding r_def by linarith
  next
    case False
    with assms(1) have "a \<le> 3" by simp
    with assms(2-4) show ?thesis unfolding r_def by linarith
  qed
  show ?thesis using q lo hi by (simp add: encode_rune_def valid_rune_def)
qed

lemma byte_split: "k \<le> byte c \<Longrightarrow> c = bchr (k + (byte c - k))"
  by simp

text \<open>A rune that decodes is the one its bytes encode.\<close>

lemma encode_decode_rune:
  assumes dec: "decode_rune s = (r, n)" and ne: "s \<noteq> []" and ok: "\<not> (r = rune_error \<and> n = 1)"
  shows "encode_rune r = take n s \<and> valid_rune r"
proof -
  obtain c cs where s: "s = c # cs" using ne by (cases s) auto
  consider (one) "byte c < 0x80" | (bad) "0x80 \<le> byte c" "byte c < 0xC2 \<or> 0xF4 < byte c"
    | (two) "0xC2 \<le> byte c" "byte c < 0xE0" | (three) "0xE0 \<le> byte c" "byte c < 0xF0"
    | (four) "0xF0 \<le> byte c" "byte c \<le> 0xF4" by linarith
  then show ?thesis
  proof cases
    case one
    then have "r = byte c" "n = 1" using dec s by simp_all
    then show ?thesis using one s by (simp add: encode_rune_def valid_rune_def)
  next
    case bad
    then show ?thesis using dec s ok by auto
  next
    case two
    then obtain c1 t where cs: "cs = c1 # t" "cont_byte (byte c1)"
      using dec s ok by (auto simp: Let_def split: list.splits if_splits)
    have "r = (byte c - 0xC0) * 64 + (byte c1 - 0x80)" "n = 2" using dec s two cs by (simp_all add: Let_def)
    moreover have "2 \<le> byte c - 0xC0" "byte c - 0xC0 < 32" "byte c1 - 0x80 < 64"
      using two cs(2) by (auto simp: cont_byte_def)
    ultimately show ?thesis
      using encode_two [of "byte c - 0xC0" "byte c1 - 0x80"] two cs s by (simp add: cont_byte_def numeral_2_eq_2)
  next
    case three
    then obtain c1 c2 t where cs: "cs = c1 # c2 # t"
      "(if byte c = 0xE0 then 0xA0 else 0x80) \<le> byte c1" "byte c1 \<le> (if byte c = 0xED then 0x9F else 0xBF)"
      "cont_byte (byte c2)"
      using dec s ok by (auto simp: Let_def split: list.splits if_splits)
    have "r = (byte c - 0xE0) * 4096 + (byte c1 - 0x80) * 64 + (byte c2 - 0x80)" "n = 3"
      using dec s three cs by (simp_all add: Let_def)
    moreover have "byte c - 0xE0 < 16" "byte c1 - 0x80 < 64" "byte c2 - 0x80 < 64"
      "byte c - 0xE0 = 0 \<Longrightarrow> 32 \<le> byte c1 - 0x80" "byte c - 0xE0 = 13 \<Longrightarrow> byte c1 - 0x80 \<le> 31"
      using three cs by (auto simp: cont_byte_def split: if_splits)
    moreover have "0x80 \<le> byte c1" "0x80 \<le> byte c2" using cs by (auto simp: cont_byte_def split: if_splits)
    ultimately show ?thesis
      using encode_three [of "byte c - 0xE0" "byte c1 - 0x80" "byte c2 - 0x80"] three cs(1) s
      by (simp add: numeral_3_eq_3)
  next
    case four
    then obtain c1 c2 c3 t where cs: "cs = c1 # c2 # c3 # t"
      "(if byte c = 0xF0 then 0x90 else 0x80) \<le> byte c1" "byte c1 \<le> (if byte c = 0xF4 then 0x8F else 0xBF)"
      "cont_byte (byte c2)" "cont_byte (byte c3)"
      using dec s ok by (auto simp: Let_def split: list.splits if_splits)
    have "r = (byte c - 0xF0) * 262144 + (byte c1 - 0x80) * 4096 + (byte c2 - 0x80) * 64 + (byte c3 - 0x80)" "n = 4"
      using dec s four cs by (simp_all add: Let_def)
    moreover have "byte c - 0xF0 \<le> 4" "byte c1 - 0x80 < 64" "byte c2 - 0x80 < 64" "byte c3 - 0x80 < 64"
      "byte c - 0xF0 = 0 \<Longrightarrow> 16 \<le> byte c1 - 0x80" "byte c - 0xF0 = 4 \<Longrightarrow> byte c1 - 0x80 \<le> 15"
      using four cs by (auto simp: cont_byte_def split: if_splits)
    moreover have "0x80 \<le> byte c1" "0x80 \<le> byte c2" "0x80 \<le> byte c3"
      using cs by (auto simp: cont_byte_def split: if_splits)
    moreover have "take 4 s = [c, c1, c2, c3]" using s cs(1) by (simp add: eval_nat_numeral)
    moreover have "0xF0 + (byte c - 0xF0) = byte c" using four by simp
    ultimately show ?thesis
      using encode_four [of "byte c - 0xF0" "byte c1 - 0x80" "byte c2 - 0x80" "byte c3 - 0x80"]
      by (simp only: le_add_diff_inverse bchr_byte simp_thms)
  qed
qed

section \<open>Strings\<close>

text \<open>What a string looks like after a trip over the wire.\<close>

definition sanitize :: "bytes \<Rightarrow> bytes" where
  "sanitize s = concat (map encode_rune (runes s))"

lemma sanitize_Nil [simp]: "sanitize [] = []"
  by (simp add: sanitize_def runes.simps)

lemma sanitize_step:
  "s \<noteq> [] \<Longrightarrow> sanitize s = encode_rune (fst (decode_rune s)) @ sanitize (drop (snd (decode_rune s)) s)"
  unfolding sanitize_def by (subst runes.simps) simp

lemma sanitize_valid: "valid_utf8 s \<Longrightarrow> sanitize s = s"
proof (induction s rule: valid_utf8.induct)
  case (1 s)
  show ?case
  proof (cases "s = []")
    case False
    obtain r n where rn: "decode_rune s = (r, n)" by (cases "decode_rune s")
    from 1(2) False rn have ok: "\<not> (r = rune_error \<and> n = 1)" and rest: "valid_utf8 (drop n s)"
      by (subst (asm) (1) valid_utf8.simps; simp)+
    from 1(1) [OF False] rest rn have "sanitize (drop n s) = drop n s" by simp
    with sanitize_step [OF False] encode_decode_rune [OF rn False ok] rn show ?thesis by simp
  qed simp
qed

lemma sanitize_ascii: "list_all (\<lambda>c. byte c < 0x80) s \<Longrightarrow> sanitize s = s"
  by (rule sanitize_valid) (rule valid_utf8_ascii)

lemma hex_val_digit: "n < 16 \<Longrightarrow> hex_val (hex_digit n) = Some n"
  by (simp add: hex_val_def hex_digit_def Let_def)

lemma hex4_ascii:
  "b < 256 \<Longrightarrow> hex4 (CHR ''0'' # CHR ''0'' # hex_digit (b div 16) # hex_digit (b mod 16) # t) = Some (b, t)"
  by (simp add: hex_val_digit) (simp add: hex_val_def byte_def)

lemma string_body_u:
  assumes "hex4 s = Some (r, t)" "\<not> is_surrogate r"
  shows "string_body (bchr 0x5C # CHR ''u'' # s) = map_option (apfst (append (encode_rune r))) (string_body t)"
  using assms by (subst string_body.simps) (simp add: unescape_u_def byte_def bchr_def)

lemma string_body_escape:
  assumes "simple_escape e = Some d" "byte e \<noteq> 0x75"
  shows "string_body (bchr 0x5C # e # t) = map_option (apfst (Cons d)) (string_body t)"
  using assms by (subst string_body.simps) simp

lemma string_body_escape_ascii:
  assumes "byte c < 0x80"
  shows "string_body (escape_ascii c @ t) = map_option (apfst (Cons c)) (string_body t)"
proof -
  consider (self) "byte c \<in> {0x22, 0x5C}"
    | (letter) "byte c \<in> {0x08, 0x0C, 0x0A, 0x0D, 0x09}"
    | (hex) "byte c \<notin> {0x22, 0x5C, 0x08, 0x0C, 0x0A, 0x0D, 0x09}" "byte c < 0x20 \<or> byte c \<in> {0x3C, 0x3E, 0x26}"
    | (plain) "byte c \<notin> {0x22, 0x5C}" "\<not> byte c < 0x20" "byte c \<notin> {0x3C, 0x3E, 0x26}"
    by blast
  then show ?thesis
  proof cases
    case self
    then have "simple_escape c = Some c" "byte c \<noteq> 0x75" by (auto simp: simple_escape_def)
    with self string_body_escape [of c c t] show ?thesis by (simp add: escape_ascii_def)
  next
    case letter
    have c: "c = bchr (byte c)" by simp
    from letter show ?thesis
      by (subst (2) c) (auto simp: escape_ascii_def string_body_escape simple_escape_def Let_def byte_def)
  next
    case hex
    have "string_body (bchr 0x5C # CHR ''u'' # CHR ''0'' # CHR ''0'' # hex_digit (byte c div 16) # hex_digit (byte c mod 16) # t)
      = map_option (apfst (append (encode_rune (byte c)))) (string_body t)"
      using assms by (intro string_body_u [OF hex4_ascii]) (simp_all add: is_surrogate_def)
    then show ?thesis using hex assms by (auto simp: escape_ascii_def Let_def encode_rune_def apfst_def map_prod_def)
  next
    case plain
    then have "escape_ascii c = [c]" by (auto simp: escape_ascii_def Let_def)
    moreover have "string_body (c # t) = map_option (apfst (Cons c)) (string_body t)"
      using plain assms by (subst string_body.simps) (auto simp: encode_rune_def apfst_def map_prod_def)
    ultimately show ?thesis by simp
  qed
qed

lemma string_body_rune:
  assumes "decode_rune (c # cs) = (r, n)" "0x80 \<le> byte c" "\<not> (r = rune_error \<and> n = 1)"
  shows "string_body (take n (c # cs) @ t) = map_option (apfst (append (encode_rune r))) (string_body t)"
proof -
  have enc: "encode_rune r = take n (c # cs)" and v: "valid_rune r" using encode_decode_rune [OF assms(1) _ assms(3)] by simp_all
  have "0 < n" using decode_rune_width_pos [of "c # cs"] assms(1) by simp
  then obtain u where u: "take n (c # cs) = c # u" by (cases n) auto
  have d: "decode_rune (c # u @ t) = (r, length (c # u))" using decode_encode_rune [OF v, of t] enc u by simp
  have "string_body (c # u @ t) = map_option (apfst (append (encode_rune r))) (string_body (drop (length (c # u)) (c # u @ t)))"
    using assms(2) by (subst string_body.simps) (simp add: d del: decode_rune.simps)
  then show ?thesis using u by simp
qed

lemma decode_rune_error: "0x80 \<le> byte c \<Longrightarrow> decode_rune (c # cs) = (r, 1) \<Longrightarrow> r = rune_error"
  by (auto simp: Let_def split: if_splits list.splits)

text \<open>Reading back a quoted string gives its runes.\<close>

theorem string_body_escape_body:
  "string_body (escape_body s @ CHR 0x22 # rest) = Some (sanitize s, rest)"
proof (induction s rule: escape_body.induct)
  case 1
  show ?case by (simp add: escape_body.simps string_body.simps byte_def)
next
  case (2 c cs)
  obtain r n where rn: "decode_rune (c # cs) = (r, n)" by (cases "decode_rune (c # cs)")
  have san: "sanitize (c # cs) = encode_rune r @ sanitize (drop n (c # cs))" using sanitize_step [of "c # cs"] rn by simp
  consider (ascii) "byte c < 0x80" | (bad) "0x80 \<le> byte c" "n = 1"
    | (sep) "0x80 \<le> byte c" "n \<noteq> 1" "r \<in> {0x2028, 0x2029}" | (wide) "0x80 \<le> byte c" "n \<noteq> 1" "r \<notin> {0x2028, 0x2029}"
    by fastforce
  then show ?case
  proof cases
    case ascii
    then have "r = byte c" "n = 1" using rn by simp_all
    with ascii 2(1) san show ?thesis
      by (simp add: escape_body.simps(2) string_body_escape_ascii encode_rune_def)
  next
    case bad
    then have "r = rune_error" using decode_rune_error rn by simp
    moreover have "hex4 (''fffd'' @ t) = Some (rune_error, t)" for t by (simp add: hex_val_def byte_def rune_error_def)
    ultimately show ?thesis using bad rn san 2(2) [OF _ refl rn [symmetric]] string_body_u
      by (simp add: escape_body.simps(2) is_surrogate_def rune_error_def del: decode_rune.simps)
  next
    case sep
    have "hex4 (''202'' @ hex_digit (r mod 16) # t) = Some (r, t)" for t
      using sep(3) by (auto simp: hex_val_def byte_def hex_digit_def bchr_def)
    moreover have "\<not> is_surrogate r" using sep(3) by (auto simp: is_surrogate_def)
    ultimately have "string_body (bchr 0x5C # CHR ''u'' # ''202'' @ hex_digit (r mod 16) # t)
      = map_option (apfst (append (encode_rune r))) (string_body t)" for t by (rule string_body_u)
    then show ?thesis using sep rn san 2(3) [OF _ refl rn [symmetric]]
      by (simp add: escape_body.simps(2) del: decode_rune.simps hex4.simps)
  next
    case wide
    then show ?thesis using rn san 2(4) [OF _ refl rn [symmetric]] string_body_rune [OF rn]
      by (simp add: escape_body.simps(2) del: decode_rune.simps)
  qed
qed

section \<open>Documents\<close>

text \<open>
  A document whose numbers are number literals, its nesting depth, and what it reads back as when
  a string \<open>s\<close> reads back as \<open>p s\<close>.
\<close>

fun good_doc :: "json \<Rightarrow> bool" where
  "good_doc (JNum t) \<longleftrightarrow> scan_number t = Some (t, [])"
| "good_doc (JArr vs) \<longleftrightarrow> list_all good_doc vs"
| "good_doc (JObj ms) \<longleftrightarrow> list_all (\<lambda>(k, v). good_doc v) ms"
| "good_doc _ \<longleftrightarrow> True"

fun doc_depth :: "json \<Rightarrow> nat" where
  "doc_depth (JArr vs) = Suc (foldr max (map doc_depth vs) 0)"
| "doc_depth (JObj ms) = Suc (foldr max (map (\<lambda>(k, v). doc_depth v) ms) 0)"
| "doc_depth _ = 0"

fun wire :: "(bytes \<Rightarrow> bytes) \<Rightarrow> json \<Rightarrow> json" where
  "wire p (JStr s) = JStr (p s)"
| "wire p (JArr vs) = JArr (map (wire p) vs)"
| "wire p (JObj ms) = JObj (map (\<lambda>(k, v). (sanitize k, wire p v)) ms)"
| "wire p v = v"

text \<open>What may follow a value: nothing, a comma, a closing bracket or brace, or white space.\<close>

definition delimits :: "bytes \<Rightarrow> bool" where
  "delimits s \<longleftrightarrow> s = [] \<or> byte (hd s) \<in> {0x2C, 0x5D, 0x7D, 0x20, 0x09, 0x0D, 0x0A}"

lemma delimits_simps [simp]:
  "delimits []" "delimits (CHR '','' # s)" "delimits (CHR '']'' # s)" "delimits (CHR ''}'' # s)"
  by (simp_all add: delimits_def byte_def)

lemma takeWhile_delimits:
  "delimits x \<Longrightarrow> takeWhile is_digit (s @ x) = takeWhile is_digit s"
  "delimits x \<Longrightarrow> dropWhile is_digit (s @ x) = dropWhile is_digit s @ x"
  by (induction s; cases x; auto simp: delimits_def is_digit_def)+

lemma digits1_append: "delimits x \<Longrightarrow> digits1 s = Some (t, r) \<Longrightarrow> digits1 (s @ x) = Some (t, r @ x)"
  by (auto simp: digits1_def takeWhile_delimits split: if_splits)

lemmas digits1_append_Cons = digits1_append [where s = "c # s" for c s, simplified append_Cons]

lemma number_parts_append:
  assumes "delimits x"
  shows "number_int s = Some (t, r) \<Longrightarrow> number_int (s @ x) = Some (t, r @ x)"
    and "number_frac s = Some (t, r) \<Longrightarrow> number_frac (s @ x) = Some (t, r @ x)"
    and "number_exp s = Some (t, r) \<Longrightarrow> number_exp (s @ x) = Some (t, r @ x)"
proof -
  show "number_int s = Some (t, r) \<Longrightarrow> number_int (s @ x) = Some (t, r @ x)"
    using digits1_append [OF assms, of s]
    by (auto simp: number_int_def split: list.splits if_splits)
  show "number_frac s = Some (t, r) \<Longrightarrow> number_frac (s @ x) = Some (t, r @ x)"
    using assms digits1_append [OF assms] by (cases s; cases x)
      (auto simp: number_frac_def delimits_def split: if_splits)
  show "number_exp s = Some (t, r) \<Longrightarrow> number_exp (s @ x) = Some (t, r @ x)"
    using assms digits1_append [OF assms] digits1_append_Cons [OF assms] by (cases s; cases x; cases "tl s")
      (auto simp: number_exp_def delimits_def split: if_splits list.splits)
qed

lemma number_sign_append: "s \<noteq> [] \<Longrightarrow> number_sign s = (t, r) \<Longrightarrow> number_sign (s @ x) = (t, r @ x)"
  by (cases s) (auto simp: number_sign_def split: if_splits)

lemma scan_number_append:
  assumes "delimits x" "scan_number s = Some (t, r)"
  shows "scan_number (s @ x) = Some (t, r @ x)"
proof -
  have "s \<noteq> []" using assms(2) by (auto simp: scan_number_def number_sign_def number_int_def)
  with assms(2) show ?thesis
    unfolding scan_number_def
    by (auto simp: number_sign_append number_parts_append [OF assms(1)] split: option.splits prod.splits)
qed

lemma skip_ws_id: "s \<noteq> [] \<Longrightarrow> byte (hd s) \<notin> {0x20, 0x09, 0x0D, 0x0A} \<Longrightarrow> skip_ws s = s"
  by (cases s) auto

lemma number_start:
  assumes "scan_number s = Some (t, r)"
  shows "s \<noteq> [] \<and> (byte (hd s) = 0x2D \<or> is_digit (hd s))"
  using assms
  by (cases s) (auto simp: scan_number_def number_sign_def number_int_def digits1_def is_digit_def
      split: if_splits option.splits list.splits)

text \<open>A printed value starts with a character that opens a value.\<close>

lemma json_text_start:
  "good_doc v \<Longrightarrow> json_text v \<noteq> [] \<and> byte (hd (json_text v)) \<notin> {0x20, 0x09, 0x0D, 0x0A, 0x5D, 0x7D}"
  by (cases v) (auto simp: quote_json_def byte_def is_digit_def dest!: number_start)

lemma member_name_quote: "member_name (quote_json k @ '':'' @ t) = Some (sanitize k, t)"
  by (simp add: member_name_def quote_json_def string_body_escape_body byte_def)

lemma foldr_max_ge: "x \<in> set xs \<Longrightarrow> x \<le> foldr max xs (0::nat)"
  by (induction xs) auto

lemma enough_Suc: "(\<And>f. f0 \<le> f \<Longrightarrow> P (Suc f)) \<Longrightarrow> \<exists>f0. \<forall>f \<ge> f0. P f"
  by (metis Suc_le_D Suc_le_mono)

lemma skip_ws_delimiter [simp]:
  "skip_ws (CHR '','' # s) = CHR '','' # s" "skip_ws (CHR '']'' # s) = CHR '']'' # s"
  "skip_ws (CHR ''}'' # s) = CHR ''}'' # s"
  by (simp_all add: byte_def)

lemma delimiter_bytes [simp]:
  "byte (CHR '','') = 0x2C" "byte (CHR '']'') = 0x5D" "byte (CHR ''}'') = 0x7D"
  by (simp_all add: byte_def)

abbreviation member_text :: "bytes \<times> json \<Rightarrow> bytes" where
  "member_text \<equiv> \<lambda>(k, v). quote_json k @ '':'' @ json_text v"

lemma join_commas_start: "x \<noteq> [] \<Longrightarrow> \<exists>t. join_commas (x # xs) = x @ t"
  by (cases xs) simp_all

lemma depth_of_part: "\<lbrakk>x \<in> set xs; d + Suc (foldr max (map f xs) 0) \<le> m\<rbrakk> \<Longrightarrow> Suc d + f x \<le> (m::nat)"
  using foldr_max_ge [of "f x" "map f xs"] by simp

text \<open>
  A reader that gives back what the encoder printed, in one form or another.
\<close>

locale literal_printer = literal_reader +
  fixes printed :: "bytes \<Rightarrow> bytes"
  assumes reads_back: "read_literal (escape_body s @ CHR 0x22 # rest) = Some (printed s, rest)"
begin

text \<open>Enough fuel reads a value back: the recursion over documents, lists of elements and members.\<close>

definition reads :: "nat \<Rightarrow> json \<Rightarrow> bytes \<Rightarrow> bool" where
  "reads d v rest \<longleftrightarrow> (\<exists>f0. \<forall>f \<ge> f0. parse_value read_literal f d (json_text v @ rest) = Some (wire printed v, rest))"

lemma readsD: "reads d v rest \<Longrightarrow> \<exists>f0. \<forall>f \<ge> f0. parse_value read_literal f d (json_text v @ rest) = Some (wire printed v, rest)"
  by (simp add: reads_def)

lemma parse_elems_text:
  assumes "\<And>v rest. v \<in> set vs \<Longrightarrow> delimits rest \<Longrightarrow> reads d v rest" "vs \<noteq> []"
  shows "\<exists>f0. \<forall>f \<ge> f0. parse_elems read_literal f d (join_commas (map json_text vs) @ '']'' @ rest) = Some (map (wire printed) vs, rest)"
  using assms
proof (induction vs rule: induct_list012)
  case (2 v)
  then obtain f0 where "\<forall>f \<ge> f0. parse_value read_literal f d (json_text v @ CHR '']'' # rest) = Some (wire printed v, CHR '']'' # rest)"
    using readsD [of d v] by fastforce
  then show ?case by (intro enough_Suc [of f0]) simp
next
  case (3 v w vs)
  let ?tail = "join_commas (map json_text (w # vs)) @ '']'' @ rest"
  obtain f0 where f0: "\<forall>f \<ge> f0. parse_value read_literal f d (json_text v @ CHR '','' # ?tail) = Some (wire printed v, CHR '','' # ?tail)"
    using readsD [of d v] 3(3) by fastforce
  obtain f1 where f1: "\<forall>f \<ge> f1. parse_elems read_literal f d ?tail = Some (map (wire printed) (w # vs), rest)"
    using 3(2,3) by fastforce
  show ?case
    using f0 f1 by (intro enough_Suc [of "max f0 f1"]) simp
qed simp

lemma parse_members_text:
  assumes "\<And>k v rest. (k, v) \<in> set ms \<Longrightarrow> delimits rest \<Longrightarrow> reads d v rest" "ms \<noteq> []"
  shows "\<exists>f0. \<forall>f \<ge> f0. parse_members read_literal f d (join_commas (map member_text ms) @ ''}'' @ rest)
    = Some (map (\<lambda>(k, v). (sanitize k, wire printed v)) ms, rest)"
  using assms
proof (induction ms rule: induct_list012)
  case (2 m)
  obtain k v where m: "m = (k, v)" by (cases m)
  with 2 obtain f0 where "\<forall>f \<ge> f0. parse_value read_literal f d (json_text v @ CHR ''}'' # rest) = Some (wire printed v, CHR ''}'' # rest)"
    using readsD [of d v] by fastforce
  then show ?case
    using member_name_quote [of k] by (intro enough_Suc [of f0]) (simp add: m)
next
  case (3 m n ms)
  obtain k v where m: "m = (k, v)" by (cases m)
  let ?tail = "join_commas (map member_text (n # ms)) @ ''}'' @ rest"
  obtain f0 where f0: "\<forall>f \<ge> f0. parse_value read_literal f d (json_text v @ CHR '','' # ?tail) = Some (wire printed v, CHR '','' # ?tail)"
    using readsD [of d v] 3(3) m by fastforce
  obtain f1 where f1: "\<forall>f \<ge> f1. parse_members read_literal f d ?tail = Some (map (\<lambda>(k, v). (sanitize k, wire printed v)) (n # ms), rest)"
    using 3(2,3) by fastforce
  show ?case
    using f0 f1 member_name_quote [of k] by (intro enough_Suc [of "max f0 f1"]) (simp add: m)
qed simp

lemma reads_array:
  assumes "\<And>v rest. v \<in> set vs \<Longrightarrow> delimits rest \<Longrightarrow> reads (Suc d) v rest" "list_all good_doc vs" "d < max_depth"
  shows "reads d (JArr vs) rest"
proof (cases vs)
  case Nil
  then show ?thesis using assms(3) unfolding reads_def by (intro enough_Suc [of 0]) (simp add: byte_def)
next
  case (Cons v us)
  let ?text = "join_commas (map json_text vs) @ '']'' @ rest"
  obtain f0 where f0: "\<forall>f \<ge> f0. parse_elems read_literal f (Suc d) ?text = Some (map (wire printed) vs, rest)"
    using parse_elems_text [of vs "Suc d" rest] assms(1) Cons by auto
  have st: "json_text v \<noteq> []" "byte (hd (json_text v)) \<notin> {0x20, 0x09, 0x0D, 0x0A, 0x5D, 0x7D}"
    using json_text_start [of v] assms(2) Cons by simp_all
  obtain t where t: "?text = json_text v @ t" using join_commas_start [OF st(1), of "map json_text us"] Cons by auto
  have ws: "skip_ws ?text = ?text" using st t by (intro skip_ws_id) auto
  obtain b r where br: "?text = b # r" "byte b \<noteq> 0x5D" using st t by (cases "json_text v") auto
  have eq: "json_text (JArr vs) @ rest = CHR ''['' # ?text" by simp
  have br2: "skip_ws ?text = b # r" using ws br by simp
  show ?thesis unfolding reads_def eq
    using f0 br2 br(2) assms(3) by (intro enough_Suc [of f0]) (simp add: byte_def)
qed

lemma reads_object:
  assumes "\<And>k v rest. (k, v) \<in> set ms \<Longrightarrow> delimits rest \<Longrightarrow> reads (Suc d) v rest" "d < max_depth"
  shows "reads d (JObj ms) rest"
proof (cases ms)
  case Nil
  then show ?thesis using assms(2) unfolding reads_def by (intro enough_Suc [of 0]) (simp add: byte_def)
next
  case (Cons m us)
  obtain k v where m: "m = (k, v)" by (cases m)
  let ?text = "join_commas (map member_text ms) @ ''}'' @ rest"
  obtain f0 where f0: "\<forall>f \<ge> f0. parse_members read_literal f (Suc d) ?text = Some (map (\<lambda>(k, v). (sanitize k, wire printed v)) ms, rest)"
    using parse_members_text [of ms "Suc d" rest] assms(1) Cons by auto
  obtain r where r: "?text = CHR 0x22 # r"
    using join_commas_start [of "member_text m" "map member_text us"] Cons m by (auto simp: quote_json_def)
  then have ws: "skip_ws ?text = CHR 0x22 # r" by (simp only: skip_ws.simps) (simp add: byte_def)
  have eq: "json_text (JObj ms) @ rest = CHR ''{'' # ?text" by simp
  show ?thesis unfolding reads_def eq
    using f0 ws assms(2) by (intro enough_Suc [of f0]) (simp add: byte_def)
qed

lemma reads_scalar:
  assumes "delimits rest" "good_doc v" "\<And>vs. v \<noteq> JArr vs" "\<And>ms. v \<noteq> JObj ms"
  shows "reads d v rest"
proof (cases v)
  case (JNum t)
  have sc: "scan_number (t @ rest) = Some (t, rest)" using scan_number_append [OF assms(1)] assms(2) JNum by fastforce
  have st: "t \<noteq> []" "byte (hd t) = 0x2D \<or> is_digit (hd t)" using number_start [of t] assms(2) JNum by auto
  then obtain c cs where t: "t = c # cs" by (cases t) auto
  with st have c: "byte c \<notin> {0x20, 0x09, 0x0D, 0x0A, 0x7B, 0x5B, 0x22, 0x6E, 0x74, 0x66}" by (auto simp: is_digit_def)
  then have "c \<noteq> CHR ''n''" "c \<noteq> CHR ''t''" "c \<noteq> CHR ''f''" by (auto simp: byte_def)
  then show ?thesis
    using sc c unfolding reads_def JNum by (intro enough_Suc [of 0]) (simp add: t HasPrefix_def)
next
  case (JStr s)
  then show ?thesis unfolding reads_def
    by (intro enough_Suc [of 0]) (simp add: quote_json_def reads_back byte_def)
qed (use assms in \<open>auto simp: reads_def byte_def HasPrefix_def intro!: enough_Suc [of 0]\<close>)

lemma reads_doc: "\<lbrakk>good_doc v; d + doc_depth v \<le> max_depth; delimits rest\<rbrakk> \<Longrightarrow> reads d v rest"
proof (induction v arbitrary: d rest rule: doc_depth.induct)
  case (1 vs)
  show ?case
  proof (rule reads_array)
    fix v and rest' :: bytes
    assume v: "v \<in> set vs" "delimits rest'"
    then have "Suc d + doc_depth v \<le> max_depth" using depth_of_part [where f = doc_depth] 1(3) by fastforce
    then show "reads (Suc d) v rest'" using 1 v by (simp add: list_all_iff)
  qed (use 1 in simp_all)
next
  case (2 ms)
  show ?case
  proof (rule reads_object)
    fix k v and rest' :: bytes
    assume "(k, v) \<in> set ms" "delimits rest'"
    moreover from this(1) have "Suc d + doc_depth v \<le> max_depth"
      using depth_of_part [where f = "\<lambda>(k, v). doc_depth v" and x = "(k, v)"] 2(3) by fastforce
    ultimately show "reads (Suc d) v rest'" using 2 by (auto simp: list_all_iff)
  qed (use 2 in simp)
qed (simp_all add: reads_scalar)

text \<open>Any document of bounded depth reads back as itself, up to the form of its strings.\<close>

lemma parse_text:
  assumes "good_doc v" "doc_depth v \<le> max_depth" "delimits rest"
  shows "parse_value read_literal (2 * length (json_text v @ rest) + 2) 0 (json_text v @ rest) = Some (wire printed v, rest)"
proof -
  obtain f0 where "\<forall>f \<ge> f0. parse_value read_literal f 0 (json_text v @ rest) = Some (wire printed v, rest)"
    using readsD [OF reads_doc [of v 0 rest]] assms by auto
  then show ?thesis
    using fuel_enough [of "json_text v @ rest" "max f0 (2 * length (json_text v @ rest) + 2)"] by simp
qed

end

interpretation unquoted: literal_printer string_body sanitize
  by unfold_locales (rule string_body_escape_body)

interpretation raw: literal_printer raw_body escape_body
  by unfold_locales (simp add: raw_body_def string_body_escape_body)

lemmas parse_json_text = unquoted.parse_text [folded parse_json_def]
lemmas parse_raw_text = raw.parse_text [folded parse_raw_def]

end
