(* ===== verification/Http.thy ===== *)
theory Http
  imports GoTime
begin

text \<open>
  The part of \<open>net/http\<close>, \<open>context\<close> and chi's request state the handlers use: header maps with
  canonical keys, requests with their context values and path parameters, and response writers
  whose status and headers are fixed by the first \<open>WriteHeader\<close>.
\<close>

section \<open>Headers\<close>

text \<open>
  \<open>textproto.CanonicalMIMEHeaderKey\<close>: upper case at the start and after a hyphen, lower case
  elsewhere; a key with a byte that is no token character stays as it is.
\<close>

definition is_token_byte :: "nat \<Rightarrow> bool" where
  "is_token_byte b \<longleftrightarrow>
     (48 \<le> b \<and> b \<le> 57) \<or> (65 \<le> b \<and> b \<le> 90) \<or> (97 \<le> b \<and> b \<le> 122)
     \<or> b \<in> {0x21, 0x23, 0x24, 0x25, 0x26, 0x27, 0x2A, 0x2B, 0x2D, 0x2E, 0x5E, 0x5F, 0x60, 0x7C, 0x7E}"

fun canon_bytes :: "bool \<Rightarrow> bytes \<Rightarrow> bytes" where
  "canon_bytes up [] = []"
| "canon_bytes up (c # cs) =
     (let b = byte c;
          c' = (if up \<and> 97 \<le> b \<and> b \<le> 122 then bchr (b - 32)
                else if \<not> up \<and> 65 \<le> b \<and> b \<le> 90 then bchr (b + 32) else c)
      in c' # canon_bytes (b = 0x2D) cs)"

definition canonical_key :: "bytes \<Rightarrow> bytes" where
  "canonical_key k =
     (if k = [] \<or> list_ex (\<lambda>c. \<not> is_token_byte (byte c)) k then k else canon_bytes True k)"

text \<open>A header map holds a list of values per canonical key.\<close>

type_synonym header = "(bytes \<times> bytes list) list"

definition header_Get :: "header \<Rightarrow> bytes \<Rightarrow> bytes" where
  "header_Get h k = (case map_of h (canonical_key k) of Some (v # _) \<Rightarrow> v | _ \<Rightarrow> [])"

definition header_Set :: "header \<Rightarrow> bytes \<Rightarrow> bytes \<Rightarrow> header" where
  "header_Set h k v = (canonical_key k, [v]) # filter (\<lambda>(k', _). k' \<noteq> canonical_key k) h"

definition header_Del :: "header \<Rightarrow> bytes \<Rightarrow> header" where
  "header_Del h k = filter (\<lambda>(k', _). k' \<noteq> canonical_key k) h"

lemma map_of_header_filter:
  "map_of (filter (\<lambda>(k', _). k' \<noteq> c) h) k = (if k = c then None else map_of h k)"
  by (induction h) auto

lemma header_Get_Set:
  "header_Get (header_Set h k v) j = (if canonical_key j = canonical_key k then v else header_Get h j)"
  by (simp add: header_Get_def header_Set_def map_of_header_filter)

lemma header_Get_Del:
  "header_Get (header_Del h k) j = (if canonical_key j = canonical_key k then [] else header_Get h j)"
  by (simp add: header_Get_def header_Del_def map_of_header_filter)

section \<open>Responses\<close>

text \<open>
  A response writer: the live header map, the status and header snapshot once written, and the
  body so far. The first \<open>WriteHeader\<close> counts; a later one is ignored, and a body write without
  one sends 200.
\<close>

record response_writer =
  rw_header :: header
  rw_sent :: "(nat \<times> header) option"
  rw_body :: bytes

definition new_writer :: response_writer where
  "new_writer = \<lparr>rw_header = [], rw_sent = None, rw_body = []\<rparr>"

definition set_header :: "bytes \<Rightarrow> bytes \<Rightarrow> response_writer \<Rightarrow> response_writer" where
  "set_header k v w = w\<lparr>rw_header := header_Set (rw_header w) k v\<rparr>"

definition WriteHeader :: "nat \<Rightarrow> response_writer \<Rightarrow> response_writer" where
  "WriteHeader status w =
     (case rw_sent w of None \<Rightarrow> w\<lparr>rw_sent := Some (status, rw_header w)\<rparr> | Some _ \<Rightarrow> w)"

definition Write :: "bytes \<Rightarrow> response_writer \<Rightarrow> response_writer" where
  "Write b w = (let w' = WriteHeader 200 w in w'\<lparr>rw_body := rw_body w' @ b\<rparr>)"

text \<open>
  \<open>json.NewEncoder(w).Encode(v)\<close> on a response writer. The argument is \<open>None\<close> when the value cannot
  be marshalled: then nothing is written, and the sources drop the error.
\<close>

definition EncodeTo :: "json option \<Rightarrow> response_writer \<Rightarrow> response_writer" where
  "EncodeTo v w = (case v of Some d \<Rightarrow> Write (encode_json d) w | None \<Rightarrow> w)"

text \<open>The status, headers and body the client sees once the handler has returned.\<close>

definition status_of :: "response_writer \<Rightarrow> nat" where
  "status_of w = (case rw_sent w of Some (s, _) \<Rightarrow> s | None \<Rightarrow> 200)"

definition headers_of :: "response_writer \<Rightarrow> header" where
  "headers_of w = (case rw_sent w of Some (_, h) \<Rightarrow> h | None \<Rightarrow> rw_header w)"

text \<open>
  \<open>http.Error\<close>: plain text with a trailing newline, whatever the text is; \<open>Content-Length\<close> and the
  encoding headers of an abandoned response are removed.
\<close>

definition http_Error :: "bytes \<Rightarrow> nat \<Rightarrow> response_writer \<Rightarrow> response_writer" where
  "http_Error msg status w =
     Write (msg @ [bchr 0x0A])
       (WriteHeader status
          (set_header ''X-Content-Type-Options'' ''nosniff''
             (set_header ''Content-Type'' ''text/plain; charset=utf-8''
                (w\<lparr>rw_header := header_Del (rw_header w) ''Content-Length''\<rparr>))))"

text \<open>
  The helpers \<open>writeJSON\<close> and \<open>writeError\<close> that the satellite, user and auth packages each define
  with the same text.
\<close>

definition writeJSON :: "nat \<Rightarrow> json option \<Rightarrow> response_writer \<Rightarrow> response_writer" where
  "writeJSON status body w =
     EncodeTo body (WriteHeader status (set_header ''Content-Type'' ''application/json'' w))"

definition error_body :: "bytes \<Rightarrow> bytes \<Rightarrow> json" where
  "error_body code message = JObj [(''error'', JObj [(''code'', JStr code), (''message'', JStr message)])]"

definition writeError :: "nat \<Rightarrow> bytes \<Rightarrow> bytes \<Rightarrow> response_writer \<Rightarrow> response_writer" where
  "writeError status code message w =
     EncodeTo (Some (error_body code message))
       (WriteHeader status (set_header ''Content-Type'' ''application/json'' w))"

lemma status_WriteHeader_fresh [simp]: "rw_sent w = None \<Longrightarrow> status_of (WriteHeader s w) = s"
  by (simp add: status_of_def WriteHeader_def)

lemma status_Write [simp]: "status_of (Write b w) = status_of w"
  by (simp add: status_of_def Write_def WriteHeader_def Let_def split: option.split)

lemma status_EncodeTo [simp]: "status_of (EncodeTo v w) = status_of w"
  by (simp add: EncodeTo_def split: option.split)

lemma sent_set_header [simp]: "rw_sent (set_header k v w) = rw_sent w"
  by (simp add: set_header_def)

lemma status_writeJSON [simp]: "rw_sent w = None \<Longrightarrow> status_of (writeJSON s body w) = s"
  by (simp add: writeJSON_def)

lemma status_writeError [simp]: "rw_sent w = None \<Longrightarrow> status_of (writeError s c m w) = s"
  by (simp add: writeError_def)

lemma status_http_Error [simp]: "rw_sent w = None \<Longrightarrow> status_of (http_Error m s w) = s"
  by (simp add: http_Error_def)

lemma new_writer_fresh [simp]: "rw_sent new_writer = None" "rw_body new_writer = []"
  by (simp_all add: new_writer_def)

lemma body_writeJSON [simp]:
  "rw_sent w = None \<Longrightarrow> rw_body (writeJSON s (Some v) w) = rw_body w @ encode_json v"
  by (simp add: writeJSON_def EncodeTo_def Write_def WriteHeader_def set_header_def Let_def)

lemma body_writeError [simp]:
  "rw_sent w = None \<Longrightarrow> rw_body (writeError s c m w) = rw_body w @ encode_json (error_body c m)"
  by (simp add: writeError_def EncodeTo_def Write_def WriteHeader_def set_header_def Let_def)

section \<open>Requests\<close>

text \<open>
  Context keys: a key of the private type \<open>contextKey\<close> never equals a plain string key, even with
  the same text.
\<close>

datatype ctx_key = ContextKey bytes | StringKey bytes

type_synonym 'v ctx = "(ctx_key \<times> 'v) list"

definition WithValue :: "ctx_key \<Rightarrow> 'v \<Rightarrow> 'v ctx \<Rightarrow> 'v ctx" where
  "WithValue k v ctx = (k, v) # ctx"

definition ctx_Value :: "'v ctx \<Rightarrow> ctx_key \<Rightarrow> 'v option" where
  "ctx_Value ctx k = map_of ctx k"

record 'v http_request =
  req_Method :: bytes
  req_Path :: bytes
  req_Header :: header
  req_Body :: bytes
  req_ctx :: "'v ctx"
  url_params :: "(bytes \<times> bytes) list"

text \<open>\<open>chi.URLParam\<close>: the value bound by the matched pattern, the empty string if there is none.\<close>

definition URLParam :: "'v http_request \<Rightarrow> bytes \<Rightarrow> bytes" where
  "URLParam r k = (case map_of (url_params r) k of Some v \<Rightarrow> v | None \<Rightarrow> [])"

end
