(* ===== verification/Models.thy ===== *)
theory Models
  imports Http
begin

text \<open>
  The data of the Control Plane: the domain structs of the satellite and user packages and the
  generated API models, with the JSON the generated structs marshal to and the way request
  bodies are decoded into them.
\<close>

section \<open>Domain structs\<close>

record satellite =
  sat_ID :: uuid
  sat_Name :: bytes
  sat_Region :: bytes
  sat_Status :: bytes
  sat_ManagedBy :: bytes
  sat_LastSeenAt :: "micros option"
  sat_CreatedAt :: micros

record user =
  user_ID :: uuid
  user_Username :: bytes
  user_PasswordHash :: bytes
  user_Role :: bytes
  user_CreatedAt :: micros

text \<open>The zero value \<open>&Satellite{Name: name, Region: region}\<close> starts from.\<close>

definition zero_satellite :: satellite where
  "zero_satellite = \<lparr>sat_ID = uuid_Nil, sat_Name = [], sat_Region = [], sat_Status = [],
     sat_ManagedBy = [], sat_LastSeenAt = None, sat_CreatedAt = 0\<rparr>"

section \<open>Generated request models\<close>

record CreateSatelliteRequest =
  csr_Name :: bytes
  csr_Region :: bytes

record UpdateSatelliteRequest =
  usr_Region :: bytes

record CreateUserRequest =
  cur_Password :: bytes
  cur_Role :: "bytes option"
  cur_Username :: bytes

record LoginRequest =
  lr_Username :: bytes
  lr_Password :: bytes

definition CreateSatelliteRequest_field ::
  "bytes \<Rightarrow> json \<Rightarrow> CreateSatelliteRequest \<Rightarrow> CreateSatelliteRequest \<times> bool" where
  "CreateSatelliteRequest_field k v r =
     (if key_matches ''name'' k then apfst (\<lambda>s. r\<lparr>csr_Name := s\<rparr>) (dec_string v (csr_Name r))
      else if key_matches ''region'' k then apfst (\<lambda>s. r\<lparr>csr_Region := s\<rparr>) (dec_string v (csr_Region r))
      else (r, True))"

definition decode_CreateSatelliteRequest :: "bytes \<Rightarrow> CreateSatelliteRequest option" where
  "decode_CreateSatelliteRequest = Decode CreateSatelliteRequest_field \<lparr>csr_Name = [], csr_Region = []\<rparr>"

definition UpdateSatelliteRequest_field ::
  "bytes \<Rightarrow> json \<Rightarrow> UpdateSatelliteRequest \<Rightarrow> UpdateSatelliteRequest \<times> bool" where
  "UpdateSatelliteRequest_field k v r =
     (if key_matches ''region'' k then apfst (\<lambda>s. r\<lparr>usr_Region := s\<rparr>) (dec_string v (usr_Region r))
      else (r, True))"

definition decode_UpdateSatelliteRequest :: "bytes \<Rightarrow> UpdateSatelliteRequest option" where
  "decode_UpdateSatelliteRequest = Decode UpdateSatelliteRequest_field \<lparr>usr_Region = []\<rparr>"

definition CreateUserRequest_field ::
  "bytes \<Rightarrow> json \<Rightarrow> CreateUserRequest \<Rightarrow> CreateUserRequest \<times> bool" where
  "CreateUserRequest_field k v r =
     (if key_matches ''password'' k then apfst (\<lambda>s. r\<lparr>cur_Password := s\<rparr>) (dec_string v (cur_Password r))
      else if key_matches ''role'' k then apfst (\<lambda>s. r\<lparr>cur_Role := s\<rparr>) (dec_string_ptr v (cur_Role r))
      else if key_matches ''username'' k then apfst (\<lambda>s. r\<lparr>cur_Username := s\<rparr>) (dec_string v (cur_Username r))
      else (r, True))"

definition decode_CreateUserRequest :: "bytes \<Rightarrow> CreateUserRequest option" where
  "decode_CreateUserRequest =
     Decode CreateUserRequest_field \<lparr>cur_Password = [], cur_Role = None, cur_Username = []\<rparr>"

text \<open>\<open>auth.loginRequest\<close>, the hand-written twin of the generated login request.\<close>

definition loginRequest_field :: "bytes \<Rightarrow> json \<Rightarrow> LoginRequest \<Rightarrow> LoginRequest \<times> bool" where
  "loginRequest_field k v r =
     (if key_matches ''username'' k then apfst (\<lambda>s. r\<lparr>lr_Username := s\<rparr>) (dec_string v (lr_Username r))
      else if key_matches ''password'' k then apfst (\<lambda>s. r\<lparr>lr_Password := s\<rparr>) (dec_string v (lr_Password r))
      else (r, True))"

definition decode_loginRequest :: "bytes \<Rightarrow> LoginRequest option" where
  "decode_loginRequest = Decode loginRequest_field \<lparr>lr_Username = [], lr_Password = []\<rparr>"

section \<open>Generated response models\<close>

text \<open>The values the OpenAPI document allows in the enumerated fields.\<close>

definition CreateUserRequestRole_values :: "bytes list" where
  "CreateUserRequestRole_values = [''admin'', ''viewer'']"

definition Manual_value :: bytes where
  "Manual_value = ''manual''"

definition Operator_value :: bytes where
  "Operator_value = ''operator''"

definition SatelliteManagedBy_values :: "bytes list" where
  "SatelliteManagedBy_values = [Manual_value, Operator_value]"

definition SatelliteStatus_values :: "bytes list" where
  "SatelliteStatus_values = [''Error'', ''Pending'', ''Ready'', ''Unreachable'']"

definition UserRole_values :: "bytes list" where
  "UserRole_values = [''admin'', ''viewer'']"

lemmas enum_values =
  CreateUserRequestRole_values_def Manual_value_def Operator_value_def SatelliteManagedBy_values_def
  SatelliteStatus_values_def UserRole_values_def

record 't gen_Satellite =
  gs_CreatedAt :: "'t option"
  gs_Id :: "uuid option"
  gs_LastSeenAt :: "'t option"
  gs_ManagedBy :: "bytes option"
  gs_Name :: "bytes option"
  gs_Region :: "bytes option"
  gs_Status :: "bytes option"

record 't gen_User =
  gu_CreatedAt :: "'t option"
  gu_Id :: "uuid option"
  gu_Role :: "bytes option"
  gu_Username :: "bytes option"

text \<open>
  Marshalling: members in the order of the struct's fields, a nil pointer tagged \<open>omitempty\<close> left
  out, one without the tag (\<open>last_seen_at\<close>) written as null. \<open>zone\<close> is the offset of the process's
  local zone at an instant and \<open>show_id\<close> the text form of a UUID. The models are generic in the
  type of times: a database timestamp on the server, a \<open>time.Time\<close> read from a document in a client.
\<close>

definition opt_member :: "bytes \<Rightarrow> ('a \<Rightarrow> json option) \<Rightarrow> 'a option \<Rightarrow> (bytes \<times> json) list option" where
  "opt_member k f v = (case v of None \<Rightarrow> Some [] | Some x \<Rightarrow> map_option (\<lambda>j. [(k, j)]) (f x))"

definition concat_members :: "(bytes \<times> json) list option list \<Rightarrow> json option" where
  "concat_members parts =
     (if list_all (\<lambda>p. p \<noteq> None) parts then Some (JObj (concat (map the parts))) else None)"

record marshal_env =
  zone :: "micros \<Rightarrow> int"
  show_id :: "uuid \<Rightarrow> bytes"

definition marshal_Satellite_with ::
  "('t \<Rightarrow> json option) \<Rightarrow> (uuid \<Rightarrow> bytes) \<Rightarrow> 't gen_Satellite \<Rightarrow> json option" where
  "marshal_Satellite_with tm idm s =
     concat_members
       [opt_member ''created_at'' tm (gs_CreatedAt s),
        opt_member ''id'' (\<lambda>u. Some (JStr (idm u))) (gs_Id s),
        (case gs_LastSeenAt s of
           None \<Rightarrow> Some [(''last_seen_at'', JNull)]
         | Some t \<Rightarrow> opt_member ''last_seen_at'' tm (Some t)),
        opt_member ''managed_by'' (\<lambda>s. Some (JStr s)) (gs_ManagedBy s),
        opt_member ''name'' (\<lambda>s. Some (JStr s)) (gs_Name s),
        opt_member ''region'' (\<lambda>s. Some (JStr s)) (gs_Region s),
        opt_member ''status'' (\<lambda>s. Some (JStr s)) (gs_Status s)]"

definition marshal_User_with ::
  "('t \<Rightarrow> json option) \<Rightarrow> (uuid \<Rightarrow> bytes) \<Rightarrow> 't gen_User \<Rightarrow> json option" where
  "marshal_User_with tm idm u =
     concat_members
       [opt_member ''created_at'' tm (gu_CreatedAt u),
        opt_member ''id'' (\<lambda>i. Some (JStr (idm i))) (gu_Id u),
        opt_member ''role'' (\<lambda>s. Some (JStr s)) (gu_Role u),
        opt_member ''username'' (\<lambda>s. Some (JStr s)) (gu_Username u)]"

text \<open>On the server the times are database timestamps.\<close>

definition marshal_Satellite :: "marshal_env \<Rightarrow> micros gen_Satellite \<Rightarrow> json option" where
  "marshal_Satellite m = marshal_Satellite_with (\<lambda>t. marshal_time (zone m t) t) (show_id m)"

definition marshal_User :: "marshal_env \<Rightarrow> micros gen_User \<Rightarrow> json option" where
  "marshal_User m = marshal_User_with (\<lambda>t. marshal_time (zone m t) t) (show_id m)"

text \<open>A slice marshals element by element and fails with the first element that fails.\<close>

definition marshal_list :: "('a \<Rightarrow> json option) \<Rightarrow> 'a list \<Rightarrow> json option" where
  "marshal_list f xs = map_option JArr (those (map f xs))"

text \<open>
  No user document ever has a member for the password hash: the keys are the four of the
  generated struct.
\<close>

lemma marshal_User_keys:
  "marshal_User m u = Some (JObj ms) \<Longrightarrow>
     set (map fst ms) \<subseteq> {''created_at'', ''id'', ''role'', ''username''}"
  by (auto simp: marshal_User_def marshal_User_with_def concat_members_def opt_member_def split: option.splits if_splits)

lemma marshal_User_shape: "marshal_User m u = Some v \<Longrightarrow> \<exists>ms. v = JObj ms"
  by (auto simp: marshal_User_def marshal_User_with_def concat_members_def split: if_splits)

section \<open>Decoding ends\<close>

text \<open>
  The decoders with any number of steps for the parser: two per byte and two more are enough, so a
  body is never refused because a bound of the model was hit.
\<close>

definition decode_within :: "nat \<Rightarrow> (bytes \<Rightarrow> json \<Rightarrow> 'r \<Rightarrow> 'r \<times> bool) \<Rightarrow> 'r \<Rightarrow> bytes \<Rightarrow> 'r option" where
  "decode_within f step zero body =
     (case parse_value string_body f 0 body of None \<Rightarrow> None | Some (v, _) \<Rightarrow> dec_struct step zero v)"

lemma Decode_within: "2 * length body + 1 < f \<Longrightarrow> Decode step zero body = decode_within f step zero body"
  by (simp add: Decode_def decode_within_def parse_json_def unquoted.fuel_enough)

end
