(* ===== verification/Effects.thy ===== *)
theory Effects
  imports Models
begin

text \<open>
  The outside world of the Control Plane and the programs that act on it. A program is a tree of
  calls to the clock, the random source, the request log and the database, each with a
  continuation that takes the reply; database calls are the SQL statements of the repositories
  and of the login handler, executed one at a time by PostgreSQL in autocommit mode. The same
  program is run alone (\<open>run\<close>) or one call at a time, interleaved with others (\<open>step\<close>).

  The environment supplies, call by call, what the program does not control: the clock, fresh
  random values and UUIDs, database faults (before the statement took effect, or after, with the
  reply lost) and the physical order in which a table is scanned.
\<close>

section \<open>Programs\<close>

record log_entry =
  log_method :: bytes
  log_path :: bytes
  log_status :: nat
  log_latency :: nanos

datatype 'a prog =
    Done 'a
  | Now "nanos \<Rightarrow> 'a prog"
  | Rand "nat \<Rightarrow> 'a prog"
  | LogInfo log_entry "'a prog"
  | Ping "go_error option \<Rightarrow> 'a prog"
  | SatInsert bytes bytes bytes bytes "go_error + satellite \<Rightarrow> 'a prog"
  | SatSelect uuid "go_error + satellite \<Rightarrow> 'a prog"
  | SatSelectAll "go_error + satellite list \<Rightarrow> 'a prog"
  | SatUpdateRegion bytes uuid "go_error + satellite \<Rightarrow> 'a prog"
  | SatDelete uuid "go_error option \<Rightarrow> 'a prog"
  | SatHeartbeat uuid "go_error + satellite \<Rightarrow> 'a prog"
  | UserInsert bytes bytes bytes "go_error + user \<Rightarrow> 'a prog"
  | UserSelectName bytes "go_error + user \<Rightarrow> 'a prog"
  | UserSelectId uuid "go_error + user \<Rightarrow> 'a prog"
  | UserSelectAll "go_error + user list \<Rightarrow> 'a prog"
  | UserDelete uuid "go_error option \<Rightarrow> 'a prog"

primrec bind :: "'a prog \<Rightarrow> ('a \<Rightarrow> 'b prog) \<Rightarrow> 'b prog" where
  "bind (Done a) f = f a"
| "bind (Now k) f = Now (\<lambda>t. bind (k t) f)"
| "bind (Rand k) f = Rand (\<lambda>t. bind (k t) f)"
| "bind (LogInfo e p) f = LogInfo e (bind p f)"
| "bind (Ping k) f = Ping (\<lambda>r. bind (k r) f)"
| "bind (SatInsert n g s m k) f = SatInsert n g s m (\<lambda>r. bind (k r) f)"
| "bind (SatSelect i k) f = SatSelect i (\<lambda>r. bind (k r) f)"
| "bind (SatSelectAll k) f = SatSelectAll (\<lambda>r. bind (k r) f)"
| "bind (SatUpdateRegion g i k) f = SatUpdateRegion g i (\<lambda>r. bind (k r) f)"
| "bind (SatDelete i k) f = SatDelete i (\<lambda>r. bind (k r) f)"
| "bind (SatHeartbeat i k) f = SatHeartbeat i (\<lambda>r. bind (k r) f)"
| "bind (UserInsert n h l k) f = UserInsert n h l (\<lambda>r. bind (k r) f)"
| "bind (UserSelectName n k) f = UserSelectName n (\<lambda>r. bind (k r) f)"
| "bind (UserSelectId i k) f = UserSelectId i (\<lambda>r. bind (k r) f)"
| "bind (UserSelectAll k) f = UserSelectAll (\<lambda>r. bind (k r) f)"
| "bind (UserDelete i k) f = UserDelete i (\<lambda>r. bind (k r) f)"

section \<open>The world and its environment\<close>

record world =
  satellites :: "satellite list"
  users :: "user list"
  request_log :: "log_entry list"

datatype fault = FaultBefore bytes | FaultAfter bytes

record env =
  env_clock :: nanos
  env_rand :: nat
  env_fault :: "fault option"
  env_uuid :: uuid
  env_now :: micros
  env_conflict :: bytes
  env_scan :: "uuid \<Rightarrow> nat"

text \<open>
  A statement under faults: a fault before it leaves the database alone, a fault after it keeps
  the effect but replaces the reply by an error.
\<close>

definition under_fault ::
  "env \<Rightarrow> (go_error \<Rightarrow> 'r) \<Rightarrow> (world \<Rightarrow> 'r \<times> world) \<Rightarrow> world \<Rightarrow> 'r \<times> world" where
  "under_fault e err stmt w =
     (case env_fault e of
        None \<Rightarrow> stmt w
      | Some (FaultBefore msg) \<Rightarrow> (err (PgError msg), w)
      | Some (FaultAfter msg) \<Rightarrow> (err (PgError msg), snd (stmt w)))"

definition row_reply :: "'r option \<Rightarrow> go_error + 'r" where
  "row_reply r = (case r of None \<Rightarrow> Inl ErrNoRows | Some x \<Rightarrow> Inr x)"

section \<open>SQL statements\<close>

text \<open>
  \<^verbatim>\<open>INSERT INTO satellites (name, region, status, managed_by) VALUES ... RETURNING ...\<close>
  with the defaults of the migration: a fresh id, no last\_seen\_at, created\_at = now(). The
  primary key and the UNIQUE constraint on name are checked.
\<close>

definition sat_insert ::
  "env \<Rightarrow> bytes \<Rightarrow> bytes \<Rightarrow> bytes \<Rightarrow> bytes \<Rightarrow> world \<Rightarrow> (go_error + satellite) \<times> world" where
  "sat_insert e name region status managed_by w =
     (if sel_where sat_ID (env_uuid e) (satellites w) \<noteq> None
         \<or> sel_where sat_Name name (satellites w) \<noteq> None
      then (Inl (PgError (env_conflict e)), w)
      else let row = \<lparr>sat_ID = env_uuid e, sat_Name = name, sat_Region = region,
                      sat_Status = status, sat_ManagedBy = managed_by,
                      sat_LastSeenAt = None, sat_CreatedAt = env_now e\<rparr>
           in (Inr row, w\<lparr>satellites := satellites w @ [row]\<rparr>))"

definition sat_select :: "uuid \<Rightarrow> world \<Rightarrow> (go_error + satellite) \<times> world" where
  "sat_select i w = (row_reply (sel_where sat_ID i (satellites w)), w)"

text \<open>
  \<^verbatim>\<open>SELECT ... ORDER BY created_at DESC\<close>: rows with equal keys come in scan order, which the
  environment chooses by ranking the row ids.
\<close>

definition sat_select_all :: "env \<Rightarrow> world \<Rightarrow> (go_error + satellite list) \<times> world" where
  "sat_select_all e w =
     (Inr (sort_key (\<lambda>r. - sat_CreatedAt r) (sort_key (\<lambda>r. env_scan e (sat_ID r)) (satellites w))), w)"

definition sat_update_region :: "bytes \<Rightarrow> uuid \<Rightarrow> world \<Rightarrow> (go_error + satellite) \<times> world" where
  "sat_update_region region i w =
     (let w' = w\<lparr>satellites := upd_where sat_ID i (sat_Region_update (\<lambda>_. region)) (satellites w)\<rparr>
      in (row_reply (sel_where sat_ID i (satellites w')), w'))"

definition sat_delete :: "uuid \<Rightarrow> world \<Rightarrow> go_error option \<times> world" where
  "sat_delete i w = (None, w\<lparr>satellites := del_where sat_ID i (satellites w)\<rparr>)"

text \<open>\<^verbatim>\<open>UPDATE satellites SET status = 'Ready', last_seen_at = NOW() WHERE id = $1 RETURNING ...\<close>\<close>

definition sat_heartbeat :: "env \<Rightarrow> uuid \<Rightarrow> world \<Rightarrow> (go_error + satellite) \<times> world" where
  "sat_heartbeat e i w =
     (let w' = w\<lparr>satellites := upd_where sat_ID i
                   (\<lambda>r. r\<lparr>sat_Status := ''Ready'', sat_LastSeenAt := Some (env_now e)\<rparr>) (satellites w)\<rparr>
      in (row_reply (sel_where sat_ID i (satellites w')), w'))"

definition user_insert :: "env \<Rightarrow> bytes \<Rightarrow> bytes \<Rightarrow> bytes \<Rightarrow> world \<Rightarrow> (go_error + user) \<times> world" where
  "user_insert e name hash role w =
     (if sel_where user_ID (env_uuid e) (users w) \<noteq> None
         \<or> sel_where user_Username name (users w) \<noteq> None
      then (Inl (PgError (env_conflict e)), w)
      else let row = \<lparr>user_ID = env_uuid e, user_Username = name, user_PasswordHash = hash,
                      user_Role = role, user_CreatedAt = env_now e\<rparr>
           in (Inr row, w\<lparr>users := users w @ [row]\<rparr>))"

definition user_select_name :: "bytes \<Rightarrow> world \<Rightarrow> (go_error + user) \<times> world" where
  "user_select_name n w = (row_reply (sel_where user_Username n (users w)), w)"

definition user_select_id :: "uuid \<Rightarrow> world \<Rightarrow> (go_error + user) \<times> world" where
  "user_select_id i w = (row_reply (sel_where user_ID i (users w)), w)"

definition user_select_all :: "env \<Rightarrow> world \<Rightarrow> (go_error + user list) \<times> world" where
  "user_select_all e w =
     (Inr (sort_key (\<lambda>r. - user_CreatedAt r) (sort_key (\<lambda>r. env_scan e (user_ID r)) (users w))), w)"

definition user_delete :: "uuid \<Rightarrow> world \<Rightarrow> go_error option \<times> world" where
  "user_delete i w = (None, w\<lparr>users := del_where user_ID i (users w)\<rparr>)"

definition ping :: "world \<Rightarrow> go_error option \<times> world" where
  "ping w = (None, w)"

section \<open>Execution\<close>

text \<open>One call of a program; a finished program stays as it is.\<close>

primrec step :: "env \<Rightarrow> 'a prog \<Rightarrow> world \<Rightarrow> 'a prog \<times> world" where
  "step e (Done a) w = (Done a, w)"
| "step e (Now k) w = (k (env_clock e), w)"
| "step e (Rand k) w = (k (env_rand e), w)"
| "step e (LogInfo l p) w = (p, w\<lparr>request_log := request_log w @ [l]\<rparr>)"
| "step e (Ping k) w = apfst k (under_fault e Some ping w)"
| "step e (SatInsert n g s m k) w = apfst k (under_fault e Inl (sat_insert e n g s m) w)"
| "step e (SatSelect i k) w = apfst k (under_fault e Inl (sat_select i) w)"
| "step e (SatSelectAll k) w = apfst k (under_fault e Inl (sat_select_all e) w)"
| "step e (SatUpdateRegion g i k) w = apfst k (under_fault e Inl (sat_update_region g i) w)"
| "step e (SatDelete i k) w = apfst k (under_fault e Some (sat_delete i) w)"
| "step e (SatHeartbeat i k) w = apfst k (under_fault e Inl (sat_heartbeat e i) w)"
| "step e (UserInsert n h l k) w = apfst k (under_fault e Inl (user_insert e n h l) w)"
| "step e (UserSelectName n k) w = apfst k (under_fault e Inl (user_select_name n) w)"
| "step e (UserSelectId i k) w = apfst k (under_fault e Inl (user_select_id i) w)"
| "step e (UserSelectAll k) w = apfst k (under_fault e Inl (user_select_all e) w)"
| "step e (UserDelete i k) w = apfst k (under_fault e Some (user_delete i) w)"

text \<open>
  A program alone: call number \<open>n\<close> gets the environment \<open>\<omega> n\<close>. The result is the value, the
  number of the next call and the final world. Every program finishes, since it is a finite tree
  along every sequence of replies.
\<close>

primrec run :: "(nat \<Rightarrow> env) \<Rightarrow> nat \<Rightarrow> 'a prog \<Rightarrow> world \<Rightarrow> 'a \<times> nat \<times> world" where
  "run \<omega> n (Done a) w = (a, n, w)"
| "run \<omega> n (Now k) w = run \<omega> (Suc n) (k (env_clock (\<omega> n))) w"
| "run \<omega> n (Rand k) w = run \<omega> (Suc n) (k (env_rand (\<omega> n))) w"
| "run \<omega> n (LogInfo l p) w = run \<omega> (Suc n) p (w\<lparr>request_log := request_log w @ [l]\<rparr>)"
| "run \<omega> n (Ping k) w =
     (let (r, w') = under_fault (\<omega> n) Some ping w in run \<omega> (Suc n) (k r) w')"
| "run \<omega> n (SatInsert nm g s m k) w =
     (let (r, w') = under_fault (\<omega> n) Inl (sat_insert (\<omega> n) nm g s m) w in run \<omega> (Suc n) (k r) w')"
| "run \<omega> n (SatSelect i k) w =
     (let (r, w') = under_fault (\<omega> n) Inl (sat_select i) w in run \<omega> (Suc n) (k r) w')"
| "run \<omega> n (SatSelectAll k) w =
     (let (r, w') = under_fault (\<omega> n) Inl (sat_select_all (\<omega> n)) w in run \<omega> (Suc n) (k r) w')"
| "run \<omega> n (SatUpdateRegion g i k) w =
     (let (r, w') = under_fault (\<omega> n) Inl (sat_update_region g i) w in run \<omega> (Suc n) (k r) w')"
| "run \<omega> n (SatDelete i k) w =
     (let (r, w') = under_fault (\<omega> n) Some (sat_delete i) w in run \<omega> (Suc n) (k r) w')"
| "run \<omega> n (SatHeartbeat i k) w =
     (let (r, w') = under_fault (\<omega> n) Inl (sat_heartbeat (\<omega> n) i) w in run \<omega> (Suc n) (k r) w')"
| "run \<omega> n (UserInsert nm h l k) w =
     (let (r, w') = under_fault (\<omega> n) Inl (user_insert (\<omega> n) nm h l) w in run \<omega> (Suc n) (k r) w')"
| "run \<omega> n (UserSelectName nm k) w =
     (let (r, w') = under_fault (\<omega> n) Inl (user_select_name nm) w in run \<omega> (Suc n) (k r) w')"
| "run \<omega> n (UserSelectId i k) w =
     (let (r, w') = under_fault (\<omega> n) Inl (user_select_id i) w in run \<omega> (Suc n) (k r) w')"
| "run \<omega> n (UserSelectAll k) w =
     (let (r, w') = under_fault (\<omega> n) Inl (user_select_all (\<omega> n)) w in run \<omega> (Suc n) (k r) w')"
| "run \<omega> n (UserDelete i k) w =
     (let (r, w') = under_fault (\<omega> n) Some (user_delete i) w in run \<omega> (Suc n) (k r) w')"

lemma bind_assoc: "bind (bind p f) g = bind p (\<lambda>a. bind (f a) g)"
  by (induction p) auto

lemma bind_Done [simp]: "bind p Done = p"
  by (induction p) auto

lemma run_bind [effect_simps]:
  "run \<omega> n (bind p f) w = (let (a, n', w') = run \<omega> n p w in run \<omega> n' (f a) w')"
  by (induction p arbitrary: n w) (simp_all add: Let_def split: prod.split)

lemma run_caseI:
  "(\<And>a n' w'. run \<omega> n p w = (a, n', w') \<Longrightarrow> Q a n' w') \<Longrightarrow> case run \<omega> n p w of (a, n', w') \<Rightarrow> Q a n' w'"
  by (auto split: prod.split)

text \<open>Whether one of the next \<open>k\<close> calls meets a database fault.\<close>

definition faulty :: "(nat \<Rightarrow> env) \<Rightarrow> nat \<Rightarrow> nat \<Rightarrow> bool" where
  "faulty \<omega> n k \<longleftrightarrow> list_ex (\<lambda>j. env_fault (\<omega> j) \<noteq> None) [n..<n + k]"

lemma faulty_one [simp]: "faulty \<omega> n (Suc 0) \<longleftrightarrow> env_fault (\<omega> n) \<noteq> None"
  by (simp add: faulty_def)

lemma faulty_two [simp]: "faulty \<omega> n 2 \<longleftrightarrow> env_fault (\<omega> n) \<noteq> None \<or> env_fault (\<omega> (Suc n)) \<noteq> None"
  by (auto simp: faulty_def upt_rec)

end
