(* ===== verification/Concurrency.thy ===== *)
theory Concurrency
  imports Effects
begin

text \<open>
  Many requests at once. The server runs one goroutine per request; what they share is the
  database, and PostgreSQL executes their statements one at a time. An execution is therefore an
  interleaving of single calls (\<open>step\<close>) of a pool of in-flight programs, into which new programs may
  arrive at any moment.

  Invariants of the shared state are proved once, in the locale \<open>store_invariant\<close>: a client says
  which statements a program may issue after which replies (\<open>within\<close>) and that those statements
  keep the invariant; the locale gives the invariant for every interleaving and for programs run
  alone.
\<close>

section \<open>Statements that change the database\<close>

datatype change =
    InsertSat bytes bytes bytes bytes
  | UpdateRegion bytes uuid
  | DeleteSat uuid
  | HeartbeatSat uuid
  | InsertUser bytes bytes bytes
  | DeleteUser uuid

primrec effect :: "env \<Rightarrow> change \<Rightarrow> world \<Rightarrow> world" where
  "effect e (InsertSat n g s m) w = snd (sat_insert e n g s m w)"
| "effect e (UpdateRegion g i) w = snd (sat_update_region g i w)"
| "effect e (DeleteSat i) w = snd (sat_delete i w)"
| "effect e (HeartbeatSat i) w = snd (sat_heartbeat e i w)"
| "effect e (InsertUser n h r) w = snd (user_insert e n h r w)"
| "effect e (DeleteUser i) w = snd (user_delete i w)"

text \<open>
  \<open>within R A p\<close>: every change the program can issue is in \<open>A\<close>, provided the replies to its
  satellite lookups satisfy \<open>R\<close>.
\<close>

primrec within :: "(uuid \<Rightarrow> go_error + satellite \<Rightarrow> bool) \<Rightarrow> (change \<Rightarrow> bool) \<Rightarrow> 'a prog \<Rightarrow> bool" where
  "within R A (Done a) = True"
| "within R A (Now k) = (\<forall>t. within R A (k t))"
| "within R A (Rand k) = (\<forall>t. within R A (k t))"
| "within R A (LogInfo l p) = within R A p"
| "within R A (Ping k) = (\<forall>r. within R A (k r))"
| "within R A (SatInsert n g s m k) = (A (InsertSat n g s m) \<and> (\<forall>r. within R A (k r)))"
| "within R A (SatSelect i k) = (\<forall>r. R i r \<longrightarrow> within R A (k r))"
| "within R A (SatSelectAll k) = (\<forall>r. within R A (k r))"
| "within R A (SatUpdateRegion g i k) = (A (UpdateRegion g i) \<and> (\<forall>r. within R A (k r)))"
| "within R A (SatDelete i k) = (A (DeleteSat i) \<and> (\<forall>r. within R A (k r)))"
| "within R A (SatHeartbeat i k) = (A (HeartbeatSat i) \<and> (\<forall>r. within R A (k r)))"
| "within R A (UserInsert n h l k) = (A (InsertUser n h l) \<and> (\<forall>r. within R A (k r)))"
| "within R A (UserSelectName n k) = (\<forall>r. within R A (k r))"
| "within R A (UserSelectId i k) = (\<forall>r. within R A (k r))"
| "within R A (UserSelectAll k) = (\<forall>r. within R A (k r))"
| "within R A (UserDelete i k) = (A (DeleteUser i) \<and> (\<forall>r. within R A (k r)))"

abbreviation any_reply :: "uuid \<Rightarrow> go_error + satellite \<Rightarrow> bool" where
  "any_reply \<equiv> \<lambda>_ _. True"

abbreviation readonly :: "'a prog \<Rightarrow> bool" where
  "readonly \<equiv> within any_reply (\<lambda>_. False)"

lemma within_bind:
  "within R A p \<Longrightarrow> (\<And>a. within R A (f a)) \<Longrightarrow> within R A (bind p f)"
  by (induction p) auto

lemma within_mono:
  "within R A p \<Longrightarrow> (\<And>i r. R' i r \<Longrightarrow> R i r) \<Longrightarrow> (\<And>c. A c \<Longrightarrow> A' c) \<Longrightarrow> within R' A' p"
  by (induction p) auto

lemma readonly_within: "readonly p \<Longrightarrow> within R A p"
  by (erule within_mono) auto

section \<open>Interleavings\<close>

inductive interleaving ::
  "('a prog \<Rightarrow> bool) \<Rightarrow> 'a prog list \<Rightarrow> world \<Rightarrow> 'a prog list \<Rightarrow> world \<Rightarrow> bool"
  for P ps0 w0 where
  start: "interleaving P ps0 w0 ps0 w0"
| arrive: "interleaving P ps0 w0 ps w \<Longrightarrow> P p \<Longrightarrow> interleaving P ps0 w0 (ps @ [p]) w"
| advance: "interleaving P ps0 w0 ps w \<Longrightarrow> i < length ps \<Longrightarrow> step e (ps ! i) w = (p, w')
    \<Longrightarrow> interleaving P ps0 w0 (ps[i := p]) w'"

text \<open>What one call does to the shared state: nothing, a log line, or one change.\<close>

lemma under_fault_world:
  "snd (under_fault e err stmt w) = w \<or> snd (under_fault e err stmt w) = snd (stmt w)"
  by (simp add: under_fault_def split: option.split fault.split)

lemma under_fault_cases:
  "under_fault e err stmt w = (r, w') \<Longrightarrow>
     (r = fst (stmt w) \<and> w' = snd (stmt w))
     \<or> ((\<exists>msg. r = err (PgError msg)) \<and> (w' = w \<or> w' = snd (stmt w)))"
  by (auto simp: under_fault_def split: option.splits fault.splits)

lemmas read_statements =
  ping_def sat_select_def sat_select_all_def user_select_name_def user_select_id_def user_select_all_def

text \<open>A program run alone is the interleaving of a pool that holds only that program.\<close>

lemma advance_single:
  "interleaving P ps0 w0 [p] w \<Longrightarrow> step e p w = (p', w') \<Longrightarrow> interleaving P ps0 w0 [p'] w'"
  using interleaving.advance [of P ps0 w0 "[p]" w 0 e p' w'] by simp

lemma run_from_interleaving:
  "interleaving P ps0 w0 [p] w \<Longrightarrow> run \<omega> n p w = (a, n', w') \<Longrightarrow> interleaving P ps0 w0 [Done a] w'"
proof (induction p arbitrary: n w)
  case (Done b)
  then show ?case by simp
next
  case (LogInfo l p)
  show ?case
    using LogInfo.IH [OF advance_single [OF LogInfo.prems(1)]] LogInfo.prems(2) by simp
qed (simp add: Let_def split: prod.splits, drule_tac e = "\<omega> n" in advance_single, simp, blast)+

lemma run_is_interleaving:
  "run \<omega> n p w = (a, n', w') \<Longrightarrow> interleaving P [p] w [Done a] w'"
  by (rule run_from_interleaving [OF interleaving.start])

locale store_invariant =
  fixes R :: "uuid \<Rightarrow> go_error + satellite \<Rightarrow> bool"
    and A :: "change \<Rightarrow> bool"
    and I :: "world \<Rightarrow> bool"
  assumes reply_error: "R i (Inl err)"
    and reply_row: "I w \<Longrightarrow> sel_where sat_ID i (satellites w) = Some row \<Longrightarrow> R i (Inr row)"
    and change_keeps: "I w \<Longrightarrow> A c \<Longrightarrow> I (effect e c w)"
    and log_keeps: "I w \<Longrightarrow> I (w\<lparr>request_log := l\<rparr>)"
begin

lemma reply_select: "I w \<Longrightarrow> under_fault e Inl (sat_select i) w = (r, w') \<Longrightarrow> R i r"
  by (auto simp: sat_select_def row_reply_def reply_error intro: reply_row
      dest!: under_fault_cases split: option.splits)

lemma step_keeps:
  assumes "within R A p" "I w" "step e p w = (p', w')"
  shows "within R A p' \<and> I w'"
  using assms
proof (cases p)
  case (SatSelect i k)
  then obtain r where "under_fault e Inl (sat_select i) w = (r, w')" "p' = k r"
    using assms(3) by (cases "under_fault e Inl (sat_select i) w") auto
  then show ?thesis
    using assms(1,2) SatSelect reply_select
    by (auto simp: sat_select_def dest!: under_fault_cases)
qed (auto simp: apfst_def map_prod_def read_statements log_keeps
      dest!: under_fault_cases dest: change_keeps [where e = e] split: prod.splits)

theorem interleaving_keeps:
  assumes "interleaving P ps0 w0 ps w" "\<And>p. P p \<Longrightarrow> within R A p"
    and "list_all (within R A) ps0" "I w0"
  shows "list_all (within R A) ps \<and> I w"
  using assms
proof (induction rule: interleaving.induct)
  case (advance ps w i e p w')
  then have "within R A p \<and> I w'"
    using step_keeps [of "ps ! i" w e p w'] by (auto simp: list_all_length)
  then show ?case using advance by (auto simp: list_all_length nth_list_update)
qed auto

theorem run_keeps:
  assumes "within R A p" "I w" "run \<omega> n p w = (a, n', w')"
  shows "I w'"
  using interleaving_keeps [of "\<lambda>_. False" "[p]" w "[Done a]" w'] run_is_interleaving [OF assms(3)] assms(1,2)
  by simp

end

section \<open>Invariants of the store\<close>

text \<open>The PRIMARY KEY and UNIQUE constraints of the migrations.\<close>

definition db_ok :: "world \<Rightarrow> bool" where
  "db_ok w \<longleftrightarrow>
     distinct (map sat_ID (satellites w)) \<and> distinct (map sat_Name (satellites w))
     \<and> distinct (map user_ID (users w)) \<and> distinct (map user_Username (users w))"

lemma effect_db_ok: "db_ok w \<Longrightarrow> db_ok (effect e c w)"
  by (cases c)
     (auto simp: db_ok_def sat_insert_def user_insert_def sat_update_region_def sat_delete_def
       sat_heartbeat_def user_delete_def Let_def map_upd_where distinct_del_where sel_where_None_iff)

interpretation schema: store_invariant any_reply "\<lambda>_. True" db_ok
  by unfold_locales (simp_all add: effect_db_ok, simp add: db_ok_def)

lemma within_any: "within any_reply (\<lambda>_. True) p"
  by (induction p) auto

text \<open>Tables that no allowed statement writes stay as they are.\<close>

definition user_change :: "change \<Rightarrow> bool" where
  "user_change c \<longleftrightarrow> (case c of InsertUser _ _ _ \<Rightarrow> True | DeleteUser _ \<Rightarrow> True | _ \<Rightarrow> False)"

interpretation same_users: store_invariant any_reply "\<lambda>c. \<not> user_change c" "\<lambda>w. users w = us" for us
proof (unfold_locales, goal_cases)
  case (3 w c e)
  then show ?case
    by (cases c) (auto simp: user_change_def sat_insert_def sat_update_region_def sat_delete_def
      sat_heartbeat_def Let_def)
qed simp_all

interpretation same_satellites: store_invariant any_reply user_change "\<lambda>w. satellites w = ss" for ss
proof (unfold_locales, goal_cases)
  case (3 w c e)
  then show ?case
    by (cases c) (auto simp: user_change_def user_insert_def user_delete_def Let_def)
qed simp_all

lemma readonly_run:
  assumes "readonly p" "run \<omega> n p w = (a, n', w')"
  shows "satellites w' = satellites w \<and> users w' = users w"
  using same_users.run_keeps [OF readonly_within [OF assms(1)] refl assms(2)]
    same_satellites.run_keeps [OF readonly_within [OF assms(1)] refl assms(2)] by simp

end
