(* ===== verification/Principal.thy ===== *)
theory Principal
  imports Concurrency
begin

text \<open>
  Typed principals (\<open>auth/principal.go\<close>): the identity the server creates after authentication.
  Kinds and roles are strings in the source; the constructors go through \<open>Validate\<close>, which
  enforces the cross-field rules of ADR 0001.
\<close>

type_synonym ActorKind = bytes
type_synonym HumanRole = bytes

definition ActorHuman :: ActorKind where "ActorHuman = ''human''"
definition ActorOperator :: ActorKind where "ActorOperator = ''operator''"
definition ActorAgent :: ActorKind where "ActorAgent = ''agent''"
definition RoleAdmin :: HumanRole where "RoleAdmin = ''admin''"
definition RoleViewer :: HumanRole where "RoleViewer = ''viewer''"

lemmas role_defs = ActorHuman_def ActorOperator_def ActorAgent_def RoleAdmin_def RoleViewer_def

lemma kinds_distinct [simp]:
  "ActorHuman \<noteq> ActorOperator" "ActorOperator \<noteq> ActorHuman" "ActorHuman \<noteq> ActorAgent"
  "ActorAgent \<noteq> ActorHuman" "ActorOperator \<noteq> ActorAgent" "ActorAgent \<noteq> ActorOperator"
  "RoleAdmin \<noteq> RoleViewer" "RoleViewer \<noteq> RoleAdmin" "RoleAdmin \<noteq> []" "RoleViewer \<noteq> []"
  "[] \<noteq> RoleAdmin" "[] \<noteq> RoleViewer"
  by (simp_all add: role_defs)

record principal =
  p_kind :: ActorKind
  p_subject :: bytes
  p_role :: HumanRole
  p_satelliteID :: uuid

text \<open>The zero \<open>Principal{}\<close>, returned beside every error.\<close>

definition zero_principal :: principal where
  "zero_principal = \<lparr>p_kind = [], p_subject = [], p_role = [], p_satelliteID = uuid_Nil\<rparr>"

definition invalidPrincipal :: "bytes \<Rightarrow> go_error" where
  "invalidPrincipal reason = ErrInvalidPrincipal reason"

text \<open>\<open>Validate\<close>: the first violated rule, in the order of the source; \<open>None\<close> is Go's nil error.\<close>

definition principal_Validate :: "principal \<Rightarrow> go_error option" where
  "principal_Validate p =
     (if TrimSpace (p_subject p) = [] then Some (invalidPrincipal ''subject is required'')
      else if p_kind p = ActorHuman then
        (if p_role p \<noteq> RoleAdmin \<and> p_role p \<noteq> RoleViewer
         then Some (invalidPrincipal ''human role must be admin or viewer'')
         else if p_satelliteID p \<noteq> uuid_Nil
         then Some (invalidPrincipal ''human principal cannot bind a satellite'')
         else None)
      else if p_kind p = ActorOperator then
        (if p_role p \<noteq> []
         then Some (invalidPrincipal ''operator principal cannot have a human role'')
         else if p_satelliteID p \<noteq> uuid_Nil
         then Some (invalidPrincipal ''operator principal cannot bind a satellite'')
         else None)
      else if p_kind p = ActorAgent then
        (if p_role p \<noteq> []
         then Some (invalidPrincipal ''agent principal cannot have a human role'')
         else if p_satelliteID p = uuid_Nil
         then Some (invalidPrincipal ''agent principal requires a satellite binding'')
         else None)
      else Some (invalidPrincipal ''actor kind is not recognized''))"

definition newPrincipal :: "principal \<Rightarrow> go_error + principal" where
  "newPrincipal p = (case principal_Validate p of Some err \<Rightarrow> Inl err | None \<Rightarrow> Inr p)"

definition NewHumanPrincipal :: "bytes \<Rightarrow> HumanRole \<Rightarrow> go_error + principal" where
  "NewHumanPrincipal subject role =
     newPrincipal (zero_principal\<lparr>p_kind := ActorHuman, p_subject := subject, p_role := role\<rparr>)"

definition NewOperatorPrincipal :: "bytes \<Rightarrow> go_error + principal" where
  "NewOperatorPrincipal subject =
     newPrincipal (zero_principal\<lparr>p_kind := ActorOperator, p_subject := subject\<rparr>)"

definition NewAgentPrincipal :: "bytes \<Rightarrow> uuid \<Rightarrow> go_error + principal" where
  "NewAgentPrincipal subject satelliteID =
     newPrincipal (zero_principal\<lparr>p_kind := ActorAgent, p_subject := subject, p_satelliteID := satelliteID\<rparr>)"

text \<open>Accessors with Go's comma-ok form as an option.\<close>

definition principal_HumanRole :: "principal \<Rightarrow> HumanRole option" where
  "principal_HumanRole p = (if p_kind p \<noteq> ActorHuman then None else Some (p_role p))"

definition principal_SatelliteID :: "principal \<Rightarrow> uuid option" where
  "principal_SatelliteID p =
     (if p_kind p \<noteq> ActorAgent \<or> p_satelliteID p = uuid_Nil then None else Some (p_satelliteID p))"

section \<open>Identity invariants of ADR 0001\<close>

text \<open>
  The invariants as the ADR lists them, one clause per actor kind, independent of the order of
  the checks in the code.
\<close>

definition adr_principal :: "principal \<Rightarrow> bool" where
  "adr_principal p \<longleftrightarrow>
     TrimSpace (p_subject p) \<noteq> []
     \<and> p_kind p \<in> {ActorHuman, ActorOperator, ActorAgent}
     \<and> (p_kind p = ActorHuman \<longleftrightarrow> p_role p \<in> {RoleAdmin, RoleViewer})
     \<and> (p_kind p \<noteq> ActorHuman \<longleftrightarrow> p_role p = [])
     \<and> (p_kind p = ActorAgent \<longleftrightarrow> p_satelliteID p \<noteq> uuid_Nil)"

lemma Validate_None_iff: "principal_Validate p = None \<longleftrightarrow> adr_principal p"
  by (auto simp: principal_Validate_def adr_principal_def)

text \<open>
  C29. \<open>Principal.Validate\<close> accepts exactly the principals that satisfy the identity invariants of
  ADR 0001: a non-blank subject, a known actor kind, an admin or viewer role exactly for humans,
  no role for machine actors, and a Satellite binding exactly for agents.
\<close>

theorem principal_Validate_iff_adr: "principal_Validate p = None \<longleftrightarrow> adr_principal p"
  by (rule Validate_None_iff)

lemma newPrincipal_Inr_iff: "newPrincipal p = Inr q \<longleftrightarrow> q = p \<and> principal_Validate p = None"
  by (auto simp: newPrincipal_def split: option.splits)

lemma newPrincipal_Inl: "newPrincipal p = Inl e \<Longrightarrow> \<exists>reason. e = ErrInvalidPrincipal reason"
  by (auto simp: newPrincipal_def principal_Validate_def invalidPrincipal_def
      split: option.splits if_splits)

lemma NewHumanPrincipal_Inr_iff:
  "NewHumanPrincipal s r = Inr p \<longleftrightarrow>
     TrimSpace s \<noteq> [] \<and> r \<in> {RoleAdmin, RoleViewer}
     \<and> p = \<lparr>p_kind = ActorHuman, p_subject = s, p_role = r, p_satelliteID = uuid_Nil\<rparr>"
  by (auto simp: NewHumanPrincipal_def newPrincipal_Inr_iff principal_Validate_def zero_principal_def)

lemma NewHumanPrincipal_Inl_iff:
  "(\<exists>e. NewHumanPrincipal s r = Inl e) \<longleftrightarrow> TrimSpace s = [] \<or> r \<notin> {RoleAdmin, RoleViewer}"
  by (metis (no_types, lifting) NewHumanPrincipal_Inr_iff obj_sumE sum.distinct(1))

lemma NewOperatorPrincipal_Inr_iff:
  "NewOperatorPrincipal s = Inr p \<longleftrightarrow>
     TrimSpace s \<noteq> []
     \<and> p = \<lparr>p_kind = ActorOperator, p_subject = s, p_role = [], p_satelliteID = uuid_Nil\<rparr>"
  by (auto simp: NewOperatorPrincipal_def newPrincipal_Inr_iff principal_Validate_def zero_principal_def)

lemma NewAgentPrincipal_Inr_iff:
  "NewAgentPrincipal s i = Inr p \<longleftrightarrow>
     TrimSpace s \<noteq> [] \<and> i \<noteq> uuid_Nil
     \<and> p = \<lparr>p_kind = ActorAgent, p_subject = s, p_role = [], p_satelliteID = i\<rparr>"
  by (auto simp: NewAgentPrincipal_def newPrincipal_Inr_iff principal_Validate_def zero_principal_def)

text \<open>
  The three constructors separate the actors. An error is always an invalid-principal error
  and is returned exactly for a blank subject, an unknown human role or a nil Satellite id;
  otherwise the principal has the given subject, its human role is readable exactly when it is
  human, and its Satellite binding exactly when it is an agent.
\<close>

theorem constructors_separate_actors:
  "(case NewHumanPrincipal s r of
      Inl e \<Rightarrow> (\<exists>reason. e = ErrInvalidPrincipal reason)
              \<and> \<not> (TrimSpace s \<noteq> [] \<and> r \<in> {RoleAdmin, RoleViewer})
    | Inr p \<Rightarrow> p_subject p = s \<and> principal_HumanRole p = Some r \<and> r \<in> {RoleAdmin, RoleViewer}
              \<and> principal_SatelliteID p = None \<and> adr_principal p)
   \<and> (case NewOperatorPrincipal s of
      Inl e \<Rightarrow> (\<exists>reason. e = ErrInvalidPrincipal reason) \<and> TrimSpace s = []
    | Inr p \<Rightarrow> p_subject p = s \<and> principal_HumanRole p = None
              \<and> principal_SatelliteID p = None \<and> adr_principal p)
   \<and> (case NewAgentPrincipal s i of
      Inl e \<Rightarrow> (\<exists>reason. e = ErrInvalidPrincipal reason) \<and> (TrimSpace s = [] \<or> i = uuid_Nil)
    | Inr p \<Rightarrow> p_subject p = s \<and> principal_HumanRole p = None
              \<and> principal_SatelliteID p = Some i \<and> adr_principal p)"
  (is "?human \<and> ?operator \<and> ?agent")
proof (intro conjI)
  show ?human
    by (cases "NewHumanPrincipal s r")
       (auto simp: NewHumanPrincipal_Inr_iff principal_HumanRole_def principal_SatelliteID_def
         adr_principal_def NewHumanPrincipal_def newPrincipal_def principal_Validate_def
         invalidPrincipal_def zero_principal_def split: option.splits if_splits)
  show ?operator
    by (cases "NewOperatorPrincipal s")
       (auto simp: NewOperatorPrincipal_Inr_iff principal_HumanRole_def principal_SatelliteID_def
         adr_principal_def NewOperatorPrincipal_def newPrincipal_def principal_Validate_def
         invalidPrincipal_def zero_principal_def split: option.splits if_splits)
  show ?agent
    by (cases "NewAgentPrincipal s i")
       (auto simp: NewAgentPrincipal_Inr_iff principal_HumanRole_def principal_SatelliteID_def
         adr_principal_def NewAgentPrincipal_def newPrincipal_def principal_Validate_def
         invalidPrincipal_def zero_principal_def split: option.splits if_splits)
qed

end
