(* ===== verification/Jwt.thy ===== *)
theory Jwt
  imports Principal
begin

text \<open>
  Human JWTs (\<open>auth/jwt.go\<close>): the validated manager configuration, issuing and parsing. The
  golang-jwt package is a parameter \<open>jwt_lib\<close> of the model; what the code relies on is stated as
  the two contracts \<open>jwt_accepts_only_valid\<close> and \<open>jwt_reads_back\<close>, in the terms of the package's
  documentation of the parser options, the registered claims and \<open>ClaimsValidator\<close>.
\<close>

definition minimumJWTSecretBytes :: nat where
  "minimumJWTSecretBytes = 32"

text \<open>\<open>HumanTokenTTL = time.Hour\<close>, in nanoseconds.\<close>

definition HumanTokenTTL :: nanos where
  "HumanTokenTTL = 3600 * 1000000000"

record JWTConfig =
  cfg_Secret :: bytes
  cfg_Issuer :: bytes
  cfg_Audience :: bytes

text \<open>The claims; a \<open>NumericDate\<close> is a number of seconds since the epoch.\<close>

record Claims =
  c_ActorKind :: ActorKind
  c_Role :: HumanRole
  c_Issuer :: bytes
  c_Subject :: bytes
  c_Audience :: "bytes list"
  c_ExpiresAt :: "int option"
  c_NotBefore :: "int option"
  c_IssuedAt :: "int option"
  c_ID :: bytes

text \<open>\<open>jwt.NewNumericDate\<close> truncates to the package's precision of one second.\<close>

definition NewNumericDate :: "nanos \<Rightarrow> int" where
  "NewNumericDate t = t div 1000000000"

definition Claims_Validate :: "Claims \<Rightarrow> go_error option" where
  "Claims_Validate c =
     (if c_IssuedAt c = None then Some (ErrPlain ''issued-at claim is required'')
      else if c_ActorKind c \<noteq> ActorHuman then Some (ErrPlain ''actor kind must be human'')
      else case NewHumanPrincipal (c_Subject c) (c_Role c) of Inl err \<Rightarrow> Some err | Inr _ \<Rightarrow> None)"

record JWTManager =
  m_secret :: bytes
  m_issuer :: bytes
  m_audience :: bytes

definition NewJWTManager :: "JWTConfig \<Rightarrow> go_error + JWTManager" where
  "NewJWTManager config =
     (if length (cfg_Secret config) < minimumJWTSecretBytes \<or> TrimSpace (cfg_Secret config) = []
      then Inl (ErrInvalidJWTConfig
                  (''secret must contain at least '' @ itoa minimumJWTSecretBytes @ '' bytes''))
      else let issuer = TrimSpace (cfg_Issuer config) in
        if issuer = [] then Inl (ErrInvalidJWTConfig ''issuer is required'')
        else let audience = TrimSpace (cfg_Audience config) in
          if audience = [] then Inl (ErrInvalidJWTConfig ''audience is required'')
          else Inr \<lparr>m_secret = cfg_Secret config, m_issuer = issuer, m_audience = audience\<rparr>)"

section \<open>The golang-jwt package as a parameter\<close>

record parser_options =
  po_ValidMethods :: "bytes list"
  po_Issuer :: bytes
  po_Audience :: bytes
  po_ExpirationRequired :: bool
  po_IssuedAt :: bool

text \<open>
  \<open>lib_SignedString alg claims key\<close> signs; \<open>lib_verifies alg key token\<close> says that the token's
  signature was made with that algorithm and key; \<open>lib_claims\<close> reads the claims in the payload of a
  token without checking anything; \<open>lib_ParseWithClaims\<close> takes the options, the
  claims' \<open>Validate\<close> method, the key the key function returns, the time and the token, and returns
  an error text or the claims and the token's \<open>Valid\<close> flag.
\<close>

record jwt_lib =
  lib_SignedString :: "bytes \<Rightarrow> Claims \<Rightarrow> bytes \<Rightarrow> bytes + bytes"
  lib_verifies :: "bytes \<Rightarrow> bytes \<Rightarrow> bytes \<Rightarrow> bool"
  lib_claims :: "bytes \<Rightarrow> Claims option"
  lib_ParseWithClaims ::
    "parser_options \<Rightarrow> (Claims \<Rightarrow> go_error option) \<Rightarrow> bytes \<Rightarrow> nanos \<Rightarrow> bytes \<Rightarrow> bytes + (Claims \<times> bool)"

text \<open>
  The registered-claim checks the parser options ask for, as golang-jwt documents them. An empty
  expected issuer or audience switches the check off.
\<close>

definition registered_claims_ok :: "parser_options \<Rightarrow> nanos \<Rightarrow> Claims \<Rightarrow> bool" where
  "registered_claims_ok opts now c \<longleftrightarrow>
     (po_Issuer opts \<noteq> [] \<longrightarrow> c_Issuer c = po_Issuer opts)
     \<and> (po_Audience opts \<noteq> [] \<longrightarrow> po_Audience opts \<in> set (c_Audience c))
     \<and> (case c_ExpiresAt c of None \<Rightarrow> \<not> po_ExpirationRequired opts | Some x \<Rightarrow> now < x * 1000000000)
     \<and> (case c_IssuedAt c of None \<Rightarrow> True | Some x \<Rightarrow> po_IssuedAt opts \<longrightarrow> x * 1000000000 \<le> now)
     \<and> (case c_NotBefore c of None \<Rightarrow> True | Some x \<Rightarrow> x * 1000000000 \<le> now)"

text \<open>
  A token is only accepted if its signature was made with an allowed algorithm and the key, the
  registered claims in it pass and the claims' own \<open>Validate\<close> returns nil.
\<close>

definition jwt_accepts_only_valid :: "jwt_lib \<Rightarrow> bool" where
  "jwt_accepts_only_valid J \<longleftrightarrow>
     (\<forall>opts validate key now token c.
        lib_ParseWithClaims J opts validate key now token = Inr (c, True) \<longrightarrow>
          (\<exists>alg \<in> set (po_ValidMethods opts). lib_verifies J alg key token)
          \<and> lib_claims J token = Some c \<and> registered_claims_ok opts now c \<and> validate c = None)"

text \<open>The string claims survive the JSON encoding of the token when they are valid UTF-8.\<close>

definition claims_utf8 :: "Claims \<Rightarrow> bool" where
  "claims_utf8 c \<longleftrightarrow>
     list_all valid_utf8 ([c_ActorKind c, c_Role c, c_Issuer c, c_Subject c, c_ID c] @ c_Audience c)"

text \<open>
  A signed token carries the claims it was made from, and it is accepted whenever its algorithm is
  allowed and the checks pass at the time of parsing.
\<close>

definition jwt_reads_back :: "jwt_lib \<Rightarrow> bool" where
  "jwt_reads_back J \<longleftrightarrow>
     (\<forall>key token alg c.
        lib_SignedString J alg c key = Inr token \<longrightarrow> claims_utf8 c \<longrightarrow>
          lib_claims J token = Some c
          \<and> (\<forall>opts validate now.
               alg \<in> set (po_ValidMethods opts) \<longrightarrow> registered_claims_ok opts now c \<longrightarrow>
               validate c = None \<longrightarrow>
                 lib_ParseWithClaims J opts validate key now token = Inr (c, True)))"

section \<open>Issuing and parsing\<close>

definition human_claims :: "JWTManager \<Rightarrow> principal \<Rightarrow> HumanRole \<Rightarrow> nanos \<Rightarrow> Claims" where
  "human_claims m p role now =
     \<lparr>c_ActorKind = p_kind p, c_Role = role, c_Issuer = m_issuer m, c_Subject = p_subject p,
      c_Audience = [m_audience m], c_ExpiresAt = Some (NewNumericDate (now + HumanTokenTTL)),
      c_NotBefore = None, c_IssuedAt = Some (NewNumericDate now), c_ID = []\<rparr>"

definition GenerateHumanToken :: "jwt_lib \<Rightarrow> JWTManager \<Rightarrow> bytes \<Rightarrow> HumanRole \<Rightarrow> (go_error + bytes) prog" where
  "GenerateHumanToken J m subject role =
     (case NewHumanPrincipal subject role of
        Inl err \<Rightarrow> Done (Inl err)
      | Inr p \<Rightarrow>
          Now (\<lambda>now.
            Done (case lib_SignedString J ''HS256'' (human_claims m p role now) (m_secret m) of
                    Inl msg \<Rightarrow> Inl (ErrPlain msg) | Inr token \<Rightarrow> Inr token)))"

definition human_parser_options :: "JWTManager \<Rightarrow> parser_options" where
  "human_parser_options m =
     \<lparr>po_ValidMethods = [''HS256''], po_Issuer = m_issuer m, po_Audience = m_audience m,
      po_ExpirationRequired = True, po_IssuedAt = True\<rparr>"

text \<open>\<open>ParseHumanToken\<close> with the clock read once, by the validator of the package.\<close>

definition parse_human_token_at :: "jwt_lib \<Rightarrow> JWTManager \<Rightarrow> nanos \<Rightarrow> bytes \<Rightarrow> go_error + principal" where
  "parse_human_token_at J m now token =
     (case lib_ParseWithClaims J (human_parser_options m) Claims_Validate (m_secret m) now token of
        Inl _ \<Rightarrow> Inl (ErrInvalidToken ''validation failed'')
      | Inr (c, valid) \<Rightarrow>
          (if \<not> valid then Inl (ErrInvalidToken ''validation failed'')
           else case NewHumanPrincipal (c_Subject c) (c_Role c) of
                  Inl err \<Rightarrow> Inl (ErrInvalidToken (err_text err))
                | Inr p \<Rightarrow> Inr p))"

definition ParseHumanToken :: "jwt_lib \<Rightarrow> JWTManager \<Rightarrow> bytes \<Rightarrow> (go_error + principal) prog" where
  "ParseHumanToken J m token = Now (\<lambda>now. Done (parse_human_token_at J m now token))"

section \<open>Properties\<close>

lemma Claims_Validate_None_iff:
  "Claims_Validate c = None \<longleftrightarrow>
     c_IssuedAt c \<noteq> None \<and> c_ActorKind c = ActorHuman
     \<and> TrimSpace (c_Subject c) \<noteq> [] \<and> c_Role c \<in> {RoleAdmin, RoleViewer}"
  using NewHumanPrincipal_Inr_iff [of "c_Subject c" "c_Role c"]
    NewHumanPrincipal_Inl_iff [of "c_Subject c" "c_Role c"]
  by (auto simp: Claims_Validate_def split: sum.split)

definition manager_ok :: "JWTManager \<Rightarrow> bool" where
  "manager_ok m \<longleftrightarrow>
     minimumJWTSecretBytes \<le> length (m_secret m) \<and> TrimSpace (m_secret m) \<noteq> []
     \<and> m_issuer m \<noteq> [] \<and> m_audience m \<noteq> []"

text \<open>
  \<open>NewJWTManager\<close> returns a manager exactly when the secret has at least 32 bytes and is not
  blank and neither issuer nor audience is blank; the manager then holds the secret unchanged and
  the trimmed, non-empty issuer and audience, and every other configuration is refused with an
  invalid-configuration error.
\<close>

theorem NewJWTManager_spec:
  "(case NewJWTManager cfg of
      Inl e \<Rightarrow> (\<exists>reason. e = ErrInvalidJWTConfig reason)
              \<and> (length (cfg_Secret cfg) < 32 \<or> TrimSpace (cfg_Secret cfg) = []
                 \<or> TrimSpace (cfg_Issuer cfg) = [] \<or> TrimSpace (cfg_Audience cfg) = [])
    | Inr m \<Rightarrow> m = \<lparr>m_secret = cfg_Secret cfg, m_issuer = TrimSpace (cfg_Issuer cfg),
                    m_audience = TrimSpace (cfg_Audience cfg)\<rparr>
              \<and> manager_ok m)"
  by (auto simp: NewJWTManager_def manager_ok_def minimumJWTSecretBytes_def Let_def)

lemma NewJWTManager_ok: "NewJWTManager cfg = Inr m \<Longrightarrow> manager_ok m"
  by (auto simp: NewJWTManager_def manager_ok_def Let_def split: if_splits)

text \<open>
  C6. Whatever token \<open>ParseHumanToken\<close> accepts is a live human credential of this deployment: its
  signature was made with HS256 and the manager's secret, and the principal is a human with an
  admin or viewer role, taken from the claims the token carries, which have the manager's issuer
  and audience, an issue time not in the future and an expiry after now. This needs only that golang-jwt performs the checks
  it is asked for, and that the manager came from \<open>NewJWTManager\<close>: with an empty issuer or
  audience the package would not check them. The list of known gaps in \<open>docs/api-design.md\<close> still says that
  issuer, audience, subject, algorithm and actor kind are not completely enforced; the code enforces them.
\<close>

theorem parsed_token_is_live_human:
  assumes lib: "jwt_accepts_only_valid J" and mgr: "NewJWTManager cfg = Inr m"
    and acc: "parse_human_token_at J m now token = Inr p"
  shows "lib_verifies J ''HS256'' (m_secret m) token \<and> p_kind p = ActorHuman
     \<and> p_role p \<in> {RoleAdmin, RoleViewer} \<and> adr_principal p
     \<and> (\<exists>c iat ex. lib_claims J token = Some c \<and> c_Subject c = p_subject p \<and> c_Role c = p_role p \<and> c_ActorKind c = ActorHuman
          \<and> c_Issuer c = m_issuer m \<and> m_audience m \<in> set (c_Audience c)
          \<and> c_IssuedAt c = Some iat \<and> iat * 1000000000 \<le> now
          \<and> c_ExpiresAt c = Some ex \<and> now < ex * 1000000000)"
proof -
  from acc obtain c where
    parse: "lib_ParseWithClaims J (human_parser_options m) Claims_Validate (m_secret m) now token = Inr (c, True)"
    and p: "NewHumanPrincipal (c_Subject c) (c_Role c) = Inr p"
    by (auto simp: parse_human_token_at_def split: sum.splits prod.splits if_splits)
  from lib parse have sig: "lib_verifies J ''HS256'' (m_secret m) token"
    and reg: "registered_claims_ok (human_parser_options m) now c"
    and val: "Claims_Validate c = None" and pay: "lib_claims J token = Some c"
    unfolding jwt_accepts_only_valid_def by (fastforce simp: human_parser_options_def)+
  have "m_issuer m \<noteq> []" "m_audience m \<noteq> []"
    using NewJWTManager_ok [OF mgr] by (simp_all add: manager_ok_def)
  with reg val obtain iat ex where "c_Issuer c = m_issuer m" "m_audience m \<in> set (c_Audience c)"
    "c_IssuedAt c = Some iat" "iat * 1000000000 \<le> now" "c_ExpiresAt c = Some ex" "now < ex * 1000000000"
    "c_ActorKind c = ActorHuman"
    by (auto simp: registered_claims_ok_def human_parser_options_def Claims_Validate_None_iff
        split: option.splits)
  then have "\<exists>c iat ex. lib_claims J token = Some c \<and> c_Subject c = p_subject p \<and> c_Role c = p_role p
      \<and> c_ActorKind c = ActorHuman \<and> c_Issuer c = m_issuer m \<and> m_audience m \<in> set (c_Audience c)
      \<and> c_IssuedAt c = Some iat \<and> iat * 1000000000 \<le> now
      \<and> c_ExpiresAt c = Some ex \<and> now < ex * 1000000000"
    using p pay by (intro exI [of _ c] exI [of _ iat] exI [of _ ex]) (auto simp: NewHumanPrincipal_Inr_iff)
  moreover have "p_kind p = ActorHuman" "p_role p \<in> {RoleAdmin, RoleViewer}" "adr_principal p"
    using p by (auto simp: NewHumanPrincipal_Inr_iff adr_principal_def)
  ultimately show ?thesis using sig by blast
qed

text \<open>The window in which an issued token is accepted, in nanoseconds.\<close>

lemma NewNumericDate_bounds: "NewNumericDate t * 1000000000 \<le> t" "t < (NewNumericDate t + 1) * 1000000000"
  unfolding NewNumericDate_def by (simp_all add: distrib_right)

lemma NewNumericDate_TTL: "NewNumericDate (t + HumanTokenTTL) = NewNumericDate t + 3600"
  unfolding NewNumericDate_def HumanTokenTTL_def by simp

lemma human_claims_registered_iff:
  "registered_claims_ok (human_parser_options m) now (human_claims m p role issued) \<longleftrightarrow>
     NewNumericDate issued * 1000000000 \<le> now
     \<and> now < (NewNumericDate issued + 3600) * 1000000000"
  by (auto simp: registered_claims_ok_def human_parser_options_def human_claims_def NewNumericDate_TTL)

lemma human_claims_valid:
  assumes "NewHumanPrincipal s r = Inr p"
  shows "Claims_Validate (human_claims m p r issued) = None"
  using assms by (auto simp: Claims_Validate_None_iff human_claims_def NewHumanPrincipal_Inr_iff)

lemma issued_token_accepted_iff:
  assumes acc: "jwt_accepts_only_valid J" and rb: "jwt_reads_back J"
    and p: "NewHumanPrincipal s r = Inr p"
    and utf8: "list_all valid_utf8 [s, m_issuer m, m_audience m]"
    and sign: "lib_SignedString J ''HS256'' (human_claims m p r issued) (m_secret m) = Inr token"
  shows "parse_human_token_at J m now token =
    (if NewNumericDate issued * 1000000000 \<le> now \<and> now < (NewNumericDate issued + 3600) * 1000000000
     then Inr p else Inl (ErrInvalidToken ''validation failed''))"
proof -
  let ?c = "human_claims m p r issued" and ?opts = "human_parser_options m"
  have c: "claims_utf8 ?c"
    using p utf8 by (auto simp: claims_utf8_def human_claims_def NewHumanPrincipal_Inr_iff role_defs
        intro!: valid_utf8_ascii) (simp_all add: byte_def)
  note rb' = rb [unfolded jwt_reads_back_def, rule_format, OF sign c]
  show ?thesis
  proof (cases "registered_claims_ok ?opts now ?c")
    case True
    then have "lib_ParseWithClaims J ?opts Claims_Validate (m_secret m) now token = Inr (?c, True)"
      using rb' human_claims_valid [OF p] by (auto simp: human_parser_options_def)
    moreover have "c_Subject ?c = s" "c_Role ?c = r"
      using p by (auto simp: human_claims_def NewHumanPrincipal_Inr_iff)
    ultimately show ?thesis
      using True p by (simp add: parse_human_token_at_def human_claims_registered_iff)
  next
    case False
    have "lib_ParseWithClaims J ?opts Claims_Validate (m_secret m) now token \<noteq> Inr (c', True)" for c'
      using acc rb' False unfolding jwt_accepts_only_valid_def by (metis option.inject)
    then show ?thesis
      using False by (auto simp: parse_human_token_at_def human_claims_registered_iff
          split: sum.split prod.split)
  qed
qed

text \<open>
  C7. A token that \<open>GenerateHumanToken\<close> issues identifies its subject for an hour, and no longer:
  parsing it with the same manager returns the human principal with that subject and role at
  every time from its issue until 3599 seconds later, and refuses it from 3600 seconds on. (The
  claims count whole seconds, so the last second depends on when in a second it was issued.)
\<close>

theorem issued_token_lifetime:
  assumes "jwt_accepts_only_valid J" "jwt_reads_back J"
    and "list_all valid_utf8 [s, m_issuer m, m_audience m]"
    and gen: "run \<omega> n (GenerateHumanToken J m s r) w = (Inr token, n', w')"
  shows "w' = w \<and>
    (\<forall>now. env_clock (\<omega> n) \<le> now \<and> now \<le> env_clock (\<omega> n) + 3599 * 1000000000 \<longrightarrow>
       parse_human_token_at J m now token =
         Inr \<lparr>p_kind = ActorHuman, p_subject = s, p_role = r, p_satelliteID = uuid_Nil\<rparr>)
    \<and> (\<forall>now \<ge> env_clock (\<omega> n) + 3600 * 1000000000.
       parse_human_token_at J m now token = Inl (ErrInvalidToken ''validation failed''))"
proof -
  let ?t = "env_clock (\<omega> n)"
  from gen obtain p where p: "NewHumanPrincipal s r = Inr p" and w: "w' = w"
    and sign: "lib_SignedString J ''HS256'' (human_claims m p r ?t) (m_secret m) = Inr token"
    by (auto simp: GenerateHumanToken_def split: sum.splits)
  note iff = issued_token_accepted_iff [OF assms(1,2) p assms(3) sign]
  have "p = \<lparr>p_kind = ActorHuman, p_subject = s, p_role = r, p_satelliteID = uuid_Nil\<rparr>"
    using p by (simp add: NewHumanPrincipal_Inr_iff)
  then show ?thesis
    using w NewNumericDate_bounds [of ?t] by (auto simp: iff distrib_right)
qed

end
