(* ===== verification/Auth.thy ===== *)
theory Auth
  imports Jwt
begin

text \<open>
  The HTTP side of authentication (\<open>auth/middleware.go\<close>, \<open>auth/handler.go\<close>): the bearer-token
  middleware, the role gate and the login handler. Handlers are programs from a request and a
  response writer to the writer they leave behind, or to a panic.
\<close>

section \<open>Handlers and external packages\<close>

datatype 'a outcome = Returned 'a | Panicked bytes

datatype ctx_val = CtxPrincipal principal | CtxScopes "bytes list" | CtxOther bytes

type_synonym request = "ctx_val http_request"
type_synonym handler = "request \<Rightarrow> response_writer \<Rightarrow> response_writer outcome prog"

text \<open>
  The third-party functions the handlers call: \<open>uuid.Parse\<close> (an error text or the id), the text
  form of UUIDs and the local zone, bcrypt (the random source, then the password), golang-jwt,
  and the parameter binder of oapi-codegen's runtime.
\<close>

record libs =
  uuid_Parse :: "bytes \<Rightarrow> bytes + uuid"
  marshal :: marshal_env
  bcrypt_Generate :: "nat \<Rightarrow> bytes \<Rightarrow> bytes + bytes"
  bcrypt_Compare :: "bytes \<Rightarrow> bytes \<Rightarrow> bool"
  jwt :: jwt_lib
  bind_UUID :: "bytes \<Rightarrow> bytes + uuid"

abbreviation returned :: "response_writer \<Rightarrow> response_writer outcome prog" where
  "returned w \<equiv> Done (Returned w)"

section \<open>Principals in the request context\<close>

definition principalContextKey :: ctx_key where
  "principalContextKey = ContextKey ''principal''"

text \<open>A principal is only handed out if it is one and is valid.\<close>

definition PrincipalFromContext :: "ctx_val ctx \<Rightarrow> principal option" where
  "PrincipalFromContext ctx =
     (case ctx_Value ctx principalContextKey of
        Some (CtxPrincipal p) \<Rightarrow> (if principal_Validate p \<noteq> None then None else Some p)
      | _ \<Rightarrow> None)"

definition withPrincipal :: "ctx_val ctx \<Rightarrow> principal \<Rightarrow> ctx_val ctx" where
  "withPrincipal ctx p = WithValue principalContextKey (CtxPrincipal p) ctx"

definition unauthorized_body :: "bytes \<Rightarrow> bytes" where
  "unauthorized_body msg =
     json_text (error_body ''UNAUTHORIZED'' msg)"

definition Middleware :: "jwt_lib \<Rightarrow> JWTManager \<Rightarrow> handler \<Rightarrow> handler" where
  "Middleware J tokens next r w =
     (let header = header_Get (req_Header r) ''Authorization'' in
      if header = [] \<or> \<not> HasPrefix header ''Bearer ''
      then returned (http_Error (unauthorized_body ''missing or invalid token'') 401 w)
      else bind (ParseHumanToken J tokens (TrimPrefix header ''Bearer '')) (\<lambda>res.
        case res of
          Inl _ \<Rightarrow> returned (http_Error (unauthorized_body ''invalid token'') 401 w)
        | Inr p \<Rightarrow> next (r\<lparr>req_ctx := withPrincipal (req_ctx r) p\<rparr>) w))"

definition forbidden_body :: bytes where
  "forbidden_body = json_text (error_body ''FORBIDDEN'' ''insufficient role'')"

text \<open>
  The gate reads the role of the zero principal when the context has none, as the source does;
  the comma-ok flags decide.
\<close>

definition RequireHumanRole :: "HumanRole \<Rightarrow> handler \<Rightarrow> handler" where
  "RequireHumanRole role next r w =
     (let ok = PrincipalFromContext (req_ctx r);
          p = (case ok of Some p \<Rightarrow> p | None \<Rightarrow> zero_principal);
          hr = principal_HumanRole p
      in if ok = None \<or> hr = None \<or> hr \<noteq> Some role
         then returned (http_Error forbidden_body 403 w)
         else next r w)"

section \<open>Login\<close>

definition invalid_credentials :: "response_writer \<Rightarrow> response_writer" where
  "invalid_credentials = writeError 401 ''INVALID_CREDENTIALS'' ''invalid username or password''"

text \<open>
  The query selects id, password\_hash and role by username; the id is scanned into a string,
  its text form.
\<close>

definition login_response :: "bytes \<Rightarrow> json" where
  "login_response token =
     JObj [(''token'', JStr token), (''expiresIn'', JNum (itoa (nat (HumanTokenTTL div 1000000000))))]"

definition Login :: "libs \<Rightarrow> JWTManager \<Rightarrow> handler" where
  "Login L tokens r w =
     (case decode_loginRequest (req_Body r) of
        None \<Rightarrow> returned (writeError 400 ''INVALID_BODY'' ''invalid request body'' w)
      | Some req \<Rightarrow>
          UserSelectName (lr_Username req) (\<lambda>q.
            case q of
              Inl _ \<Rightarrow> returned (invalid_credentials w)
            | Inr u \<Rightarrow>
                (if \<not> bcrypt_Compare L (user_PasswordHash u) (lr_Password req)
                 then returned (invalid_credentials w)
                 else bind (GenerateHumanToken (jwt L) tokens (show_id (marshal L) (user_ID u)) (user_Role u))
                   (\<lambda>t. case t of
                      Inl _ \<Rightarrow> returned (writeError 500 ''TOKEN_ERROR'' ''failed to generate token'' w)
                    | Inr token \<Rightarrow>
                        returned (EncodeTo (Some (login_response token))
                          (set_header ''Content-Type'' ''application/json'' w))))))"

section \<open>Properties of the middleware\<close>

lemma PrincipalFromContext_withPrincipal:
  "PrincipalFromContext (withPrincipal ctx p) = (if adr_principal p then Some p else None)"
  by (simp add: PrincipalFromContext_def withPrincipal_def WithValue_def ctx_Value_def
      Validate_None_iff)

lemma parse_human_token_adr:
  "parse_human_token_at J m now token = Inr p \<Longrightarrow> adr_principal p \<and> p_kind p = ActorHuman"
  by (auto simp: parse_human_token_at_def NewHumanPrincipal_Inr_iff adr_principal_def
      split: sum.splits prod.splits if_splits)

text \<open>What a bearer header authenticates to at a given time.\<close>

definition bearer_principal :: "jwt_lib \<Rightarrow> JWTManager \<Rightarrow> nanos \<Rightarrow> request \<Rightarrow> principal option" where
  "bearer_principal J m now r =
     (let header = header_Get (req_Header r) ''Authorization'' in
      if \<not> HasPrefix header ''Bearer '' then None
      else case parse_human_token_at J m now (TrimPrefix header ''Bearer '') of
             Inl _ \<Rightarrow> None | Inr p \<Rightarrow> Some p)"

lemma run_Middleware:
  "run \<omega> n (Middleware J m next r w) db =
     (if HasPrefix (header_Get (req_Header r) ''Authorization'') ''Bearer ''
      then case bearer_principal J m (env_clock (\<omega> n)) r of
             None \<Rightarrow> (Returned (http_Error (unauthorized_body ''invalid token'') 401 w), Suc n, db)
           | Some p \<Rightarrow> run \<omega> (Suc n) (next (r\<lparr>req_ctx := withPrincipal (req_ctx r) p\<rparr>) w) db
      else (Returned (http_Error (unauthorized_body ''missing or invalid token'') 401 w), n, db))"
  by (auto simp: Middleware_def bearer_principal_def ParseHumanToken_def Let_def HasPrefix_def
      split: sum.split)

lemma RequireHumanRole_run:
  "RequireHumanRole role next r w =
     (if \<exists>p. PrincipalFromContext (req_ctx r) = Some p \<and> principal_HumanRole p = Some role
      then next r w else returned (http_Error forbidden_body 403 w))"
  by (auto simp: RequireHumanRole_def Let_def)

section \<open>Properties of login\<close>

lemma run_GenerateHumanToken_db: "snd (snd (run \<omega> n (GenerateHumanToken J m s r) db)) = db"
  by (simp add: GenerateHumanToken_def split: sum.split)

text \<open>
  C27. Login failures look alike. An undecodable body is 400. An unknown user, a wrong password and
  a database error all give the same 401 response, so the response does not tell whether the
  account exists; only a matching password gets past it. Login changes no table.
\<close>

theorem login_failures_look_alike:
  "case decode_loginRequest (req_Body r) of
     None \<Rightarrow> run \<omega> n (Login L m r w) db =
       (Returned (writeError 400 ''INVALID_BODY'' ''invalid request body'' w), n, db)
   | Some req \<Rightarrow>
       (case (env_fault (\<omega> n), sel_where user_Username (lr_Username req) (users db)) of
          (None, Some u) \<Rightarrow>
            (if bcrypt_Compare L (user_PasswordHash u) (lr_Password req)
             then (\<exists>w' n'. run \<omega> n (Login L m r w) db = (Returned w', n', db))
             else run \<omega> n (Login L m r w) db = (Returned (invalid_credentials w), Suc n, db))
        | _ \<Rightarrow> run \<omega> n (Login L m r w) db = (Returned (invalid_credentials w), Suc n, db))"
  by (auto simp: Login_def under_fault_def user_select_name_def row_reply_def GenerateHumanToken_def Let_def
      split: option.splits sum.splits fault.splits)

text \<open>Login with the right password, as a computation.\<close>

lemma run_Login_ok:
  assumes "decode_loginRequest (req_Body r) = Some req" "env_fault (\<omega> n) = None"
    and "sel_where user_Username (lr_Username req) (users db) = Some u"
    and "bcrypt_Compare L (user_PasswordHash u) (lr_Password req)"
    and "NewHumanPrincipal (show_id (marshal L) (user_ID u)) (user_Role u) = Inr p"
    and "lib_SignedString (jwt L) ''HS256'' (human_claims m p (user_Role u) (env_clock (\<omega> (Suc n)))) (m_secret m) = Inr token"
  shows "run \<omega> n (Login L m r w) db =
    (Returned (EncodeTo (Some (login_response token)) (set_header ''Content-Type'' ''application/json'' w)), Suc (Suc n), db)"
  using assms
  by (simp add: Login_def under_fault_def user_select_name_def row_reply_def GenerateHumanToken_def)

end
