(* ===== verification/Sample.thy ===== *)
theory Sample
  imports Auth
begin

text \<open>
  A concrete deployment for worked examples: a token library that knows one token and meets both
  of golang-jwt's contracts, parsers for one path id, a password scheme, and fault-free
  environments. Only the examples that instantiate theorems use it.
\<close>

definition sample_secret :: bytes where
  "sample_secret = replicate 32 (CHR ''k'')"

definition sample_manager :: JWTManager where
  "sample_manager = \<lparr>m_secret = sample_secret, m_issuer = ''fc'', m_audience = ''api''\<rparr>"

definition sample_principal :: "bytes \<Rightarrow> principal" where
  "sample_principal role = \<lparr>p_kind = ''human'', p_subject = ''u1'', p_role = role, p_satelliteID = 0\<rparr>"

definition sample_claims :: "bytes \<Rightarrow> Claims" where
  "sample_claims role = human_claims sample_manager (sample_principal role) role 0"

definition sample_payload :: "bytes \<Rightarrow> Claims option" where
  "sample_payload token =
     (if token = ''tok'' then Some (sample_claims ''admin'')
      else if token = ''vtok'' then Some (sample_claims ''viewer'') else None)"

definition sample_jwt :: jwt_lib where
  "sample_jwt =
     \<lparr>lib_SignedString = (\<lambda>alg c key.
        if alg = ''HS256'' \<and> key = sample_secret \<and> c = sample_claims ''admin'' then Inr ''tok''
        else if alg = ''HS256'' \<and> key = sample_secret \<and> c = sample_claims ''viewer'' then Inr ''vtok''
        else Inl ''refused''),
      lib_verifies = (\<lambda>alg key token. alg = ''HS256'' \<and> key = sample_secret \<and> sample_payload token \<noteq> None),
      lib_claims = sample_payload,
      lib_ParseWithClaims = (\<lambda>opts validate key now token.
        case sample_payload token of
          None \<Rightarrow> Inl ''malformed''
        | Some c \<Rightarrow>
            (if ''HS256'' \<in> set (po_ValidMethods opts) \<and> key = sample_secret
                \<and> registered_claims_ok opts now c \<and> validate c = None
             then Inr (c, True) else Inl ''refused''))\<rparr>"

definition sample_libs :: libs where
  "sample_libs =
     \<lparr>uuid_Parse = (\<lambda>s. if s = ''7'' then Inr 7 else Inl ''invalid UUID''),
      marshal = \<lparr>zone = (\<lambda>_. 0), show_id = (\<lambda>_. ''u1'')\<rparr>,
      bcrypt_Generate = (\<lambda>salt pw. Inr (''hash:'' @ pw)),
      bcrypt_Compare = (\<lambda>hash pw. hash = ''hash:'' @ pw),
      jwt = sample_jwt,
      bind_UUID = (\<lambda>s. if s = ''7'' then Inr 7 else Inl ''invalid UUID'')\<rparr>"

definition sample_env :: env where
  "sample_env =
     \<lparr>env_clock = 5, env_rand = 0, env_fault = None, env_uuid = 7, env_now = 11,
      env_conflict = ''duplicate key'', env_scan = (\<lambda>_. 0)\<rparr>"

definition sample_user :: user where
  "sample_user = \<lparr>user_ID = 7, user_Username = ''ann'', user_PasswordHash = ''hash:pw'',
     user_Role = ''admin'', user_CreatedAt = 3\<rparr>"

definition sample_satellite :: satellite where
  "sample_satellite = \<lparr>sat_ID = 7, sat_Name = ''edge'', sat_Region = ''hcm'', sat_Status = ''Pending'',
     sat_ManagedBy = ''operator'', sat_LastSeenAt = None, sat_CreatedAt = 3\<rparr>"

definition sample_world :: world where
  "sample_world = \<lparr>satellites = [sample_satellite], users = [sample_user], request_log = []\<rparr>"

definition sample_request :: "bytes \<Rightarrow> bytes \<Rightarrow> bytes \<Rightarrow> request" where
  "sample_request method path token =
     \<lparr>req_Method = method, req_Path = path,
      req_Header = (if token = [] then [] else [(''Authorization'', [''Bearer '' @ token])]),
      req_Body = [], req_ctx = [], url_params = []\<rparr>"

lemma sample_jwt_accepts_only_valid: "jwt_accepts_only_valid sample_jwt"
  by (auto simp: jwt_accepts_only_valid_def sample_jwt_def split: if_splits option.splits)

lemma sample_jwt_reads_back: "jwt_reads_back sample_jwt"
  by (auto simp: jwt_reads_back_def sample_jwt_def sample_payload_def split: if_splits)

lemma TrimSpace_u1 [simp]: "TrimSpace ''u1'' = ''u1''"
  by (rule TrimSpace_id) (simp_all add: byte_def is_space_def)

lemma sample_claims_valid: "role \<in> {''admin'', ''viewer''} \<Longrightarrow> Claims_Validate (sample_claims role) = None"
  by (auto simp: Claims_Validate_None_iff sample_claims_def human_claims_def sample_principal_def role_defs)

lemma sample_claims_live: "registered_claims_ok (human_parser_options sample_manager) 5 (sample_claims role)"
  by (simp add: sample_claims_def human_claims_registered_iff NewNumericDate_def)

lemma sample_parse_role:
  assumes "role \<in> {''admin'', ''viewer''}" "sample_payload token = Some (sample_claims role)"
  shows "parse_human_token_at sample_jwt sample_manager 5 token = Inr (sample_principal role)"
proof -
  have "lib_ParseWithClaims sample_jwt (human_parser_options sample_manager) Claims_Validate
      (m_secret sample_manager) 5 token = Inr (sample_claims role, True)"
    using sample_claims_live sample_claims_valid [OF assms(1)] assms(2)
    by (simp add: sample_jwt_def sample_manager_def human_parser_options_def)
  moreover have "NewHumanPrincipal (c_Subject (sample_claims role)) (c_Role (sample_claims role)) = Inr (sample_principal role)"
    using assms(1)
    by (auto simp: NewHumanPrincipal_Inr_iff sample_claims_def human_claims_def sample_principal_def role_defs)
  ultimately show ?thesis by (simp add: parse_human_token_at_def)
qed

lemma sample_parse:
  "parse_human_token_at sample_jwt sample_manager 5 ''tok'' = Inr (sample_principal ''admin'')"
  "parse_human_token_at sample_jwt sample_manager 5 ''vtok'' = Inr (sample_principal ''viewer'')"
  by (rule sample_parse_role; simp add: sample_payload_def)+

lemma sample_canonical: "canonical_key ''Authorization'' = ''Authorization''"
  by code_simp

lemma sample_bearer:
  "bearer_principal sample_jwt sample_manager 5 (sample_request method path ''tok'') = Some (sample_principal ''admin'')"
  "bearer_principal sample_jwt sample_manager 5 (sample_request method path ''vtok'') = Some (sample_principal ''viewer'')"
  "bearer_principal sample_jwt sample_manager 5 (sample_request method path []) = None"
  by (simp_all add: bearer_principal_def sample_request_def header_Get_def sample_canonical HasPrefix_def
      TrimPrefix_def sample_parse Let_def)

lemma sample_utf8 [simp]: "valid_utf8 ''u1''" "valid_utf8 ''fc''" "valid_utf8 ''api''"
  by (rule valid_utf8_ascii; simp add: byte_def)+

section \<open>The token properties on the sample\<close>

definition sample_config :: JWTConfig where
  "sample_config = \<lparr>cfg_Secret = sample_secret, cfg_Issuer = ''fc'', cfg_Audience = ''api''\<rparr>"

lemma sample_secret_trim: "TrimSpace sample_secret = sample_secret"
  by (rule TrimSpace_id) (simp_all add: sample_secret_def numeral_eq_Suc byte_def is_space_def)

lemma sample_config_manager: "NewJWTManager sample_config = Inr sample_manager"
proof -
  have "TrimSpace ''fc'' = ''fc''" "TrimSpace ''api'' = ''api''"
    by (rule TrimSpace_id; simp add: byte_def is_space_def)+
  moreover have "length sample_secret = 32" "sample_secret \<noteq> []"
    by (simp_all add: sample_secret_def)
  ultimately show ?thesis
    by (simp add: NewJWTManager_def sample_config_def sample_manager_def sample_secret_trim minimumJWTSecretBytes_def)
qed

theorem parsed_token_is_live_human_witness:
  "p_kind (sample_principal ''admin'') = ActorHuman
     \<and> lib_verifies sample_jwt ''HS256'' (m_secret sample_manager) ''tok''"
  using parsed_token_is_live_human [OF sample_jwt_accepts_only_valid sample_config_manager sample_parse(1)]
  by blast

theorem issued_token_lifetime_witness:
  "parse_human_token_at sample_jwt sample_manager 3599000000000 ''tok'' = Inr (sample_principal ''admin'')
   \<and> parse_human_token_at sample_jwt sample_manager 3600000000000 ''tok'' = Inl (ErrInvalidToken ''validation failed'')"
proof -
  have gen: "run (\<lambda>_. sample_env\<lparr>env_clock := 0\<rparr>) 0 (GenerateHumanToken sample_jwt sample_manager ''u1'' ''admin'') sample_world =
      (Inr ''tok'', 1, sample_world)"
    by (simp add: GenerateHumanToken_def NewHumanPrincipal_def newPrincipal_def principal_Validate_def
        zero_principal_def role_defs sample_jwt_def sample_claims_def sample_principal_def sample_manager_def)
  have utf8: "list_all valid_utf8 [''u1'', m_issuer sample_manager, m_audience sample_manager]"
    by (simp add: sample_manager_def)
  show ?thesis
    using issued_token_lifetime [OF sample_jwt_accepts_only_valid sample_jwt_reads_back utf8 gen]
    by (simp add: sample_principal_def role_defs)
qed

end
