(* ===== verification/Satellite.thy ===== *)
theory Satellite
  imports Sample
begin

text \<open>
  The satellite package (\<open>satellite/repository.go\<close>, \<open>service.go\<close>, \<open>mapper.go\<close>, \<open>handler.go\<close>): the
  repository interface and its PostgreSQL implementation, the service with the managed-by guard,
  the mapping to the API models and the six HTTP handlers. A Go result \<open>(*Satellite, error)\<close> is an
  error or a possibly nil pointer.
\<close>

section \<open>Repository\<close>

record sat_repository =
  repo_Create :: "satellite \<Rightarrow> (go_error + satellite option) prog"
  repo_GetByID :: "uuid \<Rightarrow> (go_error + satellite option) prog"
  repo_List :: "(go_error + satellite option list) prog"
  repo_Update :: "uuid \<Rightarrow> bytes \<Rightarrow> (go_error + satellite option) prog"
  repo_Delete :: "uuid \<Rightarrow> go_error option prog"
  repo_UpdateHeartbeat :: "uuid \<Rightarrow> (go_error + satellite option) prog"

text \<open>The error check after a \<open>Scan\<close> that treats \<open>pgx.ErrNoRows\<close> as not found.\<close>

definition scan_or_nil :: "go_error + 'r \<Rightarrow> go_error + 'r option" where
  "scan_or_nil q =
     (case q of
        Inl err \<Rightarrow> (if err = ErrNoRows then Inr None else Inl err)
      | Inr out \<Rightarrow> Inr (Some out))"

definition pg_sat_Create :: "satellite \<Rightarrow> (go_error + satellite option) prog" where
  "pg_sat_Create s =
     SatInsert (sat_Name s) (sat_Region s) (sat_Status s) (sat_ManagedBy s)
       (\<lambda>q. Done (case q of Inl err \<Rightarrow> Inl err | Inr out \<Rightarrow> Inr (Some out)))"

definition pg_sat_GetByID :: "uuid \<Rightarrow> (go_error + satellite option) prog" where
  "pg_sat_GetByID i = SatSelect i (\<lambda>q. Done (scan_or_nil q))"

text \<open>
  The slice of pointers the row loop builds; a slice that comes beside a non-nil \<open>rows.Err()\<close> is
  dropped here, as both callers do.
\<close>

definition pg_sat_List :: "(go_error + satellite option list) prog" where
  "pg_sat_List = SatSelectAll (\<lambda>q. Done (case q of Inl err \<Rightarrow> Inl err | Inr rows \<Rightarrow> Inr (map Some rows)))"

definition pg_sat_Update :: "uuid \<Rightarrow> bytes \<Rightarrow> (go_error + satellite option) prog" where
  "pg_sat_Update i region = SatUpdateRegion region i (\<lambda>q. Done (scan_or_nil q))"

definition pg_sat_Delete :: "uuid \<Rightarrow> go_error option prog" where
  "pg_sat_Delete i = SatDelete i Done"

definition pg_sat_UpdateHeartbeat :: "uuid \<Rightarrow> (go_error + satellite option) prog" where
  "pg_sat_UpdateHeartbeat i = SatHeartbeat i (\<lambda>q. Done (scan_or_nil q))"

definition sat_PostgresRepository :: sat_repository where
  "sat_PostgresRepository =
     \<lparr>repo_Create = pg_sat_Create, repo_GetByID = pg_sat_GetByID, repo_List = pg_sat_List,
      repo_Update = pg_sat_Update, repo_Delete = pg_sat_Delete,
      repo_UpdateHeartbeat = pg_sat_UpdateHeartbeat\<rparr>"

lemmas pg_sat_defs =
  pg_sat_Create_def pg_sat_GetByID_def pg_sat_List_def pg_sat_Update_def pg_sat_Delete_def
  pg_sat_UpdateHeartbeat_def

lemma sat_PostgresRepository_sel [simp]:
  "repo_Create sat_PostgresRepository = pg_sat_Create"
  "repo_GetByID sat_PostgresRepository = pg_sat_GetByID"
  "repo_List sat_PostgresRepository = pg_sat_List"
  "repo_Update sat_PostgresRepository = pg_sat_Update"
  "repo_Delete sat_PostgresRepository = pg_sat_Delete"
  "repo_UpdateHeartbeat sat_PostgresRepository = pg_sat_UpdateHeartbeat"
  by (simp_all add: sat_PostgresRepository_def)

section \<open>Service\<close>

definition satService_Create :: "sat_repository \<Rightarrow> satellite \<Rightarrow> (go_error + satellite option) prog" where
  "satService_Create repo sat =
     repo_Create repo (sat\<lparr>sat_Status := ''Pending'', sat_ManagedBy := ''manual''\<rparr>)"

definition satService_GetByID :: "sat_repository \<Rightarrow> uuid \<Rightarrow> (go_error + satellite option) prog" where
  "satService_GetByID repo i = repo_GetByID repo i"

definition satService_List :: "sat_repository \<Rightarrow> (go_error + satellite option list) prog" where
  "satService_List repo = repo_List repo"

definition satService_Update ::
  "sat_repository \<Rightarrow> uuid \<Rightarrow> bytes \<Rightarrow> bool \<Rightarrow> (go_error + satellite option) prog" where
  "satService_Update repo i region fromOperator =
     bind (repo_GetByID repo i) (\<lambda>q.
       case q of
         Inl err \<Rightarrow> Done (Inl err)
       | Inr None \<Rightarrow> Done (Inr None)
       | Inr (Some sat) \<Rightarrow>
           (if sat_ManagedBy sat = ''operator'' \<and> \<not> fromOperator
            then Done (Inl ErrManagedByOperator)
            else repo_Update repo i region))"

definition satService_Delete :: "sat_repository \<Rightarrow> uuid \<Rightarrow> bool \<Rightarrow> go_error option prog" where
  "satService_Delete repo i fromOperator =
     bind (repo_GetByID repo i) (\<lambda>q.
       case q of
         Inl err \<Rightarrow> Done (Some err)
       | Inr None \<Rightarrow> Done None
       | Inr (Some sat) \<Rightarrow>
           (if sat_ManagedBy sat = ''operator'' \<and> \<not> fromOperator
            then Done (Some ErrManagedByOperator)
            else repo_Delete repo i))"

definition satService_Heartbeat :: "sat_repository \<Rightarrow> uuid \<Rightarrow> (go_error + satellite option) prog" where
  "satService_Heartbeat repo i = repo_UpdateHeartbeat repo i"

section \<open>Mapping to the API models\<close>

definition sat_ToDomainCreate :: "CreateSatelliteRequest \<Rightarrow> satellite" where
  "sat_ToDomainCreate req = zero_satellite\<lparr>sat_Name := csr_Name req, sat_Region := csr_Region req\<rparr>"

definition sat_ToResponse :: "satellite option \<Rightarrow> micros gen_Satellite" where
  "sat_ToResponse sp =
     (case sp of
        None \<Rightarrow> \<lparr>gs_CreatedAt = None, gs_Id = None, gs_LastSeenAt = None, gs_ManagedBy = None,
                 gs_Name = None, gs_Region = None, gs_Status = None\<rparr>
      | Some s \<Rightarrow> \<lparr>gs_CreatedAt = Some (sat_CreatedAt s), gs_Id = Some (sat_ID s),
                   gs_LastSeenAt = sat_LastSeenAt s, gs_ManagedBy = Some (sat_ManagedBy s),
                   gs_Name = Some (sat_Name s), gs_Region = Some (sat_Region s),
                   gs_Status = Some (sat_Status s)\<rparr>)"

text \<open>The append loop over the slice.\<close>

definition sat_ToResponseList :: "satellite option list \<Rightarrow> micros gen_Satellite list" where
  "sat_ToResponseList sats = foldl (\<lambda>resp s. resp @ [sat_ToResponse s]) [] sats"

section \<open>Handlers\<close>

definition operatorHeader :: bytes where
  "operatorHeader = ''X-FleetControl-Operator''"

definition fromOperator :: "request \<Rightarrow> bool" where
  "fromOperator r \<longleftrightarrow> header_Get (req_Header r) operatorHeader = ''true''"

definition satHandler_Create :: "libs \<Rightarrow> sat_repository \<Rightarrow> handler" where
  "satHandler_Create L repo r w =
     (case decode_CreateSatelliteRequest (req_Body r) of
        None \<Rightarrow> returned (writeError 400 ''INVALID_BODY'' ''invalid request body'' w)
      | Some req \<Rightarrow>
          bind (satService_Create repo (sat_ToDomainCreate req)) (\<lambda>q.
            case q of
              Inl err \<Rightarrow> returned (writeError 500 ''CREATE_FAILED'' (err_text err) w)
            | Inr created \<Rightarrow>
                returned (writeJSON 201 (marshal_Satellite (marshal L) (sat_ToResponse created)) w)))"

definition satHandler_List :: "libs \<Rightarrow> sat_repository \<Rightarrow> handler" where
  "satHandler_List L repo r w =
     bind (satService_List repo) (\<lambda>q.
       case q of
         Inl err \<Rightarrow> returned (writeError 500 ''LIST_FAILED'' (err_text err) w)
       | Inr sats \<Rightarrow>
           returned (writeJSON 200 (marshal_list (marshal_Satellite (marshal L)) (sat_ToResponseList sats)) w))"

definition satHandler_GetByID :: "libs \<Rightarrow> sat_repository \<Rightarrow> handler" where
  "satHandler_GetByID L repo r w =
     (case uuid_Parse L (URLParam r ''id'') of
        Inl _ \<Rightarrow> returned (writeError 400 ''INVALID_ID'' ''invalid satellite id'' w)
      | Inr i \<Rightarrow>
          bind (satService_GetByID repo i) (\<lambda>q.
            case q of
              Inl err \<Rightarrow> returned (writeError 500 ''GET_FAILED'' (err_text err) w)
            | Inr None \<Rightarrow> returned (writeError 404 ''NOT_FOUND'' ''satellite not found'' w)
            | Inr (Some sat) \<Rightarrow>
                returned (writeJSON 200 (marshal_Satellite (marshal L) (sat_ToResponse (Some sat))) w)))"

definition satHandler_Update :: "libs \<Rightarrow> sat_repository \<Rightarrow> handler" where
  "satHandler_Update L repo r w =
     (case uuid_Parse L (URLParam r ''id'') of
        Inl _ \<Rightarrow> returned (writeError 400 ''INVALID_ID'' ''invalid satellite id'' w)
      | Inr i \<Rightarrow>
          (case decode_UpdateSatelliteRequest (req_Body r) of
             None \<Rightarrow> returned (writeError 400 ''INVALID_BODY'' ''invalid request body'' w)
           | Some req \<Rightarrow>
               bind (satService_Update repo i (usr_Region req) (fromOperator r)) (\<lambda>q.
                 case q of
                   Inl err \<Rightarrow>
                     (if err = ErrManagedByOperator
                      then returned (writeError 403 ''SATELLITE_MANAGED_BY_OPERATOR'' (err_text err) w)
                      else returned (writeError 500 ''UPDATE_FAILED'' (err_text err) w))
                 | Inr None \<Rightarrow> returned (writeError 404 ''NOT_FOUND'' ''satellite not found'' w)
                 | Inr (Some updated) \<Rightarrow>
                     returned (writeJSON 200 (marshal_Satellite (marshal L) (sat_ToResponse (Some updated))) w))))"

definition satHandler_Delete :: "libs \<Rightarrow> sat_repository \<Rightarrow> handler" where
  "satHandler_Delete L repo r w =
     (case uuid_Parse L (URLParam r ''id'') of
        Inl _ \<Rightarrow> returned (writeError 400 ''INVALID_ID'' ''invalid satellite id'' w)
      | Inr i \<Rightarrow>
          bind (satService_Delete repo i (fromOperator r)) (\<lambda>q.
            case q of
              Some err \<Rightarrow>
                (if err = ErrManagedByOperator
                 then returned (writeError 403 ''SATELLITE_MANAGED_BY_OPERATOR'' (err_text err) w)
                 else returned (writeError 500 ''DELETE_FAILED'' (err_text err) w))
            | None \<Rightarrow> returned (WriteHeader 204 w)))"

definition satHandler_Heartbeat :: "libs \<Rightarrow> sat_repository \<Rightarrow> handler" where
  "satHandler_Heartbeat L repo r w =
     (case uuid_Parse L (URLParam r ''id'') of
        Inl _ \<Rightarrow> returned (writeError 400 ''INVALID_ID'' ''invalid satellite id'' w)
      | Inr i \<Rightarrow>
          bind (satService_Heartbeat repo i) (\<lambda>q.
            case q of
              Inl err \<Rightarrow> returned (writeError 500 ''HEARTBEAT_FAILED'' (err_text err) w)
            | Inr None \<Rightarrow> returned (writeError 404 ''NOT_FOUND'' ''satellite not found'' w)
            | Inr (Some updated) \<Rightarrow>
                returned (writeJSON 200 (marshal_Satellite (marshal L) (sat_ToResponse (Some updated))) w)))"

lemmas satHandler_defs =
  satHandler_Create_def satHandler_List_def satHandler_GetByID_def satHandler_Update_def
  satHandler_Delete_def satHandler_Heartbeat_def

lemmas satService_defs =
  satService_Create_def satService_GetByID_def satService_List_def satService_Update_def
  satService_Delete_def satService_Heartbeat_def


section \<open>The repository contract\<close>

text \<open>
  What the service relies on: the table as a finite map from ids to satellites, observed through
  \<open>look\<close>, and the effect of every operation on it. An operation that returns an error may have
  taken effect or not, but never reports the service's own sentinel.
\<close>

definition repo_failed :: "('k \<Rightarrow> 'v option) \<Rightarrow> ('k \<Rightarrow> 'v option) \<Rightarrow> ('k \<Rightarrow> 'v option) \<Rightarrow> go_error \<Rightarrow> bool" where
  "repo_failed before wanted after err \<longleftrightarrow>
     err \<noteq> ErrManagedByOperator \<and> (after = before \<or> after = wanted)"

text \<open>Who may edit a satellite: anybody, or only the operator if it manages it.\<close>

definition may_edit :: "satellite \<Rightarrow> bool \<Rightarrow> bool" where
  "may_edit sat fromOp = (if sat_ManagedBy sat = ''operator'' then fromOp else True)"

lemma may_edit_iff: "may_edit sat fromOp \<longleftrightarrow> sat_ManagedBy sat \<noteq> ''operator'' \<or> fromOp"
  by (simp add: may_edit_def)

locale satellite_repository =
  fixes repo :: sat_repository
    and look :: "world \<Rightarrow> uuid \<Rightarrow> satellite option"
  assumes GetByID_law: "run \<omega> n (repo_GetByID repo i) w = (res, n', w') \<Longrightarrow>
      w' = w \<and> (case res of Inr found \<Rightarrow> found = look w i | Inl err \<Rightarrow> err \<noteq> ErrManagedByOperator)"
    and Update_law: "run \<omega> n (repo_Update repo i region) w = (res, n', w') \<Longrightarrow>
      (let wanted = (look w)(i := map_option (sat_Region_update (\<lambda>_. region)) (look w i))
       in case res of Inr found \<Rightarrow> look w' = wanted \<and> found = wanted i
          | Inl err \<Rightarrow> repo_failed (look w) wanted (look w') err)"
    and Delete_law: "run \<omega> n (repo_Delete repo i) w = (err, n', w') \<Longrightarrow>
      (let wanted = (look w)(i := None)
       in case err of None \<Rightarrow> look w' = wanted | Some e \<Rightarrow> repo_failed (look w) wanted (look w') e)"
    and Heartbeat_law: "run \<omega> n (repo_UpdateHeartbeat repo i) w = (res, n', w') \<Longrightarrow>
      (\<exists>t. let wanted = (look w)(i := map_option (\<lambda>s. s\<lparr>sat_Status := ''Ready'', sat_LastSeenAt := Some t\<rparr>) (look w i))
       in case res of Inr found \<Rightarrow> look w' = wanted \<and> found = wanted i
          | Inl err \<Rightarrow> repo_failed (look w) wanted (look w') err)"
    and Create_law: "run \<omega> n (repo_Create repo s) w = (res, n', w') \<Longrightarrow>
      (\<exists>row. look w (sat_ID row) = None \<and> sat_LastSeenAt row = None
         \<and> sat_Name row = sat_Name s \<and> sat_Region row = sat_Region s
         \<and> sat_Status row = sat_Status s \<and> sat_ManagedBy row = sat_ManagedBy s
         \<and> (case res of Inr found \<Rightarrow> found = Some row \<and> look w' = (look w)(sat_ID row \<mapsto> row)
            | Inl err \<Rightarrow> repo_failed (look w) ((look w)(sat_ID row \<mapsto> row)) (look w') err))
      \<or> (\<exists>err. res = Inl err \<and> err \<noteq> ErrManagedByOperator \<and> look w' = look w)"
begin

text \<open>Update through the guard: every outcome, with what it says about the table before and after.\<close>

lemma satService_Update_outcome:
  assumes "run \<omega> n (satService_Update repo i region fromOp) w = (res, n', w')"
  shows "case res of
      Inr None \<Rightarrow> look w i = None \<and> look w' = look w
    | Inr (Some new) \<Rightarrow> (\<exists>old. look w i = Some old \<and> may_edit old fromOp
        \<and> new = old\<lparr>sat_Region := region\<rparr> \<and> look w' = (look w)(i \<mapsto> new))
    | Inl err \<Rightarrow>
        (if err = ErrManagedByOperator
         then look w' = look w \<and> (\<exists>old. look w i = Some old \<and> sat_ManagedBy old = ''operator'' \<and> \<not> fromOp)
         else look w' = look w
           \<or> (\<exists>old. look w i = Some old \<and> may_edit old fromOp
               \<and> look w' = (look w)(i \<mapsto> old\<lparr>sat_Region := region\<rparr>)))"
proof -
  obtain q m w1 where get: "run \<omega> n (repo_GetByID repo i) w = (q, m, w1)"
    by (metis prod_cases3)
  note G = GetByID_law [OF get]
  show ?thesis
    using assms G
    by (auto simp: satService_Update_def may_edit_iff effect_simps get repo_failed_def fun_upd_triv
        split: sum.splits option.splits if_splits dest!: Update_law)
qed

lemma satService_Delete_outcome:
  assumes "run \<omega> n (satService_Delete repo i fromOp) w = (res, n', w')"
  shows "case res of
      None \<Rightarrow> look w' = (look w)(i := None)
        \<and> (\<forall>old. look w i = Some old \<longrightarrow> may_edit old fromOp)
    | Some err \<Rightarrow>
        (if err = ErrManagedByOperator
         then look w' = look w \<and> (\<exists>old. look w i = Some old \<and> sat_ManagedBy old = ''operator'' \<and> \<not> fromOp)
         else look w' = look w
           \<or> (\<exists>old. look w i = Some old \<and> may_edit old fromOp
               \<and> look w' = (look w)(i := None)))"
proof -
  obtain q m w1 where get: "run \<omega> n (repo_GetByID repo i) w = (q, m, w1)"
    by (metis prod_cases3)
  note G = GetByID_law [OF get]
  show ?thesis
    using assms G
    by (auto simp: satService_Delete_def may_edit_iff effect_simps get repo_failed_def
        split: sum.splits option.splits if_splits dest!: Delete_law)
qed

lemma satService_Create_outcome:
  assumes "run \<omega> n (satService_Create repo s) w = (res, n', w')"
  shows "case res of
      Inl err \<Rightarrow> look w' = look w
        \<or> (\<exists>row. look w (sat_ID row) = None \<and> look w' = (look w)(sat_ID row \<mapsto> row)
            \<and> sat_Name row = sat_Name s \<and> sat_Region row = sat_Region s
            \<and> sat_Status row = ''Pending'' \<and> sat_ManagedBy row = ''manual'' \<and> sat_LastSeenAt row = None)
    | Inr found \<Rightarrow> (\<exists>row. found = Some row \<and> look w (sat_ID row) = None \<and> look w' = (look w)(sat_ID row \<mapsto> row)
        \<and> sat_Name row = sat_Name s \<and> sat_Region row = sat_Region s
        \<and> sat_Status row = ''Pending'' \<and> sat_ManagedBy row = ''manual'' \<and> sat_LastSeenAt row = None)"
  using Create_law [OF assms [unfolded satService_Create_def]]
  by (auto simp: repo_failed_def split: sum.splits)

text \<open>A request without the operator's authority never loses or edits an operator's satellite.\<close>

lemma guard_protects:
  assumes "look w j = Some old" "sat_ManagedBy old = ''operator''"
  shows "run \<omega> n (satService_Update repo i region False) w = (res, n', w') \<Longrightarrow> look w' j = Some old"
    and "run \<omega> n (satService_Delete repo i False) w = (res2, n', w') \<Longrightarrow> look w' j = Some old"
  using assms
  by (auto simp: may_edit_iff dest!: satService_Update_outcome satService_Delete_outcome
      split: sum.splits option.splits if_splits)

end

abbreviation sat_table :: "world \<Rightarrow> uuid \<Rightarrow> satellite option" where
  "sat_table w i \<equiv> sel_where sat_ID i (satellites w)"

interpretation pg_sat: satellite_repository sat_PostgresRepository sat_table
proof (unfold_locales, goal_cases)
  case 1
  then show ?case
    by (auto simp: pg_sat_defs sat_select_def scan_or_nil_def row_reply_def Let_def
        split: prod.splits option.splits sum.splits if_splits dest!: under_fault_cases)
next
  case 2
  then show ?case
    by (auto simp: pg_sat_defs sat_update_region_def scan_or_nil_def row_reply_def Let_def repo_failed_def
        sel_where_upd_where fun_eq_iff
        split: prod.splits option.splits sum.splits if_splits dest!: under_fault_cases)
next
  case 3
  then show ?case
    by (auto simp: pg_sat_defs sat_delete_def Let_def repo_failed_def sel_where_del_where fun_eq_iff
        split: prod.splits option.splits dest!: under_fault_cases)
next
  case (4 \<omega> n i w res n' w')
  then show ?case
    by (intro exI [of _ "env_now (\<omega> n)"])
       (auto simp: pg_sat_defs sat_heartbeat_def scan_or_nil_def row_reply_def Let_def repo_failed_def
        sel_where_upd_where fun_eq_iff
        split: prod.splits option.splits sum.splits if_splits dest!: under_fault_cases)
next
  case (5 \<omega> n s w res n' w')
  let ?row = "\<lparr>sat_ID = env_uuid (\<omega> n), sat_Name = sat_Name s, sat_Region = sat_Region s,
    sat_Status = sat_Status s, sat_ManagedBy = sat_ManagedBy s, sat_LastSeenAt = None,
    sat_CreatedAt = env_now (\<omega> n)\<rparr>"
  show ?case
  proof (cases "sat_table w (env_uuid (\<omega> n)) = None \<and> sel_where sat_Name (sat_Name s) (satellites w) = None")
    case True
    with 5 show ?thesis
      by (intro disjI1 exI [of _ ?row])
         (auto simp: pg_sat_defs sat_insert_def Let_def repo_failed_def fun_eq_iff
          split: prod.splits option.splits sum.splits dest!: under_fault_cases)
  next
    case False
    with 5 show ?thesis
      by (intro disjI2) (auto simp: pg_sat_defs sat_insert_def Let_def
          split: prod.splits option.splits sum.splits dest!: under_fault_cases)
  qed
qed


section \<open>Operator-managed satellites\<close>

text \<open>
  The columns of a satellite that only the operator may change when it manages the row; status and
  last\_seen\_at are the heartbeat's.
\<close>

definition sat_core :: "satellite \<Rightarrow> uuid \<times> bytes \<times> bytes \<times> bytes \<times> micros" where
  "sat_core r = (sat_ID r, sat_Name r, sat_Region r, sat_ManagedBy r, sat_CreatedAt r)"

definition operator_managed :: "satellite \<Rightarrow> bool" where
  "operator_managed r \<longleftrightarrow> sat_ManagedBy r = ''operator''"

definition operator_ids :: "world \<Rightarrow> uuid set" where
  "operator_ids w = sat_ID ` set (filter operator_managed (satellites w))"

definition operator_rows_kept :: "world \<Rightarrow> world \<Rightarrow> bool" where
  "operator_rows_kept w0 w \<longleftrightarrow>
     sat_core ` set (filter operator_managed (satellites w0)) \<subseteq> sat_core ` set (satellites w)"

definition operator_safe :: "world \<Rightarrow> world \<Rightarrow> bool" where
  "operator_safe w0 w \<longleftrightarrow>
     operator_rows_kept w0 w \<and> (\<forall>r \<in> set (satellites w). operator_managed r \<longleftrightarrow> sat_ID r \<in> operator_ids w0)"

definition guard_reply :: "uuid set \<Rightarrow> uuid \<Rightarrow> go_error + satellite \<Rightarrow> bool" where
  "guard_reply ids i reply \<longleftrightarrow> (case reply of Inl _ \<Rightarrow> True | Inr row \<Rightarrow> operator_managed row \<longleftrightarrow> i \<in> ids)"

primrec guard_change :: "uuid set \<Rightarrow> change \<Rightarrow> bool" where
  "guard_change ids (InsertSat n g s m) = (m \<noteq> ''operator'')"
| "guard_change ids (UpdateRegion g i) = (i \<notin> ids)"
| "guard_change ids (DeleteSat i) = (i \<notin> ids)"
| "guard_change ids (HeartbeatSat i) = True"
| "guard_change ids (InsertUser n h r) = True"
| "guard_change ids (DeleteUser i) = True"

lemma operator_safe_iff:
  "operator_safe w0 w \<longleftrightarrow>
     (\<forall>r0 \<in> set (satellites w0). operator_managed r0 \<longrightarrow> (\<exists>r \<in> set (satellites w). sat_core r = sat_core r0))
     \<and> (\<forall>r \<in> set (satellites w). operator_managed r \<longleftrightarrow> sat_ID r \<in> operator_ids w0)"
  unfolding operator_safe_def operator_rows_kept_def
  by (auto simp: image_subset_iff image_iff) (metis (no_types))+

lemma operator_ids_kept: "operator_safe w0 w \<Longrightarrow> operator_ids w0 \<subseteq> sat_ID ` set (satellites w)"
proof
  fix i assume "operator_safe w0 w" "i \<in> operator_ids w0"
  then obtain r r0 where "r \<in> set (satellites w)" "sat_core r = sat_core r0" "sat_ID r0 = i"
    by (auto simp: operator_safe_iff operator_ids_def)
  then show "i \<in> sat_ID ` set (satellites w)" by (simp add: sat_core_def rev_image_eqI)
qed

lemma operator_managed_id: "r0 \<in> set (satellites w0) \<Longrightarrow> operator_managed r0 \<Longrightarrow> sat_ID r0 \<in> operator_ids w0"
  by (simp add: operator_ids_def)

text \<open>Changing, in some rows, only columns outside the core, or only rows that are no operator's.\<close>

lemma operator_safe_upd_where:
  assumes safe: "operator_safe w0 w"
    and keep: "\<And>r. sat_ID (f r) = sat_ID r" "\<And>r. sat_ManagedBy (f r) = sat_ManagedBy r"
      "\<And>r. i \<in> operator_ids w0 \<Longrightarrow> sat_core (f r) = sat_core r"
  shows "operator_safe w0 (w\<lparr>satellites := upd_where sat_ID i f (satellites w)\<rparr>)"
  unfolding operator_safe_iff
proof (intro conjI ballI impI)
  fix r0 assume r0: "r0 \<in> set (satellites w0)" "operator_managed r0"
  then obtain r where r: "r \<in> set (satellites w)" "sat_core r = sat_core r0"
    using safe by (auto simp: operator_safe_iff)
  have "sat_core (if sat_ID r = i then f r else r) = sat_core r0"
    using r operator_managed_id [OF r0] keep(3) [of r] by (auto simp: sat_core_def)
  then show "\<exists>r \<in> set (satellites (w\<lparr>satellites := upd_where sat_ID i f (satellites w)\<rparr>)). sat_core r = sat_core r0"
    using imageI [OF r(1), of "\<lambda>r. if sat_ID r = i then f r else r"]
    by (intro bexI) (simp_all add: set_upd_where)
qed (use safe keep in \<open>auto simp: set_upd_where operator_safe_iff operator_managed_def\<close>)

lemma operator_safe_delete:
  assumes "operator_safe w0 w" "i \<notin> operator_ids w0"
  shows "operator_safe w0 (w\<lparr>satellites := del_where sat_ID i (satellites w)\<rparr>)"
  using assms unfolding operator_safe_iff
  by (auto simp: set_del_where sat_core_def dest: operator_managed_id) (metis operator_managed_id)

lemma operator_safe_insert:
  assumes "operator_safe w0 w" "m \<noteq> ''operator''"
  shows "operator_safe w0 (snd (sat_insert e n g s m w))"
proof -
  have "env_uuid e \<notin> operator_ids w0" if "sat_table w (env_uuid e) = None"
    using that operator_ids_kept [OF assms(1)] by (auto simp: sel_where_None_iff)
  then show ?thesis
    using assms by (auto simp: operator_safe_iff sat_insert_def Let_def operator_managed_def)
qed

interpretation protect: store_invariant "guard_reply (operator_ids w0)" "guard_change (operator_ids w0)" "operator_safe w0" for w0
proof (unfold_locales, goal_cases)
  case (2 w i row)
  then show ?case by (auto simp: guard_reply_def operator_safe_def dest!: sel_where_SomeD)
next
  case (3 w c e)
  then show ?case
  proof (cases c)
    case (UpdateRegion g i)
    with 3 show ?thesis by (auto simp: sat_update_region_def Let_def intro!: operator_safe_upd_where)
  next
    case (HeartbeatSat i)
    with 3 show ?thesis by (auto simp: sat_heartbeat_def Let_def sat_core_def intro!: operator_safe_upd_where)
  qed (simp_all add: sat_delete_def operator_safe_delete operator_safe_insert,
       simp_all add: operator_safe_iff user_insert_def user_delete_def Let_def)
qed (simp_all add: guard_reply_def operator_safe_iff)

lemma operator_safe_start:
  assumes "distinct (map sat_ID (satellites w))"
  shows "operator_safe w w"
  using assms unfolding operator_safe_iff operator_ids_def
  by (auto simp: distinct_map inj_on_def)

lemma operator_safe_ids:
  assumes "operator_safe w0 w"
  shows "operator_ids w = operator_ids w0"
proof
  show "operator_ids w \<subseteq> operator_ids w0"
    using assms by (auto simp: operator_safe_iff operator_ids_def)
  show "operator_ids w0 \<subseteq> operator_ids w"
  proof
    fix i assume "i \<in> operator_ids w0"
    moreover from this obtain r where "r \<in> set (satellites w)" "sat_ID r = i"
      using operator_ids_kept [OF assms] by auto
    ultimately show "i \<in> operator_ids w"
      using assms by (auto simp: operator_safe_iff intro!: operator_managed_id)
  qed
qed

text \<open>Every handler stays within the guard when the request does not claim to be the operator.\<close>

lemma satHandlers_guarded:
  assumes "\<not> fromOperator r"
  shows "within (guard_reply ids) (guard_change ids) (satHandler_Create L sat_PostgresRepository r w)"
    and "within (guard_reply ids) (guard_change ids) (satHandler_Update L sat_PostgresRepository r w)"
    and "within (guard_reply ids) (guard_change ids) (satHandler_Delete L sat_PostgresRepository r w)"
    and "within (guard_reply ids) (guard_change ids) (satHandler_Heartbeat L sat_PostgresRepository r w)"
  using assms
  by (auto simp: satHandler_defs satService_defs pg_sat_defs scan_or_nil_def guard_reply_def operator_managed_def
      split: option.splits sum.splits if_splits)

lemma satHandlers_readonly:
  "readonly (satHandler_List L sat_PostgresRepository r w)"
  "readonly (satHandler_GetByID L sat_PostgresRepository r w)"
  by (auto simp: satHandler_defs satService_defs pg_sat_defs split: option.splits sum.splits)


section \<open>The endpoints\<close>

definition answers :: "response_writer outcome \<Rightarrow> nat \<Rightarrow> bool" where
  "answers out status \<longleftrightarrow> (case out of Returned w \<Rightarrow> status_of w = status | Panicked _ \<Rightarrow> False)"

lemma answers_simps [simp]:
  "answers (Returned w) s \<longleftrightarrow> status_of w = s" "\<not> answers (Panicked msg) s"
  by (simp_all add: answers_def)

definition found_answer :: "libs \<Rightarrow> nat \<Rightarrow> satellite \<Rightarrow> response_writer outcome" where
  "found_answer L status sat =
     Returned (writeJSON status (marshal_Satellite (marshal L) (sat_ToResponse (Some sat))) new_writer)"

lemmas sat_endpoint_simps =
  satHandler_defs satService_defs pg_sat_defs scan_or_nil_def row_reply_def under_fault_def
  sat_select_def sat_update_region_def sat_delete_def sat_heartbeat_def found_answer_def
  sel_where_upd_where sel_where_del_where fun_eq_iff Let_def

text \<open>
  C19. PATCH on a satellite. A malformed id or body is 400 and changes nothing; a missing satellite
  is 404; an operator-managed one is 403 without the operator header; otherwise the region, and
  nothing else, is changed and the new satellite returned. Only a database fault gives 500, and
  then the change has either happened or not.
\<close>

theorem satHandler_Update_behaviour:
  "case run \<omega> n (satHandler_Update L sat_PostgresRepository r new_writer) db of (out, n', db') \<Rightarrow>
     (case uuid_Parse L (URLParam r ''id'') of
        Inl _ \<Rightarrow> answers out 400 \<and> db' = db
      | Inr i \<Rightarrow>
          (case decode_UpdateSatelliteRequest (req_Body r) of
             None \<Rightarrow> answers out 400 \<and> db' = db
           | Some req \<Rightarrow>
               (case sat_table db i of
                  None \<Rightarrow> sat_table db' = sat_table db \<and> answers out (if faulty \<omega> n 1 then 500 else 404)
                | Some old \<Rightarrow>
                    (let new = old\<lparr>sat_Region := usr_Region req\<rparr> in
                     if sat_ManagedBy old = ''operator'' \<and> \<not> fromOperator r
                     then sat_table db' = sat_table db \<and> answers out (if faulty \<omega> n 1 then 500 else 403)
                     else if faulty \<omega> n 2
                     then sat_table db' \<in> {sat_table db, (sat_table db)(i \<mapsto> new)} \<and> answers out 500
                     else sat_table db' = (sat_table db)(i \<mapsto> new) \<and> out = found_answer L 200 new))))"
  by (simp add: sat_endpoint_simps split: sum.split option.split fault.split)

text \<open>
  C20. DELETE on a satellite. A malformed id is 400; an operator-managed satellite is 403 without
  the operator header and stays; otherwise the satellite is gone and the answer 204, also when
  there was none to begin with. Only a database fault gives 500.
\<close>

theorem satHandler_Delete_behaviour:
  "case run \<omega> n (satHandler_Delete L sat_PostgresRepository r new_writer) db of (out, n', db') \<Rightarrow>
     (case uuid_Parse L (URLParam r ''id'') of
        Inl _ \<Rightarrow> answers out 400 \<and> db' = db
      | Inr i \<Rightarrow>
          (case sat_table db i of
             None \<Rightarrow> sat_table db' = sat_table db \<and> answers out (if faulty \<omega> n 1 then 500 else 204)
           | Some old \<Rightarrow>
               (if sat_ManagedBy old = ''operator'' \<and> \<not> fromOperator r
                then sat_table db' = sat_table db \<and> answers out (if faulty \<omega> n 1 then 500 else 403)
                else if faulty \<omega> n 2
                then sat_table db' \<in> {sat_table db, (sat_table db)(i := None)} \<and> answers out 500
                else sat_table db' = (sat_table db)(i := None) \<and> answers out 204)))"
  by (simp add: sat_endpoint_simps split: sum.split option.split fault.split)

text \<open>
  C21. A heartbeat marks an existing satellite Ready at the database's time and changes nothing
  else of it or of any other; a missing satellite is 404.
\<close>

theorem satHandler_Heartbeat_behaviour:
  "case run \<omega> n (satHandler_Heartbeat L sat_PostgresRepository r new_writer) db of (out, n', db') \<Rightarrow>
     (case uuid_Parse L (URLParam r ''id'') of
        Inl _ \<Rightarrow> answers out 400 \<and> db' = db
      | Inr i \<Rightarrow>
          (case sat_table db i of
             None \<Rightarrow> sat_table db' = sat_table db \<and> answers out (if faulty \<omega> n 1 then 500 else 404)
           | Some old \<Rightarrow>
               (let new = old\<lparr>sat_Status := ''Ready'', sat_LastSeenAt := Some (env_now (\<omega> n))\<rparr> in
                if faulty \<omega> n 1
                then sat_table db' \<in> {sat_table db, (sat_table db)(i \<mapsto> new)} \<and> answers out 500
                else sat_table db' = (sat_table db)(i \<mapsto> new) \<and> out = found_answer L 200 new)))"
  by (simp add: sat_endpoint_simps split: sum.split option.split fault.split)


text \<open>
  The update service through the repository contract: it returns nothing for a missing
  satellite, refuses an operator-managed one unless the caller is the operator, and otherwise
  changes exactly the region. The refusal never touches the table, and a database error leaves
  either the old table or the allowed change.
\<close>

theorem satService_Update_refines:
  "case run \<omega> n (satService_Update sat_PostgresRepository i region fromOp) w of (res, n', w') \<Rightarrow>
     (case res of
        Inr None \<Rightarrow> sat_table w i = None \<and> sat_table w' = sat_table w
      | Inr (Some new) \<Rightarrow> (\<exists>old. sat_table w i = Some old \<and> may_edit old fromOp
          \<and> new = old\<lparr>sat_Region := region\<rparr> \<and> sat_table w' = (sat_table w)(i \<mapsto> new))
      | Inl err \<Rightarrow>
          (if err = ErrManagedByOperator
           then sat_table w' = sat_table w
             \<and> (\<exists>old. sat_table w i = Some old \<and> sat_ManagedBy old = ''operator'' \<and> \<not> fromOp)
           else sat_table w' = sat_table w
             \<or> (\<exists>old. sat_table w i = Some old \<and> may_edit old fromOp
                 \<and> sat_table w' = (sat_table w)(i \<mapsto> old\<lparr>sat_Region := region\<rparr>))))"
  by (rule run_caseI) (rule pg_sat.satService_Update_outcome)

text \<open>
  C23. The create service never makes an operator-managed satellite: a successful create adds one
  row under an unused id, with the given name and region, Pending, managed manually and never
  seen; a failed one adds such a row, with all of these, or nothing.
\<close>

theorem satService_Create_refines:
  "case run \<omega> n (satService_Create sat_PostgresRepository s) w of (res, n', w') \<Rightarrow>
     (case res of
        Inl err \<Rightarrow> sat_table w' = sat_table w
          \<or> (\<exists>row. sat_table w (sat_ID row) = None
              \<and> sat_table w' = (sat_table w)(sat_ID row \<mapsto> row)
              \<and> sat_Name row = sat_Name s \<and> sat_Region row = sat_Region s
              \<and> sat_Status row = ''Pending'' \<and> sat_ManagedBy row = ''manual'' \<and> sat_LastSeenAt row = None)
      | Inr found \<Rightarrow> (\<exists>row. found = Some row \<and> sat_table w (sat_ID row) = None
          \<and> sat_table w' = (sat_table w)(sat_ID row \<mapsto> row)
          \<and> sat_Name row = sat_Name s \<and> sat_Region row = sat_Region s
          \<and> sat_Status row = ''Pending'' \<and> sat_ManagedBy row = ''manual'' \<and> sat_LastSeenAt row = None))"
  by (rule run_caseI) (rule pg_sat.satService_Create_outcome)

text \<open>
  Listing returns every satellite exactly once, newest first, and changes nothing; it fails
  only on a database fault.
\<close>

theorem satService_List_sorted:
  "case run \<omega> n (satService_List sat_PostgresRepository) db of (res, n', db') \<Rightarrow>
     db' = db
     \<and> (case res of
          Inl _ \<Rightarrow> faulty \<omega> n 1
        | Inr sats \<Rightarrow> (\<exists>rows. sats = map Some rows \<and> mset rows = mset (satellites db)
            \<and> sorted (map (\<lambda>s. - sat_CreatedAt s) rows)))"
  by (auto simp: satService_List_def pg_sat_List_def under_fault_def sat_select_all_def Let_def
      split: option.split fault.split intro!: exI)

text \<open>
  C24. What a create returns is what a later GET of its id returns: after a create that answered
  201 with a satellite, GET with that satellite's id answers 200 with the same document.
\<close>

theorem created_satellite_is_served:
  assumes create: "run \<omega> n (satService_Create sat_PostgresRepository s) db = (Inr (Some row), n', db')"
    and parse: "uuid_Parse L (URLParam r ''id'') = Inr (sat_ID row)"
    and fault_free: "env_fault (\<omega> k) = None"
  shows "run \<omega> k (satHandler_GetByID L sat_PostgresRepository r new_writer) db' =
    (found_answer L 200 row, Suc k, db')"
proof -
  have "sat_table db' (sat_ID row) = Some row"
    using pg_sat.satService_Create_outcome [OF create] by (auto simp: fun_eq_iff)
  then show ?thesis using parse fault_free by (simp add: sat_endpoint_simps)
qed

theorem created_satellite_is_served_witness:
  "let s = zero_satellite\<lparr>sat_Name := ''a'', sat_Region := ''hn''\<rparr>;
       row = s\<lparr>sat_ID := 7, sat_Status := ''Pending'', sat_ManagedBy := ''manual'', sat_CreatedAt := 11\<rparr>;
       db = sample_world\<lparr>satellites := []\<rparr>;
       r = (sample_request ''GET'' ''/satellites/7'' ''tok'')\<lparr>url_params := [(''id'', ''7'')]\<rparr>
   in run (\<lambda>_. sample_env) 1 (satHandler_GetByID sample_libs sat_PostgresRepository r new_writer)
        (db\<lparr>satellites := [row]\<rparr>) = (found_answer sample_libs 200 row, 2, db\<lparr>satellites := [row]\<rparr>)"
proof -
  let ?s = "zero_satellite\<lparr>sat_Name := ''a'', sat_Region := ''hn''\<rparr>"
  let ?row = "?s\<lparr>sat_ID := 7, sat_Status := ''Pending'', sat_ManagedBy := ''manual'', sat_CreatedAt := 11\<rparr>"
  let ?db = "sample_world\<lparr>satellites := []\<rparr>"
  have "run (\<lambda>_. sample_env) 0 (satService_Create sat_PostgresRepository ?s) ?db =
      (Inr (Some ?row), 1, ?db\<lparr>satellites := [?row]\<rparr>)"
    by (simp add: satService_Create_def pg_sat_Create_def under_fault_def sat_insert_def sample_env_def
        zero_satellite_def sample_world_def Let_def)
  from created_satellite_is_served [OF this, of sample_libs
      "(sample_request ''GET'' ''/satellites/7'' ''tok'')\<lparr>url_params := [(''id'', ''7'')]\<rparr>" 1]
  show ?thesis by (simp add: sample_libs_def sample_env_def URLParam_def Let_def)
qed

end
