(* ===== verification/User.thy ===== *)
theory User
  imports Satellite
begin

text \<open>
  The user package (\<open>user/repository.go\<close>, \<open>service.go\<close>, \<open>mapper.go\<close>, \<open>handler.go\<close>): accounts with a
  bcrypt hash and an admin or viewer role, managed by administrators.
\<close>

section \<open>Repository\<close>

record user_repository =
  urepo_Create :: "user \<Rightarrow> (go_error + user option) prog"
  urepo_GetByUsername :: "bytes \<Rightarrow> (go_error + user option) prog"
  urepo_GetByID :: "uuid \<Rightarrow> (go_error + user option) prog"
  urepo_List :: "(go_error + user option list) prog"
  urepo_Delete :: "uuid \<Rightarrow> go_error option prog"

definition pg_user_Create :: "user \<Rightarrow> (go_error + user option) prog" where
  "pg_user_Create u =
     UserInsert (user_Username u) (user_PasswordHash u) (user_Role u)
       (\<lambda>q. Done (case q of Inl err \<Rightarrow> Inl err | Inr out \<Rightarrow> Inr (Some out)))"

definition pg_user_GetByUsername :: "bytes \<Rightarrow> (go_error + user option) prog" where
  "pg_user_GetByUsername name = UserSelectName name (\<lambda>q. Done (scan_or_nil q))"

definition pg_user_GetByID :: "uuid \<Rightarrow> (go_error + user option) prog" where
  "pg_user_GetByID i = UserSelectId i (\<lambda>q. Done (scan_or_nil q))"

definition pg_user_List :: "(go_error + user option list) prog" where
  "pg_user_List = UserSelectAll (\<lambda>q. Done (case q of Inl err \<Rightarrow> Inl err | Inr rows \<Rightarrow> Inr (map Some rows)))"

definition pg_user_Delete :: "uuid \<Rightarrow> go_error option prog" where
  "pg_user_Delete i = UserDelete i Done"

definition user_PostgresRepository :: user_repository where
  "user_PostgresRepository =
     \<lparr>urepo_Create = pg_user_Create, urepo_GetByUsername = pg_user_GetByUsername,
      urepo_GetByID = pg_user_GetByID, urepo_List = pg_user_List, urepo_Delete = pg_user_Delete\<rparr>"

lemmas pg_user_defs =
  pg_user_Create_def pg_user_GetByUsername_def pg_user_GetByID_def pg_user_List_def pg_user_Delete_def

lemma user_PostgresRepository_sel [simp]:
  "urepo_Create user_PostgresRepository = pg_user_Create"
  "urepo_GetByUsername user_PostgresRepository = pg_user_GetByUsername"
  "urepo_GetByID user_PostgresRepository = pg_user_GetByID"
  "urepo_List user_PostgresRepository = pg_user_List"
  "urepo_Delete user_PostgresRepository = pg_user_Delete"
  by (simp_all add: user_PostgresRepository_def)

section \<open>Service\<close>

text \<open>
  \<open>Create\<close> checks the role before it hashes the password with a fresh salt and stores the account;
  the id and creation time of the struct it passes on are zero and not used.
\<close>

definition userService_Create ::
  "libs \<Rightarrow> user_repository \<Rightarrow> bytes \<Rightarrow> bytes \<Rightarrow> bytes \<Rightarrow> (go_error + user option) prog" where
  "userService_Create L repo username password role =
     (if role \<noteq> ''admin'' \<and> role \<noteq> ''viewer'' then Done (Inl ErrInvalidRole)
      else Rand (\<lambda>salt.
        case bcrypt_Generate L salt password of
          Inl msg \<Rightarrow> Done (Inl (BcryptError msg))
        | Inr hash \<Rightarrow>
            urepo_Create repo \<lparr>user_ID = uuid_Nil, user_Username = username, user_PasswordHash = hash,
              user_Role = role, user_CreatedAt = 0\<rparr>))"

definition userService_GetByID :: "user_repository \<Rightarrow> uuid \<Rightarrow> (go_error + user option) prog" where
  "userService_GetByID repo i = urepo_GetByID repo i"

definition userService_List :: "user_repository \<Rightarrow> (go_error + user option list) prog" where
  "userService_List repo = urepo_List repo"

definition userService_Delete :: "user_repository \<Rightarrow> uuid \<Rightarrow> go_error option prog" where
  "userService_Delete repo i = urepo_Delete repo i"

section \<open>Mapping to the API models\<close>

definition defaultRole :: bytes where
  "defaultRole = ''viewer''"

definition CreateParamsFromRequest :: "CreateUserRequest \<Rightarrow> bytes \<times> bytes \<times> bytes" where
  "CreateParamsFromRequest req =
     (let role = (case cur_Role req of None \<Rightarrow> defaultRole | Some r \<Rightarrow> r)
      in (cur_Username req, cur_Password req, role))"

text \<open>\<open>ToResponse\<close> panics on a nil pointer; the dash in the source's message is U+2014.\<close>

definition user_nil_panic :: bytes where
  "user_nil_panic = ''user: ToResponse called with nil User '' @ encode_rune 0x2014
     @ '' caller must check for not-found before mapping''"

definition user_ToResponse :: "user option \<Rightarrow> micros gen_User outcome" where
  "user_ToResponse up =
     (case up of
        None \<Rightarrow> Panicked user_nil_panic
      | Some u \<Rightarrow> Returned \<lparr>gu_CreatedAt = Some (user_CreatedAt u), gu_Id = Some (user_ID u),
                            gu_Role = Some (user_Role u), gu_Username = Some (user_Username u)\<rparr>)"

primrec user_ToResponseList :: "user option list \<Rightarrow> micros gen_User list outcome" where
  "user_ToResponseList [] = Returned []"
| "user_ToResponseList (u # us) =
     (case user_ToResponse u of
        Panicked msg \<Rightarrow> Panicked msg
      | Returned x \<Rightarrow> (case user_ToResponseList us of
          Panicked msg \<Rightarrow> Panicked msg | Returned xs \<Rightarrow> Returned (x # xs)))"

section \<open>Handlers\<close>

definition userHandler_Create :: "libs \<Rightarrow> user_repository \<Rightarrow> handler" where
  "userHandler_Create L repo r w =
     (case decode_CreateUserRequest (req_Body r) of
        None \<Rightarrow> returned (writeError 400 ''INVALID_BODY'' ''invalid request body'' w)
      | Some req \<Rightarrow>
          (case CreateParamsFromRequest req of (username, password, role) \<Rightarrow>
             bind (userService_Create L repo username password role) (\<lambda>q.
               case q of
                 Inl err \<Rightarrow>
                   (if err = ErrInvalidRole
                    then returned (writeError 400 ''INVALID_ROLE'' (err_text err) w)
                    else returned (writeError 500 ''CREATE_FAILED'' (err_text err) w))
               | Inr created \<Rightarrow>
                   (case user_ToResponse created of
                      Panicked msg \<Rightarrow> Done (Panicked msg)
                    | Returned u \<Rightarrow> returned (writeJSON 201 (marshal_User (marshal L) u) w)))))"

definition userHandler_List :: "libs \<Rightarrow> user_repository \<Rightarrow> handler" where
  "userHandler_List L repo r w =
     bind (userService_List repo) (\<lambda>q.
       case q of
         Inl err \<Rightarrow> returned (writeError 500 ''LIST_FAILED'' (err_text err) w)
       | Inr us \<Rightarrow>
           (case user_ToResponseList us of
              Panicked msg \<Rightarrow> Done (Panicked msg)
            | Returned xs \<Rightarrow> returned (writeJSON 200 (marshal_list (marshal_User (marshal L)) xs) w)))"

definition userHandler_Delete :: "libs \<Rightarrow> user_repository \<Rightarrow> handler" where
  "userHandler_Delete L repo r w =
     (case uuid_Parse L (URLParam r ''id'') of
        Inl _ \<Rightarrow> returned (writeError 400 ''INVALID_ID'' ''invalid user id'' w)
      | Inr i \<Rightarrow>
          bind (userService_Delete repo i) (\<lambda>q.
            case q of
              Some err \<Rightarrow> returned (writeError 500 ''DELETE_FAILED'' (err_text err) w)
            | None \<Rightarrow> returned (WriteHeader 204 w)))"

lemmas userHandler_defs = userHandler_Create_def userHandler_List_def userHandler_Delete_def

lemmas userService_defs =
  userService_Create_def userService_GetByID_def userService_List_def userService_Delete_def


section \<open>The repository contract\<close>

text \<open>
  What the service relies on: the accounts as a map from ids, and the hash, name and role of a
  new account stored as given. An operation that fails may have taken effect or not, and never
  reports the service's own sentinel.
\<close>

locale account_repository =
  fixes repo :: user_repository
    and look :: "world \<Rightarrow> uuid \<Rightarrow> user option"
  assumes uCreate_law: "run \<omega> n (urepo_Create repo u) w = (res, n', w') \<Longrightarrow>
      (\<exists>row. look w (user_ID row) = None \<and> user_Username row = user_Username u
         \<and> user_PasswordHash row = user_PasswordHash u \<and> user_Role row = user_Role u
         \<and> (case res of Inr found \<Rightarrow> found = Some row \<and> look w' = (look w)(user_ID row \<mapsto> row)
            | Inl err \<Rightarrow> err \<noteq> ErrInvalidRole \<and> look w' \<in> {look w, (look w)(user_ID row \<mapsto> row)}))
      \<or> (\<exists>err. res = Inl err \<and> err \<noteq> ErrInvalidRole \<and> look w' = look w)"
    and uDelete_law: "run \<omega> n (urepo_Delete repo i) w = (err, n', w') \<Longrightarrow>
      (case err of None \<Rightarrow> look w' = (look w)(i := None)
       | Some e \<Rightarrow> look w' \<in> {look w, (look w)(i := None)})"
begin

text \<open>Account creation: the role is checked first; what is stored is a hash of the password.\<close>

lemma userService_Create_outcome:
  assumes "run \<omega> n (userService_Create L repo name pw role) w = (res, n', w')"
  shows "if role \<in> {''admin'', ''viewer''}
    then (case res of
        Inr found \<Rightarrow> (\<exists>row hash. found = Some row \<and> bcrypt_Generate L (env_rand (\<omega> n)) pw = Inr hash
          \<and> look w (user_ID row) = None \<and> look w' = (look w)(user_ID row \<mapsto> row)
          \<and> user_Username row = name \<and> user_PasswordHash row = hash \<and> user_Role row = role)
      | Inl err \<Rightarrow> err \<noteq> ErrInvalidRole
          \<and> (look w' = look w \<or> (\<exists>row. user_Role row = role \<and> look w' = (look w)(user_ID row \<mapsto> row))))
    else res = Inl ErrInvalidRole \<and> w' = w"
  using assms
  by (auto simp: userService_Create_def split: sum.splits if_splits dest!: uCreate_law)

lemma userService_Delete_outcome:
  assumes "run \<omega> n (userService_Delete repo i) w = (err, n', w')"
  shows "case err of None \<Rightarrow> look w' = (look w)(i := None)
    | Some e \<Rightarrow> look w' = look w \<or> look w' = (look w)(i := None)"
  using uDelete_law [OF assms [unfolded userService_Delete_def]] by (auto split: option.splits)

end

abbreviation user_table :: "world \<Rightarrow> uuid \<Rightarrow> user option" where
  "user_table w i \<equiv> sel_where user_ID i (users w)"

interpretation pg_user: account_repository user_PostgresRepository user_table
proof (unfold_locales, goal_cases)
  case (1 \<omega> n u w res n' w')
  let ?row = "\<lparr>user_ID = env_uuid (\<omega> n), user_Username = user_Username u,
    user_PasswordHash = user_PasswordHash u, user_Role = user_Role u, user_CreatedAt = env_now (\<omega> n)\<rparr>"
  show ?case
  proof (cases "user_table w (env_uuid (\<omega> n)) = None \<and> sel_where user_Username (user_Username u) (users w) = None")
    case True
    with 1 show ?thesis
      by (intro disjI1 exI [of _ ?row])
         (auto simp: pg_user_defs user_insert_def Let_def fun_eq_iff
          split: prod.splits option.splits sum.splits dest!: under_fault_cases)
  next
    case False
    with 1 show ?thesis
      by (intro disjI2) (auto simp: pg_user_defs user_insert_def Let_def
          split: prod.splits option.splits sum.splits dest!: under_fault_cases)
  qed
next
  case 2
  then show ?case
    by (auto simp: pg_user_defs user_delete_def Let_def sel_where_del_where fun_eq_iff
        split: prod.splits option.splits dest!: under_fault_cases)
qed

section \<open>Properties\<close>

text \<open>
  Account creation. A role other than admin or viewer is refused before anything happens;
  otherwise a new account with that name and role is stored under an unused id, holding the bcrypt
  hash of the password and not the password; failures are never reported as a role error.
\<close>

theorem userService_Create_refines:
  "case run \<omega> n (userService_Create L user_PostgresRepository name pw role) w of (res, n', w') \<Rightarrow>
     (if role \<in> {''admin'', ''viewer''}
      then (case res of
          Inr found \<Rightarrow> (\<exists>row hash. found = Some row \<and> bcrypt_Generate L (env_rand (\<omega> n)) pw = Inr hash
            \<and> user_table w (user_ID row) = None \<and> user_table w' = (user_table w)(user_ID row \<mapsto> row)
            \<and> user_Username row = name \<and> user_PasswordHash row = hash \<and> user_Role row = role)
        | Inl err \<Rightarrow> err \<noteq> ErrInvalidRole
            \<and> (user_table w' = user_table w
               \<or> (\<exists>row. user_Role row = role \<and> user_table w' = (user_table w)(user_ID row \<mapsto> row))))
      else res = Inl ErrInvalidRole \<and> w' = w)"
  by (rule run_caseI) (rule pg_user.userService_Create_outcome)

text \<open>Two databases that agree on everything but the password hashes.\<close>

definition forget_hash :: "user \<Rightarrow> user" where
  "forget_hash u = u\<lparr>user_PasswordHash := []\<rparr>"

definition user_view :: "user \<Rightarrow> micros gen_User" where
  "user_view u = \<lparr>gu_CreatedAt = Some (user_CreatedAt u), gu_Id = Some (user_ID u),
     gu_Role = Some (user_Role u), gu_Username = Some (user_Username u)\<rparr>"

lemma user_ToResponse_Some: "user_ToResponse (Some u) = Returned (user_view u)"
  by (simp add: user_ToResponse_def user_view_def)

lemma user_ToResponseList_rows: "user_ToResponseList (map Some us) = Returned (map user_view us)"
  by (induction us) (simp_all add: user_ToResponse_Some)

lemma insort_key_map: "(\<And>x. f (g x) = f x) \<Longrightarrow> map g (insort_key f x xs) = insort_key f (g x) (map g xs)"
  by (induction xs) auto

lemma sort_key_map: "(\<And>x. f (g x) = f x) \<Longrightarrow> map g (sort_key f xs) = sort_key f (map g xs)"
  by (induction xs) (auto simp: insort_key_map)

text \<open>
  C26. Password hashes never leak through the user list: two databases that differ only in the
  hashes give the same response, byte for byte.
\<close>

theorem user_list_hides_hashes:
  assumes "map forget_hash (users db1) = map forget_hash (users db2)"
  shows "fst (run \<omega> n (userHandler_List L user_PostgresRepository r w) db1) =
    fst (run \<omega> n (userHandler_List L user_PostgresRepository r w) db2)"
proof -
  let ?sort = "\<lambda>us. sort_key (\<lambda>r. - user_CreatedAt r) (sort_key (\<lambda>r. env_scan (\<omega> n) (user_ID r)) us)"
  have "map user_view us = map user_view (map forget_hash us)" for us
    by (simp add: forget_hash_def user_view_def)
  moreover have "map forget_hash (?sort us) = ?sort (map forget_hash us)" for us
    by (simp add: sort_key_map forget_hash_def)
  ultimately have step: "map user_view (?sort us) = map user_view (?sort (map forget_hash us))" for us
    by metis
  have "map user_view (?sort (users db1)) = map user_view (?sort (users db2))"
    by (simp only: step [of "users db1"] step [of "users db2"] assms)
  then show ?thesis
    by (simp add: userHandler_List_def userService_List_def pg_user_List_def under_fault_def
        user_select_all_def user_ToResponseList_rows Let_def split: option.split fault.split)
qed

theorem user_list_hides_hashes_witness:
  "fst (run (\<lambda>_. sample_env) 0 (userHandler_List sample_libs user_PostgresRepository
      (sample_request ''GET'' ''/users'' ''tok'') new_writer) sample_world) =
   fst (run (\<lambda>_. sample_env) 0 (userHandler_List sample_libs user_PostgresRepository
      (sample_request ''GET'' ''/users'' ''tok'') new_writer)
      (sample_world\<lparr>users := [sample_user\<lparr>user_PasswordHash := ''hash:other''\<rparr>]\<rparr>))"
  by (rule user_list_hides_hashes) (simp add: sample_world_def sample_user_def forget_hash_def)

lemma userHandler_Create_returns:
  "\<exists>w'. fst (run \<omega> n (userHandler_Create L user_PostgresRepository r w) db) = Returned w'"
proof (cases "decode_CreateUserRequest (req_Body r)")
  case (Some req)
  obtain name pw role where params: "CreateParamsFromRequest req = (name, pw, role)" by (metis prod_cases3)
  obtain res n1 db1 where svc: "run \<omega> n (userService_Create L user_PostgresRepository name pw role) db = (res, n1, db1)"
    by (metis prod_cases3)
  from pg_user.userService_Create_outcome [OF svc] have "\<exists>row. found = Some row" if "res = Inr found" for found
    using that by (auto split: if_splits)
  then show ?thesis
    using Some params svc
    by (cases res) (auto simp: userHandler_Create_def effect_simps user_ToResponse_Some)
qed (simp add: userHandler_Create_def)

lemma userHandler_List_returns:
  "\<exists>w'. fst (run \<omega> n (userHandler_List L user_PostgresRepository r w) db) = Returned w'"
  by (simp add: userHandler_List_def userService_List_def pg_user_List_def under_fault_def
      user_select_all_def user_ToResponseList_rows Let_def split: option.split fault.split)

lemma userHandler_Delete_returns:
  "\<exists>w'. fst (run \<omega> n (userHandler_Delete L user_PostgresRepository r w) db) = Returned w'"
  by (simp add: userHandler_Delete_def userService_Delete_def pg_user_Delete_def under_fault_def
      user_delete_def Let_def split: option.split fault.split sum.split)

text \<open>
  The user endpoints always answer: no run of the create, list or delete handler on the
  PostgreSQL repository panics, although the mapping to the API model panics on a nil user.
\<close>

theorem user_endpoints_return:
  "(\<exists>w'. fst (run \<omega> n (userHandler_Create L user_PostgresRepository r w) db) = Returned w')
   \<and> (\<exists>w'. fst (run \<omega> n (userHandler_List L user_PostgresRepository r w) db) = Returned w')
   \<and> (\<exists>w'. fst (run \<omega> n (userHandler_Delete L user_PostgresRepository r w) db) = Returned w')"
  by (intro conjI userHandler_Create_returns userHandler_List_returns userHandler_Delete_returns)

text \<open>A created account is found by its name.\<close>

lemma created_account_found:
  assumes "run \<omega> n (userService_Create L user_PostgresRepository name pw role) w = (Inr (Some row), n', w')"
  shows "sel_where user_Username name (users w') = Some row"
    and "bcrypt_Generate L (env_rand (\<omega> n)) pw = Inr (user_PasswordHash row)" "user_Role row = role"
    and "role \<in> {''admin'', ''viewer''}"
  using assms
  by (auto simp: userService_Create_def pg_user_Create_def user_insert_def Let_def
      split: sum.splits if_splits prod.splits dest!: under_fault_cases)

end
