(* ===== verification/ServerGen.thy ===== *)
theory ServerGen
  imports Service
begin

text \<open>
  The generated server (\<open>api/gen/server.gen.go\<close>): the interface the application implements, the
  wrapper that binds path parameters and runs the handler middlewares, its error values, and the
  route table of \<open>HandlerWithOptions\<close>. chi is the router underneath; what it does with a route
  table is a parameter (\<open>chi\<close>).
\<close>

section \<open>The server interface\<close>

record server_interface =
  si_PostAuthLogin :: "handler"
  si_GetHealth :: "handler"
  si_GetSatellites :: "handler"
  si_PostSatellites :: "handler"
  si_DeleteSatellitesId :: "uuid \<Rightarrow> handler"
  si_GetSatellitesId :: "uuid \<Rightarrow> handler"
  si_PatchSatellitesId :: "uuid \<Rightarrow> handler"
  si_PostSatellitesIdHeartbeat :: "uuid \<Rightarrow> handler"
  si_GetUsers :: "handler"
  si_PostUsers :: "handler"
  si_DeleteUsersId :: "uuid \<Rightarrow> handler"
  si_GetVersion :: "handler"

text \<open>The default implementation, which answers 501 on every endpoint.\<close>

definition not_implemented :: handler where
  "not_implemented r w = returned (WriteHeader 501 w)"

definition Unimplemented :: server_interface where
  "Unimplemented =
     \<lparr>si_PostAuthLogin = not_implemented,
      si_GetHealth = not_implemented,
      si_GetSatellites = not_implemented,
      si_PostSatellites = not_implemented,
      si_DeleteSatellitesId = (\<lambda>_. not_implemented),
      si_GetSatellitesId = (\<lambda>_. not_implemented),
      si_PatchSatellitesId = (\<lambda>_. not_implemented),
      si_PostSatellitesIdHeartbeat = (\<lambda>_. not_implemented),
      si_GetUsers = not_implemented,
      si_PostUsers = not_implemented,
      si_DeleteUsersId = (\<lambda>_. not_implemented),
      si_GetVersion = not_implemented\<rparr>"

section \<open>Parameter errors\<close>

datatype param_error =
    UnescapedCookieParamError bytes bytes
  | UnmarshalingParamError bytes bytes
  | RequiredParamError bytes
  | RequiredHeaderError bytes bytes
  | InvalidParamFormatError bytes bytes
  | TooManyValuesForParamError bytes nat

text \<open>\<open>Error()\<close>, and \<open>Unwrap()\<close> as the text of the wrapped error where there is one.\<close>

fun param_error_text :: "param_error \<Rightarrow> bytes" where
  "param_error_text (UnescapedCookieParamError p e) =
     ''error unescaping cookie parameter '' @ [CHR 0x27] @ p @ [CHR 0x27]"
| "param_error_text (UnmarshalingParamError p e) = ''Error unmarshaling parameter '' @ p @ '' as JSON: '' @ e"
| "param_error_text (RequiredParamError p) = ''Query argument '' @ p @ '' is required, but not found''"
| "param_error_text (RequiredHeaderError p e) = ''Header parameter '' @ p @ '' is required, but not found''"
| "param_error_text (InvalidParamFormatError p e) = ''Invalid format for parameter '' @ p @ '': '' @ e"
| "param_error_text (TooManyValuesForParamError p c) = ''Expected one value for '' @ p @ '', got '' @ itoa c"

fun param_error_Unwrap :: "param_error \<Rightarrow> bytes option" where
  "param_error_Unwrap (UnescapedCookieParamError p e) = Some e"
| "param_error_Unwrap (UnmarshalingParamError p e) = Some e"
| "param_error_Unwrap (RequiredParamError p) = None"
| "param_error_Unwrap (RequiredHeaderError p e) = Some e"
| "param_error_Unwrap (InvalidParamFormatError p e) = Some e"
| "param_error_Unwrap (TooManyValuesForParamError p c) = None"

section \<open>The wrapper\<close>

type_synonym middleware = "handler \<Rightarrow> handler"

record ServerInterfaceWrapper =
  siw_Handler :: server_interface
  siw_HandlerMiddlewares :: "middleware list"
  siw_ErrorHandlerFunc :: "(param_error \<Rightarrow> handler) option"

definition BearerAuthScopes :: bytes where
  "BearerAuthScopes = ''BearerAuth.Scopes''"

definition nil_dereference :: bytes where
  "nil_dereference = ''runtime error: invalid memory address or nil pointer dereference''"

text \<open>
  The three steps the generated methods are made of: the middleware loop, the scopes put into the
  context, and the binding of the path parameter \<open>id\<close>, whose error goes to \<open>ErrorHandlerFunc\<close>;
  calling that field when it is nil panics.
\<close>

definition through_middlewares :: "ServerInterfaceWrapper \<Rightarrow> handler \<Rightarrow> handler" where
  "through_middlewares siw h = foldl (\<lambda>handler middleware. middleware handler) h (siw_HandlerMiddlewares siw)"

definition with_scopes :: "request \<Rightarrow> request" where
  "with_scopes r = r\<lparr>req_ctx := WithValue (StringKey BearerAuthScopes) (CtxScopes []) (req_ctx r)\<rparr>"

definition with_id :: "libs \<Rightarrow> ServerInterfaceWrapper \<Rightarrow> (uuid \<Rightarrow> handler) \<Rightarrow> handler" where
  "with_id L siw k r w =
     (case bind_UUID L (URLParam r ''id'') of
        Inl err \<Rightarrow>
          (case siw_ErrorHandlerFunc siw of
             None \<Rightarrow> Done (Panicked nil_dereference)
           | Some f \<Rightarrow> f (InvalidParamFormatError ''id'' err) r w)
      | Inr i \<Rightarrow> k i r w)"

definition siw_PostAuthLogin :: "ServerInterfaceWrapper \<Rightarrow> handler" where
  "siw_PostAuthLogin siw r w = through_middlewares siw (si_PostAuthLogin (siw_Handler siw)) r w"

definition siw_GetHealth :: "ServerInterfaceWrapper \<Rightarrow> handler" where
  "siw_GetHealth siw r w = through_middlewares siw (si_GetHealth (siw_Handler siw)) r w"

definition siw_GetSatellites :: "ServerInterfaceWrapper \<Rightarrow> handler" where
  "siw_GetSatellites siw r w = through_middlewares siw (si_GetSatellites (siw_Handler siw)) (with_scopes r) w"

definition siw_PostSatellites :: "ServerInterfaceWrapper \<Rightarrow> handler" where
  "siw_PostSatellites siw r w = through_middlewares siw (si_PostSatellites (siw_Handler siw)) (with_scopes r) w"

definition siw_DeleteSatellitesId :: "libs \<Rightarrow> ServerInterfaceWrapper \<Rightarrow> handler" where
  "siw_DeleteSatellitesId L siw =
     with_id L siw (\<lambda>i r w. through_middlewares siw (si_DeleteSatellitesId (siw_Handler siw) i) (with_scopes r) w)"

definition siw_GetSatellitesId :: "libs \<Rightarrow> ServerInterfaceWrapper \<Rightarrow> handler" where
  "siw_GetSatellitesId L siw =
     with_id L siw (\<lambda>i r w. through_middlewares siw (si_GetSatellitesId (siw_Handler siw) i) (with_scopes r) w)"

definition siw_PatchSatellitesId :: "libs \<Rightarrow> ServerInterfaceWrapper \<Rightarrow> handler" where
  "siw_PatchSatellitesId L siw =
     with_id L siw (\<lambda>i r w. through_middlewares siw (si_PatchSatellitesId (siw_Handler siw) i) (with_scopes r) w)"

definition siw_PostSatellitesIdHeartbeat :: "libs \<Rightarrow> ServerInterfaceWrapper \<Rightarrow> handler" where
  "siw_PostSatellitesIdHeartbeat L siw =
     with_id L siw (\<lambda>i r w. through_middlewares siw (si_PostSatellitesIdHeartbeat (siw_Handler siw) i) (with_scopes r) w)"

definition siw_GetUsers :: "ServerInterfaceWrapper \<Rightarrow> handler" where
  "siw_GetUsers siw r w = through_middlewares siw (si_GetUsers (siw_Handler siw)) (with_scopes r) w"

definition siw_PostUsers :: "ServerInterfaceWrapper \<Rightarrow> handler" where
  "siw_PostUsers siw r w = through_middlewares siw (si_PostUsers (siw_Handler siw)) (with_scopes r) w"

definition siw_DeleteUsersId :: "libs \<Rightarrow> ServerInterfaceWrapper \<Rightarrow> handler" where
  "siw_DeleteUsersId L siw =
     with_id L siw (\<lambda>i r w. through_middlewares siw (si_DeleteUsersId (siw_Handler siw) i) (with_scopes r) w)"

definition siw_GetVersion :: "ServerInterfaceWrapper \<Rightarrow> handler" where
  "siw_GetVersion siw r w = through_middlewares siw (si_GetVersion (siw_Handler siw)) r w"

lemmas siw_defs =
  siw_PostAuthLogin_def siw_GetHealth_def siw_GetSatellites_def
  siw_PostSatellites_def siw_DeleteSatellitesId_def siw_GetSatellitesId_def
  siw_PatchSatellitesId_def siw_PostSatellitesIdHeartbeat_def siw_GetUsers_def
  siw_PostUsers_def siw_DeleteUsersId_def siw_GetVersion_def

section \<open>Routers\<close>

text \<open>
  A chi router: the middlewares installed with \<open>Use\<close>, outermost first, and the registered
  endpoints, each already wrapped in the middlewares of its group.
\<close>

record route =
  rt_Method :: bytes
  rt_Pattern :: bytes
  rt_Handler :: handler

record mux =
  mux_middlewares :: "middleware list"
  mux_routes :: "route list"

definition NewMux :: mux where
  "NewMux = \<lparr>mux_middlewares = [], mux_routes = []\<rparr>"

definition chain :: "middleware list \<Rightarrow> handler \<Rightarrow> handler" where
  "chain ms h = foldr (\<lambda>m h'. m h') ms h"

definition add_route :: "bytes \<Rightarrow> bytes \<Rightarrow> handler \<Rightarrow> mux \<Rightarrow> mux" where
  "add_route method pat h m =
     m\<lparr>mux_routes := mux_routes m @ [\<lparr>rt_Method = method, rt_Pattern = pat, rt_Handler = h\<rparr>]\<rparr>"

definition Use :: "middleware \<Rightarrow> mux \<Rightarrow> mux" where
  "Use f m = m\<lparr>mux_middlewares := mux_middlewares m @ [f]\<rparr>"

text \<open>
  \<open>Group\<close>: the routes registered inside are wrapped in the middlewares installed inside and
  land in the same route table.
\<close>

definition Group :: "(mux \<Rightarrow> mux) \<Rightarrow> mux \<Rightarrow> mux" where
  "Group f m =
     (let g = f NewMux in
      m\<lparr>mux_routes := mux_routes m
          @ map (\<lambda>rt. rt\<lparr>rt_Handler := chain (mux_middlewares g) (rt_Handler rt)\<rparr>) (mux_routes g)\<rparr>)"

text \<open>
  chi's tree search as a parameter: from the registered methods and patterns, and a request's
  method and path, the route it selects with the path parameters it binds, or none; and the
  answer it gives when there is none (404 or 405).
\<close>

record chi =
  chi_Find :: "(bytes \<times> bytes) list \<Rightarrow> bytes \<Rightarrow> bytes \<Rightarrow> (nat \<times> (bytes \<times> bytes) list) option"
  chi_Miss :: "request \<Rightarrow> response_writer \<Rightarrow> response_writer"

definition mux_table :: "mux \<Rightarrow> (bytes \<times> bytes) list" where
  "mux_table m = map (\<lambda>rt. (rt_Method rt, rt_Pattern rt)) (mux_routes m)"

definition selected :: "chi \<Rightarrow> mux \<Rightarrow> request \<Rightarrow> (route \<times> (bytes \<times> bytes) list) option" where
  "selected C m r =
     (case chi_Find C (mux_table m) (req_Method r) (req_Path r) of
        None \<Rightarrow> None
      | Some (i, params) \<Rightarrow>
          (if i < length (mux_routes m) then Some (mux_routes m ! i, params) else None))"

definition routeHTTP :: "chi \<Rightarrow> mux \<Rightarrow> handler" where
  "routeHTTP C m r w =
     (case selected C m r of
        None \<Rightarrow> returned (chi_Miss C r w)
      | Some (rt, params) \<Rightarrow> rt_Handler rt (r\<lparr>url_params := params\<rparr>) w)"

definition ServeHTTP :: "chi \<Rightarrow> mux \<Rightarrow> handler" where
  "ServeHTTP C m = chain (mux_middlewares m) (routeHTTP C m)"

section \<open>The generated route table\<close>

record ChiServerOptions =
  opt_BaseURL :: bytes
  opt_BaseRouter :: "mux option"
  opt_Middlewares :: "middleware list"
  opt_ErrorHandlerFunc :: "(param_error \<Rightarrow> handler) option"

definition default_error_handler :: "param_error \<Rightarrow> handler" where
  "default_error_handler err r w = returned (http_Error (param_error_text err) 400 w)"

definition HandlerWithOptions :: "libs \<Rightarrow> server_interface \<Rightarrow> ChiServerOptions \<Rightarrow> mux" where
  "HandlerWithOptions L si options =
     (let r0 = (case opt_BaseRouter options of None \<Rightarrow> NewMux | Some m \<Rightarrow> m);
          eh = (case opt_ErrorHandlerFunc options of None \<Rightarrow> default_error_handler | Some f \<Rightarrow> f);
          wrapper = \<lparr>siw_Handler = si, siw_HandlerMiddlewares = opt_Middlewares options,
                     siw_ErrorHandlerFunc = Some eh\<rparr>;
          base = opt_BaseURL options
      in foldl (\<lambda>m (method, pat, h). Group (add_route method (base @ pat) h) m) r0
           [(''POST'', ''/auth/login'', siw_PostAuthLogin wrapper),
            (''GET'', ''/health'', siw_GetHealth wrapper),
            (''GET'', ''/satellites'', siw_GetSatellites wrapper),
            (''POST'', ''/satellites'', siw_PostSatellites wrapper),
            (''DELETE'', ''/satellites/{id}'', siw_DeleteSatellitesId L wrapper),
            (''GET'', ''/satellites/{id}'', siw_GetSatellitesId L wrapper),
            (''PATCH'', ''/satellites/{id}'', siw_PatchSatellitesId L wrapper),
            (''POST'', ''/satellites/{id}/heartbeat'', siw_PostSatellitesIdHeartbeat L wrapper),
            (''GET'', ''/users'', siw_GetUsers wrapper),
            (''POST'', ''/users'', siw_PostUsers wrapper),
            (''DELETE'', ''/users/{id}'', siw_DeleteUsersId L wrapper),
            (''GET'', ''/version'', siw_GetVersion wrapper)])"

definition gen_Handler :: "libs \<Rightarrow> server_interface \<Rightarrow> mux" where
  "gen_Handler L si =
     HandlerWithOptions L si \<lparr>opt_BaseURL = [], opt_BaseRouter = None, opt_Middlewares = [],
       opt_ErrorHandlerFunc = None\<rparr>"

definition HandlerFromMux :: "libs \<Rightarrow> server_interface \<Rightarrow> mux \<Rightarrow> mux" where
  "HandlerFromMux L si m =
     HandlerWithOptions L si \<lparr>opt_BaseURL = [], opt_BaseRouter = Some m, opt_Middlewares = [],
       opt_ErrorHandlerFunc = None\<rparr>"

definition HandlerFromMuxWithBaseURL :: "libs \<Rightarrow> server_interface \<Rightarrow> mux \<Rightarrow> bytes \<Rightarrow> mux" where
  "HandlerFromMuxWithBaseURL L si m base =
     HandlerWithOptions L si \<lparr>opt_BaseURL = base, opt_BaseRouter = Some m, opt_Middlewares = [],
       opt_ErrorHandlerFunc = None\<rparr>"

section \<open>Properties\<close>

definition id_operations :: "libs \<Rightarrow> ServerInterfaceWrapper \<Rightarrow> (bytes \<times> bytes \<times> handler) list" where
  "id_operations L siw =
     [(''DELETE'', ''/satellites/{id}'', siw_DeleteSatellitesId L siw),
      (''GET'', ''/satellites/{id}'', siw_GetSatellitesId L siw),
      (''PATCH'', ''/satellites/{id}'', siw_PatchSatellitesId L siw),
      (''POST'', ''/satellites/{id}/heartbeat'', siw_PostSatellitesIdHeartbeat L siw),
      (''DELETE'', ''/users/{id}'', siw_DeleteUsersId L siw)]"

lemma id_operations_bind_error:
  assumes "bind_UUID L (URLParam r ''id'') = Inl err"
  shows "list_all (\<lambda>(method, pat, h). h r w =
      (case siw_ErrorHandlerFunc siw of
         None \<Rightarrow> Done (Panicked nil_dereference)
       | Some f \<Rightarrow> f (InvalidParamFormatError ''id'' err) r w)) (id_operations L siw)"
  using assms by (simp add: id_operations_def siw_defs with_id_def)

lemma HandlerWithOptions_routes:
  "mux_table (HandlerWithOptions L si options) =
     mux_table (case opt_BaseRouter options of None \<Rightarrow> NewMux | Some m \<Rightarrow> m)
     @ map (\<lambda>(method, pat). (method, opt_BaseURL options @ pat))
       [(''POST'', ''/auth/login''), (''GET'', ''/health''), (''GET'', ''/satellites''), (''POST'', ''/satellites''),
        (''DELETE'', ''/satellites/{id}''), (''GET'', ''/satellites/{id}''), (''PATCH'', ''/satellites/{id}''),
        (''POST'', ''/satellites/{id}/heartbeat''), (''GET'', ''/users''), (''POST'', ''/users''),
        (''DELETE'', ''/users/{id}''), (''GET'', ''/version'')]"
  by (simp add: HandlerWithOptions_def Let_def Group_def add_route_def NewMux_def mux_table_def split: option.split)

lemma gen_Handler_id_routes:
  "filter (\<lambda>rt. rt_Pattern rt \<in> {''/satellites/{id}'', ''/satellites/{id}/heartbeat'', ''/users/{id}''})
     (mux_routes (gen_Handler L si)) =
   map (\<lambda>(method, pat, h). \<lparr>rt_Method = method, rt_Pattern = pat, rt_Handler = h\<rparr>)
     (id_operations L \<lparr>siw_Handler = si, siw_HandlerMiddlewares = [], siw_ErrorHandlerFunc = Some default_error_handler\<rparr>)"
  by (simp add: gen_Handler_def HandlerWithOptions_def id_operations_def Let_def Group_def add_route_def NewMux_def chain_def)

text \<open>
  The generated router with its default error handler answers a malformed path id: all five
  routes with an id give 400 with the binder's error, and no handler runs.
\<close>

theorem generated_router_reports_bad_id:
  assumes "bind_UUID L (URLParam r ''id'') = Inl err"
  shows "list_all (\<lambda>rt. rt_Handler rt r w = returned (http_Error (''Invalid format for parameter id: '' @ err) 400 w))
    (filter (\<lambda>rt. rt_Pattern rt \<in> {''/satellites/{id}'', ''/satellites/{id}/heartbeat'', ''/users/{id}''})
      (mux_routes (gen_Handler L si)))"
  unfolding gen_Handler_id_routes
  using assms by (simp add: id_operations_def siw_defs with_id_def default_error_handler_def)

theorem generated_router_reports_bad_id_witness:
  "length (mux_routes (gen_Handler sample_libs Unimplemented)) = 12
   \<and> list_all (\<lambda>rt. rt_Handler rt ((sample_request ''GET'' ''/satellites/x'' [])\<lparr>url_params := [(''id'', ''x'')]\<rparr>) new_writer =
        returned (http_Error (''Invalid format for parameter id: '' @ ''invalid UUID'') 400 new_writer))
      (filter (\<lambda>rt. rt_Pattern rt \<in> {''/satellites/{id}'', ''/satellites/{id}/heartbeat'', ''/users/{id}''})
        (mux_routes (gen_Handler sample_libs Unimplemented)))"
proof
  show "length (mux_routes (gen_Handler sample_libs Unimplemented)) = 12"
    by (simp add: gen_Handler_def HandlerWithOptions_def Let_def Group_def add_route_def NewMux_def)
qed (rule generated_router_reports_bad_id, simp add: sample_libs_def URLParam_def)

end
