(* ===== verification/Router.thy ===== *)
theory Router
  imports ServerGen
begin

text \<open>
  The assembled server (\<open>httpserver/server.go\<close>, \<open>httpserver/router.go\<close>, \<open>cmd/server/main.go\<close>,
  \<open>db/postgres.go\<close>): the adapter from the domain handlers to the generated interface, the route
  table with its token and role gates, and the start-up sequence.
\<close>

section \<open>The adapter\<close>

text \<open>
  The handler structs hold nothing but their service, and the services nothing but their
  repository; the auth handler holds the token manager, the health handler the pool.
\<close>

record Server =
  srv_sat :: sat_repository
  srv_usr :: user_repository
  srv_auth :: JWTManager

definition NewServer :: "sat_repository \<Rightarrow> user_repository \<Rightarrow> JWTManager \<Rightarrow> Server" where
  "NewServer sat usr authH = \<lparr>srv_sat = sat, srv_usr = usr, srv_auth = authH\<rparr>"

text \<open>Each method forwards to one domain handler and drops the id the wrapper bound.\<close>

definition Server_interface :: "libs \<Rightarrow> Server \<Rightarrow> server_interface" where
  "Server_interface L s =
     \<lparr>si_PostAuthLogin = Login L (srv_auth s),
      si_GetHealth = Health,
      si_GetSatellites = satHandler_List L (srv_sat s),
      si_PostSatellites = satHandler_Create L (srv_sat s),
      si_DeleteSatellitesId = (\<lambda>_. satHandler_Delete L (srv_sat s)),
      si_GetSatellitesId = (\<lambda>_. satHandler_GetByID L (srv_sat s)),
      si_PatchSatellitesId = (\<lambda>_. satHandler_Update L (srv_sat s)),
      si_PostSatellitesIdHeartbeat = (\<lambda>_. satHandler_Heartbeat L (srv_sat s)),
      si_GetUsers = userHandler_List L (srv_usr s),
      si_PostUsers = userHandler_Create L (srv_usr s),
      si_DeleteUsersId = (\<lambda>_. userHandler_Delete L (srv_usr s)),
      si_GetVersion = Version\<rparr>"

section \<open>The route table\<close>

definition NewRouter :: "libs \<Rightarrow> server_interface \<Rightarrow> pages \<Rightarrow> JWTManager \<Rightarrow> middleware option \<Rightarrow> mux" where
  "NewRouter L server docsHandler tokens requestLogger =
     (let wrapper = \<lparr>siw_Handler = server, siw_HandlerMiddlewares = [], siw_ErrorHandlerFunc = None\<rparr>;
          r0 = NewMux;
          r1 = (case requestLogger of None \<Rightarrow> r0 | Some f \<Rightarrow> Use f r0);
          r2 = add_route ''POST'' ''/auth/login'' (siw_PostAuthLogin wrapper) r1;
          r3 = add_route ''GET'' ''/health'' (siw_GetHealth wrapper) r2;
          r4 = add_route ''GET'' ''/version'' (siw_GetVersion wrapper) r3;
          r5 = add_route ''GET'' ''/openapi.yaml'' (ServeSpec docsHandler) r4;
          r6 = add_route ''GET'' ''/docs'' (ServeUI docsHandler) r5;
          r7 = Group (\<lambda>g0.
            let g1 = Use (Middleware (jwt L) tokens) g0;
                g2 = add_route ''POST'' ''/satellites'' (siw_PostSatellites wrapper) g1;
                g3 = add_route ''GET'' ''/satellites'' (siw_GetSatellites wrapper) g2;
                g4 = add_route ''GET'' ''/satellites/{id}'' (siw_GetSatellitesId L wrapper) g3;
                g5 = add_route ''PATCH'' ''/satellites/{id}'' (siw_PatchSatellitesId L wrapper) g4;
                g6 = add_route ''DELETE'' ''/satellites/{id}'' (siw_DeleteSatellitesId L wrapper) g5
            in add_route ''POST'' ''/satellites/{id}/heartbeat'' (siw_PostSatellitesIdHeartbeat L wrapper) g6) r6
      in Group (\<lambda>g0.
            let g1 = Use (Middleware (jwt L) tokens) g0;
                g2 = Use (RequireHumanRole RoleAdmin) g1;
                g3 = add_route ''POST'' ''/users'' (siw_PostUsers wrapper) g2;
                g4 = add_route ''GET'' ''/users'' (siw_GetUsers wrapper) g3
            in add_route ''DELETE'' ''/users/{id}'' (siw_DeleteUsersId L wrapper) g4) r7)"

section \<open>Start-up\<close>

text \<open>
  \<open>pgxpool.New\<close> (an error text, or nothing when it gives a pool) and \<open>zap.NewProduction\<close> are
  external; \<open>Connect\<close> pings once.
\<close>

definition Connect :: "(bytes \<Rightarrow> bytes option) \<Rightarrow> bytes \<Rightarrow> go_error option prog" where
  "Connect pgxpool_New dsn =
     (case pgxpool_New dsn of
        Some msg \<Rightarrow> Done (Some (PgError msg))
      | None \<Rightarrow> Ping (\<lambda>err. Done err))"

datatype startup =
    Crashed bytes
  | Fatal bytes go_error
  | Listening bytes mux

definition server_mux :: "libs \<Rightarrow> pages \<Rightarrow> JWTManager \<Rightarrow> mux" where
  "server_mux L docsHandler tokens =
     NewRouter L (Server_interface L (NewServer sat_PostgresRepository user_PostgresRepository tokens))
       docsHandler tokens (Some RequestLogger)"

definition main :: "libs \<Rightarrow> pages \<Rightarrow> bytes option \<Rightarrow> (bytes \<Rightarrow> bytes option) \<Rightarrow> environ \<Rightarrow> startup prog" where
  "main L docsHandler logger_New pgxpool_New en =
     (let cfg = Load en in
      case logger_New of
        Some msg \<Rightarrow> Done (Crashed msg)
      | None \<Rightarrow>
          (case NewJWTManager \<lparr>cfg_Secret = cfg_JWTSecret cfg, cfg_Issuer = cfg_JWTIssuer cfg,
                               cfg_Audience = cfg_JWTAudience cfg\<rparr> of
             Inl err \<Rightarrow> Done (Fatal ''invalid JWT configuration'' err)
           | Inr tokens \<Rightarrow>
               bind (Connect pgxpool_New (cfg_DBUrl cfg)) (\<lambda>err.
                 case err of
                   Some e \<Rightarrow> Done (Fatal ''failed to connect to db'' e)
                 | None \<Rightarrow> Done (Listening ('':'' @ cfg_Port cfg) (server_mux L docsHandler tokens)))))"

end
