(* ===== verification/Gates.thy ===== *)
theory Gates
  imports Router
begin

text \<open>
  Who reaches which endpoint. The table of \<open>router.go\<close> is shown to be a list of endpoints, each
  behind the gate its path asks for; from there, requests without a live token, and tokens without
  the admin role, are stopped whatever chi selects, and authorised requests reach the endpoint
  with the principal in their context.
\<close>

section \<open>The access policy\<close>

datatype access = Public | Authenticated | AdminOnly

definition access_of :: "bytes \<Rightarrow> access" where
  "access_of pat =
     (if HasPrefix pat ''/satellites'' then Authenticated
      else if HasPrefix pat ''/users'' then AdminOnly else Public)"

primrec gate :: "access \<Rightarrow> jwt_lib \<Rightarrow> JWTManager \<Rightarrow> middleware" where
  "gate Public J m h = h"
| "gate Authenticated J m h = Middleware J m h"
| "gate AdminOnly J m h = Middleware J m (RequireHumanRole RoleAdmin h)"

definition server_wrapper :: "libs \<Rightarrow> JWTManager \<Rightarrow> ServerInterfaceWrapper" where
  "server_wrapper L m =
     \<lparr>siw_Handler = Server_interface L (NewServer sat_PostgresRepository user_PostgresRepository m),
      siw_HandlerMiddlewares = [], siw_ErrorHandlerFunc = None\<rparr>"

definition endpoints :: "libs \<Rightarrow> pages \<Rightarrow> JWTManager \<Rightarrow> (bytes \<times> bytes \<times> handler) list" where
  "endpoints L d m =
     (let W = server_wrapper L m in
      [(''POST'', ''/auth/login'', siw_PostAuthLogin W),
       (''GET'', ''/health'', siw_GetHealth W),
       (''GET'', ''/version'', siw_GetVersion W),
       (''GET'', ''/openapi.yaml'', ServeSpec d),
       (''GET'', ''/docs'', ServeUI d),
       (''POST'', ''/satellites'', siw_PostSatellites W),
       (''GET'', ''/satellites'', siw_GetSatellites W),
       (''GET'', ''/satellites/{id}'', siw_GetSatellitesId L W),
       (''PATCH'', ''/satellites/{id}'', siw_PatchSatellitesId L W),
       (''DELETE'', ''/satellites/{id}'', siw_DeleteSatellitesId L W),
       (''POST'', ''/satellites/{id}/heartbeat'', siw_PostSatellitesIdHeartbeat L W),
       (''POST'', ''/users'', siw_PostUsers W),
       (''GET'', ''/users'', siw_GetUsers W),
       (''DELETE'', ''/users/{id}'', siw_DeleteUsersId L W)])"

lemma server_mux_routes:
  "mux_routes (server_mux L d m) =
     map (\<lambda>(method, pat, h). \<lparr>rt_Method = method, rt_Pattern = pat,
                              rt_Handler = gate (access_of pat) (jwt L) m h\<rparr>) (endpoints L d m)"
  by (simp add: server_mux_def NewRouter_def endpoints_def server_wrapper_def Let_def Group_def Use_def
      add_route_def NewMux_def chain_def access_of_def HasPrefix_def)

lemma server_mux_middlewares: "mux_middlewares (server_mux L d m) = [RequestLogger]"
  by (simp add: server_mux_def NewRouter_def Let_def Group_def Use_def add_route_def NewMux_def)

text \<open>A selected route is one of the endpoints behind its gate.\<close>

lemma selected_endpoint:
  assumes "selected C (server_mux L d m) r = Some (rt, params)"
  obtains h where "(rt_Method rt, rt_Pattern rt, h) \<in> set (endpoints L d m)"
    "rt_Handler rt = gate (access_of (rt_Pattern rt)) (jwt L) m h"
proof -
  from assms have "rt \<in> set (mux_routes (server_mux L d m))"
    by (auto simp: selected_def split: option.splits prod.splits if_splits)
  then show thesis using that by (auto simp: server_mux_routes)
qed

section \<open>The whole request\<close>

definition log_line :: "request \<Rightarrow> response_writer \<Rightarrow> nanos \<Rightarrow> log_entry" where
  "log_line r w latency = \<lparr>log_method = req_Method r, log_path = req_Path r, log_status = ww_Status w,
     log_latency = latency\<rparr>"

lemma run_RequestLogger:
  "run \<omega> n (RequestLogger h r w) db =
     (case run \<omega> (Suc n) (h r w) db of
        (Panicked msg, n', db') \<Rightarrow> (Panicked msg, n', db')
      | (Returned ww, n', db') \<Rightarrow>
          (Returned ww, Suc (Suc n'),
           db'\<lparr>request_log := request_log db' @ [log_line r ww (env_clock (\<omega> n') - env_clock (\<omega> n))]\<rparr>))"
  by (simp add: RequestLogger_def effect_simps log_line_def split: prod.split outcome.split)

lemma ServeHTTP_server_mux:
  "ServeHTTP C (server_mux L d m) = RequestLogger (routeHTTP C (server_mux L d m))"
  by (simp add: ServeHTTP_def server_mux_middlewares chain_def)

lemma within_RequestLogger: "within R A (h r w) \<Longrightarrow> within R A (RequestLogger h r w)"
  by (auto simp: RequestLogger_def intro!: within_bind split: outcome.split)

lemma within_Middleware:
  "(\<And>p. within R A (h (r\<lparr>req_ctx := withPrincipal (req_ctx r) p\<rparr>) w)) \<Longrightarrow> within R A (Middleware J m h r w)"
  by (auto simp: Middleware_def Let_def ParseHumanToken_def split: sum.split)

lemma within_gate:
  assumes "\<And>ctx. within R A (h (r\<lparr>req_ctx := ctx\<rparr>) w)"
  shows "within R A (gate a J m h r w)"
proof -
  have "within R A (h r w)" using assms [of "req_ctx r"] by simp
  then show ?thesis
    using assms by (cases a) (auto intro!: within_Middleware simp: RequireHumanRole_run)
qed

lemma within_ServeHTTP:
  assumes "\<And>method pat h ctx params. (method, pat, h) \<in> set (endpoints L d m) \<Longrightarrow>
     within R A (h (r\<lparr>url_params := params, req_ctx := ctx\<rparr>) w)"
  shows "within R A (ServeHTTP C (server_mux L d m) r w)"
proof -
  have "within R A (rt_Handler rt (r\<lparr>url_params := params\<rparr>) w)"
    if sel: "selected C (server_mux L d m) r = Some (rt, params)" for rt params
  proof -
    obtain h where h: "(rt_Method rt, rt_Pattern rt, h) \<in> set (endpoints L d m)"
      "rt_Handler rt = gate (access_of (rt_Pattern rt)) (jwt L) m h"
      using sel by (rule selected_endpoint)
    show ?thesis unfolding h(2) by (rule within_gate) (rule assms [OF h(1)])
  qed
  then show ?thesis
    by (auto simp: ServeHTTP_server_mux routeHTTP_def intro!: within_RequestLogger split: option.split)
qed

section \<open>What the endpoints may change\<close>

lemmas endpoint_defs =
  endpoints_def server_wrapper_def Let_def siw_defs through_middlewares_def with_id_def with_scopes_def
  Server_interface_def NewServer_def

lemma with_scopes_sel [simp]:
  "req_Header (with_scopes r) = req_Header r" "req_Body (with_scopes r) = req_Body r"
  "url_params (with_scopes r) = url_params r" "req_Method (with_scopes r) = req_Method r"
  "req_Path (with_scopes r) = req_Path r"
  by (simp_all add: with_scopes_def)

lemma fromOperator_cong: "req_Header r' = req_Header r \<Longrightarrow> fromOperator r' = fromOperator r"
  by (simp add: fromOperator_def)

lemma public_readonly:
  "readonly (Login L m r w)" "readonly (Health r w)" "readonly (Version r w)"
  "readonly (ServeSpec d r w)" "readonly (ServeUI d r w)"
  by (auto simp: Login_def Health_def Version_def ServeSpec_def ServeUI_def GenerateHumanToken_def Let_def
      intro!: within_bind split: option.splits sum.splits)

lemma userHandlers_readonly: "readonly (userHandler_List L user_PostgresRepository r w)"
  by (auto simp: userHandler_defs userService_defs pg_user_defs split: option.splits sum.splits outcome.splits)

text \<open>The only roles the user endpoints ever store.\<close>

primrec known_role_change :: "change \<Rightarrow> bool" where
  "known_role_change (InsertSat n g s m) = False"
| "known_role_change (UpdateRegion g i) = False"
| "known_role_change (DeleteSat i) = False"
| "known_role_change (HeartbeatSat i) = False"
| "known_role_change (InsertUser n h r) = (r \<in> {''admin'', ''viewer''})"
| "known_role_change (DeleteUser i) = True"

text \<open>The rows the API inserts: pending, manually managed satellites, and accounts with a known role.\<close>

definition api_change :: "change \<Rightarrow> bool" where
  "api_change c \<longleftrightarrow>
     (case c of
        InsertSat n g s m \<Rightarrow> s = ''Pending'' \<and> m = ''manual''
      | InsertUser n h r \<Rightarrow> r \<in> {''admin'', ''viewer''}
      | _ \<Rightarrow> True)"

text \<open>The changes a request can make, by the class of its endpoint.\<close>

primrec access_change :: "access \<Rightarrow> change \<Rightarrow> bool" where
  "access_change Public c = False"
| "access_change Authenticated c = (\<not> user_change c \<and> api_change c)"
| "access_change AdminOnly c = known_role_change c"

lemma userHandlers_within:
  "within any_reply (access_change AdminOnly) (userHandler_Create L user_PostgresRepository r w)"
  "within any_reply (access_change AdminOnly) (userHandler_Delete L user_PostgresRepository r w)"
  by (auto simp: userHandler_defs userService_defs pg_user_defs
      split: option.splits sum.splits outcome.splits prod.splits)

lemma satHandlers_within:
  "within any_reply (access_change Authenticated) (satHandler_Create L sat_PostgresRepository r w)"
  "within any_reply (access_change Authenticated) (satHandler_Update L sat_PostgresRepository r w)"
  "within any_reply (access_change Authenticated) (satHandler_Delete L sat_PostgresRepository r w)"
  "within any_reply (access_change Authenticated) (satHandler_Heartbeat L sat_PostgresRepository r w)"
  by (auto simp: satHandler_defs satService_defs pg_sat_defs scan_or_nil_def user_change_def api_change_def
      enum_values split: option.splits sum.splits if_splits)

lemma endpoints_within:
  assumes "(method, pat, h) \<in> set (endpoints L d m)"
  shows "within any_reply (access_change (access_of pat)) (h r w)"
  using assms
  by (auto simp: endpoint_defs access_of_def HasPrefix_def
      intro: readonly_within [OF public_readonly(1)] readonly_within [OF public_readonly(2)]
        readonly_within [OF public_readonly(3)] readonly_within [OF public_readonly(4)]
        readonly_within [OF public_readonly(5)] readonly_within [OF userHandlers_readonly]
        readonly_within [OF satHandlers_readonly(1)] readonly_within [OF satHandlers_readonly(2)]
        userHandlers_within satHandlers_within
      split: sum.splits)

lemma endpoints_guarded:
  assumes "(method, pat, h) \<in> set (endpoints L d m)" "\<not> fromOperator r"
  shows "within (guard_reply ids) (guard_change ids) (h r w)"
proof (cases "access_of pat")
  case Authenticated
  then show ?thesis
    using assms
    by (auto simp: endpoint_defs access_of_def HasPrefix_def fromOperator_def
      intro!: satHandlers_guarded readonly_within [OF satHandlers_readonly(1)]
        readonly_within [OF satHandlers_readonly(2)]
      split: sum.splits if_splits)
next
  case Public
  then show ?thesis using endpoints_within [OF assms(1), of r w] by (auto elim!: within_mono)
next
  case AdminOnly
  have "known_role_change c \<Longrightarrow> guard_change ids c" for c by (cases c) auto
  then show ?thesis using endpoints_within [OF assms(1), of r w] AdminOnly by (auto elim!: within_mono)
qed


section \<open>Gates at work\<close>

lemma bearer_principal_cong:
  "req_Header r' = req_Header r \<Longrightarrow> bearer_principal J m t r' = bearer_principal J m t r"
  by (simp add: bearer_principal_def)

lemma bearer_principal_adr:
  "bearer_principal J m t r = Some p \<Longrightarrow> adr_principal p \<and> p_kind p = ActorHuman"
  by (auto simp: bearer_principal_def Let_def dest!: parse_human_token_adr split: if_splits sum.splits)

lemma bearer_principal_prefix:
  "bearer_principal J m t r = Some p \<Longrightarrow> HasPrefix (header_Get (req_Header r) ''Authorization'') ''Bearer ''"
  by (auto simp: bearer_principal_def Let_def split: if_splits)

definition unauthorized :: "request \<Rightarrow> response_writer \<Rightarrow> response_writer" where
  "unauthorized r =
     http_Error (unauthorized_body
       (if HasPrefix (header_Get (req_Header r) ''Authorization'') ''Bearer ''
        then ''invalid token'' else ''missing or invalid token'')) 401"

text \<open>
  One gate, run alone: refused without a live token, refused without the role the class asks for,
  open otherwise, with the principal in the context.
\<close>

lemma run_gate_refused:
  assumes "a \<noteq> Public" "bearer_principal J m (env_clock (\<omega> n)) r = None"
  shows "\<exists>n'. run \<omega> n (gate a J m h r w) db = (Returned (unauthorized r w), n', db)"
  using assms by (cases a) (auto simp: run_Middleware unauthorized_def)

lemma run_gate_forbidden:
  assumes "bearer_principal J m (env_clock (\<omega> n)) r = Some p" "p_role p \<noteq> RoleAdmin"
  shows "run \<omega> n (gate AdminOnly J m h r w) db = (Returned (http_Error forbidden_body 403 w), Suc n, db)"
  using assms bearer_principal_adr [OF assms(1)] bearer_principal_prefix [OF assms(1)]
  by (simp add: run_Middleware RequireHumanRole_run PrincipalFromContext_withPrincipal principal_HumanRole_def)

lemma run_gate_open:
  assumes "bearer_principal J m (env_clock (\<omega> n)) r = Some p" "a = AdminOnly \<Longrightarrow> p_role p = RoleAdmin" "a \<noteq> Public"
  shows "run \<omega> n (gate a J m h r w) db =
    run \<omega> (Suc n) (h (r\<lparr>req_ctx := withPrincipal (req_ctx r) p\<rparr>) w) db"
  using assms bearer_principal_adr [OF assms(1)] bearer_principal_prefix [OF assms(1)]
  by (cases a)
     (auto simp: run_Middleware RequireHumanRole_run PrincipalFromContext_withPrincipal principal_HumanRole_def)

text \<open>The request as a whole, in terms of the endpoint the router selects.\<close>

lemma ServeHTTP_selected:
  assumes "selected C (server_mux L d m) r = Some (rt, params)"
  obtains h where "(rt_Method rt, rt_Pattern rt, h) \<in> set (endpoints L d m)"
    "ServeHTTP C (server_mux L d m) r =
       RequestLogger (\<lambda>_. gate (access_of (rt_Pattern rt)) (jwt L) m h (r\<lparr>url_params := params\<rparr>)) r"
proof -
  obtain h where "(rt_Method rt, rt_Pattern rt, h) \<in> set (endpoints L d m)"
    "rt_Handler rt = gate (access_of (rt_Pattern rt)) (jwt L) m h"
    using assms by (rule selected_endpoint)
  then show thesis
    using assms that by (auto simp: ServeHTTP_server_mux RequestLogger_def routeHTTP_def fun_eq_iff)
qed

lemma status_unauthorized [simp]: "rw_sent w = None \<Longrightarrow> status_of (unauthorized r w) = 401"
  by (simp add: unauthorized_def)

lemma ww_Status_sent: "rw_sent w \<noteq> None \<Longrightarrow> ww_Status w = status_of w"
  by (auto simp: ww_Status_def status_of_def)

lemma http_Error_sent: "rw_sent (http_Error msg s w) \<noteq> None"
  by (simp add: http_Error_def Write_def WriteHeader_def Let_def split: option.split)


lemma run_logged:
  assumes "run \<omega> (Suc n) (h r w) db = (Returned ww, n', db')" "rw_sent ww \<noteq> None"
  shows "\<exists>entry. run \<omega> n (RequestLogger h r w) db =
      (Returned ww, Suc (Suc n'), db'\<lparr>request_log := request_log db' @ [entry]\<rparr>)
    \<and> log_status entry = status_of ww \<and> log_path entry = req_Path r \<and> log_method entry = req_Method r"
  using assms
  by (intro exI [of _ "log_line r ww (env_clock (\<omega> n') - env_clock (\<omega> n))"])
     (simp add: run_RequestLogger log_line_def ww_Status_sent)

lemma serve_refused:
  assumes "selected C (server_mux L d m) r = Some (rt, params)" "access_of (rt_Pattern rt) \<noteq> Public"
    and "bearer_principal (jwt L) m (env_clock (\<omega> (Suc n))) r = None"
  shows "\<exists>n' entry. run \<omega> n (ServeHTTP C (server_mux L d m) r w) db =
      (Returned (unauthorized r w), n', db\<lparr>request_log := request_log db @ [entry]\<rparr>)
    \<and> log_status entry = status_of (unauthorized r w) \<and> log_path entry = req_Path r"
proof -
  let ?r = "r\<lparr>url_params := params\<rparr>"
  obtain h where "(rt_Method rt, rt_Pattern rt, h) \<in> set (endpoints L d m)" and h: "ServeHTTP C (server_mux L d m) r =
      RequestLogger (\<lambda>_. gate (access_of (rt_Pattern rt)) (jwt L) m h ?r) r"
    using assms(1) by (rule ServeHTTP_selected)
  have "bearer_principal (jwt L) m (env_clock (\<omega> (Suc n))) ?r = None"
    using assms(3) by (simp add: bearer_principal_def)
  from run_gate_refused [where \<omega> = \<omega> and n = "Suc n", OF assms(2) this] obtain n' where
    "run \<omega> (Suc n) (gate (access_of (rt_Pattern rt)) (jwt L) m h ?r w) db = (Returned (unauthorized r w), n', db)"
    by (fastforce simp: unauthorized_def)
  from run_logged [where h = "\<lambda>_. gate (access_of (rt_Pattern rt)) (jwt L) m h ?r" and r = r, OF this]
  show ?thesis unfolding h by (auto simp: unauthorized_def http_Error_sent)
qed

lemma serve_forbidden:
  assumes "selected C (server_mux L d m) r = Some (rt, params)" "access_of (rt_Pattern rt) = AdminOnly"
    and "bearer_principal (jwt L) m (env_clock (\<omega> (Suc n))) r = Some p" "p_role p \<noteq> RoleAdmin"
  shows "\<exists>n' entry. run \<omega> n (ServeHTTP C (server_mux L d m) r w) db =
      (Returned (http_Error forbidden_body 403 w), n', db\<lparr>request_log := request_log db @ [entry]\<rparr>)
    \<and> log_status entry = status_of (http_Error forbidden_body 403 w) \<and> log_path entry = req_Path r"
proof -
  let ?r = "r\<lparr>url_params := params\<rparr>"
  obtain h where "(rt_Method rt, rt_Pattern rt, h) \<in> set (endpoints L d m)" and h: "ServeHTTP C (server_mux L d m) r = RequestLogger (\<lambda>_. gate AdminOnly (jwt L) m h ?r) r"
    using assms(1) unfolding assms(2) [symmetric] by (rule ServeHTTP_selected)
  have "bearer_principal (jwt L) m (env_clock (\<omega> (Suc n))) ?r = Some p"
    using assms(3) by (simp add: bearer_principal_def)
  from run_logged [where h = "\<lambda>_. gate AdminOnly (jwt L) m h ?r" and r = r, OF run_gate_forbidden [where \<omega> = \<omega> and n = "Suc n", OF this assms(4), of h w db]]
  show ?thesis unfolding h by (auto simp: http_Error_sent)
qed

text \<open>An admitted request is the endpoint's own run, between the two clock readings of the logger.\<close>

lemma serve_admitted:
  assumes "selected C (server_mux L d m) r = Some (rt, params)" "access_of (rt_Pattern rt) \<noteq> Public"
    and "bearer_principal (jwt L) m (env_clock (\<omega> (Suc n))) r = Some p"
    and "access_of (rt_Pattern rt) = AdminOnly \<Longrightarrow> p_role p = RoleAdmin"
  obtains h where "(rt_Method rt, rt_Pattern rt, h) \<in> set (endpoints L d m)"
    "run \<omega> (Suc n) (routeHTTP C (server_mux L d m) r w) db =
       run \<omega> (Suc (Suc n)) (h (r\<lparr>url_params := params, req_ctx := withPrincipal (req_ctx r) p\<rparr>) w) db"
proof -
  let ?r = "r\<lparr>url_params := params\<rparr>"
  obtain h where h: "(rt_Method rt, rt_Pattern rt, h) \<in> set (endpoints L d m)"
    "rt_Handler rt = gate (access_of (rt_Pattern rt)) (jwt L) m h"
    using assms(1) by (rule selected_endpoint)
  have "bearer_principal (jwt L) m (env_clock (\<omega> (Suc n))) ?r = Some p"
    using assms(3) by (simp add: bearer_principal_def)
  from run_gate_open [where \<omega> = \<omega> and n = "Suc n", OF this assms(4,2), of h w db] h assms(1) that show thesis
    by (simp add: routeHTTP_def)
qed


section \<open>Authority over the tables\<close>

lemma run_RequestLogger_tables:
  assumes "run \<omega> n (RequestLogger h r w) db = (out, n', db')"
  obtains out1 n1 db1 where "run \<omega> (Suc n) (h r w) db = (out1, n1, db1)"
    "satellites db' = satellites db1" "users db' = users db1"
  using assms by (cases "run \<omega> (Suc n) (h r w) db") (auto simp: run_RequestLogger split: outcome.splits)

text \<open>What a gated endpoint can change, given who asks.\<close>

lemma gate_tables:
  assumes h: "(method, pat, h) \<in> set (endpoints L d m)"
    and run: "run \<omega> n (gate (access_of pat) (jwt L) m h r w) db = (out, n', db')"
  shows "case bearer_principal (jwt L) m (env_clock (\<omega> n)) r of
      None \<Rightarrow> satellites db' = satellites db \<and> users db' = users db
    | Some p \<Rightarrow> (if p_role p = RoleAdmin then satellites db' = satellites db \<or> users db' = users db
                else users db' = users db)"
proof -
  have wi: "within any_reply (access_change (access_of pat)) (gate (access_of pat) (jwt L) m h r w)"
    by (rule within_gate) (rule endpoints_within [OF h])
  have sats: "satellites db' = satellites db" if "access_of pat \<noteq> Authenticated"
  proof -
    have "access_change (access_of pat) c \<Longrightarrow> user_change c" for c
      using that by (cases "access_of pat"; cases c) (auto simp: user_change_def)
    from within_mono [OF wi _ this] show ?thesis
      using same_satellites.run_keeps [OF _ refl run] by auto
  qed
  have usrs: "users db' = users db" if "access_of pat \<noteq> AdminOnly"
  proof -
    have "access_change (access_of pat) c \<Longrightarrow> \<not> user_change c" for c
      using that by (cases "access_of pat") auto
    from within_mono [OF wi _ this] show ?thesis
      using same_users.run_keeps [OF _ refl run] by auto
  qed
  show ?thesis
  proof (cases "access_of pat = Public")
    case True
    then show ?thesis using sats usrs by (auto split: option.split)
  next
    case gated: False
    show ?thesis
    proof (cases "bearer_principal (jwt L) m (env_clock (\<omega> n)) r")
      case None
      then show ?thesis using run_gate_refused [where \<omega> = \<omega> and n = n, OF gated None, of h w db] run by auto
    next
      case (Some p)
      then show ?thesis
        using sats usrs run_gate_forbidden [where \<omega> = \<omega> and n = n, OF Some, of h w db] run by (cases "access_of pat") auto
    qed
  qed
qed

lemma serve_tables:
  assumes "run \<omega> n (ServeHTTP C (server_mux L d m) r w) db = (out, n', db')"
  shows "case bearer_principal (jwt L) m (env_clock (\<omega> (Suc n))) r of
      None \<Rightarrow> satellites db' = satellites db \<and> users db' = users db
    | Some p \<Rightarrow> (if p_role p = RoleAdmin then satellites db' = satellites db \<or> users db' = users db
                else users db' = users db)"
proof -
  obtain out1 n1 db1 where one: "run \<omega> (Suc n) (routeHTTP C (server_mux L d m) r w) db = (out1, n1, db1)"
    and tab: "satellites db' = satellites db1" "users db' = users db1"
    using assms unfolding ServeHTTP_server_mux by (rule run_RequestLogger_tables)
  show ?thesis
  proof (cases "selected C (server_mux L d m) r")
    case None
    then show ?thesis using one tab by (auto simp: routeHTTP_def split: option.split)
  next
    case (Some sp)
    then obtain rt params where sel: "selected C (server_mux L d m) r = Some (rt, params)" by (cases sp) auto
    then obtain h where h: "(rt_Method rt, rt_Pattern rt, h) \<in> set (endpoints L d m)"
      "rt_Handler rt = gate (access_of (rt_Pattern rt)) (jwt L) m h" by (rule selected_endpoint)
    have "run \<omega> (Suc n) (gate (access_of (rt_Pattern rt)) (jwt L) m h (r\<lparr>url_params := params\<rparr>) w) db = (out1, n1, db1)"
      using one sel h(2) by (simp add: routeHTTP_def)
    from gate_tables [OF h(1) this] show ?thesis
      unfolding tab bearer_principal_cong [of "r\<lparr>url_params := params\<rparr>" r, simplified] .
  qed
qed

text \<open>Roles in the users table.\<close>

definition roles_known :: "world \<Rightarrow> bool" where
  "roles_known w \<longleftrightarrow> (\<forall>u \<in> set (users w). user_Role u \<in> {''admin'', ''viewer''})"

interpretation roles: store_invariant any_reply "\<lambda>c. user_change c \<longrightarrow> known_role_change c" roles_known
proof (unfold_locales, goal_cases)
  case (3 w c e)
  then show ?case
    by (cases c) (auto simp: roles_known_def user_change_def sat_insert_def sat_update_region_def sat_delete_def
      sat_heartbeat_def user_insert_def user_delete_def Let_def set_del_where)
qed (simp_all add: roles_known_def)

lemma serve_roles:
  "within any_reply (\<lambda>c. user_change c \<longrightarrow> known_role_change c) (ServeHTTP C (server_mux L d m) r w)"
proof (rule within_ServeHTTP)
  fix meth pat h ctx params
  assume "(meth, pat, h) \<in> set (endpoints L d m)"
  then have "within any_reply (access_change (access_of pat)) (h (r\<lparr>url_params := params, req_ctx := ctx\<rparr>) w)"
    by (rule endpoints_within)
  moreover have "access_change (access_of pat) c \<Longrightarrow> user_change c \<longrightarrow> known_role_change c" for c
    by (cases "access_of pat") auto
  ultimately show "within any_reply (\<lambda>c. user_change c \<longrightarrow> known_role_change c)
      (h (r\<lparr>url_params := params, req_ctx := ctx\<rparr>) w)"
    by (auto elim: within_mono)
qed

text \<open>Enumerated values in both tables.\<close>

definition enumerated :: "world \<Rightarrow> bool" where
  "enumerated w \<longleftrightarrow>
     (\<forall>s \<in> set (satellites w). sat_Status s \<in> set SatelliteStatus_values \<and> sat_ManagedBy s \<in> set SatelliteManagedBy_values)
     \<and> (\<forall>u \<in> set (users w). user_Role u \<in> set UserRole_values)"

lemma known_role_enumerated: "known_role_change c \<Longrightarrow> api_change c"
  by (cases c) (auto simp: api_change_def enum_values)

interpretation enums: store_invariant any_reply api_change enumerated
proof (unfold_locales, goal_cases)
  case (3 w c e)
  then show ?case
    by (cases c) (auto simp: enumerated_def api_change_def sat_insert_def sat_update_region_def sat_delete_def
      sat_heartbeat_def user_insert_def user_delete_def Let_def set_del_where set_upd_where enum_values)
qed (simp_all add: enumerated_def)

lemma serve_enumerated: "within any_reply api_change (ServeHTTP C (server_mux L d m) r w)"
proof (rule within_ServeHTTP)
  fix meth pat h ctx params
  assume "(meth, pat, h) \<in> set (endpoints L d m)"
  then have "within any_reply (access_change (access_of pat)) (h (r\<lparr>url_params := params, req_ctx := ctx\<rparr>) w)"
    by (rule endpoints_within)
  moreover have "access_change (access_of pat) c \<Longrightarrow> api_change c" for c
    by (cases "access_of pat") (auto simp: known_role_enumerated)
  ultimately show "within any_reply api_change (h (r\<lparr>url_params := params, req_ctx := ctx\<rparr>) w)"
    by (auto elim: within_mono)
qed

lemma serve_guarded:
  assumes "\<not> fromOperator r"
  shows "within (guard_reply ids) (guard_change ids) (ServeHTTP C (server_mux L d m) r w)"
  using assms by (intro within_ServeHTTP endpoints_guarded) (simp_all add: fromOperator_def)


section \<open>The policy as a specification\<close>

text \<open>
  The whole admission decision of an endpoint in one place: public endpoints are open; others need
  a live bearer token; administration needs the admin role; the endpoint sees the principal in
  its context.
\<close>

definition policy :: "access \<Rightarrow> jwt_lib \<Rightarrow> JWTManager \<Rightarrow> middleware" where
  "policy a J m h r w =
     (if a = Public then h r w
      else if \<not> HasPrefix (header_Get (req_Header r) ''Authorization'') ''Bearer '' then returned (unauthorized r w)
      else Now (\<lambda>t.
        case bearer_principal J m t r of
          None \<Rightarrow> returned (unauthorized r w)
        | Some p \<Rightarrow>
            (if a = AdminOnly \<and> p_role p \<noteq> RoleAdmin then returned (http_Error forbidden_body 403 w)
             else h (r\<lparr>req_ctx := withPrincipal (req_ctx r) p\<rparr>) w)))"

lemma Middleware_eq:
  "Middleware J m h r w =
     (if \<not> HasPrefix (header_Get (req_Header r) ''Authorization'') ''Bearer '' then returned (unauthorized r w)
      else Now (\<lambda>t. case bearer_principal J m t r of
          None \<Rightarrow> returned (unauthorized r w)
        | Some p \<Rightarrow> h (r\<lparr>req_ctx := withPrincipal (req_ctx r) p\<rparr>) w))"
  by (auto simp: Middleware_def unauthorized_def ParseHumanToken_def bearer_principal_def Let_def HasPrefix_def
      fun_eq_iff split: sum.split option.split)

lemma gate_is_policy: "gate a J m h = policy a J m h"
proof (intro ext)
  fix r w
  have "RequireHumanRole RoleAdmin h (r\<lparr>req_ctx := withPrincipal (req_ctx r) p\<rparr>) w =
      (if p_role p \<noteq> RoleAdmin then returned (http_Error forbidden_body 403 w)
       else h (r\<lparr>req_ctx := withPrincipal (req_ctx r) p\<rparr>) w)"
    if "bearer_principal J m t r = Some p" for t p
    using bearer_principal_adr [OF that]
    by (simp add: RequireHumanRole_run PrincipalFromContext_withPrincipal principal_HumanRole_def)
  then show "gate a J m h r w = policy a J m h r w"
    by (cases a) (auto simp: policy_def Middleware_eq fun_eq_iff split: option.split)
qed

text \<open>The endpoints with a path id are the generated operations that bind it.\<close>

lemma endpoints_with_id:
  assumes "(method, pat, h) \<in> set (endpoints L d m)"
    and "pat \<in> {''/satellites/{id}'', ''/satellites/{id}/heartbeat'', ''/users/{id}''}"
  shows "(method, pat, h) \<in> set (id_operations L (server_wrapper L m))"
proof -
  let ?ids = "{''/satellites/{id}'', ''/satellites/{id}/heartbeat'', ''/users/{id}''}"
  have "set (filter (\<lambda>(_, pat, _). pat \<in> ?ids) (endpoints L d m)) \<subseteq> set (id_operations L (server_wrapper L m))"
    by (simp add: endpoints_def id_operations_def Let_def)
  then show ?thesis using assms by auto
qed

end
