(* ===== verification/Fleet.thy ===== *)
theory Fleet
  imports Gates
begin

text \<open>
  The fleet as a specification: what the Control Plane's store is, without rows, statements, faults
  and requests, and the only ways it may change. The server is shown to implement it, under
  every interleaving of requests: each execution is a run of this machine.
\<close>

section \<open>The abstract machine\<close>

record fleet =
  fl_satellites :: "uuid \<Rightarrow> satellite option"
  fl_users :: "uuid \<Rightarrow> user option"

text \<open>
  The flag says whether the operator is among the actors: only then may a satellite it manages be
  moved or retired.
\<close>

inductive fleet_step :: "bool \<Rightarrow> fleet \<Rightarrow> fleet \<Rightarrow> bool" for op where
  register: "\<lbrakk>fl_satellites f i = None; \<forall>s \<in> ran (fl_satellites f). sat_Name s \<noteq> name\<rbrakk> \<Longrightarrow>
    fleet_step op f (f\<lparr>fl_satellites := (fl_satellites f)(i \<mapsto>
      \<lparr>sat_ID = i, sat_Name = name, sat_Region = region, sat_Status = ''Pending'', sat_ManagedBy = ''manual'',
       sat_LastSeenAt = None, sat_CreatedAt = t\<rparr>)\<rparr>)"
| move: "\<lbrakk>fl_satellites f i = Some s; operator_managed s \<Longrightarrow> op\<rbrakk> \<Longrightarrow>
    fleet_step op f (f\<lparr>fl_satellites := (fl_satellites f)(i \<mapsto> s\<lparr>sat_Region := region\<rparr>)\<rparr>)"
| retire: "\<lbrakk>fl_satellites f i = Some s; operator_managed s \<Longrightarrow> op\<rbrakk> \<Longrightarrow>
    fleet_step op f (f\<lparr>fl_satellites := (fl_satellites f)(i := None)\<rparr>)"
| beat: "fl_satellites f i = Some s \<Longrightarrow>
    fleet_step op f (f\<lparr>fl_satellites := (fl_satellites f)(i \<mapsto> s\<lparr>sat_Status := ''Ready'', sat_LastSeenAt := Some t\<rparr>)\<rparr>)"
| enrol: "\<lbrakk>fl_users f i = None; \<forall>u \<in> ran (fl_users f). user_Username u \<noteq> name; role \<in> {''admin'', ''viewer''}\<rbrakk> \<Longrightarrow>
    fleet_step op f (f\<lparr>fl_users := (fl_users f)(i \<mapsto>
      \<lparr>user_ID = i, user_Username = name, user_PasswordHash = hash, user_Role = role, user_CreatedAt = t\<rparr>)\<rparr>)"
| dismiss: "fl_users f i = Some u \<Longrightarrow> fleet_step op f (f\<lparr>fl_users := (fl_users f)(i := None)\<rparr>)"

inductive_cases fleet_stepE: "fleet_step op f f'"

text \<open>Nothing the machine does without the operator touches the core of a satellite that the operator manages.\<close>

lemma fleet_step_core:
  assumes "fleet_step False f f'" "fl_satellites f i = Some s" "operator_managed s"
  shows "\<exists>s'. fl_satellites f' i = Some s' \<and> operator_managed s' \<and> sat_core s' = sat_core s"
  using assms by (elim fleet_stepE) (auto simp: operator_managed_def sat_core_def)

lemma fleet_run_core:
  assumes "(fleet_step False)\<^sup>*\<^sup>* f f'" "fl_satellites f i = Some s" "operator_managed s"
  shows "\<exists>s'. fl_satellites f' i = Some s' \<and> operator_managed s' \<and> sat_core s' = sat_core s"
  using assms
proof (induction rule: rtranclp_induct)
  case (step g h)
  then obtain s' where "fl_satellites g i = Some s'" "operator_managed s'" "sat_core s' = sat_core s" by blast
  then show ?case using fleet_step_core [OF step(2)] by fastforce
qed auto

section \<open>The store as a fleet\<close>

definition fleet_of :: "world \<Rightarrow> fleet" where
  "fleet_of w = \<lparr>fl_satellites = (\<lambda>i. sel_where sat_ID i (satellites w)), fl_users = (\<lambda>i. sel_where user_ID i (users w))\<rparr>"

lemma fleet_of_log [simp]: "fleet_of (w\<lparr>request_log := l\<rparr>) = fleet_of w"
  by (simp add: fleet_of_def)

lemma ran_sel_where: "distinct (map key rows) \<Longrightarrow> ran (\<lambda>i. sel_where key i rows) = set rows"
  by (auto simp: ran_def dest: sel_where_SomeD sel_where_in_set)

text \<open>What an insertion, an update and a deletion of rows are on the abstract state.\<close>

lemma fleet_of_insert:
  "sel_where sat_ID (sat_ID row) (satellites w) = None \<Longrightarrow>
     fleet_of (w\<lparr>satellites := satellites w @ [row]\<rparr>) = (fleet_of w)\<lparr>fl_satellites := (fl_satellites (fleet_of w))(sat_ID row \<mapsto> row)\<rparr>"
  "sel_where user_ID (user_ID u) (users w) = None \<Longrightarrow>
     fleet_of (w\<lparr>users := users w @ [u]\<rparr>) = (fleet_of w)\<lparr>fl_users := (fl_users (fleet_of w))(user_ID u \<mapsto> u)\<rparr>"
  by (auto simp: fleet_of_def fun_eq_iff split: option.split)

lemma fleet_of_update:
  assumes "\<And>r. sat_ID (f r) = sat_ID r"
  shows "fleet_of (w\<lparr>satellites := upd_where sat_ID i f (satellites w)\<rparr>) =
    (fleet_of w)\<lparr>fl_satellites := (fl_satellites (fleet_of w))(i := map_option f (fl_satellites (fleet_of w) i))\<rparr>"
  using sel_where_upd_where [of sat_ID f] assms by (auto simp: fleet_of_def fun_eq_iff)

lemma fleet_of_delete:
  "fleet_of (w\<lparr>satellites := del_where sat_ID i (satellites w)\<rparr>) = (fleet_of w)\<lparr>fl_satellites := (fl_satellites (fleet_of w))(i := None)\<rparr>"
  "fleet_of (w\<lparr>users := del_where user_ID i (users w)\<rparr>) = (fleet_of w)\<lparr>fl_users := (fl_users (fleet_of w))(i := None)\<rparr>"
  by (auto simp: fleet_of_def fun_eq_iff sel_where_del_where)

lemma fleet_of_sel:
  "fl_satellites (fleet_of w) i = sel_where sat_ID i (satellites w)" "fl_users (fleet_of w) i = sel_where user_ID i (users w)"
  by (simp_all add: fleet_of_def)

lemma fleet_same: "fl_satellites f i = None \<Longrightarrow> f\<lparr>fl_satellites := (fl_satellites f)(i := None)\<rparr> = f"
  "fl_users f i = None \<Longrightarrow> f\<lparr>fl_users := (fl_users f)(i := None)\<rparr> = f"
  by (cases f; simp add: fun_upd_idem)+

lemmas fleet_of_simps = fleet_of_insert fleet_of_update fleet_of_delete fleet_of_sel fleet_same

text \<open>May a request make this change of this world?\<close>

definition allowed :: "bool \<Rightarrow> world \<Rightarrow> change \<Rightarrow> bool" where
  "allowed op w c \<longleftrightarrow> api_change c \<and> (op \<or> guard_change (operator_ids w) c)"

lemma not_operators:
  "i \<notin> operator_ids w \<Longrightarrow> sel_where sat_ID i (satellites w) = Some s \<Longrightarrow> \<not> operator_managed s"
  by (auto simp: operator_ids_def dest!: sel_where_SomeD)

lemma effect_simulated:
  assumes db: "db_ok w" and c: "allowed op w c"
  shows "(fleet_step op)\<^sup>=\<^sup>= (fleet_of w) (fleet_of (effect e c w))"
proof (cases c)
  case (InsertSat n g s m)
  have "\<forall>r \<in> ran (fl_satellites (fleet_of w)). sat_Name r \<noteq> n" if "sel_where sat_Name n (satellites w) = None"
    using that db by (auto simp: fleet_of_def db_ok_def ran_sel_where sel_where_None_iff)
  then show ?thesis
    using InsertSat c fleet_step.register [of "fleet_of w" "env_uuid e" n op g "env_now e"]
    by (auto simp: allowed_def api_change_def sat_insert_def fleet_of_simps Let_def)
next
  case (InsertUser n h r)
  have "\<forall>u \<in> ran (fl_users (fleet_of w)). user_Username u \<noteq> n" if "sel_where user_Username n (users w) = None"
    using that db by (auto simp: fleet_of_def db_ok_def ran_sel_where sel_where_None_iff)
  then show ?thesis
    using InsertUser c fleet_step.enrol [of "fleet_of w" "env_uuid e" n r op h "env_now e"]
    by (auto simp: allowed_def api_change_def user_insert_def fleet_of_simps Let_def)
next
  case (UpdateRegion g i)
  then show ?thesis
    using c fleet_step.move [of "fleet_of w" i _ op g] not_operators [of i w]
    by (cases "sel_where sat_ID i (satellites w)")
      (auto simp: allowed_def sat_update_region_def Let_def fleet_of_simps)
next
  case (DeleteSat i)
  then show ?thesis
    using c fleet_step.retire [of "fleet_of w" i _ op] not_operators [of i w]
    by (cases "sel_where sat_ID i (satellites w)")
      (auto simp: allowed_def sat_delete_def fleet_of_simps)
next
  case (HeartbeatSat i)
  then show ?thesis
    using fleet_step.beat [of "fleet_of w" i _ op "env_now e"]
    by (cases "sel_where sat_ID i (satellites w)")
      (auto simp: sat_heartbeat_def Let_def fleet_of_simps)
next
  case (DeleteUser i)
  then show ?thesis
    using fleet_step.dismiss [of "fleet_of w" i _ op]
    by (cases "sel_where user_ID i (users w)") (auto simp: user_delete_def fleet_of_simps)
qed

section \<open>Every execution is a run of the machine\<close>

definition simulated :: "bool \<Rightarrow> world \<Rightarrow> world \<Rightarrow> bool" where
  "simulated op w0 w \<longleftrightarrow>
     db_ok w \<and> (op \<or> operator_safe w0 w) \<and> (fleet_step op)\<^sup>*\<^sup>* (fleet_of w0) (fleet_of w)"

interpretation fleet: store_invariant "\<lambda>i r. op \<or> guard_reply (operator_ids w0) i r"
  "\<lambda>c. api_change c \<and> (op \<or> guard_change (operator_ids w0) c)" "simulated op w0" for op w0
proof (unfold_locales, goal_cases)
  case (2 w i row)
  then show ?case using protect.reply_row by (auto simp: simulated_def)
next
  case (3 w c e)
  then have "allowed op w c" using operator_safe_ids [of w0 w] by (auto simp: simulated_def allowed_def)
  then have "(fleet_step op)\<^sup>=\<^sup>= (fleet_of w) (fleet_of (effect e c w))" using effect_simulated 3 by (simp add: simulated_def)
  then have "(fleet_step op)\<^sup>*\<^sup>* (fleet_of w0) (fleet_of (effect e c w))"
    using 3 by (auto simp: simulated_def elim: rtranclp.rtrancl_into_rtrancl)
  then show ?case using 3 effect_db_ok protect.change_keeps by (auto simp: simulated_def)
next
  case (4 w l)
  then show ?case using schema.log_keeps protect.log_keeps by (auto simp: simulated_def)
qed (simp add: protect.reply_error)

lemma within_and: "within R A p \<Longrightarrow> within any_reply B p \<Longrightarrow> within R (\<lambda>c. B c \<and> A c) p"
  by (induction p) auto

lemma serve_simulated:
  assumes "op \<or> \<not> fromOperator r"
  shows "within (\<lambda>i q. op \<or> guard_reply ids i q) (\<lambda>c. api_change c \<and> (op \<or> guard_change ids c)) (ServeHTTP C (server_mux L d m) r w)"
proof (cases op)
  case True
  then show ?thesis using serve_enumerated by (auto elim: within_mono)
next
  case False
  then show ?thesis using within_and [OF serve_guarded serve_enumerated] assms by simp
qed

lemma simulated_start: "db_ok w \<Longrightarrow> simulated op w w"
  by (auto simp: simulated_def db_ok_def operator_safe_start)

end
