(* ===== verification/Operator.thy ===== *)
theory Operator
  imports Prelude
begin

text \<open>
  The Kubernetes operator: the custom resource (\<open>operator/api/v1alpha1/satellite_types.go\<close>) and its
  reconciler (\<open>operator/internal/controller/satellite_controller.go\<close>). The cluster is reached
  through controller-runtime's client, which is a parameter; what the reconciler relies on is the
  contracts \<open>get_contract\<close> and \<open>update_contract\<close>: reads return the stored object, and a status update replaces the
  status of the stored object and nothing else.
\<close>

section \<open>The custom resource\<close>

record SatelliteSpec =
  spec_Region :: bytes

record 'c SatelliteStatus =
  status_Phase :: bytes
  status_ManagedBy :: bytes
  status_LastHeartbeat :: "nanos option"
  status_Conditions :: "'c list"

record TypeMeta =
  tm_Kind :: bytes
  tm_APIVersion :: bytes

text \<open>\<open>ObjectMeta\<close> and the conditions are types of apimachinery, kept abstract.\<close>

record ('o, 'c) Satellite_CR =
  cr_TypeMeta :: TypeMeta
  cr_ObjectMeta :: 'o
  cr_Spec :: SatelliteSpec
  cr_Status :: "'c SatelliteStatus"

record NamespacedName =
  nn_Namespace :: bytes
  nn_Name :: bytes

section \<open>The client\<close>

datatype k8s_error = NotFound bytes | OtherError bytes

definition IsNotFound :: "k8s_error \<Rightarrow> bool" where
  "IsNotFound err \<longleftrightarrow> (case err of NotFound _ \<Rightarrow> True | OtherError _ \<Rightarrow> False)"

text \<open>
  The two calls the reconciler makes on the cluster state \<open>'s\<close>: \<open>Get\<close>, and \<open>Update\<close> of the status
  subresource.
\<close>

record ('s, 'o, 'c) k8s_client =
  cl_Get :: "NamespacedName \<Rightarrow> 's \<Rightarrow> k8s_error + ('o, 'c) Satellite_CR"
  cl_StatusUpdate :: "('o, 'c) Satellite_CR \<Rightarrow> 's \<Rightarrow> k8s_error option \<times> 's"

text \<open>An information line has key-value pairs.\<close>

datatype op_log = OpInfo bytes "(bytes \<times> bytes) list" | OpError k8s_error bytes

text \<open>
  One reconciliation: the error it returns (nil means done; the result is always the empty
  \<open>ctrl.Result\<close>), the cluster it leaves and the lines it logs.
\<close>

definition Reconcile ::
  "('o \<Rightarrow> bytes) \<Rightarrow> ('s, 'o, 'c) k8s_client \<Rightarrow> NamespacedName \<Rightarrow> 's \<Rightarrow> k8s_error option \<times> 's \<times> op_log list" where
  "Reconcile meta_Name cl req s =
     (let log0 = [OpInfo ''Reconciling satellite...'' [(''name'', nn_Name req), (''namespace'', nn_Namespace req)]] in
      case cl_Get cl req s of
        Inl err \<Rightarrow>
          (if IsNotFound err
           then (None, s, log0 @ [OpInfo ''Satellite resource not found, likely deleted'' [(''name'', nn_Name req)]])
           else (Some err, s, log0 @ [OpError err ''unable to fetch Satellite'']))
      | Inr satellite \<Rightarrow>
          (if status_Phase (cr_Status satellite) \<noteq> ''Ready''
           then let satellite' = satellite\<lparr>cr_Status := (cr_Status satellite)
                      \<lparr>status_Phase := ''Ready'', status_ManagedBy := ''operator''\<rparr>\<rparr> in
             (case cl_StatusUpdate cl satellite' s of
                (Some err, s') \<Rightarrow> (Some err, s', log0 @ [OpError err ''unable to update Satellite status''])
              | (None, s') \<Rightarrow>
                  (None, s', log0 @ [OpInfo ''Satellite marked as Ready'' [(''name'', meta_Name (cr_ObjectMeta satellite'))]]))
           else (None, s, log0)))"

section \<open>What the reconciler relies on\<close>

text \<open>
  \<open>stored\<close> reads the spec and status of an object in the cluster and \<open>key\<close> is an object's name. A
  read that succeeds returns the stored spec and status; a not-found error means there is no such
  object. A status update that succeeds replaces the status of the stored object with that name,
  if there is one; one that fails may have done so or not. Specs and other objects are not
  touched; the metadata (resource versions) is the API server's. The manager's client may answer a
  read from its cache; the contract is about reads for which the cache has caught up.
\<close>

type_synonym 'c cluster_view = "NamespacedName \<Rightarrow> (SatelliteSpec \<times> 'c SatelliteStatus) option"

definition status_written :: "'c cluster_view \<Rightarrow> NamespacedName \<Rightarrow> 'c SatelliteStatus \<Rightarrow> 'c cluster_view" where
  "status_written st k new = st(k := map_option (\<lambda>(spec, _). (spec, new)) (st k))"

definition get_contract ::
  "('s \<Rightarrow> 'c cluster_view) \<Rightarrow> ('o \<Rightarrow> NamespacedName) \<Rightarrow> ('s, 'o, 'c) k8s_client \<Rightarrow> bool" where
  "get_contract stored key cl \<longleftrightarrow>
     (\<forall>k s obj. cl_Get cl k s = Inr obj \<longrightarrow>
        stored s k = Some (cr_Spec obj, cr_Status obj) \<and> key (cr_ObjectMeta obj) = k)
     \<and> (\<forall>k s err. cl_Get cl k s = Inl err \<longrightarrow> IsNotFound err \<longrightarrow> stored s k = None)"

definition update_contract ::
  "('s \<Rightarrow> 'c cluster_view) \<Rightarrow> ('o \<Rightarrow> NamespacedName) \<Rightarrow> ('s, 'o, 'c) k8s_client \<Rightarrow> bool" where
  "update_contract stored key cl \<longleftrightarrow>
     (\<forall>obj s err s'. cl_StatusUpdate cl obj s = (err, s') \<longrightarrow>
        stored s' = status_written (stored s) (key (cr_ObjectMeta obj)) (cr_Status obj)
        \<or> err \<noteq> None \<and> stored s' = stored s)"

section \<open>Properties\<close>

text \<open>The status a satellite has after a successful reconciliation.\<close>

definition reconciled :: "'c SatelliteStatus \<Rightarrow> 'c SatelliteStatus" where
  "reconciled st =
     (if status_Phase st = ''Ready'' then st else st\<lparr>status_Phase := ''Ready'', status_ManagedBy := ''operator''\<rparr>)"

definition reconciled_view :: "'c cluster_view \<Rightarrow> NamespacedName \<Rightarrow> 'c cluster_view" where
  "reconciled_view st k = st(k := map_option (apsnd reconciled) (st k))"

lemma reconciled_idem: "reconciled (reconciled st) = reconciled st"
  by (simp add: reconciled_def)

lemma reconciled_Ready: "status_Phase (reconciled st) = ''Ready''"
  by (simp add: reconciled_def)

lemma reconciled_view_idem: "reconciled_view (reconciled_view st k) k = reconciled_view st k"
  by (simp add: reconciled_view_def reconciled_idem apsnd_compose option.map_comp comp_def)

lemma Reconcile_got:
  assumes "cl_Get cl req s = Inr obj" "cl_StatusUpdate cl (obj\<lparr>cr_Status := reconciled (cr_Status obj)\<rparr>) s = (e, s1)"
  shows "\<exists>log. Reconcile meta_Name cl req s =
    (if status_Phase (cr_Status obj) = ''Ready'' then (None, s, log) else (e, s1, log))"
  using assms by (cases e) (auto simp: Reconcile_def reconciled_def Let_def)

lemma Reconcile_cases:
  assumes get: "get_contract stored key cl" and upd: "update_contract stored key cl"
    and run: "Reconcile meta_Name cl req s = (err, s', log)"
  shows "stored s' = reconciled_view (stored s) req \<or> (err \<noteq> None \<and> stored s' = stored s)"
proof (cases "cl_Get cl req s")
  case (Inl e)
  with get have "IsNotFound e \<Longrightarrow> stored s req = None" by (auto simp: get_contract_def)
  with run Inl show ?thesis
    by (cases "IsNotFound e") (auto simp: Reconcile_def Let_def reconciled_view_def)
next
  case (Inr obj)
  with get have got: "stored s req = Some (cr_Spec obj, cr_Status obj)" "key (cr_ObjectMeta obj) = req"
    by (auto simp: get_contract_def)
  obtain e s1 where up: "cl_StatusUpdate cl (obj\<lparr>cr_Status := reconciled (cr_Status obj)\<rparr>) s = (e, s1)"
    by fastforce
  have "stored s1 = status_written (stored s) req (reconciled (cr_Status obj)) \<or> e \<noteq> None \<and> stored s1 = stored s"
    using upd [unfolded update_contract_def, rule_format, OF up] got by simp
  then show ?thesis
    using Reconcile_got [OF Inr up, of meta_Name] run got
    by (auto simp: reconciled_view_def status_written_def reconciled_def split: if_splits)
qed

text \<open>
  C39. One reconciliation. If it returns nil, the named object, if there is one, has the
  reconciled status: Ready, and marked as operator-managed if it was not Ready before; its spec
  and every other object are unchanged. If it returns an error, the specs and statuses of the
  cluster are as before or that same status update has happened.
\<close>

theorem Reconcile_outcome:
  assumes "get_contract stored key cl" "update_contract stored key cl"
    and "Reconcile meta_Name cl req s = (err, s', log)"
  shows "stored s' = (stored s)(req := map_option (\<lambda>(spec, st). (spec, reconciled st)) (stored s req))
    \<or> (err \<noteq> None \<and> stored s' = stored s)"
  using Reconcile_cases [OF assms] by (simp add: reconciled_view_def apsnd_def map_prod_def id_def)

text \<open>
  C40. Reconciliation converges in one step: after one that returned nil, reconciling the same name
  again leaves the cluster exactly as it is, whether or not its read succeeds: no second status
  update is issued.
\<close>

theorem Reconcile_idempotent:
  assumes "get_contract stored key cl" "update_contract stored key cl"
    and first: "Reconcile meta_Name cl req s = (None, s1, log1)"
    and second: "Reconcile meta_Name cl req s1 = (err, s2, log2)"
  shows "s2 = s1"
proof -
  have r1: "stored s1 = reconciled_view (stored s) req"
    using Reconcile_cases [OF assms(1,2) first] by simp
  show ?thesis
  proof (cases "cl_Get cl req s1")
    case (Inl e)
    then show ?thesis using second by (cases "IsNotFound e") (auto simp: Reconcile_def Let_def)
  next
    case (Inr obj)
    with assms(1) have "stored s1 req = Some (cr_Spec obj, cr_Status obj)" by (auto simp: get_contract_def)
    with r1 have "\<exists>st. cr_Status obj = reconciled st"
      by (auto simp: reconciled_view_def intro: sym)
    then have "status_Phase (cr_Status obj) = ''Ready''" by (auto simp: reconciled_Ready)
    then show ?thesis using second Inr by (simp add: Reconcile_def Let_def)
  qed
qed

text \<open>
  Errors of the reconciler: a failed read is returned unless it says not found, which counts
  as done; otherwise the error is the one of the status update, which is only attempted when the
  phase is not Ready. A read alone never changes the cluster.
\<close>

theorem Reconcile_errors:
  "(case Reconcile meta_Name cl req s of (err, s', log) \<Rightarrow>
     (case cl_Get cl req s of
        Inl e \<Rightarrow> s' = s \<and> err = (if IsNotFound e then None else Some e)
      | Inr obj \<Rightarrow>
          (if status_Phase (cr_Status obj) = ''Ready'' then s' = s \<and> err = None
           else (err, s') = cl_StatusUpdate cl (obj\<lparr>cr_Status := reconciled (cr_Status obj)\<rparr>) s)))"
  by (auto simp: Reconcile_def reconciled_def Let_def split: sum.split option.split prod.split)

section \<open>A cluster of one map\<close>

text \<open>
  A client that meets both contracts: the cluster is a map from names to objects.
\<close>

definition sample_client ::
  "((NamespacedName \<Rightarrow> (NamespacedName, 'c) Satellite_CR option), NamespacedName, 'c) k8s_client" where
  "sample_client =
     \<lparr>cl_Get = (\<lambda>k s. case s k of
        Some obj \<Rightarrow> (if cr_ObjectMeta obj = k then Inr obj else Inl (OtherError ''bad key''))
      | None \<Rightarrow> Inl (NotFound ''not found'')),
      cl_StatusUpdate = (\<lambda>obj s. (None, s(cr_ObjectMeta obj :=
        map_option (\<lambda>old. old\<lparr>cr_Status := cr_Status obj\<rparr>) (s (cr_ObjectMeta obj)))))\<rparr>"

definition sample_stored :: "(NamespacedName \<Rightarrow> (NamespacedName, 'c) Satellite_CR option) \<Rightarrow> 'c cluster_view" where
  "sample_stored s k = map_option (\<lambda>obj. (cr_Spec obj, cr_Status obj)) (s k)"

lemma sample_client_contracts:
  "get_contract sample_stored id sample_client" "update_contract sample_stored id sample_client"
proof -
  show "get_contract sample_stored id sample_client"
    by (auto simp: get_contract_def sample_client_def sample_stored_def IsNotFound_def split: option.splits if_splits)
  have "sample_stored (s(k := map_option (\<lambda>old. old\<lparr>cr_Status := st\<rparr>) (s k))) = status_written (sample_stored s) k st"
    for s :: "NamespacedName \<Rightarrow> (NamespacedName, 'c) Satellite_CR option" and k st
    by (rule ext) (simp add: sample_stored_def status_written_def option.map_comp comp_def)
  then show "update_contract sample_stored id (sample_client :: ((NamespacedName \<Rightarrow> (NamespacedName, 'c) Satellite_CR option), NamespacedName, 'c) k8s_client)"
    by (auto simp: update_contract_def sample_client_def)
qed

definition sample_cr :: "(NamespacedName, unit) Satellite_CR" where
  "sample_cr = \<lparr>cr_TypeMeta = \<lparr>tm_Kind = ''Satellite'', tm_APIVersion = ''fleetcontrol.io/v1alpha1''\<rparr>,
     cr_ObjectMeta = \<lparr>nn_Namespace = ''default'', nn_Name = ''edge''\<rparr>, cr_Spec = \<lparr>spec_Region = ''hcm''\<rparr>,
     cr_Status = \<lparr>status_Phase = ''Pending'', status_ManagedBy = [], status_LastHeartbeat = None, status_Conditions = []\<rparr>\<rparr>"

definition sample_cluster :: "NamespacedName \<Rightarrow> (NamespacedName, unit) Satellite_CR option" where
  "sample_cluster = [cr_ObjectMeta sample_cr \<mapsto> sample_cr]"

definition sample_cluster_ready :: "NamespacedName \<Rightarrow> (NamespacedName, unit) Satellite_CR option" where
  "sample_cluster_ready =
     [cr_ObjectMeta sample_cr \<mapsto> sample_cr\<lparr>cr_Status := reconciled (cr_Status sample_cr)\<rparr>]"

lemma sample_reconcile:
  "\<exists>log. Reconcile nn_Name sample_client (cr_ObjectMeta sample_cr) sample_cluster = (None, sample_cluster_ready, log)"
  by (simp add: Reconcile_def sample_client_def sample_cluster_def sample_cluster_ready_def sample_cr_def
      reconciled_def Let_def)

lemma sample_reconcile_again:
  "\<exists>log. Reconcile nn_Name sample_client (cr_ObjectMeta sample_cr) sample_cluster_ready = (None, sample_cluster_ready, log)"
  by (simp add: Reconcile_def sample_client_def sample_cluster_ready_def sample_cr_def reconciled_def Let_def)

theorem Reconcile_outcome_witness:
  "sample_stored sample_cluster_ready (cr_ObjectMeta sample_cr) =
     Some (cr_Spec sample_cr, reconciled (cr_Status sample_cr))"
proof -
  obtain log where "Reconcile nn_Name sample_client (cr_ObjectMeta sample_cr) sample_cluster = (None, sample_cluster_ready, log)"
    using sample_reconcile by blast
  from Reconcile_outcome [OF sample_client_contracts this] show ?thesis
    by (simp add: sample_stored_def sample_cluster_def)
qed

theorem Reconcile_idempotent_witness:
  "\<exists>s1 s2 log1 log2. Reconcile nn_Name sample_client (cr_ObjectMeta sample_cr) sample_cluster = (None, s1, log1)
     \<and> Reconcile nn_Name sample_client (cr_ObjectMeta sample_cr) s1 = (None, s2, log2) \<and> s2 = s1"
proof -
  obtain log1 where first: "Reconcile nn_Name sample_client (cr_ObjectMeta sample_cr) sample_cluster = (None, sample_cluster_ready, log1)"
    using sample_reconcile by blast
  obtain log2 where second: "Reconcile nn_Name sample_client (cr_ObjectMeta sample_cr) sample_cluster_ready = (None, sample_cluster_ready, log2)"
    using sample_reconcile_again by blast
  show ?thesis
    using Reconcile_idempotent [OF sample_client_contracts first second] first second by blast
qed

end
