(* ===== verification/OperatorMain.thy ===== *)
theory OperatorMain
  imports Operator
begin

text \<open>
  Start-up of the operator (\<open>operator/cmd/main.go\<close>): its command line flags, read the way the \<open>flag\<close>
  package reads them, the options it derives from them, and the order in which it registers things
  with controller-runtime, which is a parameter.
\<close>

section \<open>The flag package\<close>

text \<open>
  A flag set over values of type \<open>'f\<close>: for each name, whether the flag is boolean and how a value is
  set; setting may fail with a message.
\<close>

type_synonym 'f flag_set = "bytes \<Rightarrow> (bool \<times> (bytes \<Rightarrow> 'f \<Rightarrow> bytes + 'f)) option"

datatype flag_error =
    ErrHelp
  | BadSyntax bytes
  | NotDefined bytes
  | InvalidBoolean bytes bytes bytes
  | NeedsArgument bytes
  | InvalidValue bytes bytes bytes

definition ParseBool :: "bytes \<Rightarrow> bool option" where
  "ParseBool s =
     (if s \<in> {''1'', ''t'', ''T'', ''true'', ''TRUE'', ''True''} then Some True
      else if s \<in> {''0'', ''f'', ''F'', ''false'', ''FALSE'', ''False''} then Some False
      else None)"

definition StringVar :: "((bytes \<Rightarrow> bytes) \<Rightarrow> 'f \<Rightarrow> 'f) \<Rightarrow> bool \<times> (bytes \<Rightarrow> 'f \<Rightarrow> bytes + 'f)" where
  "StringVar upd = (False, \<lambda>v f. Inr (upd (\<lambda>_. v) f))"

definition BoolVar :: "((bool \<Rightarrow> bool) \<Rightarrow> 'f \<Rightarrow> 'f) \<Rightarrow> bool \<times> (bytes \<Rightarrow> 'f \<Rightarrow> bytes + 'f)" where
  "BoolVar upd = (True, \<lambda>v f. case ParseBool v of None \<Rightarrow> Inl ''parse error'' | Some b \<Rightarrow> Inr (upd (\<lambda>_. b) f))"

text \<open>A name and the value after its first equals sign, which is not its first character.\<close>

definition split_value :: "bytes \<Rightarrow> bytes \<times> bytes option" where
  "split_value name =
     (let n = take 1 name @ takeWhile (\<lambda>c. c \<noteq> CHR ''='') (drop 1 name)
      in (n, if length n < length name then Some (drop (Suc (length n)) name) else None))"

datatype 'f parsed = Stop "bytes list" | Fail flag_error | More "bytes list" 'f

definition parse_one :: "'f flag_set \<Rightarrow> bytes list \<Rightarrow> 'f \<Rightarrow> 'f parsed" where
  "parse_one flags args f =
     (case args of
        [] \<Rightarrow> Stop []
      | s # rest \<Rightarrow>
          if length s < 2 \<or> hd s \<noteq> CHR ''-'' then Stop args
          else if s = ''--'' then Stop rest
          else let name0 = (if s ! 1 = CHR ''-'' then drop 2 s else drop 1 s) in
            if name0 = [] \<or> hd name0 = CHR ''-'' \<or> hd name0 = CHR ''='' then Fail (BadSyntax s)
            else case split_value name0 of (name, value) \<Rightarrow>
              (case flags name of
                 None \<Rightarrow>
                   if name = ''help'' \<or> name = ''h'' then Fail ErrHelp
                   else Fail (NotDefined name)
               | Some (True, assign) \<Rightarrow>
                   (let v = (case value of Some v \<Rightarrow> v | None \<Rightarrow> ''true'') in
                    case assign v f of
                      Inl e \<Rightarrow> Fail (InvalidBoolean v name e)
                    | Inr f' \<Rightarrow> More rest f')
               | Some (False, assign) \<Rightarrow>
                   (case (value, rest) of
                      (None, []) \<Rightarrow> Fail (NeedsArgument name)
                    | (None, v # rest') \<Rightarrow>
                        (case assign v f of
                           Inl e \<Rightarrow> Fail (InvalidValue v name e)
                         | Inr f' \<Rightarrow> More rest' f')
                    | (Some v, _) \<Rightarrow>
                        (case assign v f of
                           Inl e \<Rightarrow> Fail (InvalidValue v name e)
                         | Inr f' \<Rightarrow> More rest f'))))"

lemma parse_one_shrinks: "parse_one flags args f = More rest f' \<Longrightarrow> length rest < length args"
  by (auto simp: parse_one_def Let_def split: list.splits if_splits option.splits sum.splits prod.splits bool.splits)

function flag_Parse :: "'f flag_set \<Rightarrow> bytes list \<Rightarrow> 'f \<Rightarrow> flag_error + 'f" where
  "flag_Parse flags args f =
     (case parse_one flags args f of
        Stop _ \<Rightarrow> Inr f
      | Fail e \<Rightarrow> Inl e
      | More rest f' \<Rightarrow> flag_Parse flags rest f')"
  by pat_completeness auto
termination
  by (relation "measure (\<lambda>(_, args, _). length args)") (auto dest: parse_one_shrinks)

declare flag_Parse.simps [simp del]

section \<open>Options\<close>

record operator_flags =
  metricsAddr :: bytes
  metricsCertPath :: bytes
  metricsCertName :: bytes
  metricsCertKey :: bytes
  webhookCertPath :: bytes
  webhookCertName :: bytes
  webhookCertKey :: bytes
  enableLeaderElection :: bool
  probeAddr :: bytes
  secureMetrics :: bool
  enableHTTP2 :: bool

definition default_flags :: operator_flags where
  "default_flags = \<lparr>metricsAddr = ''0'', metricsCertPath = [], metricsCertName = ''tls.crt'', metricsCertKey = ''tls.key'',
     webhookCertPath = [], webhookCertName = ''tls.crt'', webhookCertKey = ''tls.key'', enableLeaderElection = False,
     probeAddr = '':8081'', secureMetrics = True, enableHTTP2 = False\<rparr>"

definition main_flags :: "operator_flags flag_set" where
  "main_flags = map_of
     [(''metrics-bind-address'', StringVar metricsAddr_update),
      (''health-probe-bind-address'', StringVar probeAddr_update),
      (''leader-elect'', BoolVar enableLeaderElection_update),
      (''metrics-secure'', BoolVar secureMetrics_update),
      (''webhook-cert-path'', StringVar webhookCertPath_update),
      (''webhook-cert-name'', StringVar webhookCertName_update),
      (''webhook-cert-key'', StringVar webhookCertKey_update),
      (''metrics-cert-path'', StringVar metricsCertPath_update),
      (''metrics-cert-name'', StringVar metricsCertName_update),
      (''metrics-cert-key'', StringVar metricsCertKey_update),
      (''enable-http2'', BoolVar enableHTTP2_update)]"

text \<open>Flags of other packages (zap's options, the kubeconfig path) share the flag set; \<open>'z\<close> is their state.\<close>

definition lift_flag :: "((('a \<Rightarrow> 'a) \<Rightarrow> 's \<Rightarrow> 's) \<times> ('s \<Rightarrow> 'a)) \<Rightarrow> bool \<times> (bytes \<Rightarrow> 'a \<Rightarrow> bytes + 'a) \<Rightarrow> bool \<times> (bytes \<Rightarrow> 's \<Rightarrow> bytes + 's)" where
  "lift_flag lens flag =
     (fst flag, \<lambda>v s. case snd flag v (snd lens s) of Inl e \<Rightarrow> Inl e | Inr a \<Rightarrow> Inr (fst lens (\<lambda>_. a) s))"

definition command_line :: "'z flag_set \<Rightarrow> (operator_flags \<times> 'z) flag_set" where
  "command_line others name =
     (case main_flags name of
        Some flag \<Rightarrow> Some (lift_flag (apfst, fst) flag)
      | None \<Rightarrow> map_option (lift_flag (apsnd, snd)) (others name))"

record tls_Config =
  NextProtos :: "bytes list"

definition disableHTTP2 :: "tls_Config \<Rightarrow> tls_Config" where
  "disableHTTP2 c = c\<lparr>NextProtos := [''http/1.1'']\<rparr>"

record webhook_Options =
  wh_TLSOpts :: "(tls_Config \<Rightarrow> tls_Config) list"
  wh_CertDir :: bytes
  wh_CertName :: bytes
  wh_KeyName :: bytes

datatype filter_provider = NoFilter | WithAuthenticationAndAuthorization

record metrics_Options =
  ms_BindAddress :: bytes
  ms_SecureServing :: bool
  ms_TLSOpts :: "(tls_Config \<Rightarrow> tls_Config) list"
  ms_FilterProvider :: filter_provider
  ms_CertDir :: bytes
  ms_CertName :: bytes
  ms_KeyName :: bytes

record 's manager_Options =
  mo_Scheme :: 's
  mo_Metrics :: metrics_Options
  mo_WebhookServer :: webhook_Options
  mo_HealthProbeBindAddress :: bytes
  mo_LeaderElection :: bool
  mo_LeaderElectionID :: bytes

definition tls_opts :: "operator_flags \<Rightarrow> (tls_Config \<Rightarrow> tls_Config) list" where
  "tls_opts f = (if \<not> enableHTTP2 f then [disableHTTP2] else [])"

definition webhook_options :: "operator_flags \<Rightarrow> webhook_Options" where
  "webhook_options f =
     (let o1 = \<lparr>wh_TLSOpts = tls_opts f, wh_CertDir = [], wh_CertName = [], wh_KeyName = []\<rparr> in
      if 0 < length (webhookCertPath f)
      then o1\<lparr>wh_CertDir := webhookCertPath f, wh_CertName := webhookCertName f, wh_KeyName := webhookCertKey f\<rparr>
      else o1)"

definition metrics_options :: "operator_flags \<Rightarrow> metrics_Options" where
  "metrics_options f =
     (let o1 = \<lparr>ms_BindAddress = metricsAddr f, ms_SecureServing = secureMetrics f, ms_TLSOpts = tls_opts f,
                ms_FilterProvider = NoFilter, ms_CertDir = [], ms_CertName = [], ms_KeyName = []\<rparr>;
          o2 = (if secureMetrics f then o1\<lparr>ms_FilterProvider := WithAuthenticationAndAuthorization\<rparr> else o1)
      in if 0 < length (metricsCertPath f)
         then o2\<lparr>ms_CertDir := metricsCertPath f, ms_CertName := metricsCertName f, ms_KeyName := metricsCertKey f\<rparr>
         else o2)"


section \<open>Registration\<close>

text \<open>
  Group and version of the resource, and what \<open>AddToScheme\<close> registers. The scheme and the two calls
  on it are apimachinery's.
\<close>

record GroupVersion =
  gv_Group :: bytes
  gv_Version :: bytes

definition SchemeGroupVersion :: GroupVersion where
  "SchemeGroupVersion = \<lparr>gv_Group = ''fleetcontrol.io'', gv_Version = ''v1alpha1''\<rparr>"

datatype known_type = SatelliteType | SatelliteListType

record 's scheme_lib =
  NewScheme :: 's
  clientgo_AddToScheme :: "'s \<Rightarrow> bytes + 's"
  AddToGroupVersion :: "GroupVersion \<Rightarrow> 's \<Rightarrow> 's"
  AddKnownTypes :: "GroupVersion \<Rightarrow> known_type list \<Rightarrow> 's \<Rightarrow> 's"

text \<open>The functions in the scheme builder, in the order they were registered, and \<open>AddToScheme\<close>, which runs them.\<close>

definition SchemeBuilder :: "'s scheme_lib \<Rightarrow> ('s \<Rightarrow> bytes + 's) list" where
  "SchemeBuilder A =
     [\<lambda>s. Inr (AddToGroupVersion A SchemeGroupVersion s),
      \<lambda>s. Inr (AddKnownTypes A SchemeGroupVersion [SatelliteType, SatelliteListType] s)]"

definition AddToScheme :: "'s scheme_lib \<Rightarrow> 's \<Rightarrow> bytes + 's" where
  "AddToScheme A s =
     fold (\<lambda>f r. case r of Inl e \<Rightarrow> Inl e | Inr s \<Rightarrow> f s) (SchemeBuilder A) (Inr s)"

text \<open>\<open>init\<close> panics on the first error.\<close>

definition main_init :: "'s scheme_lib \<Rightarrow> bytes + 's" where
  "main_init A =
     (case clientgo_AddToScheme A (NewScheme A) of Inl e \<Rightarrow> Inl e | Inr s \<Rightarrow> AddToScheme A s)"

text \<open>
  The calls on controller-runtime, on a manager of type \<open>'m\<close>. A controller is built for a type, with
  a name; its reconciler reads and writes through the manager's client (theory \<open>Operator\<close>).
\<close>

record controller_builder =
  cb_For :: known_type
  cb_Named :: bytes

datatype checker = Ping_check

record ('s, 'm) controller_runtime =
  GetConfig :: "bytes option"
  NewManager :: "'s manager_Options \<Rightarrow> bytes + 'm"
  Complete :: "controller_builder \<Rightarrow> 'm \<Rightarrow> bytes + 'm"
  AddHealthzCheck :: "bytes \<Rightarrow> checker \<Rightarrow> 'm \<Rightarrow> bytes + 'm"
  AddReadyzCheck :: "bytes \<Rightarrow> checker \<Rightarrow> 'm \<Rightarrow> bytes + 'm"
  Start :: "'m \<Rightarrow> bytes option"

definition SetupWithManager :: "('s, 'm) controller_runtime \<Rightarrow> 'm \<Rightarrow> bytes + 'm" where
  "SetupWithManager R mgr = Complete R \<lparr>cb_For = SatelliteType, cb_Named = ''satellite''\<rparr> mgr"

section \<open>The program\<close>

text \<open>
  How a start ends: with a panic in \<open>init\<close>, with an exit code and the message logged last, or with
  the return of \<open>main\<close> after the manager it ran has stopped.
\<close>

datatype 'm op_outcome = InitPanic bytes | Exit nat bytes | Ran 'm

definition manager_options :: "'s \<Rightarrow> operator_flags \<Rightarrow> 's manager_Options" where
  "manager_options scheme f =
     \<lparr>mo_Scheme = scheme, mo_Metrics = metrics_options f, mo_WebhookServer = webhook_options f,
      mo_HealthProbeBindAddress = probeAddr f, mo_LeaderElection = enableLeaderElection f,
      mo_LeaderElectionID = ''60429f8c.fleetcontrol.io''\<rparr>"

definition register_all :: "('s, 'm) controller_runtime \<Rightarrow> 's manager_Options \<Rightarrow> bytes + 'm" where
  "register_all R opts =
     (case NewManager R opts of Inl _ \<Rightarrow> Inl ''Failed to start manager'' | Inr mgr \<Rightarrow>
      case SetupWithManager R mgr of Inl _ \<Rightarrow> Inl ''Failed to create controller'' | Inr mgr1 \<Rightarrow>
      case AddHealthzCheck R ''healthz'' Ping_check mgr1 of Inl _ \<Rightarrow> Inl ''Failed to set up health check'' | Inr mgr2 \<Rightarrow>
      case AddReadyzCheck R ''readyz'' Ping_check mgr2 of Inl _ \<Rightarrow> Inl ''Failed to set up ready check'' | Inr mgr3 \<Rightarrow>
      Inr mgr3)"

definition operator_main ::
  "'s scheme_lib \<Rightarrow> ('s, 'm) controller_runtime \<Rightarrow> 'z flag_set \<Rightarrow> 'z \<Rightarrow> bytes list \<Rightarrow> 'm op_outcome" where
  "operator_main A R others z args =
     (case main_init A of Inl e \<Rightarrow> InitPanic e | Inr scheme \<Rightarrow>
      case flag_Parse (command_line others) args (default_flags, z) of
        Inl e \<Rightarrow> Exit (if e = ErrHelp then 0 else 2) []
      | Inr (f, _) \<Rightarrow>
          (case GetConfig R of Some e \<Rightarrow> Exit 1 e | None \<Rightarrow>
           case register_all R (manager_options scheme f) of Inl msg \<Rightarrow> Exit 1 msg | Inr mgr \<Rightarrow>
           case Start R mgr of Some _ \<Rightarrow> Exit 1 ''Failed to run manager'' | None \<Rightarrow> Ran mgr))"


section \<open>What a start guarantees\<close>

text \<open>The flag an argument names, if it is read as a flag.\<close>

definition flag_name :: "bytes \<Rightarrow> bytes option" where
  "flag_name s =
     (if length s < 2 \<or> hd s \<noteq> CHR ''-'' \<or> s = ''--'' then None
      else let name0 = (if s ! 1 = CHR ''-'' then drop 2 s else drop 1 s) in
        if name0 = [] \<or> hd name0 = CHR ''-'' \<or> hd name0 = CHR ''='' then None else Some (fst (split_value name0)))"

lemma parse_one_More:
  assumes "parse_one flags args f = More rest f'"
  shows "\<exists>a name b assign v. a \<in> set args \<and> flag_name a = Some name \<and> flags name = Some (b, assign)
    \<and> assign v f = Inr f' \<and> set rest \<subseteq> set args"
proof -
  obtain a as where args: "args = a # as" using assms by (cases args) (auto simp: parse_one_def)
  obtain name where name: "flag_name a = Some name"
    using assms by (auto simp: args parse_one_def flag_name_def Let_def split: if_splits)
  then obtain name0 val0 where sv: "split_value name0 = (name, val0)"
    and n0: "name0 = (if a ! 1 = CHR ''-'' then drop 2 a else drop 1 a)"
    by (cases "split_value (if a ! 1 = CHR ''-'' then drop 2 a else drop 1 a)")
      (auto simp: flag_name_def Let_def split: if_splits)
  obtain b assign where flag: "flags name = Some (b, assign)"
    using assms name sv by (auto simp: args parse_one_def flag_name_def Let_def n0 split: if_splits option.splits)
  have "\<exists>v. assign v f = Inr f' \<and> set rest \<subseteq> set args"
    using assms name sv flag
    by (cases b) (auto simp: args parse_one_def flag_name_def Let_def n0 split: if_splits option.splits sum.splits list.splits)
  moreover have "a \<in> set args" by (simp add: args)
  ultimately show ?thesis using name flag by blast
qed

text \<open>A property of the flags that no named flag destroys survives the parse.\<close>

lemma flag_Parse_keeps:
  assumes "flag_Parse flags args f = Inr f'" "P f"
    and "\<And>a name b assign v g g'. a \<in> set args \<Longrightarrow> flag_name a = Some name \<Longrightarrow> flags name = Some (b, assign) \<Longrightarrow>
      assign v g = Inr g' \<Longrightarrow> P g \<Longrightarrow> P g'"
  shows "P f'"
  using assms
proof (induction flags args f rule: flag_Parse.induct)
  case (1 flags args f)
  show ?case
  proof (cases "parse_one flags args f")
    case (More rest g)
    then have sub: "set rest \<subseteq> set args" and "P g" using parse_one_More [OF More] 1(3,4) by blast+
    moreover have "flag_Parse flags rest g = Inr f'" using 1(2) More by (subst (asm) flag_Parse.simps) simp
    ultimately show ?thesis using 1(1) [OF More] 1(4) by (meson subsetD)
  qed (use 1(2,3) in \<open>simp_all add: flag_Parse.simps\<close>)
qed

definition mentions :: "bytes \<Rightarrow> bytes list \<Rightarrow> bool" where
  "mentions name args \<longleftrightarrow> (\<exists>a \<in> set args. flag_name a = Some name)"

lemma command_line_keeps:
  assumes "flag_Parse (command_line others) args (f, z) = Inr (f', z')" "\<not> mentions name args" "P f"
    and "\<And>n b assign v g g'. n \<noteq> name \<Longrightarrow> main_flags n = Some (b, assign) \<Longrightarrow> assign v g = Inr g' \<Longrightarrow> P g \<Longrightarrow> P g'"
  shows "P f'"
proof -
  have "P (fst (f', z'))"
  proof (rule flag_Parse_keeps [OF assms(1)])
    fix a n b assign v g g'
    assume a: "a \<in> set args" "flag_name a = Some n" "command_line others n = Some (b, assign)" "assign v g = Inr g'" "P (fst g)"
    then have "n \<noteq> name" using assms(2) by (auto simp: mentions_def)
    then show "P (fst g')"
      using a(3-5) assms(4) [of n] by (cases g; cases g'; cases "main_flags n")
        (auto simp: command_line_def lift_flag_def split: sum.splits)
  qed (use assms(3) in simp)
  then show ?thesis by simp
qed

lemma main_flags_others:
  assumes "main_flags n = Some (b, assign)" "assign v g = Inr g'"
  shows "n \<noteq> ''enable-http2'' \<Longrightarrow> enableHTTP2 g' = enableHTTP2 g"
    and "n \<noteq> ''metrics-secure'' \<Longrightarrow> secureMetrics g' = secureMetrics g"
    and "n \<noteq> ''metrics-bind-address'' \<Longrightarrow> metricsAddr g' = metricsAddr g"
    and "n \<noteq> ''leader-elect'' \<Longrightarrow> enableLeaderElection g' = enableLeaderElection g"
  using assms by (auto simp: main_flags_def StringVar_def BoolVar_def split: if_splits option.splits)


lemma default_parse:
  assumes "flag_Parse (command_line others) args (default_flags, z) = Inr (f, z')"
  shows "\<not> mentions ''enable-http2'' args \<Longrightarrow> \<not> enableHTTP2 f"
    and "\<not> mentions ''metrics-secure'' args \<Longrightarrow> secureMetrics f"
    and "\<not> mentions ''metrics-bind-address'' args \<Longrightarrow> metricsAddr f = ''0''"
    and "\<not> mentions ''leader-elect'' args \<Longrightarrow> \<not> enableLeaderElection f"
  by (erule command_line_keeps [OF assms]; simp add: default_flags_def main_flags_others)+

lemma http11_only:
  "\<not> enableHTTP2 f \<Longrightarrow> NextProtos (fold (\<lambda>opt c. opt c) (wh_TLSOpts (webhook_options f)) c) = [''http/1.1'']
    \<and> NextProtos (fold (\<lambda>opt c. opt c) (ms_TLSOpts (metrics_options f)) c) = [''http/1.1'']"
  by (simp add: webhook_options_def metrics_options_def tls_opts_def disableHTTP2_def Let_def)

text \<open>
  C31. The operator runs only fully registered, and with safe defaults. If a start gets as far as
  running the manager to its end, the scheme was built, the manager made from the flags accepted
  the satellite controller and both health checks, in that order, and the manager that ran is the
  one all of them were registered with; unless a flag on the command line names the setting, both
  servers offer HTTP/1.1 only, the metrics endpoint is off, or served securely behind
  authentication and authorization, and there is no leader election. Every other start ends with
  a non-zero exit code or a panic, or with zero for \<open>-help\<close>.
\<close>

theorem operator_start_is_registered:
  "case operator_main A R others z args of
     InitPanic e \<Rightarrow> main_init A = Inl e
   | Exit code msg \<Rightarrow> (if code = 0 then flag_Parse (command_line others) args (default_flags, z) = Inl ErrHelp else code \<in> {1, 2})
   | Ran mgr \<Rightarrow>
       (\<exists>scheme opts m0 m1 m2.
          main_init A = Inr scheme \<and> mo_Scheme opts = scheme \<and> NewManager R opts = Inr m0
          \<and> Complete R \<lparr>cb_For = SatelliteType, cb_Named = ''satellite''\<rparr> m0 = Inr m1
          \<and> AddHealthzCheck R ''healthz'' Ping_check m1 = Inr m2 \<and> AddReadyzCheck R ''readyz'' Ping_check m2 = Inr mgr
          \<and> Start R mgr = None
          \<and> (if mentions ''enable-http2'' args then True
             else \<forall>c. NextProtos (fold (\<lambda>opt c. opt c) (wh_TLSOpts (mo_WebhookServer opts)) c) = [''http/1.1'']
               \<and> NextProtos (fold (\<lambda>opt c. opt c) (ms_TLSOpts (mo_Metrics opts)) c) = [''http/1.1''])
          \<and> (if mentions ''metrics-bind-address'' args then True else ms_BindAddress (mo_Metrics opts) = ''0'')
          \<and> (if mentions ''metrics-secure'' args then True
             else ms_SecureServing (mo_Metrics opts)
               \<and> ms_FilterProvider (mo_Metrics opts) = WithAuthenticationAndAuthorization)
          \<and> (if mentions ''leader-elect'' args then True else mo_LeaderElection opts = False))"
proof (cases "operator_main A R others z args")
  case (Ran mgr)
  then obtain scheme f z' where s: "main_init A = Inr scheme" and f: "flag_Parse (command_line others) args (default_flags, z) = Inr (f, z')"
    and reg: "register_all R (manager_options scheme f) = Inr mgr" and run: "Start R mgr = None"
    by (auto simp: operator_main_def split: sum.splits option.splits)
  have opts: "ms_SecureServing (metrics_options f) = secureMetrics f" "ms_BindAddress (metrics_options f) = metricsAddr f"
    "secureMetrics f \<Longrightarrow> ms_FilterProvider (metrics_options f) = WithAuthenticationAndAuthorization"
    by (simp_all add: metrics_options_def Let_def)
  show ?thesis
    using s reg run default_parse [OF f] http11_only [of f] opts
    by (simp add: Ran) (intro exI [of _ "manager_options scheme f"] exI [of _ mgr],
      auto simp: register_all_def SetupWithManager_def manager_options_def split: sum.splits)
qed (auto simp: operator_main_def split: sum.splits option.splits if_splits)

end
