(* ===== verification/DeepCopy.thy ===== *)
theory DeepCopy
  imports Operator
begin

text \<open>
  The generated deep copies of the custom resource (\<open>operator/api/v1alpha1/zz_generated.deepcopy.go\<close>)
  on an explicit heap. Structs hold pointers and slices as addresses, so that a shallow copy shares
  memory with its original; the theorem is that a deep copy does not. controller-runtime hands out
  deep copies of the objects in its cache and relies on exactly that.
\<close>

section \<open>Memory\<close>

text \<open>
  A slice is a window of a backing array. Metadata and conditions are types of apimachinery: their
  values are \<open>'o\<close>, \<open>'l\<close> and \<open>'c\<close>, and whatever memory they refer to is in cells \<open>'x\<close>.
\<close>

type_synonym addr = nat

record slice =
  sl_array :: addr
  sl_off :: nat
  sl_len :: nat

record ptr_SatelliteStatus =
  ps_Phase :: bytes
  ps_ManagedBy :: bytes
  ps_LastHeartbeat :: "addr option"
  ps_Conditions :: "slice option"

record 'o ptr_Satellite =
  pc_TypeMeta :: TypeMeta
  pc_ObjectMeta :: 'o
  pc_Spec :: SatelliteSpec
  pc_Status :: ptr_SatelliteStatus

record 'l ptr_SatelliteList =
  pl_TypeMeta :: TypeMeta
  pl_ListMeta :: 'l
  pl_Items :: "slice option"

datatype ('o, 'l, 'c, 'x) cell =
    TimeCell nanos
  | ConditionArray "'c list"
  | SatelliteArray "'o ptr_Satellite list"
  | SatelliteCell "'o ptr_Satellite"
  | SatelliteListCell "'l ptr_SatelliteList"
  | SpecCell SatelliteSpec
  | StatusCell ptr_SatelliteStatus
  | MetaCell 'x

record ('o, 'l, 'c, 'x) heap =
  h_next :: addr
  h_cells :: "addr \<Rightarrow> ('o, 'l, 'c, 'x) cell option"

definition new_cell :: "('o, 'l, 'c, 'x) cell \<Rightarrow> ('o, 'l, 'c, 'x) heap \<Rightarrow> addr \<times> ('o, 'l, 'c, 'x) heap" where
  "new_cell c h = (h_next h, \<lparr>h_next = Suc (h_next h), h_cells = (h_cells h)(h_next h \<mapsto> c)\<rparr>)"

definition write_cell :: "addr \<Rightarrow> ('o, 'l, 'c, 'x) cell \<Rightarrow> ('o, 'l, 'c, 'x) heap \<Rightarrow> ('o, 'l, 'c, 'x) heap" where
  "write_cell a c h = h\<lparr>h_cells := (h_cells h)(a \<mapsto> c)\<rparr>"

text \<open>The elements a slice shows.\<close>

definition window :: "slice \<Rightarrow> 'a list \<Rightarrow> 'a list" where
  "window s xs = take (sl_len s) (drop (sl_off s) xs)"

definition conditions_of :: "('o, 'l, 'c, 'x) heap \<Rightarrow> slice \<Rightarrow> 'c list" where
  "conditions_of h s = (case h_cells h (sl_array s) of Some (ConditionArray xs) \<Rightarrow> window s xs | _ \<Rightarrow> [])"

definition satellites_of :: "('o, 'l, 'c, 'x) heap \<Rightarrow> slice \<Rightarrow> 'o ptr_Satellite list" where
  "satellites_of h s = (case h_cells h (sl_array s) of Some (SatelliteArray xs) \<Rightarrow> window s xs | _ \<Rightarrow> [])"

section \<open>The copies\<close>

text \<open>apimachinery's own deep copies.\<close>

record ('o, 'l, 'c, 'x) apimachinery =
  Time_DeepCopy :: "addr \<Rightarrow> ('o, 'l, 'c, 'x) heap \<Rightarrow> addr \<times> ('o, 'l, 'c, 'x) heap"
  Condition_DeepCopyInto :: "'c \<Rightarrow> ('o, 'l, 'c, 'x) heap \<Rightarrow> 'c \<times> ('o, 'l, 'c, 'x) heap"
  ObjectMeta_DeepCopyInto :: "'o \<Rightarrow> ('o, 'l, 'c, 'x) heap \<Rightarrow> 'o \<times> ('o, 'l, 'c, 'x) heap"
  ListMeta_DeepCopyInto :: "'l \<Rightarrow> ('o, 'l, 'c, 'x) heap \<Rightarrow> 'l \<times> ('o, 'l, 'c, 'x) heap"
  zero_Condition :: 'c
  zero_ObjectMeta :: 'o
  zero_ListMeta :: 'l

definition zero_TypeMeta :: TypeMeta where
  "zero_TypeMeta = \<lparr>tm_Kind = [], tm_APIVersion = []\<rparr>"

definition zero_Status :: ptr_SatelliteStatus where
  "zero_Status = \<lparr>ps_Phase = [], ps_ManagedBy = [], ps_LastHeartbeat = None, ps_Conditions = None\<rparr>"

definition zero_Satellite :: "('o, 'l, 'c, 'x) apimachinery \<Rightarrow> 'o ptr_Satellite" where
  "zero_Satellite M = \<lparr>pc_TypeMeta = zero_TypeMeta, pc_ObjectMeta = zero_ObjectMeta M, pc_Spec = \<lparr>spec_Region = []\<rparr>,
     pc_Status = zero_Status\<rparr>"

text \<open>
  The loop \<open>for i := range *in { (*in)[i].DeepCopyInto(&(*out)[i]) }\<close>, which leaves the copied
  elements in the array at \<open>a\<close>, constructed by \<open>arr\<close>: one element after the other.
\<close>

fun copy_elements ::
  "('a \<Rightarrow> ('o, 'l, 'c, 'x) heap \<Rightarrow> 'a \<times> ('o, 'l, 'c, 'x) heap) \<Rightarrow> ('a list \<Rightarrow> ('o, 'l, 'c, 'x) cell) \<Rightarrow> addr \<Rightarrow> nat \<Rightarrow>
     'a list \<Rightarrow> 'a list \<Rightarrow> ('o, 'l, 'c, 'x) heap \<Rightarrow> ('o, 'l, 'c, 'x) heap" where
  "copy_elements copy arr a i [] out h = h"
| "copy_elements copy arr a i (x # xs) out h =
     (let (x', h1) = copy x h; out' = out[i := x']
      in copy_elements copy arr a (Suc i) xs out' (write_cell a (arr out') h1))"

definition copy_slice ::
  "('a \<Rightarrow> ('o, 'l, 'c, 'x) heap \<Rightarrow> 'a \<times> ('o, 'l, 'c, 'x) heap) \<Rightarrow> ('a list \<Rightarrow> ('o, 'l, 'c, 'x) cell) \<Rightarrow> 'a \<Rightarrow>
     'a list \<Rightarrow> ('o, 'l, 'c, 'x) heap \<Rightarrow> slice \<times> ('o, 'l, 'c, 'x) heap" where
  "copy_slice copy arr zero elems h =
     (let made = replicate (length elems) zero;
          (a, h1) = new_cell (arr made) h
      in (\<lparr>sl_array = a, sl_off = 0, sl_len = length elems\<rparr>, copy_elements copy arr a 0 elems made h1))"

definition SatelliteSpec_DeepCopyInto :: "SatelliteSpec \<Rightarrow> ('o, 'l, 'c, 'x) heap \<Rightarrow> SatelliteSpec \<times> ('o, 'l, 'c, 'x) heap" where
  "SatelliteSpec_DeepCopyInto i h = (i, h)"

definition SatelliteStatus_DeepCopyInto ::
  "('o, 'l, 'c, 'x) apimachinery \<Rightarrow> ptr_SatelliteStatus \<Rightarrow> ('o, 'l, 'c, 'x) heap \<Rightarrow>
     ptr_SatelliteStatus \<times> ('o, 'l, 'c, 'x) heap" where
  "SatelliteStatus_DeepCopyInto M i h =
     (let out = i;
          (out, h) = (case ps_LastHeartbeat i of
             None \<Rightarrow> (out, h)
           | Some t \<Rightarrow> (let (t', h') = Time_DeepCopy M t h in (out\<lparr>ps_LastHeartbeat := Some t'\<rparr>, h')))
      in case ps_Conditions i of
           None \<Rightarrow> (out, h)
         | Some s \<Rightarrow>
             (let (s', h') = copy_slice (Condition_DeepCopyInto M) ConditionArray (zero_Condition M) (conditions_of h s) h
              in (out\<lparr>ps_Conditions := Some s'\<rparr>, h')))"

definition Satellite_DeepCopyInto ::
  "('o, 'l, 'c, 'x) apimachinery \<Rightarrow> 'o ptr_Satellite \<Rightarrow> ('o, 'l, 'c, 'x) heap \<Rightarrow> 'o ptr_Satellite \<times> ('o, 'l, 'c, 'x) heap" where
  "Satellite_DeepCopyInto M i h =
     (let out = i\<lparr>pc_TypeMeta := pc_TypeMeta i\<rparr>;
          (meta, h1) = ObjectMeta_DeepCopyInto M (pc_ObjectMeta i) h;
          out = out\<lparr>pc_ObjectMeta := meta, pc_Spec := pc_Spec i\<rparr>;
          (status, h2) = SatelliteStatus_DeepCopyInto M (pc_Status i) h1
      in (out\<lparr>pc_Status := status\<rparr>, h2))"


definition SatelliteList_DeepCopyInto ::
  "('o, 'l, 'c, 'x) apimachinery \<Rightarrow> 'l ptr_SatelliteList \<Rightarrow> ('o, 'l, 'c, 'x) heap \<Rightarrow>
     'l ptr_SatelliteList \<times> ('o, 'l, 'c, 'x) heap" where
  "SatelliteList_DeepCopyInto M i h =
     (let out = i\<lparr>pl_TypeMeta := pl_TypeMeta i\<rparr>;
          (meta, h1) = ListMeta_DeepCopyInto M (pl_ListMeta i) h;
          out = out\<lparr>pl_ListMeta := meta\<rparr>
      in case pl_Items i of
           None \<Rightarrow> (out, h1)
         | Some s \<Rightarrow>
             (let (s', h2) = copy_slice (Satellite_DeepCopyInto M) SatelliteArray (zero_Satellite M) (satellites_of h1 s) h1
              in (out\<lparr>pl_Items := Some s'\<rparr>, h2)))"

text \<open>
  The four \<open>DeepCopy\<close> functions: nil for nil, otherwise a new object filled by \<open>DeepCopyInto\<close>. A pointer
  points to a value of its type.
\<close>

definition copy_object ::
  "(('o, 'l, 'c, 'x) cell \<Rightarrow> 'a option) \<Rightarrow> ('a \<Rightarrow> ('o, 'l, 'c, 'x) cell) \<Rightarrow> 'a \<Rightarrow>
     ('a \<Rightarrow> ('o, 'l, 'c, 'x) heap \<Rightarrow> 'a \<times> ('o, 'l, 'c, 'x) heap) \<Rightarrow>
     addr option \<Rightarrow> ('o, 'l, 'c, 'x) heap \<Rightarrow> addr option \<times> ('o, 'l, 'c, 'x) heap" where
  "copy_object proj cell zero copy p h =
     (case p of
        None \<Rightarrow> (None, h)
      | Some a \<Rightarrow>
          (case Option.bind (h_cells h a) proj of
             None \<Rightarrow> (None, h)
           | Some x \<Rightarrow>
               (let (out, h1) = new_cell (cell zero) h;
                    (x', h2) = copy x h1
                in (Some out, write_cell out (cell x') h2))))"

fun as_Satellite :: "('o, 'l, 'c, 'x) cell \<Rightarrow> 'o ptr_Satellite option" where
  "as_Satellite (SatelliteCell s) = Some s"
| "as_Satellite _ = None"

fun as_SatelliteList :: "('o, 'l, 'c, 'x) cell \<Rightarrow> 'l ptr_SatelliteList option" where
  "as_SatelliteList (SatelliteListCell s) = Some s"
| "as_SatelliteList _ = None"

fun as_Spec :: "('o, 'l, 'c, 'x) cell \<Rightarrow> SatelliteSpec option" where
  "as_Spec (SpecCell s) = Some s"
| "as_Spec _ = None"

fun as_Status :: "('o, 'l, 'c, 'x) cell \<Rightarrow> ptr_SatelliteStatus option" where
  "as_Status (StatusCell s) = Some s"
| "as_Status _ = None"

definition Satellite_DeepCopy ::
  "('o, 'l, 'c, 'x) apimachinery \<Rightarrow> addr option \<Rightarrow> ('o, 'l, 'c, 'x) heap \<Rightarrow> addr option \<times> ('o, 'l, 'c, 'x) heap" where
  "Satellite_DeepCopy M = copy_object as_Satellite SatelliteCell (zero_Satellite M) (Satellite_DeepCopyInto M)"

definition SatelliteList_DeepCopy ::
  "('o, 'l, 'c, 'x) apimachinery \<Rightarrow> addr option \<Rightarrow> ('o, 'l, 'c, 'x) heap \<Rightarrow> addr option \<times> ('o, 'l, 'c, 'x) heap" where
  "SatelliteList_DeepCopy M =
     copy_object as_SatelliteList SatelliteListCell \<lparr>pl_TypeMeta = zero_TypeMeta, pl_ListMeta = zero_ListMeta M, pl_Items = None\<rparr>
       (SatelliteList_DeepCopyInto M)"

definition SatelliteSpec_DeepCopy ::
  "addr option \<Rightarrow> ('o, 'l, 'c, 'x) heap \<Rightarrow> addr option \<times> ('o, 'l, 'c, 'x) heap" where
  "SatelliteSpec_DeepCopy = copy_object as_Spec SpecCell \<lparr>spec_Region = []\<rparr> SatelliteSpec_DeepCopyInto"

definition SatelliteStatus_DeepCopy ::
  "('o, 'l, 'c, 'x) apimachinery \<Rightarrow> addr option \<Rightarrow> ('o, 'l, 'c, 'x) heap \<Rightarrow> addr option \<times> ('o, 'l, 'c, 'x) heap" where
  "SatelliteStatus_DeepCopy M = copy_object as_Status StatusCell zero_Status (SatelliteStatus_DeepCopyInto M)"

text \<open>A \<open>runtime.Object\<close> is nil or holds a pointer; the typed nil pointer is not passed on.\<close>

datatype runtime_Object = SatelliteObject addr | SatelliteListObject addr

definition Satellite_DeepCopyObject ::
  "('o, 'l, 'c, 'x) apimachinery \<Rightarrow> addr option \<Rightarrow> ('o, 'l, 'c, 'x) heap \<Rightarrow> runtime_Object option \<times> ('o, 'l, 'c, 'x) heap" where
  "Satellite_DeepCopyObject M p h =
     (case Satellite_DeepCopy M p h of
        (Some c, h') \<Rightarrow> (Some (SatelliteObject c), h')
      | (None, h') \<Rightarrow> (None, h'))"

definition SatelliteList_DeepCopyObject ::
  "('o, 'l, 'c, 'x) apimachinery \<Rightarrow> addr option \<Rightarrow> ('o, 'l, 'c, 'x) heap \<Rightarrow> runtime_Object option \<times> ('o, 'l, 'c, 'x) heap" where
  "SatelliteList_DeepCopyObject M p h =
     (case SatelliteList_DeepCopy M p h of
        (Some c, h') \<Rightarrow> (Some (SatelliteListObject c), h')
      | (None, h') \<Rightarrow> (None, h'))"

section \<open>Deep copies in general\<close>

text \<open>
  What a value looks like through its pointers is its \<open>view\<close>, the addresses it reaches are its
  \<open>refs\<close>; both depend on the cells at those addresses only. A deep copy leaves the memory in use as
  it is and makes a value that looks the same and reaches new addresses only.
\<close>

definition framed :: "('a \<Rightarrow> ('o, 'l, 'c, 'x) heap \<Rightarrow> addr set) \<Rightarrow> ('a \<Rightarrow> ('o, 'l, 'c, 'x) heap \<Rightarrow> 'v) \<Rightarrow> bool" where
  "framed refs view \<longleftrightarrow>
     (\<forall>x h h'. (\<forall>a \<in> refs x h. h_cells h' a = h_cells h a) \<longrightarrow> view x h' = view x h \<and> refs x h' = refs x h)"

definition extends :: "('o, 'l, 'c, 'x) heap \<Rightarrow> ('o, 'l, 'c, 'x) heap \<Rightarrow> bool" where
  "extends h h' \<longleftrightarrow> h_next h \<le> h_next h' \<and> (\<forall>a < h_next h. h_cells h' a = h_cells h a)"

definition deep_copies ::
  "('a \<Rightarrow> ('o, 'l, 'c, 'x) heap \<Rightarrow> 'a \<times> ('o, 'l, 'c, 'x) heap) \<Rightarrow> ('a \<Rightarrow> ('o, 'l, 'c, 'x) heap \<Rightarrow> addr set) \<Rightarrow>
     ('a \<Rightarrow> ('o, 'l, 'c, 'x) heap \<Rightarrow> 'v) \<Rightarrow> bool" where
  "deep_copies copy refs view \<longleftrightarrow>
     (\<forall>x h x' h'. refs x h \<subseteq> {..<h_next h} \<longrightarrow> copy x h = (x', h') \<longrightarrow>
        extends h h' \<and> view x' h' = view x h \<and> refs x' h' \<subseteq> {h_next h..<h_next h'})"

lemma framedD:
  "framed refs view \<Longrightarrow> (\<And>a. a \<in> refs x h \<Longrightarrow> h_cells h' a = h_cells h a) \<Longrightarrow> view x h' = view x h \<and> refs x h' = refs x h"
  unfolding framed_def by blast

lemma deep_copiesD:
  "deep_copies copy refs view \<Longrightarrow> refs x h \<subseteq> {..<h_next h} \<Longrightarrow> copy x h = (x', h') \<Longrightarrow>
     extends h h' \<and> view x' h' = view x h \<and> refs x' h' \<subseteq> {h_next h..<h_next h'}"
  unfolding deep_copies_def by blast

lemma extends_trans: "extends h h' \<Longrightarrow> extends h' h'' \<Longrightarrow> extends h h''"
  by (auto simp: extends_def)

lemma framed_extends:
  "framed refs view \<Longrightarrow> refs x h \<subseteq> {..<h_next h} \<Longrightarrow> extends h h' \<Longrightarrow> view x h' = view x h \<and> refs x h' = refs x h"
  by (rule framedD) (auto simp: extends_def)


text \<open>
  One element at a time. The array at \<open>a\<close> is new: no element to be copied reaches it, and the copies
  reach only what was made after it.
\<close>

lemma copy_elements_copies:
  assumes dc: "deep_copies copy refs view" and fr: "framed refs view"
    and a: "h_next h0 \<le> a" "a < h_next h" and below: "\<forall>b < h_next h0. h_cells h b = h_cells h0 b"
    and xs: "\<forall>x \<in> set xs. refs x h0 \<subseteq> {..<h_next h0}"
    and out: "h_cells h a = Some (arr (ds @ zs))" "length zs = length xs" "\<forall>y \<in> set ds. refs y h \<subseteq> {a<..<h_next h}"
  shows "\<exists>ys h'. copy_elements copy arr a (length ds) xs (ds @ zs) h = h' \<and> h_cells h' a = Some (arr (ds @ ys))
    \<and> map (\<lambda>y. view y h') (ds @ ys) = map (\<lambda>y. view y h) ds @ map (\<lambda>x. view x h0) xs
    \<and> (\<forall>y \<in> set (ds @ ys). refs y h' \<subseteq> {a<..<h_next h'})
    \<and> h_next h \<le> h_next h' \<and> (\<forall>b < h_next h0. h_cells h' b = h_cells h0 b)"
  using a below xs out
proof (induction xs arbitrary: ds zs h)
  case Nil
  then show ?case by simp
next
  case (Cons x xs)
  obtain x' h1 where copy: "copy x h = (x', h1)" by fastforce
  obtain z zs' where zs: "zs = z # zs'" using Cons.prems(6) by (cases zs) auto
  have x: "view x h = view x h0 \<and> refs x h = refs x h0"
    using Cons.prems(3,4) by (intro framedD [OF fr]) auto
  then have "refs x h \<subseteq> {..<h_next h}" using Cons.prems(1,2,4) by force
  from deep_copiesD [OF dc this copy] have ext: "extends h h1" and x': "view x' h1 = view x h0" "refs x' h1 \<subseteq> {h_next h..<h_next h1}"
    using x by simp_all
  define h2 where "h2 = write_cell a (arr ((ds @ [x']) @ zs')) h1"
  have cells: "h_next h2 = h_next h1" "h_cells h2 a = Some (arr ((ds @ [x']) @ zs'))" "\<And>b. b \<noteq> a \<Longrightarrow> h_cells h2 b = h_cells h1 b"
    by (simp_all add: h2_def write_cell_def)
  have ext': "h_next h \<le> h_next h1" "\<And>b. b < h_next h \<Longrightarrow> h_cells h1 b = h_cells h b" using ext by (auto simp: extends_def)
  have new: "view x' h2 = view x h0 \<and> refs x' h2 = refs x' h1"
    using x' Cons.prems(2) framedD [OF fr, of x' h1 h2] cells(3) by fastforce
  have old: "view y h2 = view y h \<and> refs y h2 = refs y h" if "y \<in> set ds" for y
    using that Cons.prems(7) ext' cells(3) by (intro framedD [OF fr]) fastforce
  have "\<exists>ys h'. copy_elements copy arr a (length (ds @ [x'])) xs ((ds @ [x']) @ zs') h2 = h' \<and> h_cells h' a = Some (arr ((ds @ [x']) @ ys))
      \<and> map (\<lambda>y. view y h') ((ds @ [x']) @ ys) = map (\<lambda>y. view y h2) (ds @ [x']) @ map (\<lambda>x. view x h0) xs
      \<and> (\<forall>y \<in> set ((ds @ [x']) @ ys). refs y h' \<subseteq> {a<..<h_next h'})
      \<and> h_next h2 \<le> h_next h' \<and> (\<forall>b < h_next h0. h_cells h' b = h_cells h0 b)"
  proof (rule Cons.IH)
    show "a < h_next h2" using Cons.prems(2) ext'(1) cells(1) by simp
    show "\<forall>b < h_next h0. h_cells h2 b = h_cells h0 b" using Cons.prems(1-3) ext'(2) cells(3) by simp
    show "\<forall>y \<in> set (ds @ [x']). refs y h2 \<subseteq> {a<..<h_next h2}"
      using Cons.prems(2,7) old new x'(2) ext'(1) cells(1) by fastforce
  qed (use Cons.prems zs cells in auto)
  moreover have "copy_elements copy arr a (length ds) (x # xs) (ds @ zs) h
      = copy_elements copy arr a (length (ds @ [x'])) xs ((ds @ [x']) @ zs') h2"
    using copy zs by (simp add: h2_def Let_def)
  moreover have "map (\<lambda>y. view y h2) (ds @ [x']) = map (\<lambda>y. view y h) ds @ [view x h0]" using old new by simp
  ultimately show ?case
    using ext'(1) cells(1) by (elim exE, intro exI [of _ "x' # _"]) auto
qed


text \<open>Slices, for the two element types: \<open>elems\<close> reads the array that \<open>arr\<close> makes.\<close>

definition reads_array ::
  "(('o, 'l, 'c, 'x) heap \<Rightarrow> slice \<Rightarrow> 'a list) \<Rightarrow> ('a list \<Rightarrow> ('o, 'l, 'c, 'x) cell) \<Rightarrow> bool" where
  "reads_array elems arr \<longleftrightarrow>
     (\<forall>h s xs. h_cells h (sl_array s) = Some (arr xs) \<longrightarrow> elems h s = window s xs)
     \<and> (\<forall>h h' s. h_cells h' (sl_array s) = h_cells h (sl_array s) \<longrightarrow> elems h' s = elems h s)"

definition slice_refs ::
  "(('o, 'l, 'c, 'x) heap \<Rightarrow> slice \<Rightarrow> 'a list) \<Rightarrow> ('a \<Rightarrow> ('o, 'l, 'c, 'x) heap \<Rightarrow> addr set) \<Rightarrow>
     slice \<Rightarrow> ('o, 'l, 'c, 'x) heap \<Rightarrow> addr set" where
  "slice_refs elems refs s h = insert (sl_array s) (\<Union>x \<in> set (elems h s). refs x h)"

definition slice_view ::
  "(('o, 'l, 'c, 'x) heap \<Rightarrow> slice \<Rightarrow> 'a list) \<Rightarrow> ('a \<Rightarrow> ('o, 'l, 'c, 'x) heap \<Rightarrow> 'v) \<Rightarrow>
     slice \<Rightarrow> ('o, 'l, 'c, 'x) heap \<Rightarrow> 'v list" where
  "slice_view elems view s h = map (\<lambda>x. view x h) (elems h s)"

lemma reads_arrayD:
  "reads_array elems arr \<Longrightarrow> h_cells h (sl_array s) = Some (arr xs) \<Longrightarrow> elems h s = window s xs"
  "reads_array elems arr \<Longrightarrow> h_cells h' (sl_array s) = h_cells h (sl_array s) \<Longrightarrow> elems h' s = elems h s"
  unfolding reads_array_def by blast+

lemma reads_arrays: "reads_array conditions_of ConditionArray" "reads_array satellites_of SatelliteArray"
  by (auto simp: reads_array_def conditions_of_def satellites_of_def)

lemma slice_framed:
  fixes elems :: "('o, 'l, 'c, 'x) heap \<Rightarrow> slice \<Rightarrow> 'a list"
  assumes "framed refs view" "reads_array elems arr"
  shows "framed (slice_refs elems refs) (slice_view elems view)"
  unfolding framed_def
proof (intro allI impI)
  fix s and h h' :: "('o, 'l, 'c, 'x) heap" assume same: "\<forall>a \<in> slice_refs elems refs s h. h_cells h' a = h_cells h a"
  then have e: "elems h' s = elems h s" by (intro reads_arrayD(2) [OF assms(2)]) (simp add: slice_refs_def)
  have "view x h' = view x h \<and> refs x h' = refs x h" if "x \<in> set (elems h s)" for x
    using that same by (intro framedD [OF assms(1)]) (auto simp: slice_refs_def)
  with e show "slice_view elems view s h' = slice_view elems view s h \<and> slice_refs elems refs s h' = slice_refs elems refs s h"
    by (auto simp: slice_view_def slice_refs_def)
qed

lemma copy_slice_copies:
  fixes elems :: "('o, 'l, 'c, 'x) heap \<Rightarrow> slice \<Rightarrow> 'a list"
  assumes dc: "deep_copies copy refs view" and fr: "framed refs view" and rd: "reads_array elems arr"
  shows "deep_copies (\<lambda>s h. copy_slice copy arr zero (elems h s) h) (slice_refs elems refs) (slice_view elems view)"
  unfolding deep_copies_def
proof (intro allI impI)
  fix s s' and h h' :: "('o, 'l, 'c, 'x) heap"
  assume valid: "slice_refs elems refs s h \<subseteq> {..<h_next h}" and copy: "copy_slice copy arr zero (elems h s) h = (s', h')"
  define h1 where "h1 = snd (new_cell (arr (replicate (length (elems h s)) zero)) h)"
  have h1: "h_next h1 = Suc (h_next h)" "h_cells h1 (h_next h) = Some (arr (replicate (length (elems h s)) zero))"
    "\<And>b. b \<noteq> h_next h \<Longrightarrow> h_cells h1 b = h_cells h b" by (simp_all add: h1_def new_cell_def)
  have h': "s' = \<lparr>sl_array = h_next h, sl_off = 0, sl_len = length (elems h s)\<rparr>"
    "h' = copy_elements copy arr (h_next h) 0 (elems h s) (replicate (length (elems h s)) zero) h1"
    using copy by (simp_all add: copy_slice_def h1_def new_cell_def Let_def)
  have "\<exists>ys h'. copy_elements copy arr (h_next h) (length ([] :: 'a list)) (elems h s) ([] @ replicate (length (elems h s)) zero) h1 = h'
    \<and> h_cells h' (h_next h) = Some (arr ([] @ ys))
    \<and> map (\<lambda>y. view y h') ([] @ ys) = map (\<lambda>y. view y h1) [] @ map (\<lambda>x. view x h) (elems h s)
    \<and> (\<forall>y \<in> set ([] @ ys). refs y h' \<subseteq> {h_next h<..<h_next h'})
    \<and> h_next h1 \<le> h_next h' \<and> (\<forall>b < h_next h. h_cells h' b = h_cells h b)"
    by (rule copy_elements_copies [where ds = "[]" and h = h1 and ?h0.0 = h and arr = arr and a = "h_next h" and xs = "elems h s"
        and zs = "replicate (length (elems h s)) zero", OF dc fr]) (use h1 valid in \<open>auto simp: slice_refs_def\<close>)
  then obtain ys where ys: "h_cells h' (h_next h) = Some (arr ys)" "map (\<lambda>y. view y h') ys = map (\<lambda>x. view x h) (elems h s)"
    "\<forall>y \<in> set ys. refs y h' \<subseteq> {h_next h<..<h_next h'}" "Suc (h_next h) \<le> h_next h'" "\<forall>b < h_next h. h_cells h' b = h_cells h b"
    using h'(2) h1(1) by auto
  have len: "length ys = length (elems h s)" using ys(2) by (rule map_eq_imp_length_eq)
  have arr: "sl_array s' = h_next h" by (simp add: h'(1))
  have e: "elems h' s' = ys"
    using reads_arrayD(1) [OF rd, of h' s' ys] ys(1) h'(1) len by (simp add: window_def)
  have "refs y h' \<subseteq> {h_next h..<h_next h'}" if "y \<in> set ys" for y using ys(3) that by fastforce
  then have "slice_refs elems refs s' h' \<subseteq> {h_next h..<h_next h'}"
    using ys(4) arr by (auto simp: slice_refs_def e)
  then show "extends h h' \<and> slice_view elems view s' h' = slice_view elems view s h \<and> slice_refs elems refs s' h' \<subseteq> {h_next h..<h_next h'}"
    using ys(2,4,5) by (simp add: extends_def slice_view_def e)
qed

section \<open>The custom resource\<close>

text \<open>
  What apimachinery promises for its own types: their deep copies are deep. \<open>V\<close> says what the metadata
  and conditions look like and reach.
\<close>

record ('o, 'l, 'c, 'x, 'v) views =
  o_view :: "'o \<Rightarrow> ('o, 'l, 'c, 'x) heap \<Rightarrow> 'v"
  o_refs :: "'o \<Rightarrow> ('o, 'l, 'c, 'x) heap \<Rightarrow> addr set"
  l_view :: "'l \<Rightarrow> ('o, 'l, 'c, 'x) heap \<Rightarrow> 'v"
  l_refs :: "'l \<Rightarrow> ('o, 'l, 'c, 'x) heap \<Rightarrow> addr set"
  c_view :: "'c \<Rightarrow> ('o, 'l, 'c, 'x) heap \<Rightarrow> 'v"
  c_refs :: "'c \<Rightarrow> ('o, 'l, 'c, 'x) heap \<Rightarrow> addr set"

definition time_at :: "addr \<Rightarrow> ('o, 'l, 'c, 'x) heap \<Rightarrow> nanos option" where
  "time_at a h = (case h_cells h a of Some (TimeCell t) \<Rightarrow> Some t | _ \<Rightarrow> None)"

definition apimachinery_contract :: "('o, 'l, 'c, 'x) apimachinery \<Rightarrow> ('o, 'l, 'c, 'x, 'v) views \<Rightarrow> bool" where
  "apimachinery_contract M V \<longleftrightarrow>
     framed (o_refs V) (o_view V) \<and> framed (l_refs V) (l_view V) \<and> framed (c_refs V) (c_view V)
     \<and> deep_copies (ObjectMeta_DeepCopyInto M) (o_refs V) (o_view V)
     \<and> deep_copies (ListMeta_DeepCopyInto M) (l_refs V) (l_view V)
     \<and> deep_copies (Condition_DeepCopyInto M) (c_refs V) (c_view V)
     \<and> deep_copies (Time_DeepCopy M) (\<lambda>a _. {a}) time_at"

definition status_refs :: "('o, 'l, 'c, 'x, 'v) views \<Rightarrow> ptr_SatelliteStatus \<Rightarrow> ('o, 'l, 'c, 'x) heap \<Rightarrow> addr set" where
  "status_refs V st h =
     (\<Union>a \<in> set_option (ps_LastHeartbeat st). {a})
     \<union> (\<Union>s \<in> set_option (ps_Conditions st). slice_refs conditions_of (c_refs V) s h)"

definition status_view ::
  "('o, 'l, 'c, 'x, 'v) views \<Rightarrow> ptr_SatelliteStatus \<Rightarrow> ('o, 'l, 'c, 'x) heap \<Rightarrow>
     (bytes \<times> bytes) \<times> nanos option option \<times> 'v list option" where
  "status_view V st h =
     ((ps_Phase st, ps_ManagedBy st), map_option (\<lambda>a. time_at a h) (ps_LastHeartbeat st),
      map_option (\<lambda>s. slice_view conditions_of (c_view V) s h) (ps_Conditions st))"

definition satellite_refs :: "('o, 'l, 'c, 'x, 'v) views \<Rightarrow> 'o ptr_Satellite \<Rightarrow> ('o, 'l, 'c, 'x) heap \<Rightarrow> addr set" where
  "satellite_refs V x h = o_refs V (pc_ObjectMeta x) h \<union> status_refs V (pc_Status x) h"

definition satellite_view where
  "satellite_view V x h =
     ((pc_TypeMeta x, pc_Spec x), o_view V (pc_ObjectMeta x) h, status_view V (pc_Status x) h)"

definition list_refs :: "('o, 'l, 'c, 'x, 'v) views \<Rightarrow> 'l ptr_SatelliteList \<Rightarrow> ('o, 'l, 'c, 'x) heap \<Rightarrow> addr set" where
  "list_refs V x h =
     l_refs V (pl_ListMeta x) h \<union> (\<Union>s \<in> set_option (pl_Items x). slice_refs satellites_of (satellite_refs V) s h)"

definition list_view where
  "list_view V x h =
     (pl_TypeMeta x, l_view V (pl_ListMeta x) h, map_option (\<lambda>s. slice_view satellites_of (satellite_view V) s h) (pl_Items x))"


lemma status_framed:
  fixes V :: "('o, 'l, 'c, 'x, 'v) views"
  shows "apimachinery_contract M V \<Longrightarrow> framed (status_refs V) (status_view V)"
  unfolding framed_def
proof (intro allI impI)
  fix st and h h' :: "('o, 'l, 'c, 'x) heap"
  assume M: "apimachinery_contract M V" and same: "\<forall>a \<in> status_refs V st h. h_cells h' a = h_cells h a"
  have fr: "framed (slice_refs conditions_of (c_refs V)) (slice_view conditions_of (c_view V))"
    using M by (intro slice_framed [OF _ reads_arrays(1)]) (simp add: apimachinery_contract_def)
  have "slice_view conditions_of (c_view V) s h' = slice_view conditions_of (c_view V) s h
      \<and> slice_refs conditions_of (c_refs V) s h' = slice_refs conditions_of (c_refs V) s h" if "ps_Conditions st = Some s" for s
    using that same by (intro framedD [OF fr]) (simp add: status_refs_def)
  moreover have "time_at a h' = time_at a h" if "ps_LastHeartbeat st = Some a" for a
    using that same by (simp add: time_at_def status_refs_def)
  ultimately show "status_view V st h' = status_view V st h \<and> status_refs V st h' = status_refs V st h"
    by (cases "ps_Conditions st"; cases "ps_LastHeartbeat st") (simp_all add: status_view_def status_refs_def)
qed

lemma satellite_framed:
  fixes V :: "('o, 'l, 'c, 'x, 'v) views"
  shows "apimachinery_contract M V \<Longrightarrow> framed (satellite_refs V) (satellite_view V)"
  unfolding framed_def
proof (intro allI impI)
  fix x and h h' :: "('o, 'l, 'c, 'x) heap"
  assume M: "apimachinery_contract M V" and same: "\<forall>a \<in> satellite_refs V x h. h_cells h' a = h_cells h a"
  have "o_view V (pc_ObjectMeta x) h' = o_view V (pc_ObjectMeta x) h \<and> o_refs V (pc_ObjectMeta x) h' = o_refs V (pc_ObjectMeta x) h"
    using same M by (intro framedD [of "o_refs V" "o_view V"]) (simp_all add: satellite_refs_def apimachinery_contract_def)
  moreover have "status_view V (pc_Status x) h' = status_view V (pc_Status x) h \<and> status_refs V (pc_Status x) h' = status_refs V (pc_Status x) h"
    using same by (intro framedD [OF status_framed [OF M]]) (simp add: satellite_refs_def)
  ultimately show "satellite_view V x h' = satellite_view V x h \<and> satellite_refs V x h' = satellite_refs V x h"
    by (simp add: satellite_view_def satellite_refs_def)
qed

lemma list_framed:
  fixes V :: "('o, 'l, 'c, 'x, 'v) views"
  shows "apimachinery_contract M V \<Longrightarrow> framed (list_refs V) (list_view V)"
  unfolding framed_def
proof (intro allI impI)
  fix x and h h' :: "('o, 'l, 'c, 'x) heap"
  assume M: "apimachinery_contract M V" and same: "\<forall>a \<in> list_refs V x h. h_cells h' a = h_cells h a"
  have "l_view V (pl_ListMeta x) h' = l_view V (pl_ListMeta x) h \<and> l_refs V (pl_ListMeta x) h' = l_refs V (pl_ListMeta x) h"
    using same M by (intro framedD [of "l_refs V" "l_view V"]) (simp_all add: list_refs_def apimachinery_contract_def)
  moreover have "slice_view satellites_of (satellite_view V) s h' = slice_view satellites_of (satellite_view V) s h
      \<and> slice_refs satellites_of (satellite_refs V) s h' = slice_refs satellites_of (satellite_refs V) s h" if "pl_Items x = Some s" for s
    using that same by (intro framedD [OF slice_framed [OF satellite_framed [OF M] reads_arrays(2)]]) (simp add: list_refs_def)
  ultimately show "list_view V x h' = list_view V x h \<and> list_refs V x h' = list_refs V x h"
    by (cases "pl_Items x") (simp_all add: list_view_def list_refs_def)
qed

lemma deep_copiesI:
  assumes "\<And>x h x' h'. refs x h \<subseteq> {..<h_next h} \<Longrightarrow> copy x h = (x', h') \<Longrightarrow>
    extends h h' \<and> view x' h' = view x h \<and> refs x' h' \<subseteq> {h_next h..<h_next h'}"
  shows "deep_copies copy refs view"
  using assms unfolding deep_copies_def by blast


text \<open>A part that may be absent, and a part that was copied before the rest.\<close>

definition copy_option ::
  "('a \<Rightarrow> ('o, 'l, 'c, 'x) heap \<Rightarrow> 'a \<times> ('o, 'l, 'c, 'x) heap) \<Rightarrow> 'a option \<Rightarrow> ('o, 'l, 'c, 'x) heap \<Rightarrow>
     'a option \<times> ('o, 'l, 'c, 'x) heap" where
  "copy_option copy p h = (case p of None \<Rightarrow> (None, h) | Some x \<Rightarrow> apfst Some (copy x h))"

lemma copy_option_copies:
  assumes "deep_copies copy refs view"
  shows "deep_copies (copy_option copy) (\<lambda>p h. \<Union>x \<in> set_option p. refs x h) (\<lambda>p h. map_option (\<lambda>x. view x h) p)"
proof (rule deep_copiesI)
  fix p h p' h'
  assume valid: "(\<Union>x \<in> set_option p. refs x h) \<subseteq> {..<h_next h}" and copy: "copy_option copy p h = (p', h')"
  show "extends h h' \<and> map_option (\<lambda>x. view x h') p' = map_option (\<lambda>x. view x h) p
      \<and> (\<Union>x \<in> set_option p'. refs x h') \<subseteq> {h_next h..<h_next h'}"
  proof (cases p)
    case None
    then show ?thesis using copy by (auto simp: copy_option_def extends_def)
  next
    case (Some x)
    then obtain x' where "copy x h = (x', h')" "p' = Some x'" using copy by (cases "copy x h") (auto simp: copy_option_def)
    then show ?thesis using Some valid deep_copiesD [OF assms, of x h x' h'] by simp
  qed
qed

lemma copy_option_framed:
  fixes view :: "'a \<Rightarrow> ('o, 'l, 'c, 'x) heap \<Rightarrow> 'v"
  assumes "framed refs view"
  shows "framed (\<lambda>p h. \<Union>x \<in> set_option p. refs x h) (\<lambda>p h. map_option (\<lambda>x. view x h) p)"
  unfolding framed_def
proof (intro allI impI)
  fix p and h h' :: "('o, 'l, 'c, 'x) heap" assume "\<forall>a \<in> \<Union>x \<in> set_option p. refs x h. h_cells h' a = h_cells h a"
  then show "map_option (\<lambda>x. view x h') p = map_option (\<lambda>x. view x h) p
      \<and> (\<Union>x \<in> set_option p. refs x h') = (\<Union>x \<in> set_option p. refs x h)"
    using framedD [OF assms, of "the p" h h'] by (cases p) simp_all
qed

definition copy_both where
  "copy_both copy1 copy2 p h =
     (case copy1 (fst p) h of (x', h1) \<Rightarrow> case copy2 (snd p) h1 of (y', h2) \<Rightarrow> ((x', y'), h2))"

lemma copy_both_copies:
  assumes c1: "deep_copies copy1 refs1 view1" and f1: "framed refs1 view1"
    and c2: "deep_copies copy2 refs2 view2" and f2: "framed refs2 view2"
  shows "deep_copies (copy_both copy1 copy2) (\<lambda>p h. refs1 (fst p) h \<union> refs2 (snd p) h) (\<lambda>p h. (view1 (fst p) h, view2 (snd p) h))"
proof (rule deep_copiesI)
  fix p h p' h2
  assume valid: "refs1 (fst p) h \<union> refs2 (snd p) h \<subseteq> {..<h_next h}" and copy: "copy_both copy1 copy2 p h = (p', h2)"
  obtain x' h1 where one: "copy1 (fst p) h = (x', h1)" by fastforce
  obtain y' where two: "copy2 (snd p) h1 = (y', h2)" and p': "p' = (x', y')"
    using copy one by (auto simp: copy_both_def split: prod.splits)
  have x: "extends h h1" "view1 x' h1 = view1 (fst p) h" "refs1 x' h1 \<subseteq> {h_next h..<h_next h1}"
    using deep_copiesD [OF c1 _ one] valid by auto
  have y0: "view2 (snd p) h1 = view2 (snd p) h \<and> refs2 (snd p) h1 = refs2 (snd p) h"
    using framed_extends [OF f2 _ x(1)] valid by auto
  then have "refs2 (snd p) h1 \<subseteq> {..<h_next h1}" using valid x(1) by (auto simp: extends_def)
  from deep_copiesD [OF c2 this two] have y: "extends h1 h2" "view2 y' h2 = view2 (snd p) h" "refs2 y' h2 \<subseteq> {h_next h1..<h_next h2}"
    using y0 by auto
  have "view1 x' h2 = view1 x' h1 \<and> refs1 x' h2 = refs1 x' h1"
    by (rule framed_extends [OF f1 _ y(1)]) (use x(3) in auto)
  moreover have "h_next h \<le> h_next h1" "h_next h1 \<le> h_next h2" using x(1) y(1) by (simp_all add: extends_def)
  ultimately show "extends h h2 \<and> (view1 (fst p') h2, view2 (snd p') h2) = (view1 (fst p) h, view2 (snd p) h)
    \<and> refs1 (fst p') h2 \<union> refs2 (snd p') h2 \<subseteq> {h_next h..<h_next h2}"
    using x y extends_trans [OF x(1) y(1)] p' by auto
qed

text \<open>The three copies that have parts.\<close>

lemma transfer_copies:
  assumes dc: "deep_copies copy refs view"
    and rel: "\<And>x h. copy' x h = apfst (rebuild x) (copy (parts x) h)"
    and refs: "\<And>x h. refs' x h = refs (parts x) h" and view: "\<And>x h. view' x h = (rest x, view (parts x) h)"
    and re: "\<And>x y. parts (rebuild x y) = y" "\<And>x y. rest (rebuild x y) = rest x"
  shows "deep_copies copy' refs' view'"
proof (rule deep_copiesI)
  fix x h x' h'
  assume valid: "refs' x h \<subseteq> {..<h_next h}" and copy: "copy' x h = (x', h')"
  obtain y where y: "copy (parts x) h = (y, h')" "x' = rebuild x y"
    using copy rel [of x h] by (cases "copy (parts x) h") auto
  then show "extends h h' \<and> view' x' h' = view' x h \<and> refs' x' h' \<subseteq> {h_next h..<h_next h'}"
    using deep_copiesD [OF dc _ y(1)] valid by (simp add: refs view re)
qed


lemma time_framed: "framed (\<lambda>a _. {a}) time_at"
  by (simp add: framed_def time_at_def)

lemma status_copies:
  fixes V :: "('o, 'l, 'c, 'x, 'v) views"
  assumes M: "apimachinery_contract M V"
  shows "deep_copies (SatelliteStatus_DeepCopyInto M) (status_refs V) (status_view V)"
proof (rule transfer_copies)
  have c: "deep_copies (Condition_DeepCopyInto M) (c_refs V) (c_view V)" "framed (c_refs V) (c_view V)"
    and t: "deep_copies (Time_DeepCopy M) (\<lambda>a _. {a}) time_at"
    using M by (simp_all add: apimachinery_contract_def)
  show "deep_copies
      (copy_both (copy_option (Time_DeepCopy M))
        (copy_option (\<lambda>s h. copy_slice (Condition_DeepCopyInto M) ConditionArray (zero_Condition M) (conditions_of h s) h)))
      (\<lambda>p h. (\<Union>a \<in> set_option (fst p). {a}) \<union> (\<Union>s \<in> set_option (snd p). slice_refs conditions_of (c_refs V) s h))
      (\<lambda>p h. (map_option (\<lambda>a. time_at a h) (fst p), map_option (\<lambda>s. slice_view conditions_of (c_view V) s h) (snd p)))"
    by (rule copy_both_copies [OF copy_option_copies [OF t] copy_option_framed [OF time_framed]
          copy_option_copies [OF copy_slice_copies [OF c reads_arrays(1)]] copy_option_framed [OF slice_framed [OF c(2) reads_arrays(1)]]])
  show "SatelliteStatus_DeepCopyInto M st h = apfst (\<lambda>(t, s). st\<lparr>ps_LastHeartbeat := t, ps_Conditions := s\<rparr>)
      (copy_both (copy_option (Time_DeepCopy M))
        (copy_option (\<lambda>s h. copy_slice (Condition_DeepCopyInto M) ConditionArray (zero_Condition M) (conditions_of h s) h))
        (ps_LastHeartbeat st, ps_Conditions st) h)" for st and h :: "('o, 'l, 'c, 'x) heap"
    by (cases "ps_LastHeartbeat st"; cases "ps_Conditions st")
      (simp_all add: SatelliteStatus_DeepCopyInto_def copy_both_def copy_option_def Let_def split: prod.split)
  show "status_view V st h = ((ps_Phase st, ps_ManagedBy st), map_option (\<lambda>a. time_at a h) (fst (ps_LastHeartbeat st, ps_Conditions st)),
      map_option (\<lambda>s. slice_view conditions_of (c_view V) s h) (snd (ps_LastHeartbeat st, ps_Conditions st)))" for st h
    by (simp add: status_view_def)
qed (auto simp: status_refs_def)

lemma satellite_copies:
  fixes V :: "('o, 'l, 'c, 'x, 'v) views"
  assumes M: "apimachinery_contract M V"
  shows "deep_copies (Satellite_DeepCopyInto M) (satellite_refs V) (satellite_view V)"
proof (rule transfer_copies)
  have o1: "deep_copies (ObjectMeta_DeepCopyInto M) (o_refs V) (o_view V)" "framed (o_refs V) (o_view V)"
    using M by (simp_all add: apimachinery_contract_def)
  show "deep_copies (copy_both (ObjectMeta_DeepCopyInto M) (SatelliteStatus_DeepCopyInto M))
      (\<lambda>p h. o_refs V (fst p) h \<union> status_refs V (snd p) h) (\<lambda>p h. (o_view V (fst p) h, status_view V (snd p) h))"
    by (rule copy_both_copies [OF o1 status_copies [OF M] status_framed [OF M]])
  show "Satellite_DeepCopyInto M x h = apfst (\<lambda>(m, st). x\<lparr>pc_ObjectMeta := m, pc_Status := st\<rparr>)
      (copy_both (ObjectMeta_DeepCopyInto M) (SatelliteStatus_DeepCopyInto M) (pc_ObjectMeta x, pc_Status x) h)"
    for x and h :: "('o, 'l, 'c, 'x) heap"
    by (simp add: Satellite_DeepCopyInto_def copy_both_def Let_def split: prod.split)
  show "satellite_view V x h = ((pc_TypeMeta x, pc_Spec x), o_view V (fst (pc_ObjectMeta x, pc_Status x)) h,
      status_view V (snd (pc_ObjectMeta x, pc_Status x)) h)" for x h
    by (simp add: satellite_view_def)
qed (auto simp: satellite_refs_def)

lemma list_copies:
  fixes V :: "('o, 'l, 'c, 'x, 'v) views"
  assumes M: "apimachinery_contract M V"
  shows "deep_copies (SatelliteList_DeepCopyInto M) (list_refs V) (list_view V)"
proof (rule transfer_copies)
  have l: "deep_copies (ListMeta_DeepCopyInto M) (l_refs V) (l_view V)" "framed (l_refs V) (l_view V)"
    using M by (simp_all add: apimachinery_contract_def)
  let ?items = "\<lambda>s h. copy_slice (Satellite_DeepCopyInto M) SatelliteArray (zero_Satellite M) (satellites_of h s) h"
  show "deep_copies (copy_both (ListMeta_DeepCopyInto M) (copy_option ?items))
      (\<lambda>p h. l_refs V (fst p) h \<union> (\<Union>s \<in> set_option (snd p). slice_refs satellites_of (satellite_refs V) s h))
      (\<lambda>p h. (l_view V (fst p) h, map_option (\<lambda>s. slice_view satellites_of (satellite_view V) s h) (snd p)))"
    by (rule copy_both_copies [OF l
          copy_option_copies [OF copy_slice_copies [OF satellite_copies [OF M] satellite_framed [OF M] reads_arrays(2)]]
          copy_option_framed [OF slice_framed [OF satellite_framed [OF M] reads_arrays(2)]]])
  show "SatelliteList_DeepCopyInto M x h = apfst (\<lambda>(m, s). x\<lparr>pl_ListMeta := m, pl_Items := s\<rparr>)
      (copy_both (ListMeta_DeepCopyInto M) (copy_option ?items) (pl_ListMeta x, pl_Items x) h)"
    for x and h :: "('o, 'l, 'c, 'x) heap"
    by (cases "pl_Items x") (simp_all add: SatelliteList_DeepCopyInto_def copy_both_def copy_option_def Let_def split: prod.split)
  show "list_view V x h = (pl_TypeMeta x, l_view V (fst (pl_ListMeta x, pl_Items x)) h,
      map_option (\<lambda>s. slice_view satellites_of (satellite_view V) s h) (snd (pl_ListMeta x, pl_Items x)))" for x h
    by (simp add: list_view_def)
qed (auto simp: list_refs_def)


section \<open>Copied objects\<close>

text \<open>
  An object and its copy: they look the same, no write to what the copy reaches shows in the
  original, and none to what the original reaches shows in the copy.
\<close>

definition points_to :: "(('o, 'l, 'c, 'x) cell \<Rightarrow> 'a option) \<Rightarrow> ('o, 'l, 'c, 'x) heap \<Rightarrow> addr \<Rightarrow> 'a option" where
  "points_to proj h p = Option.bind (h_cells h p) proj"

definition valid_object where
  "valid_object proj refs h p \<longleftrightarrow>
     (case points_to proj h p of None \<Rightarrow> False | Some x \<Rightarrow> p < h_next h \<and> refs x h \<subseteq> {..<h_next h})"

definition same_outside :: "addr set \<Rightarrow> ('o, 'l, 'c, 'x) heap \<Rightarrow> ('o, 'l, 'c, 'x) heap \<Rightarrow> bool" where
  "same_outside A h h' \<longleftrightarrow> (\<forall>a. a \<notin> A \<longrightarrow> h_cells h' a = h_cells h a)"

definition separate_copy where
  "separate_copy proj refs view h p h' q \<longleftrightarrow>
     (\<exists>x y. points_to proj h p = Some x \<and> points_to proj h' q = Some y \<and> view y h' = view x h
        \<and> (\<forall>h''. same_outside (insert q (refs y h')) h' h'' \<longrightarrow> points_to proj h'' p = Some x \<and> view x h'' = view x h)
        \<and> (\<forall>h''. same_outside (insert p (refs x h)) h' h'' \<longrightarrow> points_to proj h'' q = Some y \<and> view y h'' = view x h))"

text \<open>The contract of a deep copy, and what it gives for the objects made with it.\<close>

locale deep_copier =
  fixes copy :: "'a \<Rightarrow> ('o, 'l, 'c, 'x) heap \<Rightarrow> 'a \<times> ('o, 'l, 'c, 'x) heap"
    and refs :: "'a \<Rightarrow> ('o, 'l, 'c, 'x) heap \<Rightarrow> addr set"
    and view :: "'a \<Rightarrow> ('o, 'l, 'c, 'x) heap \<Rightarrow> 'v"
  assumes dc: "deep_copies copy refs view" and fr: "framed refs view"
begin

lemma copy_object_separate:
  assumes proj: "\<And>x. proj (cell x) = Some x"
    and valid: "valid_object proj refs h p"
  shows "\<exists>q h'. copy_object proj cell zero copy (Some p) h = (Some q, h') \<and> separate_copy proj refs view h p h' q"
proof -
  obtain x where x: "points_to proj h p = Some x" "p < h_next h" "refs x h \<subseteq> {..<h_next h}"
    using valid by (auto simp: valid_object_def split: option.splits)
  define h1 where "h1 = snd (new_cell (cell zero) h)"
  have h1: "h_next h1 = Suc (h_next h)" "\<And>b. b \<noteq> h_next h \<Longrightarrow> h_cells h1 b = h_cells h b" by (simp_all add: h1_def new_cell_def)
  then have "extends h h1" by (simp add: extends_def)
  then have x1: "view x h1 = view x h \<and> refs x h1 = refs x h" using framed_extends [OF fr x(3)] by simp
  obtain y h2 where copy: "copy x h1 = (y, h2)" by fastforce
  have "refs x h1 \<subseteq> {..<h_next h1}" using x1 x(3) h1(1) by auto
  from deep_copiesD [OF dc this copy] have y: "extends h1 h2" "view y h2 = view x h" "refs y h2 \<subseteq> {Suc (h_next h)..<h_next h2}"
    using x1 h1(1) by simp_all
  define h' where "h' = write_cell (h_next h) (cell y) h2"
  have h': "\<And>b. b \<noteq> h_next h \<Longrightarrow> h_cells h' b = h_cells h2 b" "points_to proj h' (h_next h) = Some y"
    by (simp_all add: h'_def write_cell_def points_to_def proj)
  have old: "h_cells h' b = h_cells h b" if "b < h_next h" for b
    using that h' y(1) h1 by (simp add: extends_def)
  have y': "view y h' = view x h \<and> refs y h' = refs y h2"
    using framedD [OF fr, of y h2 h'] y(2,3) h'(1) by force
  have one: "points_to proj h'' p = Some x \<and> view x h'' = view x h" if "same_outside (insert (h_next h) (refs y h')) h' h''" for h''
  proof -
    have same: "h_cells h'' b = h_cells h b" if b: "b < h_next h" for b
    proof -
      have "b \<notin> insert (h_next h) (refs y h')" using b y' y(3) by fastforce
      then show ?thesis using old [OF b] \<open>same_outside _ h' h''\<close> unfolding same_outside_def by simp
    qed
    have "view x h'' = view x h" using framedD [OF fr, of x h h''] same x(3) by blast
    then show ?thesis using x(1,2) same [of p] by (simp add: points_to_def)
  qed
  have two: "points_to proj h'' (h_next h) = Some y \<and> view y h'' = view x h" if "same_outside (insert p (refs x h)) h' h''" for h''
  proof -
    have same: "h_cells h'' b = h_cells h' b" if b: "h_next h \<le> b" for b
    proof -
      have "b \<notin> insert p (refs x h)" using b x(2,3) by fastforce
      then show ?thesis using \<open>same_outside _ h' h''\<close> unfolding same_outside_def by simp
    qed
    have "h_next h \<le> b" if "b \<in> refs y h'" for b using that y' y(3) by fastforce
    then have "view y h'' = view y h'" using framedD [OF fr, of y h' h''] same by blast
    then show ?thesis using h'(2) y' same [of "h_next h"] by (simp add: points_to_def)
  qed
  have "copy_object proj cell zero copy (Some p) h = (Some (h_next h), h')"
    using x(1) copy by (simp add: copy_object_def points_to_def h1_def h'_def new_cell_def)
  then show ?thesis using x(1) h'(2) y' one two by (auto simp: separate_copy_def)
qed

end

interpretation spec: deep_copier SatelliteSpec_DeepCopyInto "\<lambda>_ _. {}" "\<lambda>s _. s"
  by unfold_locales (auto simp: SatelliteSpec_DeepCopyInto_def framed_def extends_def intro: deep_copiesI)

lemma resource_copiers:
  assumes "apimachinery_contract M V"
  shows "deep_copier (SatelliteStatus_DeepCopyInto M) (status_refs V) (status_view V)"
    and "deep_copier (Satellite_DeepCopyInto M) (satellite_refs V) (satellite_view V)"
    and "deep_copier (SatelliteList_DeepCopyInto M) (list_refs V) (list_view V)"
  using assms
  by (simp_all add: deep_copier_def status_copies status_framed satellite_copies satellite_framed list_copies list_framed)

text \<open>
  C18. Deep copies share nothing with their originals. If apimachinery's own copies are deep, then
  \<open>DeepCopyObject\<close> of a satellite or of a list of satellites, and \<open>DeepCopy\<close> of a spec or a status,
  return a new object of that type which looks exactly like the original through all its pointers
  and slices; whatever is written afterwards to memory the copy reaches leaves the original as it
  is, and the other way round. The copy of a nil pointer is nil.
\<close>

theorem deep_copies_share_nothing:
  assumes M: "apimachinery_contract M V"
    and sat: "valid_object as_Satellite (satellite_refs V) h p" and lst: "valid_object as_SatelliteList (list_refs V) h l"
    and spec: "valid_object as_Spec (\<lambda>_ _. {}) h s" and status: "valid_object as_Status (status_refs V) h t"
  shows "(\<exists>q h'. Satellite_DeepCopyObject M (Some p) h = (Some (SatelliteObject q), h')
        \<and> separate_copy as_Satellite (satellite_refs V) (satellite_view V) h p h' q)
    \<and> (\<exists>q h'. SatelliteList_DeepCopyObject M (Some l) h = (Some (SatelliteListObject q), h')
        \<and> separate_copy as_SatelliteList (list_refs V) (list_view V) h l h' q)
    \<and> (\<exists>q h'. SatelliteSpec_DeepCopy (Some s) h = (Some q, h')
        \<and> separate_copy as_Spec (\<lambda>_ _. {}) (\<lambda>x _. x) h s h' q)
    \<and> (\<exists>q h'. SatelliteStatus_DeepCopy M (Some t) h = (Some q, h')
        \<and> separate_copy as_Status (status_refs V) (status_view V) h t h' q)
    \<and> Satellite_DeepCopyObject M None h = (None, h) \<and> SatelliteList_DeepCopyObject M None h = (None, h)
    \<and> SatelliteSpec_DeepCopy None h = (None, h) \<and> SatelliteStatus_DeepCopy M None h = (None, h)"
proof (intro conjI)
  note copiers = resource_copiers [OF M, THEN deep_copier.copy_object_separate]
  obtain q h' where "Satellite_DeepCopy M (Some p) h = (Some q, h')"
    and sep: "separate_copy as_Satellite (satellite_refs V) (satellite_view V) h p h' q"
    using copiers(2) [OF _ sat, of SatelliteCell "zero_Satellite M"] by (auto simp: Satellite_DeepCopy_def)
  then have "Satellite_DeepCopyObject M (Some p) h = (Some (SatelliteObject q), h')" by (simp add: Satellite_DeepCopyObject_def)
  with sep show "\<exists>q h'. Satellite_DeepCopyObject M (Some p) h = (Some (SatelliteObject q), h')
      \<and> separate_copy as_Satellite (satellite_refs V) (satellite_view V) h p h' q" by blast
  obtain r k where "SatelliteList_DeepCopy M (Some l) h = (Some r, k)"
    and sep: "separate_copy as_SatelliteList (list_refs V) (list_view V) h l k r"
    using copiers(3) [OF _ lst, of SatelliteListCell "\<lparr>pl_TypeMeta = zero_TypeMeta, pl_ListMeta = zero_ListMeta M, pl_Items = None\<rparr>"]
    by (auto simp: SatelliteList_DeepCopy_def)
  then have "SatelliteList_DeepCopyObject M (Some l) h = (Some (SatelliteListObject r), k)"
    by (simp add: SatelliteList_DeepCopyObject_def)
  with sep show "\<exists>q h'. SatelliteList_DeepCopyObject M (Some l) h = (Some (SatelliteListObject q), h')
      \<and> separate_copy as_SatelliteList (list_refs V) (list_view V) h l h' q" by blast
  show "\<exists>q h'. SatelliteSpec_DeepCopy (Some s) h = (Some q, h') \<and> separate_copy as_Spec (\<lambda>_ _. {}) (\<lambda>x _. x) h s h' q"
    unfolding SatelliteSpec_DeepCopy_def by (rule spec.copy_object_separate [OF _ spec]) simp
  show "\<exists>q h'. SatelliteStatus_DeepCopy M (Some t) h = (Some q, h')
      \<and> separate_copy as_Status (status_refs V) (status_view V) h t h' q"
    unfolding SatelliteStatus_DeepCopy_def by (rule copiers(1) [OF _ status]) simp
qed (simp_all add: Satellite_DeepCopyObject_def SatelliteList_DeepCopyObject_def Satellite_DeepCopy_def SatelliteList_DeepCopy_def
    SatelliteSpec_DeepCopy_def SatelliteStatus_DeepCopy_def copy_object_def)

text \<open>A cluster whose metadata and conditions are plain strings, and a list of one satellite with a heartbeat.\<close>

definition plain_copy :: "'a \<Rightarrow> ('o, 'l, 'c, 'x) heap \<Rightarrow> 'a \<times> ('o, 'l, 'c, 'x) heap" where
  "plain_copy x h = (x, h)"

definition sample_machinery :: "(bytes, bytes, bytes, unit) apimachinery" where
  "sample_machinery = \<lparr>Time_DeepCopy = (\<lambda>a h. case h_cells h a of Some c \<Rightarrow> new_cell c h | None \<Rightarrow> new_cell (MetaCell ()) h),
     Condition_DeepCopyInto = plain_copy, ObjectMeta_DeepCopyInto = plain_copy, ListMeta_DeepCopyInto = plain_copy,
     zero_Condition = [], zero_ObjectMeta = [], zero_ListMeta = []\<rparr>"

definition sample_views :: "(bytes, bytes, bytes, unit, bytes) views" where
  "sample_views = \<lparr>o_view = (\<lambda>x _. x), o_refs = (\<lambda>_ _. {}), l_view = (\<lambda>x _. x), l_refs = (\<lambda>_ _. {}),
     c_view = (\<lambda>x _. x), c_refs = (\<lambda>_ _. {})\<rparr>"

definition sample_status :: ptr_SatelliteStatus where
  "sample_status = \<lparr>ps_Phase = ''Ready'', ps_ManagedBy = ''operator'', ps_LastHeartbeat = Some 0,
     ps_Conditions = Some \<lparr>sl_array = 1, sl_off = 1, sl_len = 1\<rparr>\<rparr>"

definition sample_object :: "bytes ptr_Satellite" where
  "sample_object = \<lparr>pc_TypeMeta = zero_TypeMeta, pc_ObjectMeta = ''edge'', pc_Spec = \<lparr>spec_Region = ''hcm''\<rparr>, pc_Status = sample_status\<rparr>"

definition sample_heap :: "(bytes, bytes, bytes, unit) heap" where
  "sample_heap = \<lparr>h_next = 7, h_cells = [0 \<mapsto> TimeCell 9, 1 \<mapsto> ConditionArray [''old'', ''Available''],
     2 \<mapsto> SatelliteCell sample_object, 3 \<mapsto> SatelliteArray [sample_object],
     4 \<mapsto> SatelliteListCell \<lparr>pl_TypeMeta = zero_TypeMeta, pl_ListMeta = [], pl_Items = Some \<lparr>sl_array = 3, sl_off = 0, sl_len = 1\<rparr>\<rparr>,
     5 \<mapsto> SpecCell \<lparr>spec_Region = ''hcm''\<rparr>, 6 \<mapsto> StatusCell sample_status]\<rparr>"

lemma sample_contract: "apimachinery_contract sample_machinery sample_views"
proof -
  have "deep_copies (Time_DeepCopy sample_machinery) (\<lambda>a _. {a}) time_at"
    by (rule deep_copiesI) (auto simp: sample_machinery_def new_cell_def extends_def time_at_def split: option.splits)
  moreover have "framed (\<lambda>_ _. {}) (\<lambda>x _. x)" by (simp add: framed_def)
  moreover have "deep_copies plain_copy (\<lambda>_ _. {}) (\<lambda>x _. x)" by (rule deep_copiesI) (simp add: plain_copy_def extends_def)
  ultimately show ?thesis by (simp add: apimachinery_contract_def sample_machinery_def sample_views_def)
qed

theorem deep_copies_share_nothing_witness:
  "(\<exists>q h'. Satellite_DeepCopyObject sample_machinery (Some 2) sample_heap = (Some (SatelliteObject q), h')
      \<and> separate_copy as_Satellite (satellite_refs sample_views) (satellite_view sample_views) sample_heap 2 h' q)"
proof -
  have sat: "valid_object as_Satellite (satellite_refs sample_views) sample_heap 2"
    by (simp add: valid_object_def points_to_def sample_heap_def satellite_refs_def status_refs_def slice_refs_def sample_object_def
        sample_status_def sample_views_def)
  have lst: "valid_object as_SatelliteList (list_refs sample_views) sample_heap 4"
    by (simp add: valid_object_def points_to_def sample_heap_def list_refs_def slice_refs_def satellites_of_def window_def
        satellite_refs_def status_refs_def sample_object_def sample_status_def sample_views_def)
  have rest: "valid_object as_Spec (\<lambda>_ _. {}) sample_heap 5" "valid_object as_Status (status_refs sample_views) sample_heap 6"
    by (simp_all add: valid_object_def points_to_def sample_heap_def status_refs_def slice_refs_def sample_status_def sample_views_def)
  show ?thesis using deep_copies_share_nothing [OF sample_contract sat lst rest] by blast
qed

end
