(* ===== verification/Calendar.thy ===== *)
theory Calendar
  imports GoTime
begin

text \<open>
  The proleptic Gregorian calendar behind RFC 3339 times: the date of a day number is a date of
  the calendar and has that day number, and a printed time reads back as itself.
\<close>

section \<open>The calendar\<close>

text \<open>
  A day of a 400-year era as centuries, four-year cycles and the rest; the last day of the era is
  the one day that does not fit.
\<close>

lemma era_day_cases:
  assumes "0 \<le> doe" "doe < (146097::int)"
  obtains "doe = 146096"
  | c q s where "doe = 36524 * c + 1461 * q + s" "0 \<le> c" "c \<le> 3" "0 \<le> q" "q \<le> 24" "0 \<le> s" "s \<le> 1460"
      "q = 24 \<Longrightarrow> s \<le> 1459"
proof (cases "doe = 146096")
  case False
  define c r where "c = doe div 36524" and "r = doe mod 36524"
  define q s where "q = r div 1461" and "s = r mod 1461"
  have "doe = 36524 * c + r" "0 \<le> r" "r < 36524" by (simp_all add: c_def r_def)
  moreover have "r = 1461 * q + s" "0 \<le> s" "s < 1461" by (simp_all add: q_def s_def)
  ultimately show thesis using assms False that(2) [of c q s] by linarith
qed (rule that)

lemma era_year:
  assumes "doe = 36524 * c + 1461 * q + s" "0 \<le> c" "c \<le> 3" "0 \<le> q" "q \<le> 24" "0 \<le> s" "s \<le> (1460::int)"
    "q = 24 \<Longrightarrow> s \<le> 1459"
  defines "k \<equiv> (if s < 365 then 0 else if s < 730 then 1 else if s < 1095 then 2 else 3)"
  shows "(doe - doe div 1460 + doe div 36524 - doe div 146096) div 365 = 100 * c + 4 * q + k"
proof -
  define e :: int where "e = (if 1460 \<le> 24 * c + q + s then 1 else 0)"
  have "doe div 1460 = 25 * c + q + e"
    by (rule int_div_pos_eq [where r = "24 * c + q + s - 1460 * e"]) (use assms(1-7) in \<open>auto simp: e_def\<close>)
  moreover have "doe div 36524 = c"
    by (rule int_div_pos_eq [where r = "1461 * q + s"]) (use assms(1-8) in \<open>auto simp: le_less\<close>)
  moreover have "doe div 146096 = 0" by (rule div_pos_pos_trivial) (use assms(1-8) in linarith)+
  ultimately have eq: "doe - doe div 1460 + doe div 36524 - doe div 146096 = 365 * (100 * c + 4 * q + k) + (s - e - 365 * k)"
    using assms(1) by simp
  show ?thesis
    unfolding eq by (rule int_div_pos_eq [OF refl]) (use assms(2-7) in \<open>auto simp: e_def k_def\<close>)
qed

text \<open>A day of a year that starts in March as a month and a day of the month.\<close>

definition march_month :: "int \<Rightarrow> int" where
  "march_month doy = (5 * doy + 2) div 153"

definition march_day :: "int \<Rightarrow> int" where
  "march_day doy = doy - (153 * march_month doy + 2) div 5 + 1"

lemma march_month_range: "0 \<le> doy \<Longrightarrow> doy \<le> 365 \<Longrightarrow> march_month doy \<in> {0, 1, 2, 3, 4, 5, 6, 7, 8, 9, 10, 11}"
proof -
  assume "0 \<le> doy" "doy \<le> 365"
  then have "0 \<le> march_month doy" "march_month doy \<le> 11" unfolding march_month_def by linarith+
  then show ?thesis by (simp, presburger)
qed

lemma march_day_range:
  assumes "0 \<le> doy" "doy \<le> 365"
  defines "mp \<equiv> march_month doy"
  shows "1 \<le> march_day doy"
    and "march_day doy \<le> (if mp = 11 then 29 else if mp \<in> {1, 3, 6, 8} then 30 else 31)"
    and "mp = 11 \<Longrightarrow> march_day doy = 29 \<Longrightarrow> doy = 365"
proof -
  have b: "153 * mp \<le> 5 * doy + 2" "5 * doy + 2 < 153 * mp + 153" unfolding mp_def march_month_def by linarith+
  have r: "mp \<in> {0, 1, 2, 3, 4, 5, 6, 7, 8, 9, 10, 11}" unfolding mp_def by (rule march_month_range [OF assms(1,2)])
  show "1 \<le> march_day doy"
    using b r unfolding march_day_def mp_def [symmetric] by (elim insertE emptyE; simp)
  show "march_day doy \<le> (if mp = 11 then 29 else if mp \<in> {1, 3, 6, 8} then 30 else 31)"
    using b r assms(2) unfolding march_day_def mp_def [symmetric] by (elim insertE emptyE; simp)
  show "mp = 11 \<Longrightarrow> march_day doy = 29 \<Longrightarrow> doy = 365"
    unfolding march_day_def mp_def [symmetric] by simp
qed

text \<open>The year of an era and the day of that year.\<close>

lemma era_split:
  assumes "0 \<le> doe" "doe < (146097::int)"
  defines "yoe \<equiv> (doe - doe div 1460 + doe div 36524 - doe div 146096) div 365"
  defines "doy \<equiv> doe - (365 * yoe + yoe div 4 - yoe div 100)"
  shows "0 \<le> yoe" "yoe < 400" "0 \<le> doy" "doy \<le> 365" "doy = 365 \<Longrightarrow> is_leap (yoe + 1)"
proof -
  have "0 \<le> yoe \<and> yoe < 400 \<and> 0 \<le> doy \<and> doy \<le> 365 \<and> (doy = 365 \<longrightarrow> is_leap (yoe + 1))"
    using assms(1,2)
  proof (cases rule: era_day_cases)
    case 1
    then show ?thesis by (simp add: yoe_def doy_def is_leap_def)
  next
    case (2 c q s)
    define k :: int where "k = (if s < 365 then 0 else if s < 730 then 1 else if s < 1095 then 2 else 3)"
    have y: "yoe = 100 * c + 4 * q + k" unfolding yoe_def k_def by (rule era_year) (use 2 in auto)
    have k: "0 \<le> k" "k \<le> 3" by (auto simp: k_def)
    have "yoe div 4 = 25 * c + q" by (rule int_div_pos_eq [where r = k]) (use y k in auto)
    moreover have "yoe div 100 = c" by (rule int_div_pos_eq [where r = "4 * q + k"]) (use y k 2 in auto)
    ultimately have d: "doy = s - 365 * k" using y 2(1) by (simp add: doy_def)
    have leap: "is_leap (yoe + 1)" if "doy = 365"
    proof -
      from that d 2(7) have "k = 3" "s = 1460" by (auto simp: k_def split: if_splits)
      with 2(8) have "q \<noteq> 24" by auto
      with \<open>k = 3\<close> have q: "yoe + 1 = 4 * (25 * c + q + 1)" "yoe + 1 = 100 * c + (4 * q + 4)" "q \<le> 23"
        using y 2(5) by auto
      have "(yoe + 1) mod 100 = 4 * q + 4"
        unfolding q(2) using q(3) 2(4) by (simp add: mod_pos_pos_trivial)
      with q 2(4) show ?thesis by (simp add: is_leap_def)
    qed
    show ?thesis using y d 2 k leap by (auto simp: k_def split: if_splits)
  qed
  then show "0 \<le> yoe" "yoe < 400" "0 \<le> doy" "doy \<le> 365" "doy = 365 \<Longrightarrow> is_leap (yoe + 1)" by auto
qed

lemma is_leap_era: "is_leap (y + era * 400) = is_leap y"
proof -
  have "(y + 4 * (100 * era)) mod 4 = y mod 4" "(y + 100 * (4 * era)) mod 100 = y mod 100" by (rule mod_mult_self2)+
  then have "(y + era * 400) mod 4 = y mod 4" "(y + era * 400) mod 100 = y mod 100"
    by (simp_all add: mult.commute)
  then show ?thesis by (simp add: is_leap_def)
qed

text \<open>The date of a day is a date of the calendar, and its day number is that day.\<close>

lemma civil_date_ok:
  assumes "civil_date n = (y, m, d)"
  shows "1 \<le> m" "m \<le> 12" "1 \<le> d" "d \<le> days_in m y" "days_of_date y m d = n"
proof -
  define z where "z = n + 719468"
  define era doe where "era = z div 146097" and "doe = z mod 146097"
  define yoe where "yoe = (doe - doe div 1460 + doe div 36524 - doe div 146096) div 365"
  define doy where "doy = doe - (365 * yoe + yoe div 4 - yoe div 100)"
  define mp where "mp = march_month doy"
  have doe: "0 \<le> doe" "doe < 146097" by (simp_all add: doe_def)
  note e = era_split [OF doe, folded yoe_def, folded doy_def]
  note r = march_month_range [OF e(3,4), folded mp_def]
  note dr = march_day_range [OF e(3,4), folded mp_def]
  let ?m = "if mp < 10 then mp + 3 else mp - 9"
  have "civil_date n = (yoe + era * 400 + (if ?m \<le> 2 then 1 else 0), ?m, march_day doy)"
    unfolding civil_date_def march_day_def mp_def march_month_def doy_def yoe_def doe_def era_def z_def Let_def
    by (rule refl)
  then have m: "m = ?m" and d: "d = march_day doy" and y: "y = yoe + era * 400 + (if m \<le> 2 then 1 else 0)"
    using assms by (simp_all only: prod.inject)
  show "1 \<le> m" "m \<le> 12" using m r by auto
  show "1 \<le> d" using d dr(1) by simp
  show "d \<le> days_in m y"
  proof (cases "mp = 11")
    case True
    then have y': "m = 2" "y = yoe + 1 + era * 400" using m y by simp_all
    show ?thesis
    proof (cases "d = 29")
      case True
      with dr(3) \<open>mp = 11\<close> d e(5) y' show ?thesis by (simp add: days_in_def is_leap_era)
    next
      case False
      with dr(2) \<open>mp = 11\<close> d y' show ?thesis by (simp add: days_in_def)
    qed
  next
    case False
    with r m d dr(2) show ?thesis by (auto simp: days_in_def)
  qed
  have "(if m \<le> 2 then y - 1 else y) = era * 400 + yoe" using y by simp
  moreover have "(era * 400 + yoe) mod 400 = yoe" "(era * 400 + yoe) div 400 = era" using e(1,2) by simp_all
  moreover have "(if 2 < m then m - 3 else m + 9) = mp" using m r by auto
  moreover have "z = era * 146097 + doe" by (simp add: era_def doe_def)
  ultimately show "days_of_date y m d = n"
    using d unfolding days_of_date_def march_day_def Let_def mp_def [symmetric] by (simp add: z_def doy_def)
qed

section \<open>Reading what was printed\<close>

lemma digit_is_digit [simp]: "is_digit (digit n)"
  by (simp add: is_digit_def digit_def)

lemma byte_digit: "byte (digit n) = 48 + n mod 10"
  by (simp add: digit_def)

lemma digits_value_snoc: "digits_value (s @ [c]) = digits_value s * 10 + (byte c - 48)"
  by (simp add: digits_value_def)

lemma digits_value_append: "digits_value (s @ t) = digits_value s * 10 ^ length t + digits_value t"
proof (induction t rule: rev_induct)
  case Nil
  then show ?case by (simp add: digits_value_def)
next
  case (snoc c t)
  then show ?case using digits_value_snoc [of "s @ t" c] digits_value_snoc [of t c] by (simp add: algebra_simps)
qed

lemma pad_int_digits: "length (pad_int w n) = w" "list_all is_digit (pad_int w n)"
  by (induction w arbitrary: n) auto

lemma digits_value_pad: "n < 10 ^ w \<Longrightarrow> digits_value (pad_int w n) = n"
proof (induction w arbitrary: n)
  case 0
  then show ?case by (simp add: digits_value_def)
next
  case (Suc w)
  then have "n div 10 < 10 ^ w" by (simp add: less_mult_imp_div_less mult.commute)
  with Suc show ?case by (simp add: digits_value_snoc byte_digit)
qed

lemma parse_range_pad:
  assumes "lo \<le> x" "x \<le> hi" "0 \<le> x" "x < 10 ^ w"
  shows "parse_range (pad_int w (nat x)) lo hi = Some x"
proof -
  have "nat x < 10 ^ w" using assms(3,4) by (simp add: nat_less_iff)
  then show ?thesis using assms by (simp add: parse_range_def pad_int_digits digits_value_pad)
qed

lemma zeros_value: "list_all (\<lambda>c. c = CHR ''0'') s \<Longrightarrow> digits_value s = 0"
proof (induction s rule: rev_induct)
  case (snoc c s)
  then show ?case by (simp add: digits_value_snoc byte_def)
qed (simp add: digits_value_def)

lemma parse_fraction_text:
  assumes "0 \<le> ns" "ns < 1000000000" "rest = [] \<or> \<not> is_digit (hd rest)" "\<not> HasPrefix rest ''.''"
  shows "parse_fraction (fraction_text ns @ rest) = (ns, rest)"
proof (cases "ns = 0")
  case True
  then show ?thesis using assms(4) by (simp add: fraction_text_def parse_fraction_def)
next
  case False
  define p where "p = pad_int 9 (nat ns)"
  define t where "t = rev (dropWhile (\<lambda>c. c = CHR ''0'') (rev p))"
  define z where "z = rev (takeWhile (\<lambda>c. c = CHR ''0'') (rev p))"
  have p: "p = t @ z" unfolding t_def z_def by (metis rev_append rev_rev_ident takeWhile_dropWhile_id)
  have z: "list_all (\<lambda>c. c = CHR ''0'') z" by (auto simp: z_def list_all_iff dest: set_takeWhileD)
  have len: "length t + length z = 9" using arg_cong [OF p, of length] by (simp add: p_def pad_int_digits)
  have dig: "list_all is_digit t" using pad_int_digits(2) [of 9 "nat ns"] p by (simp add: p_def [symmetric])
  have val: "digits_value p = nat ns" unfolding p_def using assms(2) by (intro digits_value_pad) simp
  then have v: "digits_value t * 10 ^ (9 - length t) = nat ns"
    using digits_value_append [of t z] zeros_value [OF z] p len by (metis add.right_neutral add_diff_cancel_left')
  have ne: "t \<noteq> []" using v False assms(1) by (auto simp: digits_value_def)
  have tw: "takeWhile is_digit (t @ rest) = t" "dropWhile is_digit (t @ rest) = rest"
    using dig assms(3) by (cases rest; auto simp: list_all_iff takeWhile_append2 dropWhile_append2)+
  have "fraction_text ns = CHR ''.'' # t" using False by (simp add: fraction_text_def t_def p_def)
  moreover have "int (digits_value t) * 10 ^ (9 - length t) = ns"
    using arg_cong [OF v, of int] assms(1) by simp
  ultimately show ?thesis using tw ne len by (simp add: parse_fraction_def HasPrefix_def)
qed

lemma parse_zone_text:
  assumes "\<bar>off\<bar> < 86400" "off mod 60 = 0"
  shows "parse_zone (zone_text off) = Some off"
proof (cases "off = 0")
  case False
  define z where "z = nat (\<bar>off\<bar> div 60)"
  have z: "int z * 60 = \<bar>off\<bar>" "0 < z" "z < 1440" using assms False by (auto simp: z_def abs_if minus_mod_eq_mult_div)
  have "parse_range (pad_int 2 (nat (int (z div 60)))) 0 23 = Some (int (z div 60))"
    "parse_range (pad_int 2 (nat (int (z mod 60)))) 0 59 = Some (int (z mod 60))"
    using z(3) by (intro parse_range_pad; simp)+
  moreover obtain a b where ab: "pad_int 2 (z div 60) = [a, b]" by (simp add: numeral_2_eq_2)
  moreover obtain c d where cd: "pad_int 2 (z mod 60) = [c, d]" by (simp add: numeral_2_eq_2)
  moreover have "(int (z div 60) * 60 + int (z mod 60)) * 60 = \<bar>off\<bar>"
    using z(1) by (metis div_mult_mod_eq of_nat_add of_nat_mult of_nat_numeral)
  ultimately show ?thesis
    using False z(2) by (simp add: zone_text_def parse_zone_def z_def [symmetric] Let_def)
qed (simp add: zone_text_def parse_zone_def)

text \<open>
  A time that can be printed, in a zone of whole minutes, reads back as the same time.
\<close>

lemma pad_two: "pad_int 2 n = [digit (n div 10), digit n]"
  by (simp add: numeral_2_eq_2)

lemma pad_four: "pad_int 4 n = [digit (n div 1000), digit (n div 100), digit (n div 10), digit n]"
proof -
  have "pad_int (Suc (Suc (Suc (Suc 0)))) n = [digit (n div 10 div 10 div 10), digit (n div 10 div 10), digit (n div 10), digit n]"
    by simp
  moreover have "n div 10 div 10 = n div 100" "n div 100 div 10 = n div 1000" by (simp_all add: div_mult2_eq [symmetric])
  moreover have "Suc (Suc (Suc (Suc 0))) = 4" by simp
  ultimately show ?thesis by (simp only:)
qed

lemma date_time_fields:
  fixes y m d h mi s :: nat and tail :: bytes
  defines "t \<equiv> pad_int 4 y @ ''-'' @ pad_int 2 m @ ''-'' @ pad_int 2 d @ ''T'' @ pad_int 2 h @ '':'' @
    pad_int 2 mi @ '':'' @ pad_int 2 s @ tail"
  shows "\<not> length t < 19" "separators_ok t" "drop 19 t = tail"
    "take 4 t = pad_int 4 y" "take 2 (drop 5 t) = pad_int 2 m" "take 2 (drop 8 t) = pad_int 2 d"
    "take 2 (drop 11 t) = pad_int 2 h" "take 2 (drop 3 (drop 11 t)) = pad_int 2 mi"
    "take 2 (drop 6 (drop 11 t)) = pad_int 2 s"
  by (simp_all add: t_def pad_two pad_four separators_ok_def)

lemma zone_text_start: "zone_text off \<noteq> [] \<and> \<not> is_digit (hd (zone_text off)) \<and> \<not> HasPrefix (zone_text off) ''.''"
  by (simp add: zone_text_def HasPrefix_def is_digit_def byte_def Let_def)

lemma parse_rfc3339_text:
  assumes ok: "printable_time (ns, off)" and zone: "off mod 60 = 0"
  shows "parse_rfc3339 (rfc3339 (ns, off)) = Some (ns, off)"
proof -
  define secs where "secs = ns div 1000000000 + off"
  obtain y m d where date: "civil_date (secs div 86400) = (y, m, d)" by (cases "civil_date (secs div 86400)") auto
  define sod where "sod = secs mod 86400"
  define h mi s where "h = sod div 3600" and "mi = sod div 60 mod 60" and "s = sod mod 60"
  define tail where "tail = fraction_text (ns mod 1000000000) @ zone_text off"
  have sod: "0 \<le> sod" "sod < 86400" by (simp_all add: sod_def)
  then have h: "0 \<le> h" "h \<le> 23" and mi: "0 \<le> mi" "mi \<le> 59" and s: "0 \<le> s" "s \<le> 59"
    unfolding h_def mi_def s_def by linarith+
  have y: "0 \<le> y" "y \<le> 9999" and off: "\<bar>off\<bar> < 86400"
    using ok date by (auto simp: printable_time_def secs_def Let_def)
  note c = civil_date_ok [OF date]
  have dmax: "d \<le> 31" using c(4) by (auto simp: days_in_def split: if_splits)
  define whole where "whole = pad_int 4 (nat y) @ ''-'' @ pad_int 2 (nat m) @ ''-'' @ pad_int 2 (nat d) @ ''T'' @
    pad_int 2 (nat h) @ '':'' @ pad_int 2 (nat mi) @ '':'' @ pad_int 2 (nat s) @ tail"
  note f = date_time_fields [of "nat y" "nat m" "nat d" "nat h" "nat mi" "nat s" tail, folded whole_def]
  have t: "rfc3339 (ns, off) = whole"
    using date by (simp add: rfc3339_def secs_def [symmetric] sod_def [symmetric] h_def mi_def s_def whole_def tail_def)
  have "parse_range (take 4 whole) 0 9999 = Some y" "parse_range (take 2 (drop 5 whole)) 1 12 = Some m"
    "parse_range (take 2 (drop 8 whole)) 1 (days_in m y) = Some d"
    unfolding f using y c dmax by (intro parse_range_pad; simp)+
  then have pd: "parse_date whole = Some (secs div 86400)" by (simp add: parse_date_def c(5))
  have "parse_range (take 2 (drop 11 whole)) 0 23 = Some h" "parse_range (take 2 (drop 3 (drop 11 whole))) 0 59 = Some mi"
    "parse_range (take 2 (drop 6 (drop 11 whole))) 0 59 = Some s"
    unfolding f using h mi s by (intro parse_range_pad; simp)+
  then have "parse_clock (drop 11 whole) = Some (h * 3600 + mi * 60 + s)" by (simp add: parse_clock_def)
  moreover have "h * 3600 + mi * 60 + s = sod"
  proof -
    have "h = sod div 60 div 60" by (simp add: h_def zdiv_zmult2_eq [symmetric])
    then show ?thesis
      using div_mult_mod_eq [of sod 60] div_mult_mod_eq [of "sod div 60" 60] unfolding mi_def s_def by linarith
  qed
  ultimately have pc: "parse_clock (drop 11 whole) = Some sod" by simp
  have pf: "parse_fraction (drop 19 whole) = (ns mod 1000000000, zone_text off)"
    unfolding f tail_def using zone_text_start [of off] by (intro parse_fraction_text) auto
  have "secs div 86400 * 86400 + sod - off = ns div 1000000000" by (simp add: sod_def secs_def)
  then show ?thesis
    using t f(1,2) pd pc pf parse_zone_text [OF off zone] by (simp add: parse_rfc3339_def)
qed

end
