(* ===== verification/ClientModels.thy ===== *)
theory ClientModels
  imports Calendar Models
begin

text \<open>
  The generated models as a client uses them: request models marshalled with \<open>json.Marshal\<close>, and
  response models read with \<open>json.Unmarshal\<close>. Together with the server's side in \<open>Models\<close> this gives
  the round trips over the wire: a request decodes to what was marshalled, a satellite or user
  document to what the server printed.
\<close>

section \<open>Request models\<close>

definition marshal_LoginRequest :: "LoginRequest \<Rightarrow> bytes" where
  "marshal_LoginRequest r =
     json_text (JObj [(''password'', JStr (lr_Password r)), (''username'', JStr (lr_Username r))])"

definition marshal_CreateSatelliteRequest :: "CreateSatelliteRequest \<Rightarrow> bytes" where
  "marshal_CreateSatelliteRequest r =
     json_text (JObj [(''name'', JStr (csr_Name r)), (''region'', JStr (csr_Region r))])"

definition marshal_UpdateSatelliteRequest :: "UpdateSatelliteRequest \<Rightarrow> bytes" where
  "marshal_UpdateSatelliteRequest r = json_text (JObj [(''region'', JStr (usr_Region r))])"

definition marshal_CreateUserRequest :: "CreateUserRequest \<Rightarrow> bytes" where
  "marshal_CreateUserRequest r =
     json_text (JObj ([(''password'', JStr (cur_Password r))] @
       (case cur_Role r of None \<Rightarrow> [] | Some role \<Rightarrow> [(''role'', JStr role)]) @
       [(''username'', JStr (cur_Username r))]))"

section \<open>Response models\<close>

record error_detail =
  ed_Code :: "bytes option"
  ed_Message :: "bytes option"

record ErrorResponse =
  er_Error :: "error_detail option"

record HealthResponse =
  hr_Db :: "bytes option"
  hr_Status :: "bytes option"

record LoginResponse =
  lrs_ExpiresIn :: "int option"
  lrs_Token :: "bytes option"

record VersionResponse =
  vr_Version :: "bytes option"

text \<open>
  One value into a pointer field. The string literals of a document are still quoted here: a
  string is unquoted, a time gets the literal as it is written, a UUID the unquoted text, and an
  \<open>int\<close> must be a decimal integer of 64 bits.
\<close>

definition unquote :: "bytes \<Rightarrow> bytes" where
  "unquote raw = (case string_body (raw @ [CHR 0x22]) of Some (t, _) \<Rightarrow> t | None \<Rightarrow> [])"

definition raw_string_ptr :: "json \<Rightarrow> bytes option \<Rightarrow> bytes option \<times> bool" where
  "raw_string_ptr v old =
     (case v of JStr raw \<Rightarrow> (Some (unquote raw), True) | JNull \<Rightarrow> (None, True) | _ \<Rightarrow> (old, False))"

definition raw_string :: "json \<Rightarrow> bytes \<Rightarrow> bytes \<times> bool" where
  "raw_string v old = (case v of JStr raw \<Rightarrow> (unquote raw, True) | JNull \<Rightarrow> (old, True) | _ \<Rightarrow> (old, False))"

definition parse_int64 :: "bytes \<Rightarrow> int option" where
  "parse_int64 s =
     (let (neg, ds) = (case s of c # cs \<Rightarrow> if c = CHR ''-'' then (True, cs) else (False, s) | [] \<Rightarrow> (False, []));
          n = (if neg then - int (digits_value ds) else int (digits_value ds))
      in if ds \<noteq> [] \<and> list_all is_digit ds \<and> - (2 ^ 63) \<le> n \<and> n < 2 ^ 63 then Some n else None)"

definition int_ptr :: "json \<Rightarrow> int option \<Rightarrow> int option \<times> bool" where
  "int_ptr v old =
     (case v of
        JNum t \<Rightarrow> (case parse_int64 t of Some n \<Rightarrow> (Some n, True) | None \<Rightarrow> (old, False))
      | JNull \<Rightarrow> (None, True)
      | _ \<Rightarrow> (old, False))"

definition time_ptr :: "json \<Rightarrow> go_time option \<Rightarrow> go_time option \<times> bool" where
  "time_ptr v old =
     (case v of
        JStr raw \<Rightarrow> (case parse_rfc3339 raw of Some t \<Rightarrow> (Some t, True) | None \<Rightarrow> (old, False))
      | JNull \<Rightarrow> (None, True)
      | _ \<Rightarrow> (old, False))"

definition uuid_ptr :: "(bytes \<Rightarrow> uuid option) \<Rightarrow> json \<Rightarrow> uuid option \<Rightarrow> uuid option \<times> bool" where
  "uuid_ptr read_id v old =
     (case v of
        JStr raw \<Rightarrow> (case read_id (unquote raw) of Some u \<Rightarrow> (Some u, True) | None \<Rightarrow> (old, False))
      | JNull \<Rightarrow> (None, True)
      | _ \<Rightarrow> (old, False))"

definition error_detail_field :: "bytes \<Rightarrow> json \<Rightarrow> error_detail \<Rightarrow> error_detail \<times> bool" where
  "error_detail_field k v r =
     (if key_matches ''code'' k then apfst (\<lambda>s. r\<lparr>ed_Code := s\<rparr>) (raw_string_ptr v (ed_Code r))
      else if key_matches ''message'' k then apfst (\<lambda>s. r\<lparr>ed_Message := s\<rparr>) (raw_string_ptr v (ed_Message r))
      else (r, True))"

text \<open>A pointer to a struct: null clears it, an object is decoded into the struct it points to.\<close>

definition struct_ptr ::
  "(bytes \<Rightarrow> json \<Rightarrow> 'r \<Rightarrow> 'r \<times> bool) \<Rightarrow> 'r \<Rightarrow> json \<Rightarrow> 'r option \<Rightarrow> 'r option \<times> bool" where
  "struct_ptr step zero v old =
     (case v of
        JObj ms \<Rightarrow> apfst Some (dec_members step ms (case old of Some r \<Rightarrow> r | None \<Rightarrow> zero))
      | JNull \<Rightarrow> (None, True)
      | _ \<Rightarrow> (old, False))"

definition ErrorResponse_field :: "bytes \<Rightarrow> json \<Rightarrow> ErrorResponse \<Rightarrow> ErrorResponse \<times> bool" where
  "ErrorResponse_field k v r =
     (if key_matches ''error'' k
      then apfst (\<lambda>e. r\<lparr>er_Error := e\<rparr>)
             (struct_ptr error_detail_field \<lparr>ed_Code = None, ed_Message = None\<rparr> v (er_Error r))
      else (r, True))"

definition HealthResponse_field :: "bytes \<Rightarrow> json \<Rightarrow> HealthResponse \<Rightarrow> HealthResponse \<times> bool" where
  "HealthResponse_field k v r =
     (if key_matches ''db'' k then apfst (\<lambda>s. r\<lparr>hr_Db := s\<rparr>) (raw_string_ptr v (hr_Db r))
      else if key_matches ''status'' k then apfst (\<lambda>s. r\<lparr>hr_Status := s\<rparr>) (raw_string_ptr v (hr_Status r))
      else (r, True))"

definition LoginResponse_field :: "bytes \<Rightarrow> json \<Rightarrow> LoginResponse \<Rightarrow> LoginResponse \<times> bool" where
  "LoginResponse_field k v r =
     (if key_matches ''expiresIn'' k then apfst (\<lambda>s. r\<lparr>lrs_ExpiresIn := s\<rparr>) (int_ptr v (lrs_ExpiresIn r))
      else if key_matches ''token'' k then apfst (\<lambda>s. r\<lparr>lrs_Token := s\<rparr>) (raw_string_ptr v (lrs_Token r))
      else (r, True))"

definition VersionResponse_field :: "bytes \<Rightarrow> json \<Rightarrow> VersionResponse \<Rightarrow> VersionResponse \<times> bool" where
  "VersionResponse_field k v r =
     (if key_matches ''version'' k then apfst (\<lambda>s. r\<lparr>vr_Version := s\<rparr>) (raw_string_ptr v (vr_Version r))
      else (r, True))"

definition Satellite_field ::
  "(bytes \<Rightarrow> uuid option) \<Rightarrow> bytes \<Rightarrow> json \<Rightarrow> go_time gen_Satellite \<Rightarrow> go_time gen_Satellite \<times> bool" where
  "Satellite_field read_id k v r =
     (if key_matches ''created_at'' k then apfst (\<lambda>t. r\<lparr>gs_CreatedAt := t\<rparr>) (time_ptr v (gs_CreatedAt r))
      else if key_matches ''id'' k then apfst (\<lambda>u. r\<lparr>gs_Id := u\<rparr>) (uuid_ptr read_id v (gs_Id r))
      else if key_matches ''last_seen_at'' k then apfst (\<lambda>t. r\<lparr>gs_LastSeenAt := t\<rparr>) (time_ptr v (gs_LastSeenAt r))
      else if key_matches ''managed_by'' k then apfst (\<lambda>s. r\<lparr>gs_ManagedBy := s\<rparr>) (raw_string_ptr v (gs_ManagedBy r))
      else if key_matches ''name'' k then apfst (\<lambda>s. r\<lparr>gs_Name := s\<rparr>) (raw_string_ptr v (gs_Name r))
      else if key_matches ''region'' k then apfst (\<lambda>s. r\<lparr>gs_Region := s\<rparr>) (raw_string_ptr v (gs_Region r))
      else if key_matches ''status'' k then apfst (\<lambda>s. r\<lparr>gs_Status := s\<rparr>) (raw_string_ptr v (gs_Status r))
      else (r, True))"

definition User_field ::
  "(bytes \<Rightarrow> uuid option) \<Rightarrow> bytes \<Rightarrow> json \<Rightarrow> go_time gen_User \<Rightarrow> go_time gen_User \<times> bool" where
  "User_field read_id k v r =
     (if key_matches ''created_at'' k then apfst (\<lambda>t. r\<lparr>gu_CreatedAt := t\<rparr>) (time_ptr v (gu_CreatedAt r))
      else if key_matches ''id'' k then apfst (\<lambda>u. r\<lparr>gu_Id := u\<rparr>) (uuid_ptr read_id v (gu_Id r))
      else if key_matches ''role'' k then apfst (\<lambda>s. r\<lparr>gu_Role := s\<rparr>) (raw_string_ptr v (gu_Role r))
      else if key_matches ''username'' k then apfst (\<lambda>s. r\<lparr>gu_Username := s\<rparr>) (raw_string_ptr v (gu_Username r))
      else (r, True))"

definition zero_gen_Satellite :: "go_time gen_Satellite" where
  "zero_gen_Satellite = \<lparr>gs_CreatedAt = None, gs_Id = None, gs_LastSeenAt = None, gs_ManagedBy = None,
     gs_Name = None, gs_Region = None, gs_Status = None\<rparr>"

definition zero_gen_User :: "go_time gen_User" where
  "zero_gen_User = \<lparr>gu_CreatedAt = None, gu_Id = None, gu_Role = None, gu_Username = None\<rparr>"

definition dec_ErrorResponse :: "json \<Rightarrow> ErrorResponse option" where
  "dec_ErrorResponse = dec_struct ErrorResponse_field \<lparr>er_Error = None\<rparr>"

definition dec_HealthResponse :: "json \<Rightarrow> HealthResponse option" where
  "dec_HealthResponse = dec_struct HealthResponse_field \<lparr>hr_Db = None, hr_Status = None\<rparr>"

definition dec_LoginResponse :: "json \<Rightarrow> LoginResponse option" where
  "dec_LoginResponse = dec_struct LoginResponse_field \<lparr>lrs_ExpiresIn = None, lrs_Token = None\<rparr>"

definition dec_VersionResponse :: "json \<Rightarrow> VersionResponse option" where
  "dec_VersionResponse = dec_struct VersionResponse_field \<lparr>vr_Version = None\<rparr>"

definition dec_Satellite :: "(bytes \<Rightarrow> uuid option) \<Rightarrow> json \<Rightarrow> go_time gen_Satellite option" where
  "dec_Satellite read_id = dec_struct (Satellite_field read_id) zero_gen_Satellite"

definition dec_User :: "(bytes \<Rightarrow> uuid option) \<Rightarrow> json \<Rightarrow> go_time gen_User option" where
  "dec_User read_id = dec_struct (User_field read_id) zero_gen_User"

text \<open>A slice: null is the nil slice (\<open>None\<close>), an array is read element by element.\<close>

definition dec_slice :: "(json \<Rightarrow> 'a option) \<Rightarrow> json \<Rightarrow> 'a list option option" where
  "dec_slice dec v =
     (case v of
        JArr vs \<Rightarrow> map_option Some (those (map dec vs))
      | JNull \<Rightarrow> Some None
      | _ \<Rightarrow> None)"

section \<open>Field names\<close>

definition ascii :: "bytes \<Rightarrow> bool" where
  "ascii s \<longleftrightarrow> list_all (\<lambda>c. byte c < 0x80) s"

lemma runes_ascii: "ascii s \<Longrightarrow> runes s = map byte s"
proof (induction s)
  case (Cons c s)
  then have "decode_rune (c # s) = (byte c, 1)" by (simp add: ascii_def)
  with Cons show ?case by (subst runes.simps) (simp add: ascii_def del: decode_rune.simps)
qed (simp add: runes.simps)

lemma key_matches_ascii:
  "ascii a \<Longrightarrow> ascii b \<Longrightarrow> key_matches a b \<longleftrightarrow> map (fold_rune \<circ> byte) b = map (fold_rune \<circ> byte) a"
  by (simp add: key_matches_def runes_ascii)

text \<open>
  The field names, and that they are pairwise different up to case.
\<close>

abbreviation field_names :: "bytes list" where
  "field_names \<equiv> [''name'', ''region'', ''password'', ''role'', ''username'', ''created_at'', ''id'',
     ''last_seen_at'', ''managed_by'', ''status'', ''error'', ''code'', ''message'', ''token'', ''expiresIn'']"

lemma field_names_ascii: "list_all ascii field_names"
  by (simp add: ascii_def byte_def)

lemma field_names_distinct: "distinct (map (map (fold_rune \<circ> byte)) field_names)"
  by (simp add: fold_rune_def byte_def)

lemma key_matches_names:
  assumes "a \<in> set field_names" "b \<in> set field_names"
  shows "key_matches a b \<longleftrightarrow> a = b"
proof -
  have inj: "inj_on (map (fold_rune \<circ> byte)) (set field_names)"
    using field_names_distinct unfolding distinct_map by (rule conjunct2)
  have "ascii a" "ascii b" using field_names_ascii assms unfolding list_all_iff by blast+
  then have "key_matches a b \<longleftrightarrow> map (fold_rune \<circ> byte) b = map (fold_rune \<circ> byte) a" by (rule key_matches_ascii)
  also have "\<dots> \<longleftrightarrow> b = a" by (rule inj_on_eq_iff [OF inj assms(2,1)])
  finally show ?thesis by blast
qed

lemma sanitize_names: "a \<in> set field_names \<Longrightarrow> sanitize a = a"
  using field_names_ascii unfolding list_all_iff ascii_def by (intro sanitize_ascii) (auto simp: list_all_iff)

section \<open>Requests over the wire\<close>

lemma small_depth: "n \<le> 100 \<Longrightarrow> n \<le> max_depth"
  by (simp add: max_depth_def)

lemma Decode_text:
  assumes "good_doc v" "doc_depth v \<le> 100"
  shows "Decode step zero (json_text v) = dec_struct step zero (wire sanitize v)"
  using parse_json_text [of v "[]"] assms small_depth by (simp add: Decode_def)

text \<open>The server decodes a marshalled request to the request, up to invalid UTF-8.\<close>

lemma decode_marshal_LoginRequest:
  "decode_loginRequest (marshal_LoginRequest r)
    = Some \<lparr>lr_Username = sanitize (lr_Username r), lr_Password = sanitize (lr_Password r)\<rparr>"
  by (simp add: decode_loginRequest_def marshal_LoginRequest_def Decode_text dec_struct_def loginRequest_field_def
      key_matches_names sanitize_names dec_string_def del: json_text.simps)

lemma decode_marshal_CreateSatelliteRequest:
  "decode_CreateSatelliteRequest (marshal_CreateSatelliteRequest r)
    = Some \<lparr>csr_Name = sanitize (csr_Name r), csr_Region = sanitize (csr_Region r)\<rparr>"
  by (simp add: decode_CreateSatelliteRequest_def marshal_CreateSatelliteRequest_def Decode_text dec_struct_def
      CreateSatelliteRequest_field_def key_matches_names sanitize_names dec_string_def del: json_text.simps)

lemma decode_marshal_UpdateSatelliteRequest:
  "decode_UpdateSatelliteRequest (marshal_UpdateSatelliteRequest r) = Some \<lparr>usr_Region = sanitize (usr_Region r)\<rparr>"
  by (simp add: decode_UpdateSatelliteRequest_def marshal_UpdateSatelliteRequest_def Decode_text dec_struct_def
      UpdateSatelliteRequest_field_def key_matches_names sanitize_names dec_string_def del: json_text.simps)

lemma decode_marshal_CreateUserRequest:
  "decode_CreateUserRequest (marshal_CreateUserRequest r)
    = Some \<lparr>cur_Password = sanitize (cur_Password r), cur_Role = map_option sanitize (cur_Role r),
            cur_Username = sanitize (cur_Username r)\<rparr>"
  by (cases "cur_Role r")
    (simp_all add: decode_CreateUserRequest_def marshal_CreateUserRequest_def Decode_text dec_struct_def
      CreateUserRequest_field_def key_matches_names sanitize_names dec_string_def dec_string_ptr_def del: json_text.simps)

section \<open>What a request body means\<close>

text \<open>
  A specification of the four request bodies that does not follow the decoder: for each field all
  values given to it, under its name in any case; of these the last text counts, a null leaves a text as it is and clears
  a pointer, and a value of any other kind for any field makes the body unacceptable. Members with other
  names mean nothing, and \<open>null\<close> stands for the empty request.
\<close>

definition given_to :: "bytes \<Rightarrow> (bytes \<times> json) list \<Rightarrow> json list" where
  "given_to name ms = map snd (filter (\<lambda>(k, _). key_matches name k) ms)"

definition text_or_null :: "json \<Rightarrow> bool" where
  "text_or_null v \<longleftrightarrow> v = JNull \<or> (\<exists>s. v = JStr s)"

definition last_text :: "bytes \<Rightarrow> json list \<Rightarrow> bytes" where
  "last_text old vs = last (old # concat (map (\<lambda>v. case v of JStr s \<Rightarrow> [s] | _ \<Rightarrow> []) vs))"

definition last_pointer :: "bytes option \<Rightarrow> json list \<Rightarrow> bytes option" where
  "last_pointer old vs = last (old # concat (map (\<lambda>v. case v of JStr s \<Rightarrow> [Some s] | JNull \<Rightarrow> [None] | _ \<Rightarrow> []) vs))"

definition request_in :: "bytes list \<Rightarrow> ((bytes \<Rightarrow> json list) \<Rightarrow> 'r) \<Rightarrow> bytes \<Rightarrow> 'r option" where
  "request_in names build body =
     (case parse_json body of
        Some (JObj ms, _) \<Rightarrow>
          if list_all (\<lambda>name. list_all text_or_null (given_to name ms)) names then Some (build (\<lambda>name. given_to name ms)) else None
      | Some (JNull, _) \<Rightarrow> Some (build (\<lambda>_. []))
      | _ \<Rightarrow> None)"

lemma given_to_simps:
  "given_to name [] = []"
  "given_to name ((k, v) # ms) = (if key_matches name k then v # given_to name ms else given_to name ms)"
  by (simp_all add: given_to_def)

lemma last_text_simps:
  "last_text old [] = old"
  "last_text old (v # vs) = last_text (fst (dec_string v old)) vs"
  by (simp_all add: last_text_def dec_string_def split: json.split)

lemma last_pointer_simps:
  "last_pointer old [] = old"
  "last_pointer old (v # vs) = last_pointer (fst (dec_string_ptr v old)) vs"
  by (simp_all add: last_pointer_def dec_string_ptr_def split: json.split)

lemma dec_string_ok: "snd (dec_string v old) = text_or_null v" "snd (dec_string_ptr v ptr) = text_or_null v"
  by (auto simp: dec_string_def dec_string_ptr_def text_or_null_def split: json.split)

lemmas request_spec = given_to_simps last_text_simps last_pointer_simps dec_string_ok apfst_def map_prod_def case_prod_beta Let_def

text \<open>A member belongs to one field at most.\<close>

lemma key_matches_one:
  "\<lbrakk>key_matches a k; a \<in> set field_names; b \<in> set field_names; a \<noteq> b\<rbrakk> \<Longrightarrow> \<not> key_matches b k"
  using key_matches_names [of a b] by (auto simp: key_matches_def)

lemma members_CreateSatelliteRequest:
  "dec_members CreateSatelliteRequest_field ms r =
    (\<lparr>csr_Name = last_text (csr_Name r) (given_to ''name'' ms), csr_Region = last_text (csr_Region r) (given_to ''region'' ms)\<rparr>,
     list_all (\<lambda>name. list_all text_or_null (given_to name ms)) [''name'', ''region''])"
  by (induction ms arbitrary: r)
     (auto simp: CreateSatelliteRequest_field_def key_matches_one request_spec)

lemma members_UpdateSatelliteRequest:
  "dec_members UpdateSatelliteRequest_field ms r =
    (\<lparr>usr_Region = last_text (usr_Region r) (given_to ''region'' ms)\<rparr>,
     list_all (\<lambda>name. list_all text_or_null (given_to name ms)) [''region''])"
  by (induction ms arbitrary: r)
     (auto simp: UpdateSatelliteRequest_field_def request_spec)

lemma members_CreateUserRequest:
  "dec_members CreateUserRequest_field ms r =
    (\<lparr>cur_Password = last_text (cur_Password r) (given_to ''password'' ms), cur_Role = last_pointer (cur_Role r) (given_to ''role'' ms),
      cur_Username = last_text (cur_Username r) (given_to ''username'' ms)\<rparr>,
     list_all (\<lambda>name. list_all text_or_null (given_to name ms)) [''password'', ''role'', ''username''])"
  by (induction ms arbitrary: r)
     (auto simp: CreateUserRequest_field_def key_matches_one request_spec)

lemma members_loginRequest:
  "dec_members loginRequest_field ms r =
    (\<lparr>lr_Username = last_text (lr_Username r) (given_to ''username'' ms), lr_Password = last_text (lr_Password r) (given_to ''password'' ms)\<rparr>,
     list_all (\<lambda>name. list_all text_or_null (given_to name ms)) [''username'', ''password''])"
  by (induction ms arbitrary: r)
     (auto simp: loginRequest_field_def key_matches_one request_spec)

lemmas members_request =
  members_CreateSatelliteRequest members_UpdateSatelliteRequest members_CreateUserRequest members_loginRequest

text \<open>
  C38. What the server makes of a request body, for every body. The decoders of the four request models
  agree with the specification: each field holds the last text given under its name, in any case of
  its letters, and is empty if there is none (a role then is absent, as it is after a null); unknown
  members change nothing; a value of another kind for a known field, a document that is neither an
  object nor null, and a body that does not start with a JSON value are refused.
\<close>

theorem request_bodies_decode:
  "decode_loginRequest body = request_in [''username'', ''password'']
     (\<lambda>given. \<lparr>lr_Username = last_text [] (given ''username''), lr_Password = last_text [] (given ''password'')\<rparr>) body
   \<and> decode_CreateSatelliteRequest body = request_in [''name'', ''region'']
     (\<lambda>given. \<lparr>csr_Name = last_text [] (given ''name''), csr_Region = last_text [] (given ''region'')\<rparr>) body
   \<and> decode_UpdateSatelliteRequest body = request_in [''region'']
     (\<lambda>given. \<lparr>usr_Region = last_text [] (given ''region'')\<rparr>) body
   \<and> decode_CreateUserRequest body = request_in [''password'', ''role'', ''username'']
     (\<lambda>given. \<lparr>cur_Password = last_text [] (given ''password''), cur_Role = last_pointer None (given ''role''),
        cur_Username = last_text [] (given ''username'')\<rparr>) body"
  unfolding decode_loginRequest_def decode_CreateSatelliteRequest_def decode_UpdateSatelliteRequest_def
    decode_CreateUserRequest_def Decode_def request_in_def dec_struct_def
  by (simp add: members_request request_spec split: option.split prod.split json.split)

section \<open>Responses over the wire\<close>

lemma unquote_escape [simp]: "unquote (escape_body s) = sanitize s"
  using string_body_escape_body [of s "[]"] by (simp add: unquote_def)

lemma delimits_newline: "delimits [bchr 0x0A]"
  by (simp add: delimits_def)

text \<open>A document that the server's encoder wrote, with its newline.\<close>

lemma Unmarshal_text:
  assumes "good_doc v" "doc_depth v \<le> 100"
  shows "Unmarshal dec (encode_json v) = dec (wire escape_body v)"
  using parse_raw_text [OF assms(1) small_depth [OF assms(2)] delimits_newline]
  by (simp add: Unmarshal_def encode_json_def)

text \<open>Times contain no character that the encoder escapes.\<close>

definition verbatim_byte :: "char \<Rightarrow> bool" where
  "verbatim_byte c \<longleftrightarrow> 0x20 \<le> byte c \<and> byte c < 0x80 \<and> byte c \<notin> {0x22, 0x5C, 0x3C, 0x3E, 0x26}"

lemma escape_body_verbatim: "list_all verbatim_byte s \<Longrightarrow> escape_body s = s"
proof (induction s)
  case (Cons c s)
  then have "escape_ascii c = [c]" by (auto simp: escape_ascii_def verbatim_byte_def Let_def)
  with Cons show ?case by (simp add: escape_body.simps(2) verbatim_byte_def)
qed (simp add: escape_body.simps)

lemma is_digit_verbatim: "is_digit c \<Longrightarrow> verbatim_byte c"
  by (auto simp: is_digit_def verbatim_byte_def)

lemma pad_int_verbatim: "list_all verbatim_byte (pad_int w n)"
  using pad_int_digits(2) [of w n] is_digit_verbatim by (simp add: list_all_iff)

lemma punctuation_verbatim:
  "verbatim_byte (CHR ''-'')" "verbatim_byte (CHR ''+'')" "verbatim_byte (CHR '':'')"
  "verbatim_byte (CHR ''.'')" "verbatim_byte (CHR ''T'')" "verbatim_byte (CHR ''Z'')"
  by (simp_all add: verbatim_byte_def byte_def)

lemma fraction_verbatim: "list_all verbatim_byte (fraction_text ns)"
  using pad_int_verbatim [of 9 "nat ns"]
  by (auto simp: fraction_text_def punctuation_verbatim list_all_iff dest: set_dropWhileD)

lemma escape_body_time: "escape_body (rfc3339 t) = rfc3339 t"
proof (rule escape_body_verbatim)
  obtain ns off where t: "t = (ns, off)" by (cases t)
  show "list_all verbatim_byte (rfc3339 t)"
    unfolding t rfc3339_def zone_text_def Let_def
    by (simp add: punctuation_verbatim pad_int_verbatim fraction_verbatim split: prod.split)
qed

lemma dec_members_append:
  "dec_members step (xs @ ys) r =
     (let (r1, ok1) = dec_members step xs r; (r2, ok2) = dec_members step ys r1 in (r2, ok1 \<and> ok2))"
  by (induction xs arbitrary: r) (auto simp: Let_def split: prod.splits)

text \<open>The member of an optional string, and the zone condition under which times survive.\<close>

definition str_member :: "bytes \<Rightarrow> bytes option \<Rightarrow> (bytes \<times> json) list" where
  "str_member k v = (case v of None \<Rightarrow> [] | Some s \<Rightarrow> [(k, JStr s)])"

definition whole_minutes :: "marshal_env \<Rightarrow> bool" where
  "whole_minutes m \<longleftrightarrow> (\<forall>t. zone m t mod 60 = 0)"

definition ids_read_back :: "marshal_env \<Rightarrow> (bytes \<Rightarrow> uuid option) \<Rightarrow> bool" where
  "ids_read_back m read_id \<longleftrightarrow> (\<forall>u. ascii (show_id m u) \<and> read_id (show_id m u) = Some u)"

lemma opt_member_str:
  "opt_member k (\<lambda>u. Some (JStr (show_id m u))) v = Some (str_member k (map_option (show_id m) v))"
  by (cases v) (simp_all add: opt_member_def str_member_def)

definition shown :: "marshal_env \<Rightarrow> micros \<Rightarrow> go_time" where
  "shown m t = db_time (zone m t) t"

definition satellite_members :: "marshal_env \<Rightarrow> micros gen_Satellite \<Rightarrow> (bytes \<times> json) list" where
  "satellite_members m s =
     str_member ''created_at'' (map_option (rfc3339 \<circ> shown m) (gs_CreatedAt s)) @
     str_member ''id'' (map_option (show_id m) (gs_Id s)) @
     [(''last_seen_at'', case gs_LastSeenAt s of None \<Rightarrow> JNull | Some t \<Rightarrow> JStr (rfc3339 (shown m t)))] @
     str_member ''managed_by'' (gs_ManagedBy s) @ str_member ''name'' (gs_Name s) @
     str_member ''region'' (gs_Region s) @ str_member ''status'' (gs_Status s)"

definition satellite_times :: "micros gen_Satellite \<Rightarrow> micros set" where
  "satellite_times s = set_option (gs_CreatedAt s) \<union> set_option (gs_LastSeenAt s)"

lemma opt_member_time:
  "opt_member k (\<lambda>t. marshal_time (zone m t) t) v =
     (if \<forall>t \<in> set_option v. printable_time (shown m t)
      then Some (str_member k (map_option (rfc3339 \<circ> shown m) v)) else None)"
  by (cases v) (simp_all add: opt_member_def str_member_def marshal_time_def marshal_go_time_def shown_def)

lemma opt_member_plain: "opt_member k (\<lambda>s. Some (JStr s)) v = Some (str_member k v)"
  by (cases v) (simp_all add: opt_member_def str_member_def)

lemma marshal_Satellite_members:
  "marshal_Satellite m s =
     (if \<forall>t \<in> satellite_times s. printable_time (shown m t) then Some (JObj (satellite_members m s)) else None)"
  by (cases "gs_LastSeenAt s")
    (auto simp: marshal_Satellite_def marshal_Satellite_with_def concat_members_def opt_member_time opt_member_str
      opt_member_plain satellite_members_def satellite_times_def str_member_def)

text \<open>What a client reads from the document of a satellite.\<close>

definition satellite_seen :: "marshal_env \<Rightarrow> micros gen_Satellite \<Rightarrow> go_time gen_Satellite" where
  "satellite_seen m s =
     \<lparr>gs_CreatedAt = map_option (shown m) (gs_CreatedAt s), gs_Id = gs_Id s,
      gs_LastSeenAt = map_option (shown m) (gs_LastSeenAt s), gs_ManagedBy = map_option sanitize (gs_ManagedBy s),
      gs_Name = map_option sanitize (gs_Name s), gs_Region = map_option sanitize (gs_Region s),
      gs_Status = map_option sanitize (gs_Status s)\<rparr>"

abbreviation wire_members :: "(bytes \<times> json) list \<Rightarrow> (bytes \<times> json) list" where
  "wire_members \<equiv> map (\<lambda>(k, v). (sanitize k, wire escape_body v))"

lemma time_reads_back:
  assumes "whole_minutes m" "printable_time (shown m t)"
  shows "parse_rfc3339 (rfc3339 (shown m t)) = Some (shown m t)"
  using assms parse_rfc3339_text [of "t * 1000" "zone m t"] by (simp add: shown_def db_time_def whole_minutes_def)

lemma id_reads_back:
  assumes "ids_read_back m read_id"
  shows "read_id (sanitize (show_id m u)) = Some u"
  using assms sanitize_ascii [of "show_id m u"] by (simp add: ids_read_back_def ascii_def)

lemmas member_simps =
  str_member_def key_matches_names sanitize_names escape_body_time time_reads_back id_reads_back
  raw_string_ptr_def time_ptr_def uuid_ptr_def

lemma read_sat_created:
  assumes "whole_minutes m" "\<forall>t \<in> set_option v. printable_time (shown m t)"
  shows "dec_members (Satellite_field read_id) (wire_members (str_member ''created_at'' (map_option (rfc3339 \<circ> shown m) v)))
      \<lparr>gs_CreatedAt = None, gs_Id = b, gs_LastSeenAt = c, gs_ManagedBy = d, gs_Name = e, gs_Region = f, gs_Status = g\<rparr>
    = (\<lparr>gs_CreatedAt = map_option (shown m) v, gs_Id = b, gs_LastSeenAt = c, gs_ManagedBy = d, gs_Name = e,
        gs_Region = f, gs_Status = g\<rparr>, True)"
  using assms by (cases v) (simp_all add: Satellite_field_def member_simps)

lemma read_sat_id:
  assumes "ids_read_back m read_id"
  shows "dec_members (Satellite_field read_id) (wire_members (str_member ''id'' (map_option (show_id m) v)))
      \<lparr>gs_CreatedAt = a, gs_Id = None, gs_LastSeenAt = c, gs_ManagedBy = d, gs_Name = e, gs_Region = f, gs_Status = g\<rparr>
    = (\<lparr>gs_CreatedAt = a, gs_Id = v, gs_LastSeenAt = c, gs_ManagedBy = d, gs_Name = e, gs_Region = f, gs_Status = g\<rparr>, True)"
  using assms by (cases v) (simp_all add: Satellite_field_def member_simps)

lemma read_sat_seen:
  assumes "whole_minutes m" "\<forall>t \<in> set_option v. printable_time (shown m t)"
  shows "dec_members (Satellite_field read_id)
      (wire_members [(''last_seen_at'', case v of None \<Rightarrow> JNull | Some t \<Rightarrow> JStr (rfc3339 (shown m t)))])
      \<lparr>gs_CreatedAt = a, gs_Id = b, gs_LastSeenAt = None, gs_ManagedBy = d, gs_Name = e, gs_Region = f, gs_Status = g\<rparr>
    = (\<lparr>gs_CreatedAt = a, gs_Id = b, gs_LastSeenAt = map_option (shown m) v, gs_ManagedBy = d, gs_Name = e,
        gs_Region = f, gs_Status = g\<rparr>, True)"
  using assms by (cases v) (simp_all add: Satellite_field_def member_simps)

lemma read_sat_strings:
  "dec_members (Satellite_field read_id) (wire_members (str_member ''managed_by'' v))
      \<lparr>gs_CreatedAt = a, gs_Id = b, gs_LastSeenAt = c, gs_ManagedBy = None, gs_Name = e, gs_Region = f, gs_Status = g\<rparr>
    = (\<lparr>gs_CreatedAt = a, gs_Id = b, gs_LastSeenAt = c, gs_ManagedBy = map_option sanitize v, gs_Name = e, gs_Region = f,
        gs_Status = g\<rparr>, True)"
  "dec_members (Satellite_field read_id) (wire_members (str_member ''name'' v))
      \<lparr>gs_CreatedAt = a, gs_Id = b, gs_LastSeenAt = c, gs_ManagedBy = d, gs_Name = None, gs_Region = f, gs_Status = g\<rparr>
    = (\<lparr>gs_CreatedAt = a, gs_Id = b, gs_LastSeenAt = c, gs_ManagedBy = d, gs_Name = map_option sanitize v, gs_Region = f,
        gs_Status = g\<rparr>, True)"
  "dec_members (Satellite_field read_id) (wire_members (str_member ''region'' v))
      \<lparr>gs_CreatedAt = a, gs_Id = b, gs_LastSeenAt = c, gs_ManagedBy = d, gs_Name = e, gs_Region = None, gs_Status = g\<rparr>
    = (\<lparr>gs_CreatedAt = a, gs_Id = b, gs_LastSeenAt = c, gs_ManagedBy = d, gs_Name = e, gs_Region = map_option sanitize v,
        gs_Status = g\<rparr>, True)"
  "dec_members (Satellite_field read_id) (wire_members (str_member ''status'' v))
      \<lparr>gs_CreatedAt = a, gs_Id = b, gs_LastSeenAt = c, gs_ManagedBy = d, gs_Name = e, gs_Region = f, gs_Status = None\<rparr>
    = (\<lparr>gs_CreatedAt = a, gs_Id = b, gs_LastSeenAt = c, gs_ManagedBy = d, gs_Name = e, gs_Region = f,
        gs_Status = map_option sanitize v\<rparr>, True)"
  by (cases v; simp add: Satellite_field_def member_simps)+

lemma str_member_good: "list_all (\<lambda>(k, v). good_doc v) (str_member k v)"
  "foldr max (map (\<lambda>(k, v). doc_depth v) (str_member k v)) n = n"
  by (cases v; simp add: str_member_def)+

lemma satellite_doc: "good_doc (JObj (satellite_members m s)) \<and> doc_depth (JObj (satellite_members m s)) \<le> 1"
  by (simp add: satellite_members_def str_member_good split: option.split)

text \<open>The client reads the satellite the server printed.\<close>

lemma read_Satellite:
  assumes doc: "marshal_Satellite m s = Some v" and zone: "whole_minutes m" and ids: "ids_read_back m read_id"
  shows "dec_Satellite read_id (wire escape_body v) = Some (satellite_seen m s)"
proof -
  have v: "v = JObj (satellite_members m s)" and ok: "\<forall>t \<in> satellite_times s. printable_time (shown m t)"
    using doc unfolding marshal_Satellite_members by (auto split: if_splits)
  have ok1: "\<forall>t \<in> set_option (gs_CreatedAt s). printable_time (shown m t)"
    and ok2: "\<forall>t \<in> set_option (gs_LastSeenAt s). printable_time (shown m t)"
    using ok by (auto simp: satellite_times_def)
  have "dec_members (Satellite_field read_id) (wire_members (satellite_members m s)) zero_gen_Satellite
      = (satellite_seen m s, True)"
    unfolding satellite_members_def zero_gen_Satellite_def map_append dec_members_append
      read_sat_created [OF zone ok1] read_sat_id [OF ids] read_sat_seen [OF zone ok2] read_sat_strings
    by (simp only: Let_def prod.case satellite_seen_def read_sat_created [OF zone ok1] read_sat_id [OF ids]
        read_sat_seen [OF zone ok2] read_sat_strings simp_thms)
  then show ?thesis by (simp add: v dec_Satellite_def dec_struct_def)
qed

definition user_members :: "marshal_env \<Rightarrow> micros gen_User \<Rightarrow> (bytes \<times> json) list" where
  "user_members m u =
     str_member ''created_at'' (map_option (rfc3339 \<circ> shown m) (gu_CreatedAt u)) @
     str_member ''id'' (map_option (show_id m) (gu_Id u)) @
     str_member ''role'' (gu_Role u) @ str_member ''username'' (gu_Username u)"

lemma marshal_User_members:
  "marshal_User m u =
     (if \<forall>t \<in> set_option (gu_CreatedAt u). printable_time (shown m t) then Some (JObj (user_members m u)) else None)"
  by (auto simp: marshal_User_def marshal_User_with_def concat_members_def opt_member_time opt_member_str
      opt_member_plain user_members_def)

definition user_seen :: "marshal_env \<Rightarrow> micros gen_User \<Rightarrow> go_time gen_User" where
  "user_seen m u =
     \<lparr>gu_CreatedAt = map_option (shown m) (gu_CreatedAt u), gu_Id = gu_Id u,
      gu_Role = map_option sanitize (gu_Role u), gu_Username = map_option sanitize (gu_Username u)\<rparr>"

lemma read_user_created:
  assumes "whole_minutes m" "\<forall>t \<in> set_option v. printable_time (shown m t)"
  shows "dec_members (User_field read_id) (wire_members (str_member ''created_at'' (map_option (rfc3339 \<circ> shown m) v)))
      \<lparr>gu_CreatedAt = None, gu_Id = b, gu_Role = c, gu_Username = d\<rparr>
    = (\<lparr>gu_CreatedAt = map_option (shown m) v, gu_Id = b, gu_Role = c, gu_Username = d\<rparr>, True)"
  using assms by (cases v) (simp_all add: User_field_def member_simps)

lemma read_user_id:
  assumes "ids_read_back m read_id"
  shows "dec_members (User_field read_id) (wire_members (str_member ''id'' (map_option (show_id m) v)))
      \<lparr>gu_CreatedAt = a, gu_Id = None, gu_Role = c, gu_Username = d\<rparr>
    = (\<lparr>gu_CreatedAt = a, gu_Id = v, gu_Role = c, gu_Username = d\<rparr>, True)"
  using assms by (cases v) (simp_all add: User_field_def member_simps)

lemma read_user_strings:
  "dec_members (User_field read_id) (wire_members (str_member ''role'' v))
      \<lparr>gu_CreatedAt = a, gu_Id = b, gu_Role = None, gu_Username = d\<rparr>
    = (\<lparr>gu_CreatedAt = a, gu_Id = b, gu_Role = map_option sanitize v, gu_Username = d\<rparr>, True)"
  "dec_members (User_field read_id) (wire_members (str_member ''username'' v))
      \<lparr>gu_CreatedAt = a, gu_Id = b, gu_Role = c, gu_Username = None\<rparr>
    = (\<lparr>gu_CreatedAt = a, gu_Id = b, gu_Role = c, gu_Username = map_option sanitize v\<rparr>, True)"
  by (cases v; simp add: User_field_def member_simps)+

lemma user_doc: "good_doc (JObj (user_members m u)) \<and> doc_depth (JObj (user_members m u)) \<le> 1"
  by (simp add: user_members_def str_member_good)

lemma read_User:
  assumes doc: "marshal_User m u = Some v" and zone: "whole_minutes m" and ids: "ids_read_back m read_id"
  shows "dec_User read_id (wire escape_body v) = Some (user_seen m u)"
proof -
  have v: "v = JObj (user_members m u)" and ok: "\<forall>t \<in> set_option (gu_CreatedAt u). printable_time (shown m t)"
    using doc unfolding marshal_User_members by (auto split: if_splits)
  have "dec_members (User_field read_id) (wire_members (user_members m u)) zero_gen_User = (user_seen m u, True)"
    unfolding user_members_def zero_gen_User_def map_append dec_members_append
      read_user_created [OF zone ok] read_user_id [OF ids] read_user_strings
    by (simp only: Let_def prod.case user_seen_def read_user_id [OF ids] read_user_strings simp_thms)
  then show ?thesis by (simp add: v dec_User_def dec_struct_def)
qed

text \<open>Lists of documents.\<close>

lemma those_all: "(\<And>x. x \<in> set xs \<Longrightarrow> f x = Some (g x)) \<Longrightarrow> those (map f xs) = Some (map g xs)"
  by (induction xs) auto

lemma those_SomeD: "those ys = Some vs \<Longrightarrow> ys = map Some vs"
  by (induction ys arbitrary: vs) (auto split: option.splits)

lemma read_slice:
  assumes doc: "marshal_list f xs = Some v" and one: "\<And>x w. f x = Some w \<Longrightarrow> dec (wire escape_body w) = Some (g x)"
  shows "dec_slice dec (wire escape_body v) = Some (Some (map g xs))"
proof -
  obtain vs where v: "v = JArr vs" and "those (map f xs) = Some vs" using doc by (auto simp: marshal_list_def)
  then have vs: "map f xs = map Some vs" by (auto dest: those_SomeD)
  then have "map (\<lambda>w. dec (wire escape_body w)) vs = map (\<lambda>x. Some (g x)) xs"
    using one by (auto simp: list_eq_iff_nth_eq)
  then have "those (map (\<lambda>w. dec (wire escape_body w)) vs) = Some (map g xs)"
    using those_all [of xs "\<lambda>x. Some (g x)" g] by simp
  then show ?thesis by (simp add: v dec_slice_def comp_def)
qed

lemma marshal_list_doc:
  assumes "marshal_list f xs = Some v" "\<And>x w. f x = Some w \<Longrightarrow> good_doc w \<and> doc_depth w \<le> 1"
  shows "good_doc v \<and> doc_depth v \<le> 2"
proof -
  obtain vs where v: "v = JArr vs" and "map f xs = map Some vs"
    using assms(1) by (auto simp: marshal_list_def dest: those_SomeD)
  then have all: "\<forall>w \<in> set vs. good_doc w \<and> doc_depth w \<le> 1" using assms(2) by (metis image_eqI image_iff list.set_map)
  then have "foldr max (map doc_depth vs) 0 \<le> 1" by (induction vs) auto
  with all v show ?thesis by (simp add: list_all_iff)
qed

text \<open>The error envelope that \<open>writeError\<close> writes.\<close>

lemma read_error_body:
  "dec_ErrorResponse (wire escape_body (error_body code message))
    = Some \<lparr>er_Error = Some \<lparr>ed_Code = Some (sanitize code), ed_Message = Some (sanitize message)\<rparr>\<rparr>"
  by (simp add: error_body_def dec_ErrorResponse_def dec_struct_def ErrorResponse_field_def struct_ptr_def
      error_detail_field_def key_matches_names sanitize_names raw_string_ptr_def)

end
