(* ===== verification/GoUrl.thy ===== *)
theory GoUrl
  imports JsonRoundTrip
begin

text \<open>
  Go's \<open>net/url\<close> as the generated client uses it: \<open>url.Parse\<close>, \<open>(*URL).Parse\<close> with reference
  resolution, and \<open>(*URL).String\<close>, on byte strings. The one part that is left as a parameter is the
  validation of the host component (IP literals, zones, ports), whose rules changed between
  releases of the library. The lemmas compute the URL a base with a trailing slash and a relative
  operation path resolve to.
\<close>

section \<open>Splitting strings\<close>

text \<open>\<open>strings.Cut\<close> on a one-byte separator: before, after, and whether it was found.\<close>

definition cut_at :: "char \<Rightarrow> bytes \<Rightarrow> bytes \<times> bytes \<times> bool" where
  "cut_at c s =
     (case dropWhile (\<lambda>x. x \<noteq> c) s of
        [] \<Rightarrow> (s, [], False)
      | _ # t \<Rightarrow> (takeWhile (\<lambda>x. x \<noteq> c) s, t, True))"

text \<open>The parts before and after the last occurrence of a byte, as \<open>strings.LastIndex\<close> finds it.\<close>

definition cut_last :: "char \<Rightarrow> bytes \<Rightarrow> (bytes \<times> bytes) option" where
  "cut_last c s =
     (case dropWhile (\<lambda>x. x \<noteq> c) (rev s) of
        [] \<Rightarrow> None
      | _ # t \<Rightarrow> Some (rev t, rev (takeWhile (\<lambda>x. x \<noteq> c) (rev s))))"

lemma cut_at_absent: "c \<notin> set s \<Longrightarrow> cut_at c s = (s, [], False)"
proof -
  assume "c \<notin> set s"
  then have "dropWhile (\<lambda>x. x \<noteq> c) s = []" by auto
  then show ?thesis unfolding cut_at_def by (simp only: list.case)
qed

lemma cut_at_append: "c \<notin> set s \<Longrightarrow> cut_at c (s @ c # t) = (s, t, True)"
proof -
  assume s: "c \<notin> set s"
  have "dropWhile (\<lambda>x. x \<noteq> c) (s @ c # t) = c # t" "takeWhile (\<lambda>x. x \<noteq> c) (s @ c # t) = s"
    using s by (auto simp: dropWhile_append3 takeWhile_tail intro: takeWhile_eq_all_conv [THEN iffD2])
  then show ?thesis by (simp add: cut_at_def)
qed

lemma cut_at_length: "cut_at c s = (a, b, True) \<Longrightarrow> length b < length s"
proof -
  assume "cut_at c s = (a, b, True)"
  then obtain x where "dropWhile (\<lambda>y. y \<noteq> c) s = x # b" by (auto simp: cut_at_def split: list.splits)
  then show ?thesis using length_dropWhile_le [of "\<lambda>y. y \<noteq> c" s] by simp
qed

lemma cut_last_absent: "c \<notin> set s \<Longrightarrow> cut_last c s = None"
proof -
  assume "c \<notin> set s"
  then have "dropWhile (\<lambda>x. x \<noteq> c) (rev s) = []" by auto
  then show ?thesis unfolding cut_last_def by (simp only: list.case)
qed

lemma cut_last_append: "c \<notin> set t \<Longrightarrow> cut_last c (s @ c # t) = Some (s, t)"
proof -
  assume t: "c \<notin> set t"
  then have "cut_at c (rev t @ c # rev s) = (rev t, rev s, True)" by (intro cut_at_append) simp
  then show ?thesis by (auto simp: cut_last_def cut_at_def split: list.splits)
qed

section \<open>Percent encoding\<close>

datatype encoding = EncodePath | EncodeHost | EncodeZone | EncodeUserPassword | EncodeFragment

datatype url_error =
    EscapeError bytes
  | InvalidHostError bytes
  | InvalidURL bytes

definition is_alnum :: "char \<Rightarrow> bool" where
  "is_alnum c \<longleftrightarrow>
     (let b = byte c in (97 \<le> b \<and> b \<le> 122) \<or> (65 \<le> b \<and> b \<le> 90) \<or> (48 \<le> b \<and> b \<le> 57))"

text \<open>\<open>shouldEscape\<close>.\<close>

definition shouldEscape :: "char \<Rightarrow> encoding \<Rightarrow> bool" where
  "shouldEscape c mode =
     (if is_alnum c then False
      else if mode \<in> {EncodeHost, EncodeZone} \<and> c \<in> set ''!$&()*+,;=:[]<>'' \<union> {CHR 0x22, CHR 0x27} then False
      else if c \<in> set ''-_.~'' then False
      else if c \<in> set ''$&+,/:;=?@'' then
        (case mode of
           EncodePath \<Rightarrow> c = CHR ''?''
         | EncodeUserPassword \<Rightarrow> c \<in> set ''@/?:''
         | EncodeFragment \<Rightarrow> False
         | _ \<Rightarrow> True)
      else if mode = EncodeFragment \<and> c \<in> set ''!()*'' then False
      else True)"

definition upper_hex :: "nat \<Rightarrow> char" where
  "upper_hex n = (if n < 10 then bchr (48 + n) else bchr (55 + n))"

definition escape_byte :: "encoding \<Rightarrow> char \<Rightarrow> bytes" where
  "escape_byte mode c =
     (if shouldEscape c mode then [CHR ''%'', upper_hex (byte c div 16), upper_hex (byte c mod 16)] else [c])"

definition url_escape :: "encoding \<Rightarrow> bytes \<Rightarrow> bytes" where
  "url_escape mode s = concat (map (escape_byte mode) s)"

text \<open>
  \<open>unescape\<close>: a percent sign needs two hexadecimal digits; in a host only escapes of bytes above
  0x7F (and of the percent sign itself) are allowed, in a zone those of bytes a host may contain.
\<close>

definition escape_allowed :: "encoding \<Rightarrow> nat \<Rightarrow> nat \<Rightarrow> bool" where
  "escape_allowed mode h l =
     (let percent = (h = 2 \<and> l = 5); v = h * 16 + l in
      case mode of
        EncodeHost \<Rightarrow> 8 \<le> h \<or> percent
      | EncodeZone \<Rightarrow> percent \<or> v = 0x20 \<or> \<not> shouldEscape (bchr v) EncodeHost
      | _ \<Rightarrow> True)"

fun unescape :: "encoding \<Rightarrow> bytes \<Rightarrow> url_error + bytes" where
  "unescape mode [] = Inr []"
| "unescape mode (c # s) =
     (if c = CHR ''%'' then
        (case s of
           a # b # t \<Rightarrow>
             (case (hex_val a, hex_val b) of
                (Some h, Some l) \<Rightarrow>
                  if escape_allowed mode h l then map_sum id (Cons (bchr (h * 16 + l))) (unescape mode t)
                  else Inl (EscapeError [c, a, b])
              | _ \<Rightarrow> Inl (EscapeError [c, a, b]))
         | _ \<Rightarrow> Inl (EscapeError (c # s)))
      else if mode \<in> {EncodeHost, EncodeZone} \<and> byte c < 0x80 \<and> shouldEscape c mode
      then Inl (InvalidHostError [c])
      else map_sum id (Cons c) (unescape mode s))"

text \<open>\<open>validEncoded\<close>: may a raw path or fragment be kept as it is?\<close>

definition validEncoded :: "encoding \<Rightarrow> bytes \<Rightarrow> bool" where
  "validEncoded mode s =
     list_all (\<lambda>c. c \<in> set ''!$&()*+,;=:@[]%'' \<union> {CHR 0x27} \<or> \<not> shouldEscape c mode) s"

text \<open>A byte that a path carries literally.\<close>

definition plain_byte :: "char \<Rightarrow> bool" where
  "plain_byte c \<longleftrightarrow> is_alnum c \<or> c \<in> set ''-_.~''"

lemma plain_byte_escape [simp]: "plain_byte c \<Longrightarrow> escape_byte mode c = [c]"
proof -
  assume "plain_byte c"
  then consider "is_alnum c" | "c \<in> set ''-_.~''" unfolding plain_byte_def by blast
  then have "\<not> shouldEscape c mode"
    by cases (simp_all only: shouldEscape_def if_True if_cancel not_False_eq_True)
  then show ?thesis by (simp add: escape_byte_def)
qed

lemma not_plain_byte [simp]:
  "\<not> plain_byte (CHR ''%'')" "\<not> plain_byte (CHR ''/'')" "\<not> plain_byte (CHR ''?'')"
  "\<not> plain_byte (CHR ''#'')" "\<not> plain_byte (CHR '':'')" "\<not> plain_byte (CHR ''@'')"
  "\<not> plain_byte (CHR ''*'')"
  by (simp_all add: plain_byte_def is_alnum_def byte_def)

definition path_byte :: "char \<Rightarrow> bool" where
  "path_byte c \<longleftrightarrow> plain_byte c \<or> c = CHR ''/''"

lemma url_escape_path: "list_all path_byte s \<Longrightarrow> url_escape EncodePath s = s"
proof (induction s)
  case (Cons c s)
  then consider "plain_byte c" | "c = CHR ''/''" by (auto simp: path_byte_def)
  then have "escape_byte EncodePath c = [c]"
    by cases (simp, simp add: escape_byte_def shouldEscape_def)
  with Cons show ?case by (simp add: url_escape_def)
qed (simp add: url_escape_def)

lemma unescape_path: "list_all path_byte s \<Longrightarrow> unescape EncodePath s = Inr s"
proof (induction s)
  case (Cons c s)
  then have "c \<noteq> CHR ''%''" by (auto simp: path_byte_def)
  with Cons show ?case by simp
qed simp

section \<open>URLs\<close>

record url =
  url_Scheme :: bytes
  url_Opaque :: bytes
  url_User :: "(bytes \<times> bytes option) option"
  url_Host :: bytes
  url_Path :: bytes
  url_RawPath :: bytes
  url_OmitHost :: bool
  url_ForceQuery :: bool
  url_RawQuery :: bytes
  url_Fragment :: bytes
  url_RawFragment :: bytes

definition zero_url :: url where
  "zero_url = \<lparr>url_Scheme = [], url_Opaque = [], url_User = None, url_Host = [], url_Path = [], url_RawPath = [],
     url_OmitHost = False, url_ForceQuery = False, url_RawQuery = [], url_Fragment = [], url_RawFragment = []\<rparr>"

text \<open>\<open>parseHost\<close> takes the scheme and the host component of the authority.\<close>

record url_lib =
  parseHost :: "bytes \<Rightarrow> bytes \<Rightarrow> url_error + bytes"

definition ascii_lower :: "bytes \<Rightarrow> bytes" where
  "ascii_lower s = map (\<lambda>c. if 65 \<le> byte c \<and> byte c \<le> 90 then bchr (byte c + 32) else c) s"

definition is_letter :: "char \<Rightarrow> bool" where
  "is_letter c \<longleftrightarrow> (let b = byte c in (97 \<le> b \<and> b \<le> 122) \<or> (65 \<le> b \<and> b \<le> 90))"

definition scheme_byte :: "char \<Rightarrow> bool" where
  "scheme_byte c \<longleftrightarrow> is_alnum c \<or> c \<in> set ''+-.''"

text \<open>\<open>getScheme\<close>: the scheme and what follows its colon.\<close>

definition getScheme :: "bytes \<Rightarrow> url_error + bytes \<times> bytes" where
  "getScheme raw =
     (case raw of
        [] \<Rightarrow> Inr ([], raw)
      | c # _ \<Rightarrow>
          if c = CHR '':'' then Inl (InvalidURL ''missing protocol scheme'')
          else if \<not> is_letter c then Inr ([], raw)
          else (case dropWhile scheme_byte raw of
                  d # t \<Rightarrow> if d = CHR '':'' then Inr (takeWhile scheme_byte raw, t) else Inr ([], raw)
                | [] \<Rightarrow> Inr ([], raw)))"

definition validUserinfo :: "bytes \<Rightarrow> bool" where
  "validUserinfo s = list_all (\<lambda>c. is_alnum c \<or> c \<in> set ''-._:~!$&()*+,;=%@'' \<union> {CHR 0x27}) s"

definition parse_userinfo :: "bytes \<Rightarrow> url_error + bytes \<times> bytes option" where
  "parse_userinfo userinfo =
     (if \<not> validUserinfo userinfo then Inl (InvalidURL ''net/url: invalid userinfo'')
      else if CHR '':'' \<notin> set userinfo
      then map_sum id (\<lambda>u. (u, None)) (unescape EncodeUserPassword userinfo)
      else let (name, pass, _) = cut_at (CHR '':'') userinfo in
           case unescape EncodeUserPassword name of Inl e \<Rightarrow> Inl e | Inr u \<Rightarrow>
           case unescape EncodeUserPassword pass of Inl e \<Rightarrow> Inl e | Inr p \<Rightarrow> Inr (u, Some p))"

definition parseAuthority ::
  "url_lib \<Rightarrow> bytes \<Rightarrow> bytes \<Rightarrow> url_error + (bytes \<times> bytes option) option \<times> bytes" where
  "parseAuthority U scheme authority =
     (case cut_last (CHR ''@'') authority of
        None \<Rightarrow> map_sum id (\<lambda>h. (None, h)) (parseHost U scheme authority)
      | Some (userinfo, rest) \<Rightarrow>
          (case parseHost U scheme rest of Inl e \<Rightarrow> Inl e | Inr host \<Rightarrow>
           case parse_userinfo userinfo of Inl e \<Rightarrow> Inl e | Inr user \<Rightarrow> Inr (Some user, host)))"

text \<open>\<open>setPath\<close> keeps the raw form only when it is not the default encoding.\<close>

definition setPath :: "bytes \<Rightarrow> url \<Rightarrow> url_error + url" where
  "setPath p u =
     map_sum id (\<lambda>path. u\<lparr>url_Path := path,
         url_RawPath := (if p = url_escape EncodePath path then [] else p)\<rparr>) (unescape EncodePath p)"

definition setFragment :: "bytes \<Rightarrow> url \<Rightarrow> url_error + url" where
  "setFragment f u =
     map_sum id (\<lambda>frag. u\<lparr>url_Fragment := frag,
         url_RawFragment := (if f = url_escape EncodeFragment frag then [] else f)\<rparr>) (unescape EncodeFragment f)"

definition EscapedPath :: "url \<Rightarrow> bytes" where
  "EscapedPath u =
     (if url_RawPath u \<noteq> [] \<and> validEncoded EncodePath (url_RawPath u)
         \<and> unescape EncodePath (url_RawPath u) = Inr (url_Path u)
      then url_RawPath u
      else if url_Path u = ''*'' then ''*''
      else url_escape EncodePath (url_Path u))"

definition EscapedFragment :: "url \<Rightarrow> bytes" where
  "EscapedFragment u =
     (if url_RawFragment u \<noteq> [] \<and> validEncoded EncodeFragment (url_RawFragment u)
         \<and> unescape EncodeFragment (url_RawFragment u) = Inr (url_Fragment u)
      then url_RawFragment u
      else url_escape EncodeFragment (url_Fragment u))"

text \<open>The query is what follows the first question mark; a lone trailing one only sets a flag.\<close>

definition split_query :: "bytes \<Rightarrow> url \<Rightarrow> bytes \<times> url" where
  "split_query rest u =
     (if rest \<noteq> [] \<and> last rest = CHR ''?'' \<and> length (filter (\<lambda>c. c = CHR ''?'') rest) = 1
      then (butlast rest, u\<lparr>url_ForceQuery := True\<rparr>)
      else let (a, b, _) = cut_at (CHR ''?'') rest in (a, u\<lparr>url_RawQuery := b\<rparr>))"

definition parse_hierarchical :: "url_lib \<Rightarrow> bytes \<Rightarrow> url \<Rightarrow> url_error + url" where
  "parse_hierarchical U rest u =
     (if \<not> HasPrefix rest ''/'' \<and> url_Scheme u \<noteq> [] then Inr (u\<lparr>url_Opaque := rest\<rparr>)
      else if \<not> HasPrefix rest ''/'' \<and> CHR '':'' \<in> set (fst (cut_at (CHR ''/'') rest))
      then Inl (InvalidURL ''first path segment in URL cannot contain colon'')
      else if (url_Scheme u \<noteq> [] \<or> \<not> HasPrefix rest ''///'') \<and> HasPrefix rest ''//''
      then (case parseAuthority U (url_Scheme u) (takeWhile (\<lambda>c. c \<noteq> CHR ''/'') (drop 2 rest)) of
              Inl e \<Rightarrow> Inl e
            | Inr (user, host) \<Rightarrow>
                setPath (dropWhile (\<lambda>c. c \<noteq> CHR ''/'') (drop 2 rest)) (u\<lparr>url_User := user, url_Host := host\<rparr>))
      else setPath rest (if url_Scheme u \<noteq> [] \<and> HasPrefix rest ''/'' then u\<lparr>url_OmitHost := True\<rparr> else u))"

definition is_ctl :: "char \<Rightarrow> bool" where
  "is_ctl c \<longleftrightarrow> byte c < 0x20 \<or> byte c = 0x7F"

definition parse_no_fragment :: "url_lib \<Rightarrow> bytes \<Rightarrow> url_error + url" where
  "parse_no_fragment U raw =
     (if list_ex is_ctl raw then Inl (InvalidURL ''net/url: invalid control character in URL'')
      else if raw = ''*'' then Inr (zero_url\<lparr>url_Path := ''*''\<rparr>)
      else case getScheme raw of Inl e \<Rightarrow> Inl e | Inr (scheme, rest) \<Rightarrow>
           let (rest', u) = split_query rest (zero_url\<lparr>url_Scheme := ascii_lower scheme\<rparr>)
           in parse_hierarchical U rest' u)"

definition url_Parse :: "url_lib \<Rightarrow> bytes \<Rightarrow> url_error + url" where
  "url_Parse U raw =
     (let (body, frag, _) = cut_at (CHR ''#'') raw in
      case parse_no_fragment U body of Inl e \<Rightarrow> Inl e | Inr u \<Rightarrow>
      if frag = [] then Inr u else setFragment frag u)"

section \<open>Resolving references\<close>

definition resolve_elem :: "bytes \<Rightarrow> bytes \<times> bool \<Rightarrow> bytes \<times> bool" where
  "resolve_elem elem st =
     (let (dst, first) = st in
      if elem = ''.'' then (dst, False)
      else if elem = ''..'' then
        (case cut_last (CHR ''/'') dst of None \<Rightarrow> ([], True) | Some (a, _) \<Rightarrow> (a, first))
      else ((if first then dst else dst @ ''/'') @ elem, False))"

text \<open>The loop of \<open>resolvePath\<close>; \<open>dst\<close> is the buffer without the slash it starts with.\<close>

function resolve_loop :: "bytes \<times> bool \<Rightarrow> bytes \<Rightarrow> bytes \<times> bytes" where
  "resolve_loop st remaining =
     (let (elem, rest, found) = cut_at (CHR ''/'') remaining; st' = resolve_elem elem st in
      if found then resolve_loop st' rest else (fst st', elem))"
  by pat_completeness auto
termination
  by (relation "measure (\<lambda>(st, r). length r)") (auto dest: cut_at_length sym)

declare resolve_loop.simps [simp del]

definition resolvePath :: "bytes \<Rightarrow> bytes \<Rightarrow> bytes" where
  "resolvePath base ref =
     (let full = (if ref = [] then base
                  else if \<not> HasPrefix ref ''/'' then
                    (case cut_last (CHR ''/'') base of None \<Rightarrow> [] | Some (a, _) \<Rightarrow> a @ ''/'') @ ref
                  else ref)
      in if full = [] then []
         else let (dst, elem) = resolve_loop ([], True) full;
                  r = ''/'' @ dst @ (if elem = ''.'' \<or> elem = ''..'' then ''/'' else [])
              in if HasPrefix r ''//'' then tl r else r)"

text \<open>\<open>ResolveReference\<close>; a path that cannot be decoded leaves the old one in place.\<close>

definition setPath_or_keep :: "bytes \<Rightarrow> url \<Rightarrow> url" where
  "setPath_or_keep p u = (case setPath p u of Inl _ \<Rightarrow> u | Inr u' \<Rightarrow> u')"

definition ResolveReference :: "url \<Rightarrow> url \<Rightarrow> url" where
  "ResolveReference u ref =
     (let t = (if url_Scheme ref = [] then ref\<lparr>url_Scheme := url_Scheme u\<rparr> else ref) in
      if url_Scheme ref \<noteq> [] \<or> url_Host ref \<noteq> [] \<or> url_User ref \<noteq> None
      then setPath_or_keep (resolvePath (EscapedPath ref) []) t
      else if url_Opaque ref \<noteq> [] then t\<lparr>url_User := None, url_Host := [], url_Path := []\<rparr>
      else let t2 = (if url_Path ref = [] \<and> \<not> url_ForceQuery ref \<and> url_RawQuery ref = []
                     then (let t1 = t\<lparr>url_RawQuery := url_RawQuery u\<rparr> in
                           if url_Fragment ref = []
                           then t1\<lparr>url_Fragment := url_Fragment u, url_RawFragment := url_RawFragment u\<rparr>
                           else t1)
                     else t)
           in if url_Path ref = [] \<and> url_Opaque u \<noteq> []
              then t2\<lparr>url_Opaque := url_Opaque u, url_User := None, url_Host := [], url_Path := []\<rparr>
              else setPath_or_keep (resolvePath (EscapedPath u) (EscapedPath ref))
                     (t2\<lparr>url_Host := url_Host u, url_User := url_User u\<rparr>))"

definition URL_Parse :: "url_lib \<Rightarrow> url \<Rightarrow> bytes \<Rightarrow> url_error + url" where
  "URL_Parse U u ref = map_sum id (ResolveReference u) (url_Parse U ref)"

section \<open>Printing\<close>

definition Userinfo_String :: "bytes \<times> bytes option \<Rightarrow> bytes" where
  "Userinfo_String ui =
     url_escape EncodeUserPassword (fst ui) @
     (case snd ui of None \<Rightarrow> [] | Some p \<Rightarrow> '':'' @ url_escape EncodeUserPassword p)"

definition authority_text :: "url \<Rightarrow> bytes" where
  "authority_text u =
     (if url_Scheme u = [] \<and> url_Host u = [] \<and> url_User u = None then []
      else if url_OmitHost u \<and> url_Host u = [] \<and> url_User u = None then []
      else (if url_Host u \<noteq> [] \<or> url_Path u \<noteq> [] \<or> url_User u \<noteq> None then ''//'' else []) @
           (case url_User u of None \<Rightarrow> [] | Some ui \<Rightarrow> Userinfo_String ui @ ''@'') @
           url_escape EncodeHost (url_Host u))"

definition url_String :: "url \<Rightarrow> bytes" where
  "url_String u =
     (let scheme = (if url_Scheme u \<noteq> [] then url_Scheme u @ '':'' else []);
          rest = (if url_Opaque u \<noteq> [] then scheme @ url_Opaque u
                  else let path = EscapedPath u;
                           pre = scheme @ authority_text u @
                             (if path \<noteq> [] \<and> \<not> HasPrefix path ''/'' \<and> url_Host u \<noteq> [] then ''/'' else []);
                           dot = (if pre = [] \<and> CHR '':'' \<in> set (fst (cut_at (CHR ''/'') path)) then ''./'' else [])
                       in pre @ dot @ path)
      in rest @ (if url_ForceQuery u \<or> url_RawQuery u \<noteq> [] then ''?'' @ url_RawQuery u else []) @
         (if url_Fragment u \<noteq> [] then ''#'' @ EscapedFragment u else []))"

section \<open>Operation URLs\<close>

text \<open>
  A server address as it is usually given: an http or https scheme, a name or IPv4 address with an
  optional port, and a path of plain segments. \<open>net/url\<close> accepts such a host as it is.
\<close>

definition host_byte :: "char \<Rightarrow> bool" where
  "host_byte c \<longleftrightarrow> plain_byte c \<or> c = CHR '':''"

definition simple_host :: "bytes \<Rightarrow> bool" where
  "simple_host h \<longleftrightarrow>
     (let (name, port, _) = cut_at (CHR '':'') h in name \<noteq> [] \<and> list_all plain_byte name \<and> list_all is_digit port)"

definition host_contract :: "url_lib \<Rightarrow> bool" where
  "host_contract U \<longleftrightarrow> (\<forall>scheme h. simple_host h \<longrightarrow> parseHost U scheme h = Inr h)"

definition plain_segment :: "bytes \<Rightarrow> bool" where
  "plain_segment s \<longleftrightarrow> s \<noteq> [] \<and> list_all plain_byte s \<and> s \<noteq> ''.'' \<and> s \<noteq> ''..''"

definition path_of :: "bytes list \<Rightarrow> bytes" where
  "path_of segs = concat (map (\<lambda>s. CHR ''/'' # s) segs)"

lemma path_of_simps [simp]:
  "path_of [] = []" "path_of (s # ss) = CHR ''/'' # s @ path_of ss" "path_of (xs @ ys) = path_of xs @ path_of ys"
  by (simp_all add: path_of_def)

definition address :: "bytes \<Rightarrow> bytes \<Rightarrow> bytes list \<Rightarrow> bytes" where
  "address scheme host segs = scheme @ ''://'' @ host @ path_of segs"

definition plain_address :: "bytes \<Rightarrow> bytes \<Rightarrow> bytes list \<Rightarrow> bool" where
  "plain_address scheme host segs \<longleftrightarrow>
     (scheme = ''http'' \<or> scheme = ''https'') \<and> simple_host host \<and> list_all plain_segment segs"

lemma is_digit_plain: "is_digit c \<Longrightarrow> plain_byte c"
  by (simp add: is_digit_def plain_byte_def is_alnum_def Let_def)

lemma simple_host_bytes: "simple_host h \<Longrightarrow> h \<noteq> [] \<and> list_all host_byte h"
proof -
  assume h: "simple_host h"
  show ?thesis
  proof (cases "CHR '':'' \<in> set h")
    case True
    then obtain a b where ab: "h = a @ CHR '':'' # b" "CHR '':'' \<notin> set a" by (metis split_list_first)
    with h show ?thesis
      using is_digit_plain by (auto simp: simple_host_def cut_at_append host_byte_def list_all_iff)
  next
    case False
    with h show ?thesis by (auto simp: simple_host_def cut_at_absent host_byte_def list_all_iff)
  qed
qed

lemma host_byte_escape: "list_all host_byte h \<Longrightarrow> url_escape EncodeHost h = h"
proof (induction h)
  case (Cons c h)
  then consider "plain_byte c" | "c = CHR '':''" by (auto simp: host_byte_def)
  then have "escape_byte EncodeHost c = [c]" by cases (simp, simp add: escape_byte_def shouldEscape_def)
  with Cons show ?case by (simp add: url_escape_def)
qed (simp add: url_escape_def)

lemma plain_not_ctl: "plain_byte c \<Longrightarrow> \<not> is_ctl c"
  by (auto simp: plain_byte_def is_alnum_def is_ctl_def Let_def byte_def [of "CHR ''-''"] byte_def [of "CHR ''_''"]
      byte_def [of "CHR ''.''"] byte_def [of "CHR ''~''"])

definition clean_byte :: "char \<Rightarrow> bool" where
  "clean_byte c \<longleftrightarrow> plain_byte c \<or> c = CHR ''/'' \<or> c = CHR '':''"

lemma clean_byteD:
  "clean_byte c \<Longrightarrow> \<not> is_ctl c \<and> c \<noteq> CHR ''#'' \<and> c \<noteq> CHR ''?'' \<and> c \<noteq> CHR ''@'' \<and> c \<noteq> CHR ''*''"
proof -
  have "\<not> is_ctl (CHR ''/'')" "\<not> is_ctl (CHR '':'')" by (simp_all add: is_ctl_def byte_def)
  moreover assume "clean_byte c"
  ultimately show ?thesis using plain_not_ctl by (auto simp: clean_byte_def)
qed

lemma cut_at_clean: "list_all clean_byte s \<Longrightarrow> c \<in> {CHR ''#'', CHR ''?''} \<Longrightarrow> cut_at c s = (s, [], False)"
  using clean_byteD by (intro cut_at_absent) (auto simp: list_all_iff)

lemma split_query_clean: "list_all clean_byte s \<Longrightarrow> split_query s u = (s, u\<lparr>url_RawQuery := []\<rparr>)"
proof -
  assume s: "list_all clean_byte s"
  have "last s \<noteq> CHR ''?''" if "s \<noteq> []" using s that clean_byteD by (auto simp: list_all_iff)
  with s show ?thesis by (auto simp: split_query_def cut_at_clean)
qed

lemma setPath_plain: "list_all path_byte p \<Longrightarrow> setPath p u = Inr (u\<lparr>url_Path := p, url_RawPath := []\<rparr>)"
  by (simp add: setPath_def unescape_path url_escape_path)

lemma plain_segment_bytes: "plain_segment s \<Longrightarrow> list_all path_byte s"
  by (auto simp: plain_segment_def path_byte_def list_all_iff)

lemma path_of_bytes: "list_all plain_segment segs \<Longrightarrow> list_all path_byte (path_of segs)"
  by (induction segs) (auto simp: plain_segment_bytes path_byte_def [of "CHR ''/''"])

lemma path_byte_clean: "list_all path_byte s \<Longrightarrow> list_all clean_byte s"
  by (auto simp: list_all_iff path_byte_def clean_byte_def)

lemma host_byte_clean: "list_all host_byte s \<Longrightarrow> list_all clean_byte s"
  by (auto simp: list_all_iff host_byte_def clean_byte_def)

definition address_url :: "bytes \<Rightarrow> bytes \<Rightarrow> bytes \<Rightarrow> url" where
  "address_url scheme host path = zero_url\<lparr>url_Scheme := scheme, url_Host := host, url_Path := path\<rparr>"

lemma host_not_slash: "list_all host_byte h \<Longrightarrow> CHR ''/'' \<notin> set h \<and> CHR ''@'' \<notin> set h"
  by (auto simp: list_all_iff host_byte_def)

lemma authority_split:
  assumes "CHR ''/'' \<notin> set h"
  shows "takeWhile (\<lambda>c. c \<noteq> CHR ''/'') (h @ CHR ''/'' # p) = h"
    and "dropWhile (\<lambda>c. c \<noteq> CHR ''/'') (h @ CHR ''/'' # p) = CHR ''/'' # p"
  using assms by (auto simp: takeWhile_tail dropWhile_append3 intro: takeWhile_eq_all_conv [THEN iffD2])

lemma getScheme_http:
  "getScheme (''http://'' @ r) = Inr (''http'', ''//'' @ r)"
  "getScheme (''https://'' @ r) = Inr (''https'', ''//'' @ r)"
  by (simp_all add: getScheme_def is_letter_def scheme_byte_def is_alnum_def byte_def)

text \<open>Parsing such an address with a path gives its parts.\<close>

lemma url_Parse_address:
  assumes "host_contract U" "scheme = ''http'' \<or> scheme = ''https''" "simple_host host" "list_all path_byte p"
  shows "url_Parse U (scheme @ ''://'' @ host @ CHR ''/'' # p) = Inr (address_url scheme host (CHR ''/'' # p))"
proof -
  let ?raw = "scheme @ ''://'' @ host @ CHR ''/'' # p"
  have h: "host \<noteq> []" "list_all host_byte host" using simple_host_bytes [OF assms(3)] by simp_all
  have p: "list_all path_byte (CHR ''/'' # p)" using assms(4) by (simp add: path_byte_def)
  have s: "list_all clean_byte scheme"
    using assms(2) by (auto simp: clean_byte_def plain_byte_def is_alnum_def byte_def)
  have clean: "list_all clean_byte ?raw"
    using s host_byte_clean [OF h(2)] path_byte_clean [OF p] by (simp add: clean_byte_def)
  have rest: "list_all clean_byte (''//'' @ host @ CHR ''/'' # p)"
    using host_byte_clean [OF h(2)] path_byte_clean [OF p] by (simp add: clean_byte_def)
  have ctl: "\<not> list_ex is_ctl ?raw" using clean clean_byteD by (auto simp: list_all_iff list_ex_iff)
  have star: "?raw \<noteq> ''*''" using assms(2) by auto
  have gs: "getScheme ?raw = Inr (scheme, ''//'' @ host @ CHR ''/'' # p)" using assms(2) getScheme_http by auto
  have low: "ascii_lower scheme = scheme" "scheme \<noteq> []" using assms(2) by (auto simp: ascii_lower_def byte_def)
  have auth: "parseAuthority U scheme host = Inr (None, host)"
    using assms(1,3) host_not_slash [OF h(2)] by (simp add: parseAuthority_def cut_last_absent host_contract_def)
  have "parse_no_fragment U ?raw = Inr (address_url scheme host (CHR ''/'' # p))"
    using ctl star gs low auth authority_split [OF conjunct1 [OF host_not_slash [OF h(2)]]] split_query_clean [OF rest]
      setPath_plain [OF p]
    by (simp add: parse_no_fragment_def parse_hierarchical_def HasPrefix_def address_url_def zero_url_def)
  then show ?thesis using cut_at_clean [OF clean, of "CHR ''#''"] by (simp add: url_Parse_def)
qed

text \<open>A relative operation path.\<close>

lemma url_Parse_relative:
  assumes "list_all path_byte p"
  shows "url_Parse U (''./'' @ p) = Inr (zero_url\<lparr>url_Path := ''./'' @ p\<rparr>)"
proof -
  have p: "list_all path_byte (''./'' @ p)" using assms by (simp add: path_byte_def plain_byte_def)
  have clean: "list_all clean_byte (''./'' @ p)" by (rule path_byte_clean [OF p])
  have ctl: "\<not> list_ex is_ctl (''./'' @ p)" using clean clean_byteD by (auto simp: list_all_iff list_ex_iff)
  have gs: "getScheme (''./'' @ p) = Inr ([], ''./'' @ p)" by (simp add: getScheme_def is_letter_def byte_def)
  have seg: "fst (cut_at (CHR ''/'') (''./'' @ p)) = ''.''" using cut_at_append [of "CHR ''/''" "''.''" p] by simp
  have "parse_no_fragment U (''./'' @ p) = Inr (zero_url\<lparr>url_Path := ''./'' @ p\<rparr>)"
    using ctl gs seg split_query_clean [OF clean] setPath_plain [OF p]
    by (simp add: parse_no_fragment_def parse_hierarchical_def HasPrefix_def zero_url_def ascii_lower_def)
  then show ?thesis using cut_at_clean [OF clean, of "CHR ''#''"] by (simp add: url_Parse_def)
qed

lemma no_slash_in_segment: "list_all plain_byte s \<Longrightarrow> CHR ''/'' \<notin> set s"
  by (auto simp: list_all_iff)

lemma resolve_loop_segments:
  assumes "list_all (\<lambda>s. s \<noteq> ''..'' \<and> list_all plain_byte s) (s # ss)"
  shows "resolve_loop (dst, False) (s @ path_of ss)
    = (dst @ path_of (filter (\<lambda>s. s \<noteq> ''.'') (s # ss)), last (s # ss))"
  using assms
proof (induction ss arbitrary: s dst)
  case Nil
  then have "cut_at (CHR ''/'') s = (s, [], False)" by (intro cut_at_absent no_slash_in_segment) simp
  with Nil show ?case by (subst resolve_loop.simps) (simp add: resolve_elem_def)
next
  case (Cons t ts)
  then have "cut_at (CHR ''/'') (s @ CHR ''/'' # t @ path_of ts) = (s, t @ path_of ts, True)"
    by (intro cut_at_append no_slash_in_segment) simp
  moreover have "resolve_loop (d, False) (t @ path_of ts)
      = (d @ path_of (filter (\<lambda>s. s \<noteq> ''.'') (t # ts)), last (t # ts))" for d
    using Cons by simp
  ultimately show ?case
    using Cons(2) by (subst resolve_loop.simps) (simp add: resolve_elem_def del: filter.simps last.simps, simp)
qed

lemma plain_segments:
  "list_all plain_segment ss \<Longrightarrow> list_all (\<lambda>s. s \<noteq> ''..'' \<and> list_all plain_byte s) ss"
  "list_all plain_segment ss \<Longrightarrow> filter (\<lambda>s. s \<noteq> ''.'') ss = ss"
  by (auto simp: list_all_iff plain_segment_def filter_id_conv)

lemma resolvePath_operation:
  assumes "list_all plain_segment segs" "list_all plain_segment ops" "ops \<noteq> []"
  shows "resolvePath (path_of segs @ ''/'') (''.'' @ path_of ops) = path_of (segs @ ops)"
proof -
  let ?all = "segs @ [''.''] @ ops"
  obtain s ss where all: "?all = s # ss" by (cases ?all) auto
  have ok: "list_all (\<lambda>s. s \<noteq> ''..'' \<and> list_all plain_byte s) (s # ss)"
    unfolding all [symmetric] using plain_segments(1) assms(1,2) by (simp add: plain_byte_def)
  have filt: "filter (\<lambda>s. s \<noteq> ''.'') (s # ss) = segs @ ops"
    unfolding all [symmetric] using plain_segments(2) assms(1,2) by simp
  have last: "last (s # ss) = last ops" unfolding all [symmetric] using assms(3) by simp
  have "plain_segment (last ops)" using assms(2,3) by (simp add: list_all_iff)
  then have l: "last ops \<noteq> ''.''" "last ops \<noteq> ''..''" by (auto simp: plain_segment_def)
  have "cut_at (CHR ''/'') (path_of ?all) = ([], s @ path_of ss, True)"
    unfolding all using cut_at_append [of "CHR ''/''" "[]"] by simp
  then have "resolve_loop ([], True) (path_of ?all) = resolve_loop ([], False) (s @ path_of ss)"
    by (subst resolve_loop.simps) (simp add: resolve_elem_def)
  then have loop: "resolve_loop ([], True) (path_of ?all) = (path_of (segs @ ops), last ops)"
    using resolve_loop_segments [OF ok, of "[]"] filt last by simp
  have base: "cut_last (CHR ''/'') (path_of segs @ ''/'') = Some (path_of segs, [])"
    using cut_last_append [of "CHR ''/''" "[]" "path_of segs"] by simp
  obtain r where r: "path_of (segs @ ops) = CHR ''/'' # r" using assms(3) by (cases "segs @ ops") auto
  have ne: "path_of ?all \<noteq> []" unfolding all by simp
  have full: "path_of segs @ ''/'' @ ''.'' @ path_of ops = path_of ?all" by simp
  show ?thesis
    using base loop l r ne full by (simp add: resolvePath_def HasPrefix_def)
qed

text \<open>The URL text of an operation on a server address.\<close>

definition operation_url :: "bytes \<Rightarrow> bytes \<Rightarrow> bytes list \<Rightarrow> bytes list \<Rightarrow> url" where
  "operation_url scheme host segs ops = address_url scheme host (path_of (segs @ ops))"

lemma EscapedPath_plain: "list_all path_byte (url_Path u) \<Longrightarrow> url_RawPath u = [] \<Longrightarrow> EscapedPath u = url_Path u"
  by (auto simp: EscapedPath_def url_escape_path path_byte_def)

lemma resolve_operation:
  assumes "list_all plain_segment segs" "list_all plain_segment ops" "ops \<noteq> []" "scheme \<noteq> []"
  shows "ResolveReference (address_url scheme host (path_of segs @ ''/''))
      (zero_url\<lparr>url_Path := ''.'' @ path_of ops\<rparr>) = operation_url scheme host segs ops"
proof -
  have b: "list_all path_byte (path_of segs @ ''/'')" "list_all path_byte (path_of (segs @ ops))"
    "list_all path_byte (''.'' @ path_of ops)"
    using path_of_bytes assms(1,2) by (simp_all add: path_byte_def [of "CHR ''/''"] path_byte_def [of "CHR ''.''"] plain_byte_def)
  have "EscapedPath (address_url scheme host (path_of segs @ ''/'')) = path_of segs @ ''/''"
    using b(1) by (subst EscapedPath_plain) (simp_all add: address_url_def zero_url_def)
  moreover have "EscapedPath (zero_url\<lparr>url_Path := ''.'' @ path_of ops\<rparr>) = ''.'' @ path_of ops"
    using b(3) by (subst EscapedPath_plain) (simp_all add: zero_url_def)
  ultimately show ?thesis
    using resolvePath_operation [OF assms(1-3)] setPath_plain [OF b(2)] assms(4)
    by (simp add: ResolveReference_def setPath_or_keep_def operation_url_def address_url_def zero_url_def)
qed

lemma url_String_operation:
  assumes "plain_address scheme host segs" "list_all plain_segment ops" "ops \<noteq> []"
  shows "url_String (operation_url scheme host segs ops) = address scheme host (segs @ ops)"
proof -
  have s: "scheme \<noteq> []" "simple_host host" "list_all plain_segment segs" using assms(1) by (auto simp: plain_address_def)
  have h: "host \<noteq> []" "url_escape EncodeHost host = host" using simple_host_bytes [OF s(2)] host_byte_escape by auto
  have p: "list_all path_byte (path_of (segs @ ops))" using path_of_bytes s(3) assms(2) by simp
  obtain r where r: "path_of (segs @ ops) = CHR ''/'' # r" using assms(3) by (cases "segs @ ops") auto
  have e: "EscapedPath (operation_url scheme host segs ops) = path_of (segs @ ops)"
    using p by (subst EscapedPath_plain) (simp_all add: operation_url_def address_url_def zero_url_def)
  show ?thesis
    using e s(1) h r
    by (simp add: url_String_def operation_url_def address_url_def zero_url_def authority_text_def address_def
        HasPrefix_def)
qed

end
