(* ===== verification/Client.thy ===== *)
theory Client
  imports ClientModels GoUrl
begin

text \<open>
  The generated API client (\<open>api/gen/client.gen.go\<close>): its construction from options, one request
  builder and one method per operation, the response structs with their accessors, and the
  parsers that fill them by status code and content type. The transport (\<open>HttpRequestDoer\<close>) is a
  function that passes a state along, the parameter styling of the OpenAPI runtime and the text
  form of UUIDs are parameters. The lemmas give the request each operation sends to a server
  address and the struct each parser fills.
\<close>

section \<open>Requests, responses and errors\<close>

datatype client_error =
    UrlError url_error
  | StyleParamError bytes
  | EditorError bytes
  | TransportError bytes
  | ReadError bytes
  | UnmarshalError
  | NilDoer

text \<open>
  \<open>NilDoer\<close> stands for the panic of a call on a nil transport. A request has a body reader or none,
  given by the bytes it yields; its context is \<open>None\<close> until \<open>WithContext\<close>, for
  \<open>context.Background()\<close>. A response body is what reading it to the end gives.
\<close>

record 'c client_request =
  cr_Method :: bytes
  cr_URL :: url
  cr_Host :: bytes
  cr_Header :: header
  cr_Body :: "bytes option"
  cr_ctx :: "'c option"

record http_response =
  rsp_Status :: bytes
  rsp_StatusCode :: int
  rsp_Header :: header
  rsp_Body :: "client_error + bytes"

type_synonym 's call = "'s \<Rightarrow> (client_error + http_response) \<times> 's"
type_synonym 'c editor = "'c \<Rightarrow> 'c client_request \<Rightarrow> client_error + 'c client_request"
type_synonym ('c, 's) doer = "'c client_request \<Rightarrow> 's call"

text \<open>
  \<open>urls\<close> is the host syntax of \<open>net/url\<close>, \<open>style_param\<close> is \<open>runtime.StyleParamWithLocation\<close> on a UUID in a
  path (an error or the text), \<open>read_uuid\<close> is \<open>UnmarshalText\<close> of \<open>uuid.UUID\<close>.
\<close>

record client_lib =
  urls :: url_lib
  style_param :: "uuid \<Rightarrow> bytes + bytes"
  read_uuid :: "bytes \<Rightarrow> uuid option"

text \<open>\<open>http.NewRequest\<close> with a valid method: the URL is parsed and an empty port dropped.\<close>

definition removeEmptyPort :: "bytes \<Rightarrow> bytes" where
  "removeEmptyPort h = (if h \<noteq> [] \<and> last h = CHR '':'' then butlast h else h)"

definition http_NewRequest ::
  "url_lib \<Rightarrow> bytes \<Rightarrow> bytes \<Rightarrow> bytes option \<Rightarrow> client_error + 'c client_request" where
  "http_NewRequest U meth target body =
     (case url_Parse U target of
        Inl e \<Rightarrow> Inl (UrlError e)
      | Inr u \<Rightarrow>
          let u' = u\<lparr>url_Host := removeEmptyPort (url_Host u)\<rparr> in
          Inr \<lparr>cr_Method = meth, cr_URL = u', cr_Host = url_Host u', cr_Header = [], cr_Body = body, cr_ctx = None\<rparr>)"

definition header_Add :: "header \<Rightarrow> bytes \<Rightarrow> bytes \<Rightarrow> header" where
  "header_Add h k v =
     (let c = canonical_key k in
      (c, (case map_of h c of Some vs \<Rightarrow> vs | None \<Rightarrow> []) @ [v]) # filter (\<lambda>(k', _). k' \<noteq> c) h)"

section \<open>Construction\<close>

record ('c, 's) Client =
  cl_Server :: bytes
  cl_Client :: "('c, 's) doer option"
  cl_RequestEditors :: "'c editor list"

type_synonym ('c, 's) ClientOption = "('c, 's) Client \<Rightarrow> client_error + ('c, 's) Client"

fun apply_options :: "('c, 's) ClientOption list \<Rightarrow> ('c, 's) Client \<Rightarrow> client_error + ('c, 's) Client" where
  "apply_options [] c = Inr c"
| "apply_options (opt # opts) c = (case opt c of Inl e \<Rightarrow> Inl e | Inr c' \<Rightarrow> apply_options opts c')"

text \<open>The first argument is the transport of a zero \<open>http.Client\<close>.\<close>

definition NewClient ::
  "('c, 's) doer \<Rightarrow> bytes \<Rightarrow> ('c, 's) ClientOption list \<Rightarrow> client_error + ('c, 's) Client" where
  "NewClient default_client server opts =
     (case apply_options opts \<lparr>cl_Server = server, cl_Client = None, cl_RequestEditors = []\<rparr> of
        Inl e \<Rightarrow> Inl e
      | Inr c \<Rightarrow>
          let c1 = (if cl_Server c \<noteq> [] \<and> last (cl_Server c) = CHR ''/'' then c
                    else c\<lparr>cl_Server := cl_Server c @ ''/''\<rparr>)
          in Inr (if cl_Client c1 = None then c1\<lparr>cl_Client := Some default_client\<rparr> else c1))"

definition WithHTTPClient :: "('c, 's) doer \<Rightarrow> ('c, 's) ClientOption" where
  "WithHTTPClient doer c = Inr (c\<lparr>cl_Client := Some doer\<rparr>)"

definition WithRequestEditorFn :: "'c editor \<Rightarrow> ('c, 's) ClientOption" where
  "WithRequestEditorFn fn c = Inr (c\<lparr>cl_RequestEditors := cl_RequestEditors c @ [fn]\<rparr>)"

definition WithBaseURL :: "url_lib \<Rightarrow> bytes \<Rightarrow> ('c, 's) ClientOption" where
  "WithBaseURL U baseURL c =
     (case url_Parse U baseURL of
        Inl e \<Rightarrow> Inl (UrlError e)
      | Inr newBaseURL \<Rightarrow> Inr (c\<lparr>cl_Server := url_String newBaseURL\<rparr>))"

section \<open>Request builders\<close>

text \<open>
  The body that every builder has: parse the server, make the operation path relative, resolve it
  and make the request. A path parameter is styled before anything else; a body comes with its
  content type.
\<close>

definition operation_request ::
  "url_lib \<Rightarrow> bytes \<Rightarrow> bytes \<Rightarrow> bytes \<Rightarrow> bytes option \<Rightarrow> client_error + 'c client_request" where
  "operation_request U server meth operationPath body =
     (case url_Parse U server of
        Inl e \<Rightarrow> Inl (UrlError e)
      | Inr serverURL \<Rightarrow>
          (case URL_Parse U serverURL
                  (if HasPrefix operationPath ''/'' then ''.'' @ operationPath else operationPath) of
             Inl e \<Rightarrow> Inl (UrlError e)
           | Inr queryURL \<Rightarrow> http_NewRequest U meth (url_String queryURL) body))"

definition with_path_param ::
  "client_lib \<Rightarrow> uuid \<Rightarrow> (bytes \<Rightarrow> client_error + 'c client_request) \<Rightarrow> client_error + 'c client_request" where
  "with_path_param L i k = (case style_param L i of Inl e \<Rightarrow> Inl (StyleParamError e) | Inr p \<Rightarrow> k p)"

definition add_content_type ::
  "bytes \<Rightarrow> client_error + 'c client_request \<Rightarrow> client_error + 'c client_request" where
  "add_content_type contentType r =
     map_sum id (\<lambda>req. req\<lparr>cr_Header := header_Add (cr_Header req) ''Content-Type'' contentType\<rparr>) r"

definition NewPostAuthLoginRequestWithBody ::
  "client_lib \<Rightarrow> bytes \<Rightarrow> bytes \<Rightarrow> bytes option \<Rightarrow> client_error + 'c client_request" where
  "NewPostAuthLoginRequestWithBody L server contentType body =
     add_content_type contentType (operation_request (urls L) server ''POST'' ''/auth/login'' body)"

definition NewPostAuthLoginRequest ::
  "client_lib \<Rightarrow> bytes \<Rightarrow> LoginRequest \<Rightarrow> client_error + 'c client_request" where
  "NewPostAuthLoginRequest L server body =
     NewPostAuthLoginRequestWithBody L server ''application/json'' (Some (marshal_LoginRequest body))"

definition NewGetHealthRequest :: "client_lib \<Rightarrow> bytes \<Rightarrow> client_error + 'c client_request" where
  "NewGetHealthRequest L server =
     operation_request (urls L) server ''GET'' ''/health'' None"

definition NewGetSatellitesRequest :: "client_lib \<Rightarrow> bytes \<Rightarrow> client_error + 'c client_request" where
  "NewGetSatellitesRequest L server =
     operation_request (urls L) server ''GET'' ''/satellites'' None"

definition NewPostSatellitesRequestWithBody ::
  "client_lib \<Rightarrow> bytes \<Rightarrow> bytes \<Rightarrow> bytes option \<Rightarrow> client_error + 'c client_request" where
  "NewPostSatellitesRequestWithBody L server contentType body =
     add_content_type contentType (operation_request (urls L) server ''POST'' ''/satellites'' body)"

definition NewPostSatellitesRequest ::
  "client_lib \<Rightarrow> bytes \<Rightarrow> CreateSatelliteRequest \<Rightarrow> client_error + 'c client_request" where
  "NewPostSatellitesRequest L server body =
     NewPostSatellitesRequestWithBody L server ''application/json'' (Some (marshal_CreateSatelliteRequest body))"

definition NewDeleteSatellitesIdRequest :: "client_lib \<Rightarrow> bytes \<Rightarrow> uuid \<Rightarrow> client_error + 'c client_request" where
  "NewDeleteSatellitesIdRequest L server i =
     with_path_param L i (\<lambda>pathParam0. operation_request (urls L) server ''DELETE'' (''/satellites/'' @ pathParam0) None)"

definition NewGetSatellitesIdRequest :: "client_lib \<Rightarrow> bytes \<Rightarrow> uuid \<Rightarrow> client_error + 'c client_request" where
  "NewGetSatellitesIdRequest L server i =
     with_path_param L i (\<lambda>pathParam0. operation_request (urls L) server ''GET'' (''/satellites/'' @ pathParam0) None)"

definition NewPatchSatellitesIdRequestWithBody ::
  "client_lib \<Rightarrow> bytes \<Rightarrow> uuid \<Rightarrow> bytes \<Rightarrow> bytes option \<Rightarrow> client_error + 'c client_request" where
  "NewPatchSatellitesIdRequestWithBody L server i contentType body =
     with_path_param L i (\<lambda>pathParam0.
       add_content_type contentType (operation_request (urls L) server ''PATCH'' (''/satellites/'' @ pathParam0) body))"

definition NewPatchSatellitesIdRequest ::
  "client_lib \<Rightarrow> bytes \<Rightarrow> uuid \<Rightarrow> UpdateSatelliteRequest \<Rightarrow> client_error + 'c client_request" where
  "NewPatchSatellitesIdRequest L server i body =
     NewPatchSatellitesIdRequestWithBody L server i ''application/json'' (Some (marshal_UpdateSatelliteRequest body))"

definition NewPostSatellitesIdHeartbeatRequest :: "client_lib \<Rightarrow> bytes \<Rightarrow> uuid \<Rightarrow> client_error + 'c client_request" where
  "NewPostSatellitesIdHeartbeatRequest L server i =
     with_path_param L i (\<lambda>pathParam0. operation_request (urls L) server ''POST'' (''/satellites/'' @ pathParam0 @ ''/heartbeat'') None)"

definition NewGetUsersRequest :: "client_lib \<Rightarrow> bytes \<Rightarrow> client_error + 'c client_request" where
  "NewGetUsersRequest L server =
     operation_request (urls L) server ''GET'' ''/users'' None"

definition NewPostUsersRequestWithBody ::
  "client_lib \<Rightarrow> bytes \<Rightarrow> bytes \<Rightarrow> bytes option \<Rightarrow> client_error + 'c client_request" where
  "NewPostUsersRequestWithBody L server contentType body =
     add_content_type contentType (operation_request (urls L) server ''POST'' ''/users'' body)"

definition NewPostUsersRequest ::
  "client_lib \<Rightarrow> bytes \<Rightarrow> CreateUserRequest \<Rightarrow> client_error + 'c client_request" where
  "NewPostUsersRequest L server body =
     NewPostUsersRequestWithBody L server ''application/json'' (Some (marshal_CreateUserRequest body))"

definition NewDeleteUsersIdRequest :: "client_lib \<Rightarrow> bytes \<Rightarrow> uuid \<Rightarrow> client_error + 'c client_request" where
  "NewDeleteUsersIdRequest L server i =
     with_path_param L i (\<lambda>pathParam0. operation_request (urls L) server ''DELETE'' (''/users/'' @ pathParam0) None)"

definition NewGetVersionRequest :: "client_lib \<Rightarrow> bytes \<Rightarrow> client_error + 'c client_request" where
  "NewGetVersionRequest L server =
     operation_request (urls L) server ''GET'' ''/version'' None"

section \<open>Operations\<close>

text \<open>\<open>applyEditors\<close>: the client's editors, then those of the call; the first error ends it.\<close>

fun run_editors :: "'c editor list \<Rightarrow> 'c \<Rightarrow> 'c client_request \<Rightarrow> client_error + 'c client_request" where
  "run_editors [] ctx req = Inr req"
| "run_editors (r # rs) ctx req = (case r ctx req of Inl e \<Rightarrow> Inl e | Inr req' \<Rightarrow> run_editors rs ctx req')"

definition applyEditors ::
  "('c, 's) Client \<Rightarrow> 'c \<Rightarrow> 'c client_request \<Rightarrow> 'c editor list \<Rightarrow> client_error + 'c client_request" where
  "applyEditors c ctx req additionalEditors =
     (case run_editors (cl_RequestEditors c) ctx req of
        Inl e \<Rightarrow> Inl e
      | Inr req' \<Rightarrow> run_editors additionalEditors ctx req')"

definition do_request ::
  "('c, 's) Client \<Rightarrow> 'c \<Rightarrow> 'c editor list \<Rightarrow> client_error + 'c client_request \<Rightarrow> 's call" where
  "do_request c ctx reqEditors built s =
     (case built of Inl e \<Rightarrow> (Inl e, s) | Inr req \<Rightarrow>
      case applyEditors c ctx (req\<lparr>cr_ctx := Some ctx\<rparr>) reqEditors of Inl e \<Rightarrow> (Inl e, s) | Inr req' \<Rightarrow>
      case cl_Client c of None \<Rightarrow> (Inl NilDoer, s) | Some doer \<Rightarrow> doer req' s)"

definition Client_PostAuthLoginWithBody ::
  "client_lib \<Rightarrow> ('c, 's) Client \<Rightarrow> 'c \<Rightarrow> bytes \<Rightarrow> bytes option \<Rightarrow> 'c editor list \<Rightarrow> 's call" where
  "Client_PostAuthLoginWithBody L c ctx contentType body reqEditors = do_request c ctx reqEditors (NewPostAuthLoginRequestWithBody L (cl_Server c) contentType body)"

definition Client_PostAuthLogin ::
  "client_lib \<Rightarrow> ('c, 's) Client \<Rightarrow> 'c \<Rightarrow> LoginRequest \<Rightarrow> 'c editor list \<Rightarrow> 's call" where
  "Client_PostAuthLogin L c ctx body reqEditors = do_request c ctx reqEditors (NewPostAuthLoginRequest L (cl_Server c) body)"

definition Client_GetHealth ::
  "client_lib \<Rightarrow> ('c, 's) Client \<Rightarrow> 'c \<Rightarrow> 'c editor list \<Rightarrow> 's call" where
  "Client_GetHealth L c ctx reqEditors = do_request c ctx reqEditors (NewGetHealthRequest L (cl_Server c))"

definition Client_GetSatellites ::
  "client_lib \<Rightarrow> ('c, 's) Client \<Rightarrow> 'c \<Rightarrow> 'c editor list \<Rightarrow> 's call" where
  "Client_GetSatellites L c ctx reqEditors = do_request c ctx reqEditors (NewGetSatellitesRequest L (cl_Server c))"

definition Client_PostSatellitesWithBody ::
  "client_lib \<Rightarrow> ('c, 's) Client \<Rightarrow> 'c \<Rightarrow> bytes \<Rightarrow> bytes option \<Rightarrow> 'c editor list \<Rightarrow> 's call" where
  "Client_PostSatellitesWithBody L c ctx contentType body reqEditors = do_request c ctx reqEditors (NewPostSatellitesRequestWithBody L (cl_Server c) contentType body)"

definition Client_PostSatellites ::
  "client_lib \<Rightarrow> ('c, 's) Client \<Rightarrow> 'c \<Rightarrow> CreateSatelliteRequest \<Rightarrow> 'c editor list \<Rightarrow> 's call" where
  "Client_PostSatellites L c ctx body reqEditors = do_request c ctx reqEditors (NewPostSatellitesRequest L (cl_Server c) body)"

definition Client_DeleteSatellitesId ::
  "client_lib \<Rightarrow> ('c, 's) Client \<Rightarrow> 'c \<Rightarrow> uuid \<Rightarrow> 'c editor list \<Rightarrow> 's call" where
  "Client_DeleteSatellitesId L c ctx i reqEditors = do_request c ctx reqEditors (NewDeleteSatellitesIdRequest L (cl_Server c) i)"

definition Client_GetSatellitesId ::
  "client_lib \<Rightarrow> ('c, 's) Client \<Rightarrow> 'c \<Rightarrow> uuid \<Rightarrow> 'c editor list \<Rightarrow> 's call" where
  "Client_GetSatellitesId L c ctx i reqEditors = do_request c ctx reqEditors (NewGetSatellitesIdRequest L (cl_Server c) i)"

definition Client_PatchSatellitesIdWithBody ::
  "client_lib \<Rightarrow> ('c, 's) Client \<Rightarrow> 'c \<Rightarrow> uuid \<Rightarrow> bytes \<Rightarrow> bytes option \<Rightarrow> 'c editor list \<Rightarrow> 's call" where
  "Client_PatchSatellitesIdWithBody L c ctx i contentType body reqEditors = do_request c ctx reqEditors (NewPatchSatellitesIdRequestWithBody L (cl_Server c) i contentType body)"

definition Client_PatchSatellitesId ::
  "client_lib \<Rightarrow> ('c, 's) Client \<Rightarrow> 'c \<Rightarrow> uuid \<Rightarrow> UpdateSatelliteRequest \<Rightarrow> 'c editor list \<Rightarrow> 's call" where
  "Client_PatchSatellitesId L c ctx i body reqEditors = do_request c ctx reqEditors (NewPatchSatellitesIdRequest L (cl_Server c) i body)"

definition Client_PostSatellitesIdHeartbeat ::
  "client_lib \<Rightarrow> ('c, 's) Client \<Rightarrow> 'c \<Rightarrow> uuid \<Rightarrow> 'c editor list \<Rightarrow> 's call" where
  "Client_PostSatellitesIdHeartbeat L c ctx i reqEditors = do_request c ctx reqEditors (NewPostSatellitesIdHeartbeatRequest L (cl_Server c) i)"

definition Client_GetUsers ::
  "client_lib \<Rightarrow> ('c, 's) Client \<Rightarrow> 'c \<Rightarrow> 'c editor list \<Rightarrow> 's call" where
  "Client_GetUsers L c ctx reqEditors = do_request c ctx reqEditors (NewGetUsersRequest L (cl_Server c))"

definition Client_PostUsersWithBody ::
  "client_lib \<Rightarrow> ('c, 's) Client \<Rightarrow> 'c \<Rightarrow> bytes \<Rightarrow> bytes option \<Rightarrow> 'c editor list \<Rightarrow> 's call" where
  "Client_PostUsersWithBody L c ctx contentType body reqEditors = do_request c ctx reqEditors (NewPostUsersRequestWithBody L (cl_Server c) contentType body)"

definition Client_PostUsers ::
  "client_lib \<Rightarrow> ('c, 's) Client \<Rightarrow> 'c \<Rightarrow> CreateUserRequest \<Rightarrow> 'c editor list \<Rightarrow> 's call" where
  "Client_PostUsers L c ctx body reqEditors = do_request c ctx reqEditors (NewPostUsersRequest L (cl_Server c) body)"

definition Client_DeleteUsersId ::
  "client_lib \<Rightarrow> ('c, 's) Client \<Rightarrow> 'c \<Rightarrow> uuid \<Rightarrow> 'c editor list \<Rightarrow> 's call" where
  "Client_DeleteUsersId L c ctx i reqEditors = do_request c ctx reqEditors (NewDeleteUsersIdRequest L (cl_Server c) i)"

definition Client_GetVersion ::
  "client_lib \<Rightarrow> ('c, 's) Client \<Rightarrow> 'c \<Rightarrow> 'c editor list \<Rightarrow> 's call" where
  "Client_GetVersion L c ctx reqEditors = do_request c ctx reqEditors (NewGetVersionRequest L (cl_Server c))"

record ('c, 's) ClientInterface =
  ci_PostAuthLoginWithBody :: "'c \<Rightarrow> bytes \<Rightarrow> bytes option \<Rightarrow> 'c editor list \<Rightarrow> 's call"
  ci_PostAuthLogin :: "'c \<Rightarrow> LoginRequest \<Rightarrow> 'c editor list \<Rightarrow> 's call"
  ci_GetHealth :: "'c \<Rightarrow> 'c editor list \<Rightarrow> 's call"
  ci_GetSatellites :: "'c \<Rightarrow> 'c editor list \<Rightarrow> 's call"
  ci_PostSatellitesWithBody :: "'c \<Rightarrow> bytes \<Rightarrow> bytes option \<Rightarrow> 'c editor list \<Rightarrow> 's call"
  ci_PostSatellites :: "'c \<Rightarrow> CreateSatelliteRequest \<Rightarrow> 'c editor list \<Rightarrow> 's call"
  ci_DeleteSatellitesId :: "'c \<Rightarrow> uuid \<Rightarrow> 'c editor list \<Rightarrow> 's call"
  ci_GetSatellitesId :: "'c \<Rightarrow> uuid \<Rightarrow> 'c editor list \<Rightarrow> 's call"
  ci_PatchSatellitesIdWithBody :: "'c \<Rightarrow> uuid \<Rightarrow> bytes \<Rightarrow> bytes option \<Rightarrow> 'c editor list \<Rightarrow> 's call"
  ci_PatchSatellitesId :: "'c \<Rightarrow> uuid \<Rightarrow> UpdateSatelliteRequest \<Rightarrow> 'c editor list \<Rightarrow> 's call"
  ci_PostSatellitesIdHeartbeat :: "'c \<Rightarrow> uuid \<Rightarrow> 'c editor list \<Rightarrow> 's call"
  ci_GetUsers :: "'c \<Rightarrow> 'c editor list \<Rightarrow> 's call"
  ci_PostUsersWithBody :: "'c \<Rightarrow> bytes \<Rightarrow> bytes option \<Rightarrow> 'c editor list \<Rightarrow> 's call"
  ci_PostUsers :: "'c \<Rightarrow> CreateUserRequest \<Rightarrow> 'c editor list \<Rightarrow> 's call"
  ci_DeleteUsersId :: "'c \<Rightarrow> uuid \<Rightarrow> 'c editor list \<Rightarrow> 's call"
  ci_GetVersion :: "'c \<Rightarrow> 'c editor list \<Rightarrow> 's call"

text \<open>The methods of \<open>Client\<close> as the interface that \<open>ClientWithResponses\<close> embeds.\<close>

definition Client_methods :: "client_lib \<Rightarrow> ('c, 's) Client \<Rightarrow> ('c, 's) ClientInterface" where
  "Client_methods L c =
     \<lparr>ci_PostAuthLoginWithBody = Client_PostAuthLoginWithBody L c,
      ci_PostAuthLogin = Client_PostAuthLogin L c,
      ci_GetHealth = Client_GetHealth L c,
      ci_GetSatellites = Client_GetSatellites L c,
      ci_PostSatellitesWithBody = Client_PostSatellitesWithBody L c,
      ci_PostSatellites = Client_PostSatellites L c,
      ci_DeleteSatellitesId = Client_DeleteSatellitesId L c,
      ci_GetSatellitesId = Client_GetSatellitesId L c,
      ci_PatchSatellitesIdWithBody = Client_PatchSatellitesIdWithBody L c,
      ci_PatchSatellitesId = Client_PatchSatellitesId L c,
      ci_PostSatellitesIdHeartbeat = Client_PostSatellitesIdHeartbeat L c,
      ci_GetUsers = Client_GetUsers L c,
      ci_PostUsersWithBody = Client_PostUsersWithBody L c,
      ci_PostUsers = Client_PostUsers L c,
      ci_DeleteUsersId = Client_DeleteUsersId L c,
      ci_GetVersion = Client_GetVersion L c\<rparr>"

record ('c, 's) ClientWithResponses =
  cwr_ClientInterface :: "('c, 's) ClientInterface"

definition NewClientWithResponses ::
  "client_lib \<Rightarrow> ('c, 's) doer \<Rightarrow> bytes \<Rightarrow> ('c, 's) ClientOption list \<Rightarrow> client_error + ('c, 's) ClientWithResponses" where
  "NewClientWithResponses L default_client server opts =
     map_sum id (\<lambda>client. \<lparr>cwr_ClientInterface = Client_methods L client\<rparr>) (NewClient default_client server opts)"

section \<open>Response structs\<close>

record PostAuthLoginResponse =
  pal_Body :: bytes
  pal_HTTPResponse :: "http_response option"
  pal_JSON200 :: "LoginResponse option"
  pal_JSON401 :: "ErrorResponse option"

record GetHealthResponse =
  gh_Body :: bytes
  gh_HTTPResponse :: "http_response option"
  gh_JSON200 :: "HealthResponse option"
  gh_JSON503 :: "HealthResponse option"

record GetSatellitesResponse =
  gss_Body :: bytes
  gss_HTTPResponse :: "http_response option"
  gss_JSON200 :: "(go_time gen_Satellite list option) option"
  gss_JSON401 :: "ErrorResponse option"

record PostSatellitesResponse =
  ps_Body :: bytes
  ps_HTTPResponse :: "http_response option"
  ps_JSON201 :: "(go_time gen_Satellite) option"
  ps_JSON401 :: "ErrorResponse option"

record DeleteSatellitesIdResponse =
  dsi_Body :: bytes
  dsi_HTTPResponse :: "http_response option"
  dsi_JSON403 :: "ErrorResponse option"
  dsi_JSON404 :: "ErrorResponse option"

record GetSatellitesIdResponse =
  gsi_Body :: bytes
  gsi_HTTPResponse :: "http_response option"
  gsi_JSON200 :: "(go_time gen_Satellite) option"
  gsi_JSON401 :: "ErrorResponse option"
  gsi_JSON404 :: "ErrorResponse option"

record PatchSatellitesIdResponse =
  psi_Body :: bytes
  psi_HTTPResponse :: "http_response option"
  psi_JSON200 :: "(go_time gen_Satellite) option"
  psi_JSON403 :: "ErrorResponse option"
  psi_JSON404 :: "ErrorResponse option"

record PostSatellitesIdHeartbeatResponse =
  pshb_Body :: bytes
  pshb_HTTPResponse :: "http_response option"
  pshb_JSON200 :: "(go_time gen_Satellite) option"
  pshb_JSON404 :: "ErrorResponse option"

record GetUsersResponse =
  gus_Body :: bytes
  gus_HTTPResponse :: "http_response option"
  gus_JSON200 :: "(go_time gen_User list option) option"
  gus_JSON403 :: "ErrorResponse option"

record PostUsersResponse =
  pu_Body :: bytes
  pu_HTTPResponse :: "http_response option"
  pu_JSON201 :: "(go_time gen_User) option"
  pu_JSON403 :: "ErrorResponse option"

record DeleteUsersIdResponse =
  dui_Body :: bytes
  dui_HTTPResponse :: "http_response option"
  dui_JSON403 :: "ErrorResponse option"
  dui_JSON404 :: "ErrorResponse option"

record GetVersionResponse =
  gv_Body :: bytes
  gv_HTTPResponse :: "http_response option"
  gv_JSON200 :: "VersionResponse option"

text \<open>\<open>Status\<close> and \<open>StatusCode\<close>; \<open>http.StatusText(0)\<close> is empty.\<close>

definition response_Status :: "http_response option \<Rightarrow> bytes" where
  "response_Status r = (case r of Some rsp \<Rightarrow> rsp_Status rsp | None \<Rightarrow> [])"

definition response_StatusCode :: "http_response option \<Rightarrow> int" where
  "response_StatusCode r = (case r of Some rsp \<Rightarrow> rsp_StatusCode rsp | None \<Rightarrow> 0)"

definition PostAuthLoginResponse_Status :: "PostAuthLoginResponse \<Rightarrow> bytes" where
  "PostAuthLoginResponse_Status r = response_Status (pal_HTTPResponse r)"

definition PostAuthLoginResponse_StatusCode :: "PostAuthLoginResponse \<Rightarrow> int" where
  "PostAuthLoginResponse_StatusCode r = response_StatusCode (pal_HTTPResponse r)"

definition GetHealthResponse_Status :: "GetHealthResponse \<Rightarrow> bytes" where
  "GetHealthResponse_Status r = response_Status (gh_HTTPResponse r)"

definition GetHealthResponse_StatusCode :: "GetHealthResponse \<Rightarrow> int" where
  "GetHealthResponse_StatusCode r = response_StatusCode (gh_HTTPResponse r)"

definition GetSatellitesResponse_Status :: "GetSatellitesResponse \<Rightarrow> bytes" where
  "GetSatellitesResponse_Status r = response_Status (gss_HTTPResponse r)"

definition GetSatellitesResponse_StatusCode :: "GetSatellitesResponse \<Rightarrow> int" where
  "GetSatellitesResponse_StatusCode r = response_StatusCode (gss_HTTPResponse r)"

definition PostSatellitesResponse_Status :: "PostSatellitesResponse \<Rightarrow> bytes" where
  "PostSatellitesResponse_Status r = response_Status (ps_HTTPResponse r)"

definition PostSatellitesResponse_StatusCode :: "PostSatellitesResponse \<Rightarrow> int" where
  "PostSatellitesResponse_StatusCode r = response_StatusCode (ps_HTTPResponse r)"

definition DeleteSatellitesIdResponse_Status :: "DeleteSatellitesIdResponse \<Rightarrow> bytes" where
  "DeleteSatellitesIdResponse_Status r = response_Status (dsi_HTTPResponse r)"

definition DeleteSatellitesIdResponse_StatusCode :: "DeleteSatellitesIdResponse \<Rightarrow> int" where
  "DeleteSatellitesIdResponse_StatusCode r = response_StatusCode (dsi_HTTPResponse r)"

definition GetSatellitesIdResponse_Status :: "GetSatellitesIdResponse \<Rightarrow> bytes" where
  "GetSatellitesIdResponse_Status r = response_Status (gsi_HTTPResponse r)"

definition GetSatellitesIdResponse_StatusCode :: "GetSatellitesIdResponse \<Rightarrow> int" where
  "GetSatellitesIdResponse_StatusCode r = response_StatusCode (gsi_HTTPResponse r)"

definition PatchSatellitesIdResponse_Status :: "PatchSatellitesIdResponse \<Rightarrow> bytes" where
  "PatchSatellitesIdResponse_Status r = response_Status (psi_HTTPResponse r)"

definition PatchSatellitesIdResponse_StatusCode :: "PatchSatellitesIdResponse \<Rightarrow> int" where
  "PatchSatellitesIdResponse_StatusCode r = response_StatusCode (psi_HTTPResponse r)"

definition PostSatellitesIdHeartbeatResponse_Status :: "PostSatellitesIdHeartbeatResponse \<Rightarrow> bytes" where
  "PostSatellitesIdHeartbeatResponse_Status r = response_Status (pshb_HTTPResponse r)"

definition PostSatellitesIdHeartbeatResponse_StatusCode :: "PostSatellitesIdHeartbeatResponse \<Rightarrow> int" where
  "PostSatellitesIdHeartbeatResponse_StatusCode r = response_StatusCode (pshb_HTTPResponse r)"

definition GetUsersResponse_Status :: "GetUsersResponse \<Rightarrow> bytes" where
  "GetUsersResponse_Status r = response_Status (gus_HTTPResponse r)"

definition GetUsersResponse_StatusCode :: "GetUsersResponse \<Rightarrow> int" where
  "GetUsersResponse_StatusCode r = response_StatusCode (gus_HTTPResponse r)"

definition PostUsersResponse_Status :: "PostUsersResponse \<Rightarrow> bytes" where
  "PostUsersResponse_Status r = response_Status (pu_HTTPResponse r)"

definition PostUsersResponse_StatusCode :: "PostUsersResponse \<Rightarrow> int" where
  "PostUsersResponse_StatusCode r = response_StatusCode (pu_HTTPResponse r)"

definition DeleteUsersIdResponse_Status :: "DeleteUsersIdResponse \<Rightarrow> bytes" where
  "DeleteUsersIdResponse_Status r = response_Status (dui_HTTPResponse r)"

definition DeleteUsersIdResponse_StatusCode :: "DeleteUsersIdResponse \<Rightarrow> int" where
  "DeleteUsersIdResponse_StatusCode r = response_StatusCode (dui_HTTPResponse r)"

definition GetVersionResponse_Status :: "GetVersionResponse \<Rightarrow> bytes" where
  "GetVersionResponse_Status r = response_Status (gv_HTTPResponse r)"

definition GetVersionResponse_StatusCode :: "GetVersionResponse \<Rightarrow> int" where
  "GetVersionResponse_StatusCode r = response_StatusCode (gv_HTTPResponse r)"

section \<open>Parsing responses\<close>

fun Contains :: "bytes \<Rightarrow> bytes \<Rightarrow> bool" where
  "Contains [] sub \<longleftrightarrow> sub = []"
| "Contains (c # s) sub \<longleftrightarrow> HasPrefix (c # s) sub \<or> Contains s sub"

definition is_json :: "http_response \<Rightarrow> bool" where
  "is_json rsp \<longleftrightarrow> Contains (header_Get (rsp_Header rsp) ''Content-Type'') ''json''"

text \<open>\<open>json.Unmarshal\<close> into a fresh destination, stored in the response struct.\<close>

definition fill :: "(json \<Rightarrow> 'd option) \<Rightarrow> bytes \<Rightarrow> ('d \<Rightarrow> 'r) \<Rightarrow> client_error + 'r" where
  "fill dec body store = (case Unmarshal dec body of None \<Rightarrow> Inl UnmarshalError | Some dest \<Rightarrow> Inr (store dest))"

definition ParsePostAuthLoginResponse :: "http_response \<Rightarrow> client_error + PostAuthLoginResponse" where
  "ParsePostAuthLoginResponse rsp =
     (case rsp_Body rsp of Inl e \<Rightarrow> Inl e | Inr bodyBytes \<Rightarrow>
      let response = \<lparr>pal_Body = bodyBytes, pal_HTTPResponse = Some rsp, pal_JSON200 = None, pal_JSON401 = None\<rparr> in
      if is_json rsp \<and> rsp_StatusCode rsp = 200
      then fill dec_LoginResponse bodyBytes (\<lambda>dest. response\<lparr>pal_JSON200 := Some dest\<rparr>)
      else
      if is_json rsp \<and> rsp_StatusCode rsp = 401
      then fill dec_ErrorResponse bodyBytes (\<lambda>dest. response\<lparr>pal_JSON401 := Some dest\<rparr>)
      else Inr response)"

definition ParseGetHealthResponse :: "http_response \<Rightarrow> client_error + GetHealthResponse" where
  "ParseGetHealthResponse rsp =
     (case rsp_Body rsp of Inl e \<Rightarrow> Inl e | Inr bodyBytes \<Rightarrow>
      let response = \<lparr>gh_Body = bodyBytes, gh_HTTPResponse = Some rsp, gh_JSON200 = None, gh_JSON503 = None\<rparr> in
      if is_json rsp \<and> rsp_StatusCode rsp = 200
      then fill dec_HealthResponse bodyBytes (\<lambda>dest. response\<lparr>gh_JSON200 := Some dest\<rparr>)
      else
      if is_json rsp \<and> rsp_StatusCode rsp = 503
      then fill dec_HealthResponse bodyBytes (\<lambda>dest. response\<lparr>gh_JSON503 := Some dest\<rparr>)
      else Inr response)"

definition ParseGetSatellitesResponse :: "client_lib \<Rightarrow> http_response \<Rightarrow> client_error + GetSatellitesResponse" where
  "ParseGetSatellitesResponse L rsp =
     (case rsp_Body rsp of Inl e \<Rightarrow> Inl e | Inr bodyBytes \<Rightarrow>
      let response = \<lparr>gss_Body = bodyBytes, gss_HTTPResponse = Some rsp, gss_JSON200 = None, gss_JSON401 = None\<rparr> in
      if is_json rsp \<and> rsp_StatusCode rsp = 200
      then fill (dec_slice (dec_Satellite (read_uuid L))) bodyBytes (\<lambda>dest. response\<lparr>gss_JSON200 := Some dest\<rparr>)
      else
      if is_json rsp \<and> rsp_StatusCode rsp = 401
      then fill dec_ErrorResponse bodyBytes (\<lambda>dest. response\<lparr>gss_JSON401 := Some dest\<rparr>)
      else Inr response)"

definition ParsePostSatellitesResponse :: "client_lib \<Rightarrow> http_response \<Rightarrow> client_error + PostSatellitesResponse" where
  "ParsePostSatellitesResponse L rsp =
     (case rsp_Body rsp of Inl e \<Rightarrow> Inl e | Inr bodyBytes \<Rightarrow>
      let response = \<lparr>ps_Body = bodyBytes, ps_HTTPResponse = Some rsp, ps_JSON201 = None, ps_JSON401 = None\<rparr> in
      if is_json rsp \<and> rsp_StatusCode rsp = 201
      then fill (dec_Satellite (read_uuid L)) bodyBytes (\<lambda>dest. response\<lparr>ps_JSON201 := Some dest\<rparr>)
      else
      if is_json rsp \<and> rsp_StatusCode rsp = 401
      then fill dec_ErrorResponse bodyBytes (\<lambda>dest. response\<lparr>ps_JSON401 := Some dest\<rparr>)
      else Inr response)"

definition ParseDeleteSatellitesIdResponse :: "http_response \<Rightarrow> client_error + DeleteSatellitesIdResponse" where
  "ParseDeleteSatellitesIdResponse rsp =
     (case rsp_Body rsp of Inl e \<Rightarrow> Inl e | Inr bodyBytes \<Rightarrow>
      let response = \<lparr>dsi_Body = bodyBytes, dsi_HTTPResponse = Some rsp, dsi_JSON403 = None, dsi_JSON404 = None\<rparr> in
      if is_json rsp \<and> rsp_StatusCode rsp = 403
      then fill dec_ErrorResponse bodyBytes (\<lambda>dest. response\<lparr>dsi_JSON403 := Some dest\<rparr>)
      else
      if is_json rsp \<and> rsp_StatusCode rsp = 404
      then fill dec_ErrorResponse bodyBytes (\<lambda>dest. response\<lparr>dsi_JSON404 := Some dest\<rparr>)
      else Inr response)"

definition ParseGetSatellitesIdResponse :: "client_lib \<Rightarrow> http_response \<Rightarrow> client_error + GetSatellitesIdResponse" where
  "ParseGetSatellitesIdResponse L rsp =
     (case rsp_Body rsp of Inl e \<Rightarrow> Inl e | Inr bodyBytes \<Rightarrow>
      let response = \<lparr>gsi_Body = bodyBytes, gsi_HTTPResponse = Some rsp, gsi_JSON200 = None, gsi_JSON401 = None, gsi_JSON404 = None\<rparr> in
      if is_json rsp \<and> rsp_StatusCode rsp = 200
      then fill (dec_Satellite (read_uuid L)) bodyBytes (\<lambda>dest. response\<lparr>gsi_JSON200 := Some dest\<rparr>)
      else
      if is_json rsp \<and> rsp_StatusCode rsp = 401
      then fill dec_ErrorResponse bodyBytes (\<lambda>dest. response\<lparr>gsi_JSON401 := Some dest\<rparr>)
      else
      if is_json rsp \<and> rsp_StatusCode rsp = 404
      then fill dec_ErrorResponse bodyBytes (\<lambda>dest. response\<lparr>gsi_JSON404 := Some dest\<rparr>)
      else Inr response)"

definition ParsePatchSatellitesIdResponse :: "client_lib \<Rightarrow> http_response \<Rightarrow> client_error + PatchSatellitesIdResponse" where
  "ParsePatchSatellitesIdResponse L rsp =
     (case rsp_Body rsp of Inl e \<Rightarrow> Inl e | Inr bodyBytes \<Rightarrow>
      let response = \<lparr>psi_Body = bodyBytes, psi_HTTPResponse = Some rsp, psi_JSON200 = None, psi_JSON403 = None, psi_JSON404 = None\<rparr> in
      if is_json rsp \<and> rsp_StatusCode rsp = 200
      then fill (dec_Satellite (read_uuid L)) bodyBytes (\<lambda>dest. response\<lparr>psi_JSON200 := Some dest\<rparr>)
      else
      if is_json rsp \<and> rsp_StatusCode rsp = 403
      then fill dec_ErrorResponse bodyBytes (\<lambda>dest. response\<lparr>psi_JSON403 := Some dest\<rparr>)
      else
      if is_json rsp \<and> rsp_StatusCode rsp = 404
      then fill dec_ErrorResponse bodyBytes (\<lambda>dest. response\<lparr>psi_JSON404 := Some dest\<rparr>)
      else Inr response)"

definition ParsePostSatellitesIdHeartbeatResponse :: "client_lib \<Rightarrow> http_response \<Rightarrow> client_error + PostSatellitesIdHeartbeatResponse" where
  "ParsePostSatellitesIdHeartbeatResponse L rsp =
     (case rsp_Body rsp of Inl e \<Rightarrow> Inl e | Inr bodyBytes \<Rightarrow>
      let response = \<lparr>pshb_Body = bodyBytes, pshb_HTTPResponse = Some rsp, pshb_JSON200 = None, pshb_JSON404 = None\<rparr> in
      if is_json rsp \<and> rsp_StatusCode rsp = 200
      then fill (dec_Satellite (read_uuid L)) bodyBytes (\<lambda>dest. response\<lparr>pshb_JSON200 := Some dest\<rparr>)
      else
      if is_json rsp \<and> rsp_StatusCode rsp = 404
      then fill dec_ErrorResponse bodyBytes (\<lambda>dest. response\<lparr>pshb_JSON404 := Some dest\<rparr>)
      else Inr response)"

definition ParseGetUsersResponse :: "client_lib \<Rightarrow> http_response \<Rightarrow> client_error + GetUsersResponse" where
  "ParseGetUsersResponse L rsp =
     (case rsp_Body rsp of Inl e \<Rightarrow> Inl e | Inr bodyBytes \<Rightarrow>
      let response = \<lparr>gus_Body = bodyBytes, gus_HTTPResponse = Some rsp, gus_JSON200 = None, gus_JSON403 = None\<rparr> in
      if is_json rsp \<and> rsp_StatusCode rsp = 200
      then fill (dec_slice (dec_User (read_uuid L))) bodyBytes (\<lambda>dest. response\<lparr>gus_JSON200 := Some dest\<rparr>)
      else
      if is_json rsp \<and> rsp_StatusCode rsp = 403
      then fill dec_ErrorResponse bodyBytes (\<lambda>dest. response\<lparr>gus_JSON403 := Some dest\<rparr>)
      else Inr response)"

definition ParsePostUsersResponse :: "client_lib \<Rightarrow> http_response \<Rightarrow> client_error + PostUsersResponse" where
  "ParsePostUsersResponse L rsp =
     (case rsp_Body rsp of Inl e \<Rightarrow> Inl e | Inr bodyBytes \<Rightarrow>
      let response = \<lparr>pu_Body = bodyBytes, pu_HTTPResponse = Some rsp, pu_JSON201 = None, pu_JSON403 = None\<rparr> in
      if is_json rsp \<and> rsp_StatusCode rsp = 201
      then fill (dec_User (read_uuid L)) bodyBytes (\<lambda>dest. response\<lparr>pu_JSON201 := Some dest\<rparr>)
      else
      if is_json rsp \<and> rsp_StatusCode rsp = 403
      then fill dec_ErrorResponse bodyBytes (\<lambda>dest. response\<lparr>pu_JSON403 := Some dest\<rparr>)
      else Inr response)"

definition ParseDeleteUsersIdResponse :: "http_response \<Rightarrow> client_error + DeleteUsersIdResponse" where
  "ParseDeleteUsersIdResponse rsp =
     (case rsp_Body rsp of Inl e \<Rightarrow> Inl e | Inr bodyBytes \<Rightarrow>
      let response = \<lparr>dui_Body = bodyBytes, dui_HTTPResponse = Some rsp, dui_JSON403 = None, dui_JSON404 = None\<rparr> in
      if is_json rsp \<and> rsp_StatusCode rsp = 403
      then fill dec_ErrorResponse bodyBytes (\<lambda>dest. response\<lparr>dui_JSON403 := Some dest\<rparr>)
      else
      if is_json rsp \<and> rsp_StatusCode rsp = 404
      then fill dec_ErrorResponse bodyBytes (\<lambda>dest. response\<lparr>dui_JSON404 := Some dest\<rparr>)
      else Inr response)"

definition ParseGetVersionResponse :: "http_response \<Rightarrow> client_error + GetVersionResponse" where
  "ParseGetVersionResponse rsp =
     (case rsp_Body rsp of Inl e \<Rightarrow> Inl e | Inr bodyBytes \<Rightarrow>
      let response = \<lparr>gv_Body = bodyBytes, gv_HTTPResponse = Some rsp, gv_JSON200 = None\<rparr> in
      if is_json rsp \<and> rsp_StatusCode rsp = 200
      then fill dec_VersionResponse bodyBytes (\<lambda>dest. response\<lparr>gv_JSON200 := Some dest\<rparr>)
      else Inr response)"

section \<open>Operations with parsed responses\<close>

definition then_parse :: "(http_response \<Rightarrow> client_error + 'r) \<Rightarrow> 's call \<Rightarrow> 's \<Rightarrow> (client_error + 'r) \<times> 's" where
  "then_parse parse call s =
     (case call s of (Inl e, s') \<Rightarrow> (Inl e, s') | (Inr rsp, s') \<Rightarrow> (parse rsp, s'))"

definition PostAuthLoginWithBodyWithResponse ::
  "('c, 's) ClientWithResponses \<Rightarrow> 'c \<Rightarrow> bytes \<Rightarrow> bytes option \<Rightarrow> 'c editor list \<Rightarrow> 's \<Rightarrow> (client_error + PostAuthLoginResponse) \<times> 's" where
  "PostAuthLoginWithBodyWithResponse c ctx contentType body reqEditors =
     then_parse ParsePostAuthLoginResponse (ci_PostAuthLoginWithBody (cwr_ClientInterface c) ctx contentType body reqEditors)"

definition PostAuthLoginWithResponse ::
  "('c, 's) ClientWithResponses \<Rightarrow> 'c \<Rightarrow> LoginRequest \<Rightarrow> 'c editor list \<Rightarrow> 's \<Rightarrow> (client_error + PostAuthLoginResponse) \<times> 's" where
  "PostAuthLoginWithResponse c ctx body reqEditors =
     then_parse ParsePostAuthLoginResponse (ci_PostAuthLogin (cwr_ClientInterface c) ctx body reqEditors)"

definition GetHealthWithResponse ::
  "('c, 's) ClientWithResponses \<Rightarrow> 'c \<Rightarrow> 'c editor list \<Rightarrow> 's \<Rightarrow> (client_error + GetHealthResponse) \<times> 's" where
  "GetHealthWithResponse c ctx reqEditors =
     then_parse ParseGetHealthResponse (ci_GetHealth (cwr_ClientInterface c) ctx reqEditors)"

definition GetSatellitesWithResponse ::
  "client_lib \<Rightarrow> ('c, 's) ClientWithResponses \<Rightarrow> 'c \<Rightarrow> 'c editor list \<Rightarrow> 's \<Rightarrow> (client_error + GetSatellitesResponse) \<times> 's" where
  "GetSatellitesWithResponse L c ctx reqEditors =
     then_parse (ParseGetSatellitesResponse L) (ci_GetSatellites (cwr_ClientInterface c) ctx reqEditors)"

definition PostSatellitesWithBodyWithResponse ::
  "client_lib \<Rightarrow> ('c, 's) ClientWithResponses \<Rightarrow> 'c \<Rightarrow> bytes \<Rightarrow> bytes option \<Rightarrow> 'c editor list \<Rightarrow> 's \<Rightarrow> (client_error + PostSatellitesResponse) \<times> 's" where
  "PostSatellitesWithBodyWithResponse L c ctx contentType body reqEditors =
     then_parse (ParsePostSatellitesResponse L) (ci_PostSatellitesWithBody (cwr_ClientInterface c) ctx contentType body reqEditors)"

definition PostSatellitesWithResponse ::
  "client_lib \<Rightarrow> ('c, 's) ClientWithResponses \<Rightarrow> 'c \<Rightarrow> CreateSatelliteRequest \<Rightarrow> 'c editor list \<Rightarrow> 's \<Rightarrow> (client_error + PostSatellitesResponse) \<times> 's" where
  "PostSatellitesWithResponse L c ctx body reqEditors =
     then_parse (ParsePostSatellitesResponse L) (ci_PostSatellites (cwr_ClientInterface c) ctx body reqEditors)"

definition DeleteSatellitesIdWithResponse ::
  "('c, 's) ClientWithResponses \<Rightarrow> 'c \<Rightarrow> uuid \<Rightarrow> 'c editor list \<Rightarrow> 's \<Rightarrow> (client_error + DeleteSatellitesIdResponse) \<times> 's" where
  "DeleteSatellitesIdWithResponse c ctx i reqEditors =
     then_parse ParseDeleteSatellitesIdResponse (ci_DeleteSatellitesId (cwr_ClientInterface c) ctx i reqEditors)"

definition GetSatellitesIdWithResponse ::
  "client_lib \<Rightarrow> ('c, 's) ClientWithResponses \<Rightarrow> 'c \<Rightarrow> uuid \<Rightarrow> 'c editor list \<Rightarrow> 's \<Rightarrow> (client_error + GetSatellitesIdResponse) \<times> 's" where
  "GetSatellitesIdWithResponse L c ctx i reqEditors =
     then_parse (ParseGetSatellitesIdResponse L) (ci_GetSatellitesId (cwr_ClientInterface c) ctx i reqEditors)"

definition PatchSatellitesIdWithBodyWithResponse ::
  "client_lib \<Rightarrow> ('c, 's) ClientWithResponses \<Rightarrow> 'c \<Rightarrow> uuid \<Rightarrow> bytes \<Rightarrow> bytes option \<Rightarrow> 'c editor list \<Rightarrow> 's \<Rightarrow> (client_error + PatchSatellitesIdResponse) \<times> 's" where
  "PatchSatellitesIdWithBodyWithResponse L c ctx i contentType body reqEditors =
     then_parse (ParsePatchSatellitesIdResponse L) (ci_PatchSatellitesIdWithBody (cwr_ClientInterface c) ctx i contentType body reqEditors)"

definition PatchSatellitesIdWithResponse ::
  "client_lib \<Rightarrow> ('c, 's) ClientWithResponses \<Rightarrow> 'c \<Rightarrow> uuid \<Rightarrow> UpdateSatelliteRequest \<Rightarrow> 'c editor list \<Rightarrow> 's \<Rightarrow> (client_error + PatchSatellitesIdResponse) \<times> 's" where
  "PatchSatellitesIdWithResponse L c ctx i body reqEditors =
     then_parse (ParsePatchSatellitesIdResponse L) (ci_PatchSatellitesId (cwr_ClientInterface c) ctx i body reqEditors)"

definition PostSatellitesIdHeartbeatWithResponse ::
  "client_lib \<Rightarrow> ('c, 's) ClientWithResponses \<Rightarrow> 'c \<Rightarrow> uuid \<Rightarrow> 'c editor list \<Rightarrow> 's \<Rightarrow> (client_error + PostSatellitesIdHeartbeatResponse) \<times> 's" where
  "PostSatellitesIdHeartbeatWithResponse L c ctx i reqEditors =
     then_parse (ParsePostSatellitesIdHeartbeatResponse L) (ci_PostSatellitesIdHeartbeat (cwr_ClientInterface c) ctx i reqEditors)"

definition GetUsersWithResponse ::
  "client_lib \<Rightarrow> ('c, 's) ClientWithResponses \<Rightarrow> 'c \<Rightarrow> 'c editor list \<Rightarrow> 's \<Rightarrow> (client_error + GetUsersResponse) \<times> 's" where
  "GetUsersWithResponse L c ctx reqEditors =
     then_parse (ParseGetUsersResponse L) (ci_GetUsers (cwr_ClientInterface c) ctx reqEditors)"

definition PostUsersWithBodyWithResponse ::
  "client_lib \<Rightarrow> ('c, 's) ClientWithResponses \<Rightarrow> 'c \<Rightarrow> bytes \<Rightarrow> bytes option \<Rightarrow> 'c editor list \<Rightarrow> 's \<Rightarrow> (client_error + PostUsersResponse) \<times> 's" where
  "PostUsersWithBodyWithResponse L c ctx contentType body reqEditors =
     then_parse (ParsePostUsersResponse L) (ci_PostUsersWithBody (cwr_ClientInterface c) ctx contentType body reqEditors)"

definition PostUsersWithResponse ::
  "client_lib \<Rightarrow> ('c, 's) ClientWithResponses \<Rightarrow> 'c \<Rightarrow> CreateUserRequest \<Rightarrow> 'c editor list \<Rightarrow> 's \<Rightarrow> (client_error + PostUsersResponse) \<times> 's" where
  "PostUsersWithResponse L c ctx body reqEditors =
     then_parse (ParsePostUsersResponse L) (ci_PostUsers (cwr_ClientInterface c) ctx body reqEditors)"

definition DeleteUsersIdWithResponse ::
  "('c, 's) ClientWithResponses \<Rightarrow> 'c \<Rightarrow> uuid \<Rightarrow> 'c editor list \<Rightarrow> 's \<Rightarrow> (client_error + DeleteUsersIdResponse) \<times> 's" where
  "DeleteUsersIdWithResponse c ctx i reqEditors =
     then_parse ParseDeleteUsersIdResponse (ci_DeleteUsersId (cwr_ClientInterface c) ctx i reqEditors)"

definition GetVersionWithResponse ::
  "('c, 's) ClientWithResponses \<Rightarrow> 'c \<Rightarrow> 'c editor list \<Rightarrow> 's \<Rightarrow> (client_error + GetVersionResponse) \<times> 's" where
  "GetVersionWithResponse c ctx reqEditors =
     then_parse ParseGetVersionResponse (ci_GetVersion (cwr_ClientInterface c) ctx reqEditors)"

end
