(* ===== verification/ClientFacts.thy ===== *)
theory ClientFacts
  imports Client
begin

text \<open>
  What the generated client does: the request each operation sends to a server address, when the
  transport is called, and which field of a response struct is filled.
\<close>

section \<open>The request of an operation\<close>

text \<open>The URL a request is made for; an empty port is dropped from the host.\<close>

definition api_request ::
  "bytes \<Rightarrow> bytes \<Rightarrow> bytes list \<Rightarrow> bytes \<Rightarrow> bytes list \<Rightarrow> bytes option \<Rightarrow> 'c client_request" where
  "api_request scheme host segs meth ops body =
     \<lparr>cr_Method = meth, cr_URL = operation_url scheme (removeEmptyPort host) segs ops,
      cr_Host = removeEmptyPort host,
      cr_Header = (case body of None \<Rightarrow> [] | Some _ \<Rightarrow> [(''Content-Type'', [''application/json''])]),
      cr_Body = body, cr_ctx = None\<rparr>"

lemma operation_request_plain:
  assumes U: "host_contract U" and addr: "plain_address scheme host segs"
    and ops: "list_all plain_segment ops" "ops \<noteq> []" and path: "path = path_of ops"
    and server: "server = address scheme host segs @ ''/''"
  shows "operation_request U server meth path body =
     Inr (api_request scheme host segs meth ops None\<lparr>cr_Body := body\<rparr>)"
proof -
  have s: "scheme = ''http'' \<or> scheme = ''https''" "simple_host host" "list_all plain_segment segs" "scheme \<noteq> []"
    using addr by (auto simp: plain_address_def)
  have tail: "list_all path_byte p" if "path_of ss @ t = CHR ''/'' # p" "list_all plain_segment ss" "t = [] \<or> t = ''/''" for ss t p
  proof -
    have "list_all path_byte (path_of ss @ t)"
      using path_of_bytes [OF that(2)] that(3) by (auto simp: path_byte_def [of "CHR ''/''"])
    then show ?thesis unfolding that(1) by simp
  qed
  obtain p where p: "path_of segs @ ''/'' = CHR ''/'' # p" by (cases segs) auto
  have "url_Parse U (scheme @ ''://'' @ host @ CHR ''/'' # p) = Inr (address_url scheme host (CHR ''/'' # p))"
    by (rule url_Parse_address [OF U s(1,2) tail [OF p s(3)]]) simp
  then have base: "url_Parse U server = Inr (address_url scheme host (path_of segs @ ''/''))"
    using p by (simp add: server address_def)
  obtain q where q: "path_of ops = CHR ''/'' # q" using ops(2) by (cases ops) auto
  have "url_Parse U (''./'' @ q) = Inr (zero_url\<lparr>url_Path := ''./'' @ q\<rparr>)"
    using tail [of ops "[]" q] q ops(1) by (intro url_Parse_relative) simp
  then have ref: "url_Parse U (''.'' @ path_of ops) = Inr (zero_url\<lparr>url_Path := ''.'' @ path_of ops\<rparr>)" by (simp add: q)
  have res: "URL_Parse U (address_url scheme host (path_of segs @ ''/'')) (''.'' @ path_of ops)
      = Inr (operation_url scheme host segs ops)"
    using ref resolve_operation [OF s(3) ops s(4)] by (simp add: URL_Parse_def)
  obtain r where r: "path_of (segs @ ops) = CHR ''/'' # r" using ops(2) by (cases "segs @ ops") auto
  have "url_Parse U (scheme @ ''://'' @ host @ CHR ''/'' # r) = Inr (address_url scheme host (CHR ''/'' # r))"
    using tail [of "segs @ ops" "[]" r] r s(3) ops(1) by (intro url_Parse_address [OF U s(1,2)]) simp
  then have target: "url_Parse U (url_String (operation_url scheme host segs ops)) = Inr (operation_url scheme host segs ops)"
    using r url_String_operation [OF addr ops] by (simp add: address_def operation_url_def)
  have pre: "HasPrefix path ''/''" by (simp add: path q HasPrefix_def)
  show ?thesis
    using base res target pre
    by (simp add: operation_request_def http_NewRequest_def path api_request_def operation_url_def address_url_def Let_def)
qed

lemma canonical_content_type: "canonical_key ''Content-Type'' = ''Content-Type''"
  by (simp add: canonical_key_def is_token_byte_def byte_def bchr_def Let_def)

lemma add_content_type_json:
  "add_content_type ''application/json'' (Inr (api_request scheme host segs meth ops None\<lparr>cr_Body := Some b\<rparr>))
    = Inr (api_request scheme host segs meth ops (Some b))"
  by (simp add: add_content_type_def api_request_def header_Add_def canonical_content_type)

lemma api_request_no_body [simp]:
  "api_request scheme host segs meth ops None\<lparr>cr_Body := None\<rparr> = api_request scheme host segs meth ops None"
  by (simp add: api_request_def)

text \<open>A literal path of an operation is a list of plain segments.\<close>

lemma literal_segments:
  "plain_segment ''auth''" "plain_segment ''login''" "plain_segment ''health''" "plain_segment ''version''"
  "plain_segment ''satellites''" "plain_segment ''users''" "plain_segment ''heartbeat''"
  by (simp_all add: plain_segment_def plain_byte_def is_alnum_def byte_def)

lemmas builder_defs =
  NewPostAuthLoginRequest_def NewPostAuthLoginRequestWithBody_def NewGetHealthRequest_def NewGetSatellitesRequest_def
  NewPostSatellitesRequest_def NewPostSatellitesRequestWithBody_def NewDeleteSatellitesIdRequest_def
  NewGetSatellitesIdRequest_def NewPatchSatellitesIdRequest_def NewPatchSatellitesIdRequestWithBody_def
  NewPostSatellitesIdHeartbeatRequest_def NewGetUsersRequest_def NewPostUsersRequest_def
  NewPostUsersRequestWithBody_def NewDeleteUsersIdRequest_def NewGetVersionRequest_def

lemma builder_requests:
  assumes U: "host_contract (urls L)" and addr: "plain_address scheme host segs"
    and param: "style_param L i = Inr p" "plain_segment p"
  defines "server \<equiv> address scheme host segs @ ''/''"
  defines "request \<equiv> api_request scheme host segs"
  shows "NewPostAuthLoginRequest L server login = Inr (request ''POST'' [''auth'', ''login''] (Some (marshal_LoginRequest login)))"
    and "NewGetHealthRequest L server = Inr (request ''GET'' [''health''] None)"
    and "NewGetVersionRequest L server = Inr (request ''GET'' [''version''] None)"
    and "NewGetSatellitesRequest L server = Inr (request ''GET'' [''satellites''] None)"
    and "NewPostSatellitesRequest L server sat
      = Inr (request ''POST'' [''satellites''] (Some (marshal_CreateSatelliteRequest sat)))"
    and "NewGetSatellitesIdRequest L server i = Inr (request ''GET'' [''satellites'', p] None)"
    and "NewPatchSatellitesIdRequest L server i upd
      = Inr (request ''PATCH'' [''satellites'', p] (Some (marshal_UpdateSatelliteRequest upd)))"
    and "NewDeleteSatellitesIdRequest L server i = Inr (request ''DELETE'' [''satellites'', p] None)"
    and "NewPostSatellitesIdHeartbeatRequest L server i = Inr (request ''POST'' [''satellites'', p, ''heartbeat''] None)"
    and "NewGetUsersRequest L server = Inr (request ''GET'' [''users''] None)"
    and "NewPostUsersRequest L server usr = Inr (request ''POST'' [''users''] (Some (marshal_CreateUserRequest usr)))"
    and "NewDeleteUsersIdRequest L server i = Inr (request ''DELETE'' [''users'', p] None)"
  unfolding server_def request_def
  by (simp_all add: builder_defs with_path_param_def add_content_type_json literal_segments param
      operation_request_plain [OF U addr, of "[''auth'', ''login'']"] operation_request_plain [OF U addr, of "[''health'']"]
      operation_request_plain [OF U addr, of "[''version'']"] operation_request_plain [OF U addr, of "[''satellites'']"]
      operation_request_plain [OF U addr, of "[''satellites'', p]"] operation_request_plain [OF U addr, of "[''users'']"]
      operation_request_plain [OF U addr, of "[''satellites'', p, ''heartbeat'']"]
      operation_request_plain [OF U addr, of "[''users'', p]"])

text \<open>
  C34. The requests of the client. On a plain server address, with a path parameter that is styled
  as a plain segment, each of the twelve operations sends its method to its path below the
  address, with the marshalled body and the JSON content type exactly when it has a body.
\<close>

theorem client_requests:
  assumes U: "host_contract (urls L)" and addr: "plain_address scheme host segs"
    and param: "style_param L i = Inr p" "plain_segment p"
  defines "server \<equiv> address scheme host segs @ ''/''"
  defines "request \<equiv> api_request scheme host segs"
  shows "(NewPostAuthLoginRequest L server login = Inr (request ''POST'' [''auth'', ''login''] (Some (marshal_LoginRequest login))))
    \<and> (NewGetHealthRequest L server = Inr (request ''GET'' [''health''] None))
    \<and> (NewGetVersionRequest L server = Inr (request ''GET'' [''version''] None))
    \<and> (NewGetSatellitesRequest L server = Inr (request ''GET'' [''satellites''] None))
    \<and> (NewPostSatellitesRequest L server sat
      = Inr (request ''POST'' [''satellites''] (Some (marshal_CreateSatelliteRequest sat))))
    \<and> (NewGetSatellitesIdRequest L server i = Inr (request ''GET'' [''satellites'', p] None))
    \<and> (NewPatchSatellitesIdRequest L server i upd
      = Inr (request ''PATCH'' [''satellites'', p] (Some (marshal_UpdateSatelliteRequest upd))))
    \<and> (NewDeleteSatellitesIdRequest L server i = Inr (request ''DELETE'' [''satellites'', p] None))
    \<and> (NewPostSatellitesIdHeartbeatRequest L server i = Inr (request ''POST'' [''satellites'', p, ''heartbeat''] None))
    \<and> (NewGetUsersRequest L server = Inr (request ''GET'' [''users''] None))
    \<and> (NewPostUsersRequest L server usr = Inr (request ''POST'' [''users''] (Some (marshal_CreateUserRequest usr))))
    \<and> (NewDeleteUsersIdRequest L server i = Inr (request ''DELETE'' [''users'', p] None))"
  unfolding server_def request_def by (intro conjI builder_requests [OF assms(1-4)])

end
