(* ===== verification/Strconv.thy ===== *)
theory Strconv
  imports JsonRoundTrip
begin

text \<open>
  \<open>strconv.Quote\<close> and \<open>strconv.Unquote\<close>, which the command line client uses for its configuration
  file. Above Latin-1 the table of printable runes is a parameter. The theorem at the end says that
  unquoting gives back every quoted byte string, valid UTF-8 or not, whatever the table.
\<close>

section \<open>Quoting\<close>

definition IsPrint :: "(nat \<Rightarrow> bool) \<Rightarrow> nat \<Rightarrow> bool" where
  "IsPrint table r =
     (if r \<le> 0xFF then (0x20 \<le> r \<and> r < 0x7F) \<or> (0xA1 \<le> r \<and> r \<noteq> 0xAD) else table r)"

definition hex_text :: "nat \<Rightarrow> nat \<Rightarrow> bytes" where
  "hex_text w n = map (\<lambda>i. hex_digit (n div 16 ^ i mod 16)) (rev [0..<w])"

definition letter_escape :: "nat \<Rightarrow> char option" where
  "letter_escape r = map_of [(7, CHR ''a''), (8, CHR ''b''), (12, CHR ''f''), (10, CHR ''n''), (13, CHR ''r''),
     (9, CHR ''t''), (11, CHR ''v'')] r"

definition appendEscapedRune :: "(nat \<Rightarrow> bool) \<Rightarrow> nat \<Rightarrow> bytes" where
  "appendEscapedRune table r =
     (if r = 0x22 \<or> r = 0x5C then [bchr 0x5C, bchr r]
      else if IsPrint table r then encode_rune r
      else case letter_escape r of
             Some c \<Rightarrow> [bchr 0x5C, c]
           | None \<Rightarrow>
               if r < 0x20 \<or> r = 0x7F then bchr 0x5C # CHR ''x'' # hex_text 2 r
               else if r < 0x10000 then bchr 0x5C # CHR ''u'' # hex_text 4 r
               else bchr 0x5C # CHR ''U'' # hex_text 8 r)"

function quote_body :: "(nat \<Rightarrow> bool) \<Rightarrow> bytes \<Rightarrow> bytes" where
  "quote_body table s =
     (if s = [] then []
      else let (r, width) = decode_rune s in
           (if width = 1 \<and> r = rune_error then bchr 0x5C # CHR ''x'' # hex_text 2 (byte (hd s))
            else appendEscapedRune table r) @ quote_body table (drop width s))"
  by pat_completeness auto
termination
  by (relation "measure (\<lambda>(t, s). length s)") (auto simp: decode_rune_width_pos dest: arg_cong [where f = snd] sym)

declare quote_body.simps [simp del]

definition Quote :: "(nat \<Rightarrow> bool) \<Rightarrow> bytes \<Rightarrow> bytes" where
  "Quote table s = CHR 0x22 # quote_body table s @ [CHR 0x22]"

section \<open>Unquoting\<close>

text \<open>\<open>n\<close> hexadecimal digits as a number, with what follows them.\<close>

fun read_hex :: "nat \<Rightarrow> nat \<Rightarrow> bytes \<Rightarrow> (nat \<times> bytes) option" where
  "read_hex 0 v s = Some (v, s)"
| "read_hex (Suc n) v [] = None"
| "read_hex (Suc n) v (c # s) = (case hex_val c of Some x \<Rightarrow> read_hex n (v * 16 + x) s | None \<Rightarrow> None)"

definition octal_val :: "char \<Rightarrow> nat option" where
  "octal_val c = (if 48 \<le> byte c \<and> byte c \<le> 55 then Some (byte c - 48) else None)"

text \<open>
  \<open>UnquoteChar\<close>: the bytes of the next character and what follows it. An escape of a byte (\<open>\x\<close>,
  octal) yields that byte, any other rune its UTF-8 encoding.
\<close>

definition unquote_escape :: "char \<Rightarrow> char \<Rightarrow> bytes \<Rightarrow> (bytes \<times> bytes) option" where
  "unquote_escape quote c s =
     (case map_of [(CHR ''a'', 7), (CHR ''b'', 8), (CHR ''f'', 12), (CHR ''n'', 10), (CHR ''r'', 13), (CHR ''t'', 9),
                   (CHR ''v'', 11::nat)] c of
        Some v \<Rightarrow> Some ([bchr v], s)
      | None \<Rightarrow>
          if c = CHR ''x'' then map_option (apfst (\<lambda>v. [bchr v])) (read_hex 2 0 s)
          else if c = CHR ''u'' \<or> c = CHR ''U'' then
            (case read_hex (if c = CHR ''u'' then 4 else 8) 0 s of
               Some (v, t) \<Rightarrow> if valid_rune v then Some (encode_rune v, t) else None
             | None \<Rightarrow> None)
          else case octal_val c of
                 Some d \<Rightarrow>
                   (case s of
                      a # b # t \<Rightarrow>
                        (case (octal_val a, octal_val b) of
                           (Some x, Some y) \<Rightarrow>
                             if d * 64 + x * 8 + y \<le> 255 then Some ([bchr (d * 64 + x * 8 + y)], t) else None
                         | _ \<Rightarrow> None)
                    | _ \<Rightarrow> None)
               | None \<Rightarrow> if byte c = 0x5C \<or> c = quote \<and> byte c \<in> {0x22, 0x27} then Some ([c], s) else None)"

definition UnquoteChar :: "char \<Rightarrow> bytes \<Rightarrow> (bytes \<times> bytes) option" where
  "UnquoteChar quote s =
     (case s of
        [] \<Rightarrow> None
      | c # cs \<Rightarrow>
          if c = quote \<and> byte quote \<in> {0x22, 0x27} then None
          else if 0x80 \<le> byte c then Some (encode_rune (fst (decode_rune s)), drop (snd (decode_rune s)) s)
          else if byte c \<noteq> 0x5C then Some ([c], cs)
          else (case cs of [] \<Rightarrow> None | e # t \<Rightarrow> unquote_escape quote e t))"

lemma read_hex_length: "read_hex n v s = Some (x, t) \<Longrightarrow> length t \<le> length s"
  by (induction n v s rule: read_hex.induct) (auto split: option.splits)

lemma unquote_escape_length: "unquote_escape q c s = Some (b, t) \<Longrightarrow> length t \<le> length s"
  unfolding unquote_escape_def by (auto split: option.splits if_splits list.splits dest: read_hex_length)

lemma UnquoteChar_length: "UnquoteChar q s = Some (b, t) \<Longrightarrow> length t < length s"
proof (cases s)
  case (Cons c cs)
  assume u: "UnquoteChar q s = Some (b, t)"
  have "0 < snd (decode_rune s)" using Cons by (intro decode_rune_width_pos) simp
  with u Cons show ?thesis
    unfolding UnquoteChar_def
    by (auto simp del: decode_rune.simps split: if_splits list.splits dest!: unquote_escape_length)
qed (simp add: UnquoteChar_def)

text \<open>The loop of \<open>unquote\<close> up to the closing quote; \<open>None\<close> for a syntax error.\<close>

function unquote_loop :: "char \<Rightarrow> bytes \<Rightarrow> (bytes \<times> bytes) option" where
  "unquote_loop q s =
     (case s of
        [] \<Rightarrow> None
      | c # cs \<Rightarrow>
          if c = q then Some ([], cs)
          else if byte c = 0x0A then None
          else case UnquoteChar q s of None \<Rightarrow> None | Some (b, t) \<Rightarrow>
               if byte q = 0x27 then (case t of d # u \<Rightarrow> if d = q then Some (b, u) else None | [] \<Rightarrow> None)
               else map_option (apfst (append b)) (unquote_loop q t))"
  by pat_completeness auto
termination
  by (relation "measure (\<lambda>(q, s). length s)") (auto dest: UnquoteChar_length)

declare unquote_loop.simps [simp del]

text \<open>
  \<open>strconv.Unquote\<close>. A string without escapes and newlines whose text is valid goes the short way.
\<close>

definition unquote_prefix :: "bytes \<Rightarrow> (bytes \<times> bytes) option" where
  "unquote_prefix s =
     (case s of
        [] \<Rightarrow> None
      | q # cs \<Rightarrow>
          if q \<notin> set cs then None
          else let inner = takeWhile (\<lambda>c. c \<noteq> q) cs; rest = tl (dropWhile (\<lambda>c. c \<noteq> q) cs) in
               if byte q = 0x60 then Some (filter (\<lambda>c. byte c \<noteq> 0x0D) inner, rest)
               else if byte q \<in> {0x22, 0x27} then
                 (if list_all (\<lambda>c. byte c \<noteq> 0x5C \<and> byte c \<noteq> 0x0A) inner
                     \<and> (if byte q = 0x22 then valid_utf8 inner
                        else snd (decode_rune inner) = length inner
                             \<and> \<not> (fst (decode_rune inner) = rune_error \<and> snd (decode_rune inner) = 1))
                  then Some (inner, rest)
                  else unquote_loop q cs)
               else None)"

definition Unquote :: "bytes \<Rightarrow> bytes option" where
  "Unquote s = (case unquote_prefix s of Some (out, []) \<Rightarrow> Some out | _ \<Rightarrow> None)"

section \<open>Round trip\<close>

lemma hex_text_Suc: "hex_text (Suc w) n = hex_digit (n div 16 ^ w mod 16) # hex_text w n"
  by (simp add: hex_text_def)

lemma read_hex_text: "read_hex w v (hex_text w n @ t) = Some (v * 16 ^ w + n mod 16 ^ w, t)"
proof (induction w arbitrary: v)
  case 0
  then show ?case by (simp add: hex_text_def)
next
  case (Suc w)
  have "n mod 16 ^ Suc w = 16 ^ w * (n div 16 ^ w mod 16) + n mod 16 ^ w"
    by (simp add: mod_mult2_eq mult.commute [of 16])
  then show ?case using Suc by (simp add: hex_text_Suc hex_val_digit algebra_simps)
qed

abbreviation dquote :: char where
  "dquote \<equiv> CHR 0x22"

lemma bchr_eq: "n < 256 \<Longrightarrow> bchr n = c \<longleftrightarrow> n = byte c"
  by (metis bchr_byte byte_bchr)

lemma byte_dquote [simp]: "byte dquote = 0x22"
  by (simp add: byte_def)

text \<open>One step of the loop over a character that is neither the quote nor a newline.\<close>

lemma unquote_loop_step:
  assumes "UnquoteChar dquote (c # cs) = Some (b, t)" "c \<noteq> dquote" "byte c \<noteq> 0x0A"
  shows "unquote_loop dquote (c # cs) = map_option (apfst (append b)) (unquote_loop dquote t)"
  using assms by (subst unquote_loop.simps) (simp add: byte_def)

lemma unquote_loop_escape:
  assumes "unquote_escape dquote e t = Some (b, u)"
  shows "unquote_loop dquote (bchr 0x5C # e # t) = map_option (apfst (append b)) (unquote_loop dquote u)"
proof (rule unquote_loop_step)
  show "UnquoteChar dquote (bchr 0x5C # e # t) = Some (b, u)"
    using assms by (simp add: UnquoteChar_def bchr_eq)
qed (simp_all add: bchr_eq)

lemma unquote_loop_rune:
  assumes "valid_rune r" "r \<notin> {0x22, 0x5C, 0x0A}"
  shows "unquote_loop dquote (encode_rune r @ t) = map_option (apfst (append (encode_rune r))) (unquote_loop dquote t)"
proof -
  obtain c cs where c: "encode_rune r = c # cs" by (cases "encode_rune r") auto
  have dec: "decode_rune (c # cs @ t) = (r, length (c # cs))" using decode_encode_rune [OF assms(1), of t] c by simp
  show ?thesis
  proof (cases "r < 0x80")
    case True
    then have "c = bchr r" "cs = []" using c by (simp_all add: encode_rune_def)
    with True assms(2) have "unquote_loop dquote (c # t) = map_option (apfst (append [c])) (unquote_loop dquote t)"
      by (intro unquote_loop_step) (auto simp: UnquoteChar_def bchr_eq)
    then show ?thesis using c \<open>cs = []\<close> by simp
  next
    case False
    then have b: "0x80 \<le> byte c"
      using c assms(1) by (auto simp: encode_rune_def valid_rune_def split: if_splits)
    then have "c \<noteq> dquote" by (auto simp: byte_def)
    with b dec c have "unquote_loop dquote (c # cs @ t) = map_option (apfst (append (encode_rune r))) (unquote_loop dquote t)"
      by (intro unquote_loop_step) (auto simp: UnquoteChar_def simp del: decode_rune.simps)
    then show ?thesis using c by simp
  qed
qed

lemma unquote_escape_letter: "letter_escape r = Some c \<Longrightarrow> unquote_escape q c t = Some ([bchr r], t)"
  by (auto simp: letter_escape_def unquote_escape_def split: if_splits)

lemma unquote_escape_hex:
  "r < 256 \<Longrightarrow> unquote_escape q (CHR ''x'') (hex_text 2 r @ t) = Some ([bchr r], t)"
  "r < 65536 \<Longrightarrow> valid_rune r \<Longrightarrow> unquote_escape q (CHR ''u'') (hex_text 4 r @ t) = Some (encode_rune r, t)"
  "valid_rune r \<Longrightarrow> unquote_escape q (CHR ''U'') (hex_text 8 r @ t) = Some (encode_rune r, t)"
  by (auto simp: unquote_escape_def read_hex_text valid_rune_def)

lemma unquote_escape_self: "r = 0x22 \<or> r = 0x5C \<Longrightarrow> unquote_escape dquote (bchr r) t = Some ([bchr r], t)"
proof -
  have "bchr 0x22 = dquote" "bchr 0x5C = CHR 0x5C" by (simp_all add: bchr_eq byte_def)
  then show "r = 0x22 \<or> r = 0x5C \<Longrightarrow> unquote_escape dquote (bchr r) t = Some ([bchr r], t)"
    by (auto simp: unquote_escape_def octal_val_def byte_def)
qed

lemma encode_rune_ascii: "r < 0x80 \<Longrightarrow> encode_rune r = [bchr r]"
  by (simp add: encode_rune_def)

lemma unquote_escaped_rune:
  assumes "valid_rune r"
  shows "unquote_loop dquote (appendEscapedRune table r @ t) = map_option (apfst (append (encode_rune r))) (unquote_loop dquote t)"
proof -
  consider (self) "r = 0x22 \<or> r = 0x5C" | (print) "r \<notin> {0x22, 0x5C}" "IsPrint table r"
    | (letter) c where "r \<notin> {0x22, 0x5C}" "\<not> IsPrint table r" "letter_escape r = Some c"
    | (hex) "r \<notin> {0x22, 0x5C}" "\<not> IsPrint table r" "letter_escape r = None" by fastforce
  then show ?thesis
  proof cases
    case self
    then have "encode_rune r = [bchr r]" by (auto simp: encode_rune_ascii)
    with self unquote_loop_escape [OF unquote_escape_self [OF self]] show ?thesis by (simp add: appendEscapedRune_def)
  next
    case print
    then have "r \<noteq> 0x0A" by (auto simp: IsPrint_def)
    with print unquote_loop_rune [OF assms] show ?thesis by (simp add: appendEscapedRune_def)
  next
    case (letter c)
    then have "r < 0x80" by (auto simp: letter_escape_def split: if_splits)
    with letter unquote_loop_escape [OF unquote_escape_letter [OF letter(3)]] show ?thesis
      by (simp add: appendEscapedRune_def encode_rune_ascii)
  next
    case hex
    consider "r < 0x20 \<or> r = 0x7F" | "\<not> (r < 0x20 \<or> r = 0x7F)" "r < 0x10000" | "\<not> (r < 0x20 \<or> r = 0x7F)" "\<not> r < 0x10000"
      by blast
    then show ?thesis
    proof cases
      case 1
      then have "r < 256" "encode_rune r = [bchr r]" by (auto simp: encode_rune_ascii)
      with hex 1 show ?thesis
        using unquote_loop_escape [OF unquote_escape_hex(1)] by (simp add: appendEscapedRune_def)
    next
      case 2
      with hex assms show ?thesis
        using unquote_loop_escape [OF unquote_escape_hex(2)] by (simp add: appendEscapedRune_def)
    next
      case 3
      with hex assms show ?thesis
        using unquote_loop_escape [OF unquote_escape_hex(3)] by (simp add: appendEscapedRune_def)
    qed
  qed
qed

lemma unquote_quote_body: "unquote_loop dquote (quote_body table s @ dquote # rest) = Some (s, rest)"
proof (induction table s rule: quote_body.induct)
  case (1 table s)
  show ?case
  proof (cases "s = []")
    case True
    then show ?thesis by (subst quote_body.simps) (simp add: unquote_loop.simps)
  next
    case False
    obtain r n where rn: "decode_rune s = (r, n)" by (cases "decode_rune s")
    note ih = 1 [OF False rn [symmetric] refl]
    show ?thesis
    proof (cases "n = 1 \<and> r = rune_error")
      case True
      then have "take n s = [hd s]" using False by (cases s) auto
      then have "s = hd s # drop n s" using False True by (cases s) auto
      with True False rn ih unquote_loop_escape [OF unquote_escape_hex(1) [of "byte (hd s)"]] show ?thesis
        by (subst quote_body.simps) simp
    next
      case ok: False
      have enc: "encode_rune r = take n s" "valid_rune r" using encode_decode_rune [OF rn False] ok by auto
      have "quote_body table s = appendEscapedRune table r @ quote_body table (drop n s)"
        using False rn ok by (subst quote_body.simps) auto
      with unquote_escaped_rune [OF enc(2)] ih enc(1) show ?thesis by simp
    qed
  qed
qed

text \<open>The short way of \<open>unquote\<close> gives what the loop gives.\<close>

lemma unquote_loop_plain:
  assumes "valid_utf8 s" "list_all (\<lambda>c. byte c \<noteq> 0x5C \<and> byte c \<noteq> 0x0A) s" "dquote \<notin> set s"
  shows "unquote_loop dquote (s @ dquote # rest) = Some (s, rest)"
  using assms
proof (induction s rule: valid_utf8.induct)
  case (1 s)
  show ?case
  proof (cases "s = []")
    case True
    then show ?thesis by (simp add: unquote_loop.simps)
  next
    case False
    obtain r n where rn: "decode_rune s = (r, n)" by (cases "decode_rune s")
    from 1(2) False rn have ok: "\<not> (r = rune_error \<and> n = 1)" and rest: "valid_utf8 (drop n s)"
      by (subst (asm) (1) valid_utf8.simps; simp)+
    have enc: "encode_rune r = take n s" "valid_rune r" using encode_decode_rune [OF rn False ok] by auto
    have "r \<notin> {0x22, 0x5C, 0x0A}"
    proof
      assume r: "r \<in> {0x22, 0x5C, 0x0A}"
      then have "take n s = [bchr r]" using enc by (auto simp: encode_rune_ascii)
      then have "bchr r \<in> set s" by (metis in_set_takeD list.set_intros(1))
      moreover have "bchr 0x22 = dquote" by (simp add: bchr_eq)
      moreover have "byte (bchr r) = r" using r by auto
      ultimately show False using r 1(3,4) unfolding list_all_iff by fastforce
    qed
    note step = unquote_loop_rune [OF enc(2) this, of "drop n s @ dquote # rest"]
    have "list_all (\<lambda>c. byte c \<noteq> 0x5C \<and> byte c \<noteq> 0x0A) (drop n s)" "dquote \<notin> set (drop n s)"
      using 1(3,4) by (auto simp: list_all_iff dest: in_set_dropD)
    with 1(1) [OF False] rest rn have "unquote_loop dquote (drop n s @ dquote # rest) = Some (drop n s, rest)" by simp
    with step show ?thesis unfolding enc(1) append_assoc [symmetric] append_take_drop_id by simp
  qed
qed

lemma unquote_prefix_loop:
  assumes "dquote \<in> set cs"
  shows "unquote_prefix (dquote # cs) = unquote_loop dquote cs"
proof -
  obtain inner rest where cs: "cs = inner @ dquote # rest" "dquote \<notin> set inner" using assms by (metis split_list_first)
  have "takeWhile (\<lambda>c. c \<noteq> dquote) cs = inner" "dropWhile (\<lambda>c. c \<noteq> dquote) cs = dquote # rest"
    using cs by (auto simp: takeWhile_tail dropWhile_append3 intro: takeWhile_eq_all_conv [THEN iffD2])
  then show ?thesis
    using assms cs unquote_loop_plain [of inner rest] by (auto simp: unquote_prefix_def Let_def)
qed

text \<open>Unquoting gives back what was quoted.\<close>

lemma Unquote_Quote: "Unquote (Quote table s) = Some s"
  by (simp add: Unquote_def Quote_def unquote_prefix_loop unquote_quote_body)

text \<open>A quoted string is one line: it has no newline and no carriage return.\<close>

lemma hex_digit_visible: "n < 16 \<Longrightarrow> 0x20 \<le> byte (hex_digit n)"
  by (simp add: hex_digit_def)

lemma hex_text_visible: "c \<in> set (hex_text w n) \<Longrightarrow> 0x20 \<le> byte c"
  using hex_digit_visible by (auto simp: hex_text_def)

lemma encode_rune_visible: "0x20 \<le> r \<Longrightarrow> c \<in> set (encode_rune r) \<Longrightarrow> 0x20 \<le> byte c"
  by (auto simp: encode_rune_def valid_rune_def split: if_splits)

lemma escaped_rune_visible: "c \<in> set (appendEscapedRune table r) \<Longrightarrow> 0x20 \<le> byte c"
proof -
  assume c: "c \<in> set (appendEscapedRune table r)"
  have letters: "0x20 \<le> byte x" if "letter_escape r = Some x" for x
    using that by (auto simp: letter_escape_def byte_def split: if_splits)
  have esc: "0x20 \<le> byte (CHR ''x'')" "0x20 \<le> byte (CHR ''u'')" "0x20 \<le> byte (CHR ''U'')" by (simp_all add: byte_def)
  have pr: "0x20 \<le> r" if "IsPrint table r" using that by (auto simp: IsPrint_def split: if_splits)
  from c letters esc pr encode_rune_visible hex_text_visible show ?thesis
    unfolding appendEscapedRune_def by (auto split: if_splits option.splits)
qed

lemma quote_body_visible: "c \<in> set (quote_body table s) \<Longrightarrow> 0x20 \<le> byte c"
proof (induction table s rule: quote_body.induct)
  case (1 table s)
  obtain r n where rn: "decode_rune s = (r, n)" by (cases "decode_rune s")
  have x: "0x20 \<le> byte (CHR ''x'')" by (simp add: byte_def)
  from 1(2) have ne: "s \<noteq> []" by (auto simp: quote_body.simps)
  with 1(2) rn consider "c = bchr 0x5C" | "c = CHR ''x''" | "c \<in> set (hex_text 2 (byte (hd s)))"
    | "c \<in> set (appendEscapedRune table r)" | "c \<in> set (quote_body table (drop n s))"
    by (subst (asm) quote_body.simps) (auto split: if_splits)
  then show ?case
    by cases (use x hex_text_visible escaped_rune_visible 1(1) [OF ne rn [symmetric] refl] in auto)
qed

text \<open>Quoting makes a string at most four times as long, plus the quotes.\<close>

lemma hex_text_length: "length (hex_text w n) = w"
  by (simp add: hex_text_def)

lemma escaped_rune_length: "valid_rune r \<Longrightarrow> length (appendEscapedRune table r) \<le> 4 * length (encode_rune r)"
  by (simp add: appendEscapedRune_def encode_rune_def valid_rune_def hex_text_length IsPrint_def split: option.split)

lemma quote_body_length: "length (quote_body table s) \<le> 4 * length s"
proof (induction table s rule: quote_body.induct)
  case (1 table s)
  show ?case
  proof (cases "s = []")
    case False
    obtain r n where rn: "decode_rune s = (r, n)" by fastforce
    have n: "n \<le> length s" "0 < n" using decode_rune_width_le [of s] decode_rune_width_pos [OF False] rn by simp_all
    let ?head = "if n = 1 \<and> r = rune_error then bchr 0x5C # CHR ''x'' # hex_text 2 (byte (hd s)) else appendEscapedRune table r"
    have "length ?head \<le> 4 * n"
    proof (cases "r = rune_error \<and> n = 1")
      case False
      from encode_decode_rune [OF rn \<open>s \<noteq> []\<close> this] have "length (encode_rune r) = n" "valid_rune r" using n by simp_all
      with False escaped_rune_length show ?thesis by auto
    qed (simp add: hex_text_length)
    moreover have "length (quote_body table (drop n s)) \<le> 4 * (length s - n)" using 1 [OF False] rn by simp
    moreover have "quote_body table s = ?head @ quote_body table (drop n s)" using rn False by (subst quote_body.simps) simp
    ultimately show ?thesis using n by simp
  qed (simp add: quote_body.simps)
qed

end
