(* ===== verification/CliConfig.thy ===== *)
theory CliConfig
  imports Strconv Client
begin

text \<open>
  The runtime package of the command line client (\<open>fleetctl/internal/runtime/runtime.go\<close>): where its
  configuration file is, how it is read and written, and the API client built from it, on a model
  of the files it touches. The lemmas show that a saved configuration is loaded again, up to the
  line length the scanner of \<open>bufio\<close> allows.
\<close>

section \<open>Strings and paths\<close>

text \<open>\<open>strings.TrimRight\<close> with an ASCII cutset.\<close>

definition TrimRight :: "bytes \<Rightarrow> bytes \<Rightarrow> bytes" where
  "TrimRight s cutset = rev (dropWhile (\<lambda>c. c \<in> set cutset) (rev s))"

fun split_slash :: "bytes \<Rightarrow> bytes list" where
  "split_slash [] = [[]]"
| "split_slash (c # cs) =
     (if c = CHR ''/'' then [] # split_slash cs
      else case split_slash cs of x # xs \<Rightarrow> (c # x) # xs | [] \<Rightarrow> [[c]])"

text \<open>\<open>filepath.Clean\<close> on a Unix path, with the elements kept so far in reverse order.\<close>

definition clean_push :: "bool \<Rightarrow> bytes \<Rightarrow> bytes list \<Rightarrow> bytes list" where
  "clean_push rooted seg st =
     (if seg = [] \<or> seg = ''.'' then st
      else if seg = ''..'' then
        (case st of
           prev # rest \<Rightarrow> if prev \<noteq> ''..'' then rest else seg # st
         | [] \<Rightarrow> if rooted then [] else [seg])
      else seg # st)"

definition join_slash :: "bytes list \<Rightarrow> bytes" where
  "join_slash xs = (case xs of [] \<Rightarrow> [] | x # rest \<Rightarrow> x @ concat (map (\<lambda>y. CHR ''/'' # y) rest))"

definition Clean :: "bytes \<Rightarrow> bytes" where
  "Clean p =
     (let rooted = HasPrefix p ''/'';
          r = (if rooted then ''/'' else []) @ join_slash (rev (fold (clean_push rooted) (split_slash p) []))
      in if r = [] then ''.'' else r)"

definition filepath_Join :: "bytes list \<Rightarrow> bytes" where
  "filepath_Join elems =
     (case filter (\<lambda>e. e \<noteq> []) elems of [] \<Rightarrow> [] | es \<Rightarrow> Clean (join_slash es))"

definition filepath_Dir :: "bytes \<Rightarrow> bytes" where
  "filepath_Dir p = Clean (case cut_last (CHR ''/'') p of None \<Rightarrow> [] | Some (a, _) \<Rightarrow> a @ ''/'')"

section \<open>Lines\<close>

text \<open>
  \<open>bufio.Scanner\<close> with its default buffer: the lines of a text without their line ends, and whether
  the scan ended at a line that does not fit into the buffer with its end.
\<close>

definition MaxScanTokenSize :: nat where
  "MaxScanTokenSize = 65536"

definition drop_cr :: "bytes \<Rightarrow> bytes" where
  "drop_cr l = (if l \<noteq> [] \<and> byte (last l) = 0x0D then butlast l else l)"

function scan_lines :: "bytes \<Rightarrow> bytes list \<times> bool" where
  "scan_lines s =
     (if s = [] then ([], False)
      else let line = takeWhile (\<lambda>c. byte c \<noteq> 0x0A) s in
           if MaxScanTokenSize \<le> length line then ([], True)
           else apfst (Cons (drop_cr line)) (scan_lines (drop (Suc (length line)) s)))"
  by pat_completeness auto
termination
  by (relation "measure length") auto

declare scan_lines.simps [simp del]

section \<open>Files\<close>

text \<open>
  A file has a mode and its content. The environment gives the home directory, the process's
  file mode mask, and the faults: of opening and reading a file, of making a directory, and of
  writing a file, which then holds anything. Directories are recorded as the calls that made them.
\<close>

type_synonym mode = "12 word"

record disk =
  d_files :: "bytes \<Rightarrow> (mode \<times> bytes) option"
  d_made :: "(bytes \<times> mode) list"

record os_env =
  HOME :: bytes
  umask :: mode
  open_fault :: "bytes \<Rightarrow> bytes option"
  read_fault :: "bytes \<Rightarrow> bytes option"
  mkdir_fault :: "bytes \<Rightarrow> bytes option"
  write_fault :: "bytes \<Rightarrow> (bytes \<times> (mode \<times> bytes) option) option"

record APIError =
  ae_StatusCode :: int
  ae_Code :: bytes
  ae_Message :: bytes

datatype cli_error =
    HomeUndefined
  | OpenError bytes
  | ReadFault bytes
  | TooLong
  | MkdirError bytes
  | WriteFileError bytes
  | Message bytes
  | Wrapped bytes cli_error
  | ClientFailure client_error
  | APIFailure APIError
  | InvalidUUID bytes
  | OutputError bytes
  | MarshalFailure

definition MkdirAll :: "os_env \<Rightarrow> bytes \<Rightarrow> mode \<Rightarrow> disk \<Rightarrow> cli_error option \<times> disk" where
  "MkdirAll E dir perm d =
     (case mkdir_fault E dir of
        Some msg \<Rightarrow> (Some (MkdirError msg), d)
      | None \<Rightarrow> (None, d\<lparr>d_made := d_made d @ [(dir, perm)]\<rparr>))"

text \<open>\<open>os.WriteFile\<close> truncates an existing file, which keeps its mode.\<close>

definition WriteFile :: "os_env \<Rightarrow> bytes \<Rightarrow> bytes \<Rightarrow> mode \<Rightarrow> disk \<Rightarrow> cli_error option \<times> disk" where
  "WriteFile E path content perm d =
     (case write_fault E path of
        Some (msg, left) \<Rightarrow> (Some (WriteFileError msg), d\<lparr>d_files := (d_files d)(path := left)\<rparr>)
      | None \<Rightarrow>
          let mode = (case d_files d path of Some (m, _) \<Rightarrow> m | None \<Rightarrow> and perm (not (umask E)))
          in (None, d\<lparr>d_files := (d_files d)(path := Some (mode, content))\<rparr>))"

section \<open>Configuration\<close>

definition DefaultServer :: bytes where
  "DefaultServer = ''http://localhost:8080''"

definition DefaultHTTPTimeout :: nanos where
  "DefaultHTTPTimeout = 15 * 1000000000"

record cli_Config =
  cc_Server :: bytes
  cc_Token :: bytes

record ('c, 's) Options =
  opt_ConfigPath :: bytes
  opt_Server :: bytes
  opt_HTTPClient :: "('c, 's) doer option"

text \<open>\<open>os.UserHomeDir\<close> fails exactly if the variable is unset or empty.\<close>

definition DefaultConfigPath :: "os_env \<Rightarrow> cli_error + bytes" where
  "DefaultConfigPath E =
     (if HOME E = [] then Inl HomeUndefined
      else Inr (filepath_Join [HOME E, ''.fleetctl'', ''config.yaml'']))"

definition Options_path :: "os_env \<Rightarrow> ('c, 's) Options \<Rightarrow> cli_error + bytes" where
  "Options_path E o1 = (if opt_ConfigPath o1 \<noteq> [] then Inr (opt_ConfigPath o1) else DefaultConfigPath E)"

text \<open>One line of the file: a key, a colon and a value that may be quoted.\<close>

definition config_line :: "bytes \<Rightarrow> cli_Config \<Rightarrow> cli_Config" where
  "config_line text cfg =
     (case cut_at (CHR '':'') text of
        (key, rest, found) \<Rightarrow>
          if \<not> found then cfg
          else let value = (case Unquote (TrimSpace rest) of Some unquoted \<Rightarrow> unquoted | None \<Rightarrow> TrimSpace rest) in
               if TrimSpace key = ''server'' then cfg\<lparr>cc_Server := value\<rparr>
               else if TrimSpace key = ''token'' then cfg\<lparr>cc_Token := value\<rparr>
               else cfg)"

definition override_server :: "('c, 's) Options \<Rightarrow> cli_Config \<Rightarrow> cli_Config" where
  "override_server o1 cfg = (if opt_Server o1 \<noteq> [] then cfg\<lparr>cc_Server := opt_Server o1\<rparr> else cfg)"

definition Options_Load :: "os_env \<Rightarrow> ('c, 's) Options \<Rightarrow> disk \<Rightarrow> cli_error + cli_Config" where
  "Options_Load E o1 d =
     (let cfg = \<lparr>cc_Server = DefaultServer, cc_Token = []\<rparr> in
      case Options_path E o1 of Inl e \<Rightarrow> Inl e | Inr path \<Rightarrow>
      case open_fault E path of Some msg \<Rightarrow> Inl (OpenError msg) | None \<Rightarrow>
      case d_files d path of None \<Rightarrow> Inr (override_server o1 cfg) | Some (_, content) \<Rightarrow>
      case read_fault E path of Some msg \<Rightarrow> Inl (ReadFault msg) | None \<Rightarrow>
      let (lines, too_long) = scan_lines content in
      if too_long then Inl TooLong
      else Inr (override_server o1 (fold config_line lines cfg)))"

definition config_text :: "(nat \<Rightarrow> bool) \<Rightarrow> cli_Config \<Rightarrow> bytes" where
  "config_text table cfg =
     ''server: '' @ Quote table (cc_Server cfg) @ [bchr 0x0A] @ ''token: '' @ Quote table (cc_Token cfg) @ [bchr 0x0A]"

definition Options_Save ::
  "(nat \<Rightarrow> bool) \<Rightarrow> os_env \<Rightarrow> ('c, 's) Options \<Rightarrow> cli_Config \<Rightarrow> disk \<Rightarrow> cli_error option \<times> disk" where
  "Options_Save table E o1 cfg d =
     (case Options_path E o1 of
        Inl e \<Rightarrow> (Some e, d)
      | Inr path \<Rightarrow>
          (case MkdirAll E (filepath_Dir path) 0x1C0 d of
             (Some e, d') \<Rightarrow> (Some e, d')
           | (None, d') \<Rightarrow> WriteFile E path (config_text table cfg) 0x180 d'))"

section \<open>The API client\<close>

text \<open>
  What the commands need of other packages: the generated client's libraries, an \<open>http.Client\<close> with
  a timeout (zero for none), the table of printable runes, and the text form of UUIDs.
\<close>

record ('c, 's) cli_lib =
  api :: client_lib
  http_client :: "nanos \<Rightarrow> ('c, 's) doer"
  print_table :: "nat \<Rightarrow> bool"
  parse_uuid :: "bytes \<Rightarrow> bytes + uuid"
  show_uuid :: "uuid \<Rightarrow> bytes"

definition bearer_editor :: "bytes \<Rightarrow> 'c editor" where
  "bearer_editor token ctx req =
     Inr (req\<lparr>cr_Header := header_Set (cr_Header req) ''Authorization'' (''Bearer '' @ token)\<rparr>)"

text \<open>The HTTP client of the options, or one with the default timeout.\<close>

definition transport :: "('c, 's) cli_lib \<Rightarrow> ('c, 's) Options \<Rightarrow> ('c, 's) doer" where
  "transport L o1 = (case opt_HTTPClient o1 of Some h \<Rightarrow> h | None \<Rightarrow> http_client L DefaultHTTPTimeout)"

definition Options_Client ::
  "('c, 's) cli_lib \<Rightarrow> os_env \<Rightarrow> ('c, 's) Options \<Rightarrow> bool \<Rightarrow> disk \<Rightarrow>
     cli_error + ('c, 's) ClientWithResponses \<times> 'c editor list" where
  "Options_Client L E o1 requireAuth d =
     (case Options_Load E o1 d of
        Inl e \<Rightarrow> Inl (Wrapped ''load config'' e)
      | Inr cfg \<Rightarrow>
          if requireAuth \<and> cc_Token cfg = [] then Inl (Message ''not logged in; run fleetctl login'')
          else case NewClientWithResponses (api L) (http_client L 0) (TrimRight (cc_Server cfg) ''/'')
                      [WithHTTPClient (transport L o1)] of
                 Inl e \<Rightarrow> Inl (Wrapped ''create API client'' (ClientFailure e))
               | Inr client \<Rightarrow> Inr (client, if cc_Token cfg = [] then [] else [bearer_editor (cc_Token cfg)]))"

section \<open>Saving and loading\<close>

lemma takeWhile_line:
  "\<forall>c \<in> set l. byte c \<noteq> 0x0A \<Longrightarrow> takeWhile (\<lambda>c. byte c \<noteq> 0x0A) (l @ bchr 0x0A # t) = l"
  by (simp add: takeWhile_append2)

lemma scan_line:
  assumes "\<forall>c \<in> set l. 0x20 \<le> byte c"
  shows "scan_lines (l @ bchr 0x0A # t) =
    (if MaxScanTokenSize \<le> length l then ([], True) else apfst (Cons l) (scan_lines t))"
proof -
  have tw: "takeWhile (\<lambda>c. byte c \<noteq> 0x0A) (l @ bchr 0x0A # t) = l"
    using assms by (intro takeWhile_line) fastforce
  have "drop_cr l = l"
  proof (cases "l = []")
    case False
    then have "0x20 \<le> byte (last l)" using assms by simp
    then show ?thesis by (simp add: drop_cr_def)
  qed (simp add: drop_cr_def)
  then show ?thesis by (subst scan_lines.simps) (simp add: tw Let_def)
qed

definition config_key_line :: "(nat \<Rightarrow> bool) \<Rightarrow> bytes \<Rightarrow> bytes \<Rightarrow> bytes" where
  "config_key_line table key value = key @ '': '' @ Quote table value"

lemma Quote_visible: "c \<in> set (Quote table s) \<Longrightarrow> 0x20 \<le> byte c"
  by (auto simp: Quote_def dest: quote_body_visible)

lemma config_key_line_visible:
  "\<forall>c \<in> set key. 0x20 \<le> byte c \<Longrightarrow> \<forall>c \<in> set (config_key_line table key value). 0x20 \<le> byte c"
  by (auto simp: config_key_line_def byte_def [of "CHR '':''"] byte_def [of "CHR '' ''"] dest: Quote_visible)

lemma TrimSpace_quoted: "TrimSpace (CHR '' '' # Quote table s) = Quote table s"
proof -
  have "trim_left_func is_space (CHR '' '' # Quote table s) = trim_left_func is_space (Quote table s)"
    by (subst trim_left_func.simps) (simp add: byte_def is_space_def)
  then have "TrimSpace (CHR '' '' # Quote table s) = TrimSpace (Quote table s)" by (simp add: TrimSpace_def)
  also have "\<dots> = Quote table s" by (rule TrimSpace_id) (simp_all add: Quote_def is_space_def)
  finally show ?thesis .
qed

lemma config_line_key:
  assumes "CHR '':'' \<notin> set key"
  shows "config_line (config_key_line table key value) cfg =
    (if TrimSpace key = ''server'' then cfg\<lparr>cc_Server := value\<rparr>
     else if TrimSpace key = ''token'' then cfg\<lparr>cc_Token := value\<rparr> else cfg)"
proof -
  have "cut_at (CHR '':'') (config_key_line table key value) = (key, CHR '' '' # Quote table value, True)"
    using cut_at_append [OF assms] by (simp add: config_key_line_def)
  then show ?thesis by (simp add: config_line_def TrimSpace_quoted Unquote_Quote)
qed

definition lines_fit :: "(nat \<Rightarrow> bool) \<Rightarrow> cli_Config \<Rightarrow> bool" where
  "lines_fit table cfg \<longleftrightarrow>
     length (config_key_line table ''server'' (cc_Server cfg)) < MaxScanTokenSize
     \<and> length (config_key_line table ''token'' (cc_Token cfg)) < MaxScanTokenSize"

lemma config_text_lines:
  "config_text table cfg = config_key_line table ''server'' (cc_Server cfg) @ bchr 0x0A #
     config_key_line table ''token'' (cc_Token cfg) @ bchr 0x0A # []"
  by (simp add: config_text_def config_key_line_def)

lemma scan_config_text:
  "scan_lines (config_text table cfg) =
     (if lines_fit table cfg
      then ([config_key_line table ''server'' (cc_Server cfg), config_key_line table ''token'' (cc_Token cfg)], False)
      else (takeWhile (\<lambda>l. length l < MaxScanTokenSize) [config_key_line table ''server'' (cc_Server cfg),
              config_key_line table ''token'' (cc_Token cfg)], True))"
proof -
  have "\<forall>c \<in> set ''server''. 0x20 \<le> byte c" "\<forall>c \<in> set ''token''. 0x20 \<le> byte c" by (simp_all add: byte_def)
  note v = this [THEN config_key_line_visible]
  have nil: "scan_lines [] = ([], False)" by (simp add: scan_lines.simps)
  show ?thesis unfolding config_text_lines
    by (auto simp: scan_line [OF v(1)] scan_line [OF v(2)] nil lines_fit_def not_less)
qed

lemma key_trims: "TrimSpace ''server'' = ''server''" "TrimSpace ''token'' = ''token''"
  by (rule TrimSpace_id; simp add: byte_def is_space_def)+

lemma load_config_text:
  "lines_fit table cfg \<Longrightarrow> fold config_line (fst (scan_lines (config_text table cfg))) cfg0 = cfg"
  by (simp add: scan_config_text config_line_key key_trims)

lemma load_saved:
  assumes "Options_path E o1 = Inr path" "open_fault E path = None" "read_fault E path = None"
    and "d_files d path = Some (m, config_text table cfg)"
  shows "Options_Load E o1 d = (if lines_fit table cfg then Inr (override_server o1 cfg) else Inl TooLong)"
proof -
  have "snd (scan_lines (config_text table cfg)) = (\<not> lines_fit table cfg)" by (simp add: scan_config_text)
  with load_config_text [of table cfg] assms show ?thesis
    by (auto simp: Options_Load_def Let_def split: prod.split)
qed

lemma lines_fit_short: "length (cc_Server cfg) \<le> 16381 \<Longrightarrow> length (cc_Token cfg) \<le> 16381 \<Longrightarrow> lines_fit table cfg"
  using quote_body_length [of table "cc_Server cfg"] quote_body_length [of table "cc_Token cfg"]
  by (simp add: lines_fit_def config_key_line_def Quote_def MaxScanTokenSize_def)

text \<open>Of the bits of 0600 none is one of the group's or of others', whatever the mask takes away.\<close>

lemma owner_only: "and (and 0x180 x) 0x3F = (0 :: mode)"
proof -
  have "and (and 0x180 x) 0x3F = and x (and 0x180 (0x3F :: mode))" by (simp only: ac_simps)
  then show ?thesis by simp
qed

text \<open>
  C35. A saved configuration is loaded again. After a save that succeeded, loading with the same
  options gives the saved configuration (with the server of the options, if they name one), byte
  for byte and whatever bytes it has, if its two lines are shorter than the 64 KiB of the scanner,
  which they are if the server and the token have at most 16381 bytes each; if one is not, loading
  fails with \<open>bufio.ErrTooLong\<close> from then on. A file that saving creates gives no rights to anybody but its
  owner; one that was there keeps its mode, whatever that is. No other file is touched.
\<close>

theorem saved_config_is_loaded:
  assumes save: "Options_Save table E o1 cfg d = (None, d')"
    and readable: "\<And>path. open_fault E path = None" "\<And>path. read_fault E path = None"
  shows "Options_Load E o1 d' = (if lines_fit table cfg then Inr (override_server o1 cfg) else Inl TooLong)
    \<and> (length (cc_Server cfg) \<le> 16381 \<and> length (cc_Token cfg) \<le> 16381 \<longrightarrow> lines_fit table cfg)
    \<and> (\<exists>path m. Options_path E o1 = Inr path \<and> d_files d' = (d_files d)(path := Some (m, config_text table cfg))
        \<and> m = (case d_files d path of Some (m0, _) \<Rightarrow> m0 | None \<Rightarrow> and 0x180 (not (umask E)))
        \<and> (d_files d path = None \<longrightarrow> and m 0x3F = 0))"
proof -
  obtain path where path: "Options_path E o1 = Inr path" using save by (auto simp: Options_Save_def split: sum.splits)
  obtain m where m: "m = (case d_files d path of Some (m0, _) \<Rightarrow> m0 | None \<Rightarrow> and 0x180 (not (umask E)))"
    and files: "d_files d' = (d_files d)(path := Some (m, config_text table cfg))"
    using save path
    by (auto simp: Options_Save_def MkdirAll_def WriteFile_def Let_def split: option.splits prod.splits)
  have "Options_Load E o1 d' = (if lines_fit table cfg then Inr (override_server o1 cfg) else Inl TooLong)"
    using load_saved [OF path readable] files by simp
  moreover have "d_files d path = None \<longrightarrow> and m 0x3F = 0" using m owner_only by simp
  ultimately show ?thesis
    using path m files lines_fit_short [of cfg table] by (intro conjI impI exI [of _ path] exI [of _ m]) simp_all
qed

text \<open>The first configuration a fresh home directory gets.\<close>

definition fresh_os :: os_env where
  "fresh_os = \<lparr>HOME = ''/home/ann'', umask = 0x12, open_fault = (\<lambda>_. None), read_fault = (\<lambda>_. None),
     mkdir_fault = (\<lambda>_. None), write_fault = (\<lambda>_. None)\<rparr>"

definition fresh_options :: "(unit, unit) Options" where
  "fresh_options = \<lparr>opt_ConfigPath = [], opt_Server = [], opt_HTTPClient = None\<rparr>"

lemma fresh_path: "Options_path fresh_os fresh_options = Inr ''/home/ann/.fleetctl/config.yaml''"
  by code_simp

theorem saved_config_is_loaded_witness:
  "case Options_Save (\<lambda>_. False) fresh_os fresh_options \<lparr>cc_Server = ''http://fleet:8080'', cc_Token = ''tok''\<rparr>
       \<lparr>d_files = (\<lambda>_. None), d_made = []\<rparr> of
     (e, d) \<Rightarrow> e = None \<and> Options_Load fresh_os fresh_options d = Inr \<lparr>cc_Server = ''http://fleet:8080'', cc_Token = ''tok''\<rparr>"
proof -
  let ?cfg = "\<lparr>cc_Server = ''http://fleet:8080'', cc_Token = ''tok''\<rparr>"
  obtain d' where save: "Options_Save (\<lambda>_. False) fresh_os fresh_options ?cfg \<lparr>d_files = (\<lambda>_. None), d_made = []\<rparr> = (None, d')"
    using fresh_path by (simp add: Options_Save_def MkdirAll_def WriteFile_def fresh_os_def Let_def)
  moreover have "override_server fresh_options ?cfg = ?cfg" by (simp add: override_server_def fresh_options_def)
  ultimately show ?thesis using saved_config_is_loaded [OF save] by (simp add: fresh_os_def)
qed

end
