(* ===== verification/CliOutput.thy ===== *)
theory CliOutput
  imports CliConfig
begin

text \<open>
  What the command line client shows and asks (\<open>fleetctl/internal/output/output.go\<close>,
  \<open>fleetctl/internal/secret/password.go\<close>): API errors from response envelopes, indented JSON, and
  passwords from a terminal or standard input.
\<close>

section \<open>Writers\<close>

text \<open>A writer holds what was written and the outcome of the next writes; after those, writes succeed.\<close>

record writer =
  w_data :: bytes
  w_faults :: "bytes option list"

definition write_to :: "bytes \<Rightarrow> writer \<Rightarrow> bytes option \<times> writer" where
  "write_to b w =
     (case w_faults w of
        [] \<Rightarrow> (None, w\<lparr>w_data := w_data w @ b\<rparr>)
      | None # fs \<Rightarrow> (None, \<lparr>w_data = w_data w @ b, w_faults = fs\<rparr>)
      | Some e # fs \<Rightarrow> (Some e, w\<lparr>w_faults := fs\<rparr>))"

section \<open>API errors\<close>

definition status_texts :: "(int \<times> bytes) list" where
  "status_texts =
     [(100, ''Continue''), (101, ''Switching Protocols''), (102, ''Processing''), (103, ''Early Hints''),
      (200, ''OK''), (201, ''Created''), (202, ''Accepted''), (203, ''Non-Authoritative Information''),
      (204, ''No Content''), (205, ''Reset Content''), (206, ''Partial Content''), (207, ''Multi-Status''),
      (208, ''Already Reported''), (226, ''IM Used''),
      (300, ''Multiple Choices''), (301, ''Moved Permanently''), (302, ''Found''), (303, ''See Other''),
      (304, ''Not Modified''), (305, ''Use Proxy''), (307, ''Temporary Redirect''), (308, ''Permanent Redirect''),
      (400, ''Bad Request''), (401, ''Unauthorized''), (402, ''Payment Required''), (403, ''Forbidden''),
      (404, ''Not Found''), (405, ''Method Not Allowed''), (406, ''Not Acceptable''),
      (407, ''Proxy Authentication Required''), (408, ''Request Timeout''), (409, ''Conflict''), (410, ''Gone''),
      (411, ''Length Required''), (412, ''Precondition Failed''), (413, ''Request Entity Too Large''),
      (414, ''Request URI Too Long''), (415, ''Unsupported Media Type''),
      (416, ''Requested Range Not Satisfiable''), (417, ''Expectation Failed''), (418, ''I'' @ [CHR 0x27] @ ''m a teapot''),
      (421, ''Misdirected Request''), (422, ''Unprocessable Entity''), (423, ''Locked''),
      (424, ''Failed Dependency''), (425, ''Too Early''), (426, ''Upgrade Required''),
      (428, ''Precondition Required''), (429, ''Too Many Requests''), (431, ''Request Header Fields Too Large''),
      (451, ''Unavailable For Legal Reasons''),
      (500, ''Internal Server Error''), (501, ''Not Implemented''), (502, ''Bad Gateway''),
      (503, ''Service Unavailable''), (504, ''Gateway Timeout''), (505, ''HTTP Version Not Supported''),
      (506, ''Variant Also Negotiates''), (507, ''Insufficient Storage''), (508, ''Loop Detected''),
      (510, ''Not Extended''), (511, ''Network Authentication Required'')]"

definition StatusText :: "int \<Rightarrow> bytes" where
  "StatusText code = (case map_of status_texts code of Some t \<Rightarrow> t | None \<Rightarrow> [])"

definition int_text :: "int \<Rightarrow> bytes" where
  "int_text n = (if n < 0 then ''-'' @ itoa (nat (- n)) else itoa (nat n))"

definition APIError_Error :: "APIError \<Rightarrow> bytes" where
  "APIError_Error e =
     (if ae_Code e \<noteq> []
      then ''API error '' @ ae_Code e @ '' (HTTP '' @ int_text (ae_StatusCode e) @ ''): '' @ ae_Message e
      else ''API request failed (HTTP '' @ int_text (ae_StatusCode e) @ ''): '' @ ae_Message e)"

text \<open>The anonymous struct that \<open>StatusError\<close> reads: a struct with two strings inside a struct.\<close>

record envelope =
  env_Code :: bytes
  env_Message :: bytes

definition envelope_inner_field :: "bytes \<Rightarrow> json \<Rightarrow> envelope \<Rightarrow> envelope \<times> bool" where
  "envelope_inner_field k v r =
     (if key_matches ''code'' k then apfst (\<lambda>s. r\<lparr>env_Code := s\<rparr>) (raw_string v (env_Code r))
      else if key_matches ''message'' k then apfst (\<lambda>s. r\<lparr>env_Message := s\<rparr>) (raw_string v (env_Message r))
      else (r, True))"

definition envelope_field :: "bytes \<Rightarrow> json \<Rightarrow> envelope \<Rightarrow> envelope \<times> bool" where
  "envelope_field k v r =
     (if key_matches ''error'' k
      then (case v of JObj ms \<Rightarrow> dec_members envelope_inner_field ms r | JNull \<Rightarrow> (r, True) | _ \<Rightarrow> (r, False))
      else (r, True))"

definition dec_envelope :: "json \<Rightarrow> envelope option" where
  "dec_envelope = dec_struct envelope_field \<lparr>env_Code = [], env_Message = []\<rparr>"

definition StatusError :: "int \<Rightarrow> bytes \<Rightarrow> int list \<Rightarrow> APIError option" where
  "StatusError status body expected =
     (if status \<in> set expected then None
      else case Unmarshal dec_envelope body of
             Some env \<Rightarrow>
               if env_Message env \<noteq> []
               then Some \<lparr>ae_StatusCode = status, ae_Code = env_Code env, ae_Message = env_Message env\<rparr>
               else Some \<lparr>ae_StatusCode = status, ae_Code = [],
                          ae_Message = (if StatusText status = [] then ''unexpected response'' else StatusText status)\<rparr>
           | None \<Rightarrow> Some \<lparr>ae_StatusCode = status, ae_Code = [],
                          ae_Message = (if StatusText status = [] then ''unexpected response'' else StatusText status)\<rparr>)"

section \<open>Indented JSON\<close>

definition new_line :: "nat \<Rightarrow> bytes" where
  "new_line depth = bchr 0x0A # concat (replicate depth ''  '')"

fun join_lines :: "nat \<Rightarrow> bytes list \<Rightarrow> bytes" where
  "join_lines depth [] = []"
| "join_lines depth [x] = new_line depth @ x"
| "join_lines depth (x # xs) = new_line depth @ x @ '','' @ join_lines depth xs"

fun indent_text :: "nat \<Rightarrow> json \<Rightarrow> bytes" where
  "indent_text depth (JArr vs) =
     (if vs = [] then ''[]''
      else ''['' @ join_lines (Suc depth) (map (indent_text (Suc depth)) vs) @ new_line depth @ '']'')"
| "indent_text depth (JObj ms) =
     (if ms = [] then ''{}''
      else ''{'' @ join_lines (Suc depth) (map (\<lambda>(k, v). quote_json k @ '': '' @ indent_text (Suc depth) v) ms) @
           new_line depth @ ''}'')"
| "indent_text depth v = json_text v"

text \<open>\<open>output.JSON\<close> on a value that marshals to a document, or not at all.\<close>

definition output_JSON :: "json option \<Rightarrow> writer \<Rightarrow> cli_error option \<times> writer" where
  "output_JSON value w =
     (case value of
        None \<Rightarrow> (Some MarshalFailure, w)
      | Some v \<Rightarrow> apfst (map_option OutputError) (write_to (indent_text 0 v @ [bchr 0x0A]) w))"

definition marshal_ptr :: "('a \<Rightarrow> json option) \<Rightarrow> 'a option \<Rightarrow> json option" where
  "marshal_ptr f p = (case p of None \<Rightarrow> Some JNull | Some x \<Rightarrow> f x)"

definition marshal_slice :: "('a \<Rightarrow> json option) \<Rightarrow> 'a list option \<Rightarrow> json option" where
  "marshal_slice f p = (case p of None \<Rightarrow> Some JNull | Some xs \<Rightarrow> marshal_list f xs)"

definition marshal_HealthResponse :: "HealthResponse \<Rightarrow> json option" where
  "marshal_HealthResponse h =
     concat_members [opt_member ''db'' (\<lambda>s. Some (JStr s)) (hr_Db h), opt_member ''status'' (\<lambda>s. Some (JStr s)) (hr_Status h)]"

section \<open>Passwords\<close>

text \<open>
  Standard input: its data, the error that ends it (none for the end of the file) and, for a file,
  its descriptor.
\<close>

record input =
  in_data :: bytes
  in_error :: "bytes option"
  in_Fd :: "int option"

record PasswordReader =
  isTerminal :: "(int \<Rightarrow> bool) option"
  readTerminal :: "(int \<Rightarrow> bytes + bytes) option"

text \<open>\<open>ReadString\<close> up to a newline: the data and the error, if the input ended before one.\<close>

definition ReadString :: "input \<Rightarrow> bytes \<times> bytes option" where
  "ReadString i =
     (let line = takeWhile (\<lambda>c. byte c \<noteq> 0x0A) (in_data i) in
      if length line < length (in_data i) then (line @ [bchr 0x0A], None)
      else (line, in_error i))"

definition validate :: "bytes \<Rightarrow> cli_error + bytes" where
  "validate password = (if password = [] then Inl (Message ''password must not be empty'') else Inr password)"

definition NewPasswordReader :: "(int \<Rightarrow> bool) \<Rightarrow> (int \<Rightarrow> bytes + bytes) \<Rightarrow> PasswordReader" where
  "NewPasswordReader term_IsTerminal term_ReadPassword =
     \<lparr>isTerminal = Some term_IsTerminal, readTerminal = Some term_ReadPassword\<rparr>"

definition read_prompted :: "(int \<Rightarrow> bytes + bytes) \<Rightarrow> int \<Rightarrow> writer \<Rightarrow> (cli_error + bytes) \<times> writer" where
  "read_prompted term fd out =
     (case write_to ''Password: '' out of
        (Some e, out1) \<Rightarrow> (Inl (Wrapped ''write password prompt'' (OutputError e)), out1)
      | (None, out1) \<Rightarrow>
          (case (term fd, write_to [bchr 0x0A] out1) of
             (Inr password, (Some e, out2)) \<Rightarrow> (Inl (Wrapped ''finish password prompt'' (OutputError e)), out2)
           | (Inl e, (_, out2)) \<Rightarrow> (Inl (Wrapped ''read password'' (ReadFault e)), out2)
           | (Inr password, (None, out2)) \<Rightarrow> (validate password, out2)))"

definition PasswordReader_Read ::
  "PasswordReader \<Rightarrow> input \<Rightarrow> bool \<Rightarrow> writer \<Rightarrow> (cli_error + bytes) \<times> writer" where
  "PasswordReader_Read r i fromStdin out =
     (if fromStdin then
        (case ReadString i of
           (_, Some e) \<Rightarrow> (Inl (Wrapped ''read password from stdin'' (ReadFault e)), out)
         | (password, None) \<Rightarrow> (validate (TrimRight password [bchr 0x0D, bchr 0x0A]), out))
      else case (in_Fd i, isTerminal r) of
             (Some fd, Some is_term) \<Rightarrow>
               if \<not> is_term fd then (Inl (Message ''password input is not a terminal; use --password-stdin''), out)
               else (case readTerminal r of
                       None \<Rightarrow> (Inl (Message ''terminal password reader is unavailable''), out)
                     | Some term \<Rightarrow> read_prompted term fd out)
           | _ \<Rightarrow> (Inl (Message ''password input is not a terminal; use --password-stdin''), out))"

end
