(* ===== verification/Fleetctl.thy ===== *)
theory Fleetctl
  imports CliOutput
begin

text \<open>
  The commands of the command line client (\<open>fleetctl/cmd\<close>): login, health, the satellite and the user
  commands, each as the function its \<open>RunE\<close> closure is, on the configuration file, the two output
  streams and the state of the transport. The parsing of the command line is cobra's; a parsed
  command with its flags is a value of type \<open>command\<close>.
\<close>

section \<open>State\<close>

record 's cli =
  cli_disk :: disk
  cli_stdout :: writer
  cli_stderr :: writer
  cli_net :: 's

text \<open>\<open>fmt.Fprintln\<close> to standard output, whose error the commands drop.\<close>

definition println :: "bytes \<Rightarrow> 's cli \<Rightarrow> 's cli" where
  "println s st = st\<lparr>cli_stdout := snd (write_to (s @ [bchr 0x0A]) (cli_stdout st))\<rparr>"

definition print_json :: "json option \<Rightarrow> 's cli \<Rightarrow> cli_error option \<times> 's cli" where
  "print_json value st =
     (case output_JSON value (cli_stdout st) of (e, w) \<Rightarrow> (e, st\<lparr>cli_stdout := w\<rparr>))"

text \<open>
  A call of the API client: the error is wrapped with the name of the request, the status is
  checked, and the rest of the command gets the response.
\<close>

definition api_call ::
  "bytes \<Rightarrow> ('s \<Rightarrow> (client_error + 'r) \<times> 's) \<Rightarrow> ('r \<Rightarrow> int) \<Rightarrow> ('r \<Rightarrow> bytes) \<Rightarrow> int \<Rightarrow>
     ('r \<Rightarrow> 's cli \<Rightarrow> cli_error option \<times> 's cli) \<Rightarrow> 's cli \<Rightarrow> cli_error option \<times> 's cli" where
  "api_call what call code body expected k st =
     (case call (cli_net st) of
        (Inl e, s) \<Rightarrow> (Some (Wrapped what (ClientFailure e)), st\<lparr>cli_net := s\<rparr>)
      | (Inr resp, s) \<Rightarrow>
          (case StatusError (code resp) (body resp) [expected] of
             Some e \<Rightarrow> (Some (APIFailure e), st\<lparr>cli_net := s\<rparr>)
           | None \<Rightarrow> k resp (st\<lparr>cli_net := s\<rparr>)))"

definition with_client ::
  "('c, 's) cli_lib \<Rightarrow> os_env \<Rightarrow> ('c, 's) Options \<Rightarrow> bool \<Rightarrow>
     (('c, 's) ClientWithResponses \<Rightarrow> 'c editor list \<Rightarrow> 's cli \<Rightarrow> cli_error option \<times> 's cli) \<Rightarrow>
     's cli \<Rightarrow> cli_error option \<times> 's cli" where
  "with_client L E o1 requireAuth k st =
     (case Options_Client L E o1 requireAuth (cli_disk st) of
        Inl e \<Rightarrow> (Some e, st)
      | Inr (client, editors) \<Rightarrow> k client editors st)"

definition with_password ::
  "PasswordReader \<Rightarrow> input \<Rightarrow> bool \<Rightarrow> (bytes \<Rightarrow> 's cli \<Rightarrow> cli_error option \<times> 's cli) \<Rightarrow>
     's cli \<Rightarrow> cli_error option \<times> 's cli" where
  "with_password passwords i fromStdin k st =
     (case PasswordReader_Read passwords i fromStdin (cli_stderr st) of
        (Inl e, w) \<Rightarrow> (Some e, st\<lparr>cli_stderr := w\<rparr>)
      | (Inr password, w) \<Rightarrow> k password (st\<lparr>cli_stderr := w\<rparr>))"

section \<open>Login and health\<close>

definition save_token ::
  "('c, 's) cli_lib \<Rightarrow> os_env \<Rightarrow> ('c, 's) Options \<Rightarrow> bytes \<Rightarrow> 's cli \<Rightarrow> cli_error option \<times> 's cli" where
  "save_token L E o1 token st =
     (case Options_Load E o1 (cli_disk st) of
        Inl e \<Rightarrow> (Some e, st)
      | Inr cfg \<Rightarrow>
          (case Options_Save (print_table L) E o1 (cfg\<lparr>cc_Token := token\<rparr>) (cli_disk st) of
             (Some e, d) \<Rightarrow> (Some (Wrapped ''save config'' e), st\<lparr>cli_disk := d\<rparr>)
           | (None, d) \<Rightarrow> (None, println ''Login successful'' (st\<lparr>cli_disk := d\<rparr>))))"

definition login_RunE ::
  "('c, 's) cli_lib \<Rightarrow> os_env \<Rightarrow> ('c, 's) Options \<Rightarrow> PasswordReader \<Rightarrow> input \<Rightarrow> 'c \<Rightarrow> bytes \<Rightarrow> bool \<Rightarrow>
     's cli \<Rightarrow> cli_error option \<times> 's cli" where
  "login_RunE L E o1 passwords i ctx username passwordStdin =
     with_password passwords i passwordStdin (\<lambda>password.
       with_client L E o1 False (\<lambda>client _.
         api_call ''login request''
           (PostAuthLoginWithResponse client ctx \<lparr>lr_Username = username, lr_Password = password\<rparr> [])
           PostAuthLoginResponse_StatusCode pal_Body 200 (\<lambda>resp st.
             case pal_JSON200 resp of
               None \<Rightarrow> (Some (Message ''login response did not contain a token''), st)
             | Some j \<Rightarrow>
                 (case lrs_Token j of
                    None \<Rightarrow> (Some (Message ''login response did not contain a token''), st)
                  | Some token \<Rightarrow> save_token L E o1 token st))))"

definition health_RunE ::
  "('c, 's) cli_lib \<Rightarrow> os_env \<Rightarrow> ('c, 's) Options \<Rightarrow> 'c \<Rightarrow> 's cli \<Rightarrow> cli_error option \<times> 's cli" where
  "health_RunE L E o1 ctx =
     with_client L E o1 False (\<lambda>client editors.
       api_call ''health request'' (GetHealthWithResponse client ctx editors)
         GetHealthResponse_StatusCode gh_Body 200 (\<lambda>resp.
           print_json (marshal_ptr marshal_HealthResponse (gh_JSON200 resp))))"

section \<open>Satellites\<close>

definition show_satellite :: "('c, 's) cli_lib \<Rightarrow> go_time gen_Satellite \<Rightarrow> json option" where
  "show_satellite L = marshal_Satellite_with marshal_go_time (show_uuid L)"

definition satellite_create_RunE ::
  "('c, 's) cli_lib \<Rightarrow> os_env \<Rightarrow> ('c, 's) Options \<Rightarrow> 'c \<Rightarrow> bytes \<Rightarrow> bytes \<Rightarrow> 's cli \<Rightarrow> cli_error option \<times> 's cli" where
  "satellite_create_RunE L E o1 ctx name region =
     with_client L E o1 True (\<lambda>client editors.
       api_call ''create satellite''
         (PostSatellitesWithResponse (api L) client ctx \<lparr>csr_Name = name, csr_Region = region\<rparr> editors)
         PostSatellitesResponse_StatusCode ps_Body 201 (\<lambda>resp.
           print_json (marshal_ptr (show_satellite L) (ps_JSON201 resp))))"

definition with_satellite_id ::
  "('c, 's) cli_lib \<Rightarrow> bytes list \<Rightarrow> (uuid \<Rightarrow> 's cli \<Rightarrow> cli_error option \<times> 's cli) \<Rightarrow>
     's cli \<Rightarrow> cli_error option \<times> 's cli" where
  "with_satellite_id L args k st =
     (case parse_uuid L (args ! 0) of
        Inl e \<Rightarrow> (Some (Wrapped ''invalid satellite ID'' (InvalidUUID e)), st)
      | Inr i \<Rightarrow> k i st)"

definition satellite_get_RunE ::
  "('c, 's) cli_lib \<Rightarrow> os_env \<Rightarrow> ('c, 's) Options \<Rightarrow> 'c \<Rightarrow> bytes list \<Rightarrow> 's cli \<Rightarrow> cli_error option \<times> 's cli" where
  "satellite_get_RunE L E o1 ctx args =
     with_satellite_id L args (\<lambda>i.
       with_client L E o1 True (\<lambda>client editors.
         api_call ''get satellite'' (GetSatellitesIdWithResponse (api L) client ctx i editors)
           GetSatellitesIdResponse_StatusCode gsi_Body 200 (\<lambda>resp.
             print_json (marshal_ptr (show_satellite L) (gsi_JSON200 resp)))))"

definition satellite_list_RunE ::
  "('c, 's) cli_lib \<Rightarrow> os_env \<Rightarrow> ('c, 's) Options \<Rightarrow> 'c \<Rightarrow> 's cli \<Rightarrow> cli_error option \<times> 's cli" where
  "satellite_list_RunE L E o1 ctx =
     with_client L E o1 True (\<lambda>client editors.
       api_call ''list satellites'' (GetSatellitesWithResponse (api L) client ctx editors)
         GetSatellitesResponse_StatusCode gss_Body 200 (\<lambda>resp.
           print_json (marshal_ptr (marshal_slice (show_satellite L)) (gss_JSON200 resp))))"

definition satellite_delete_RunE ::
  "('c, 's) cli_lib \<Rightarrow> os_env \<Rightarrow> ('c, 's) Options \<Rightarrow> 'c \<Rightarrow> bytes list \<Rightarrow> 's cli \<Rightarrow> cli_error option \<times> 's cli" where
  "satellite_delete_RunE L E o1 ctx args =
     with_satellite_id L args (\<lambda>i.
       with_client L E o1 True (\<lambda>client editors.
         api_call ''check satellite ownership'' (GetSatellitesIdWithResponse (api L) client ctx i editors)
           GetSatellitesIdResponse_StatusCode gsi_Body 200 (\<lambda>getResp st.
             if Option.bind (gsi_JSON200 getResp) gs_ManagedBy = Some Operator_value
             then (Some (Message ''satellite is managed by the Operator; update its CR in Git instead''), st)
             else api_call ''delete satellite'' (DeleteSatellitesIdWithResponse client ctx i editors)
                    DeleteSatellitesIdResponse_StatusCode dsi_Body 204 (\<lambda>_ st.
                      (None, println ''Satellite deleted'' st)) st)))"

section \<open>Users\<close>

definition show_user :: "('c, 's) cli_lib \<Rightarrow> go_time gen_User \<Rightarrow> json option" where
  "show_user L = marshal_User_with marshal_go_time (show_uuid L)"

definition user_create_RunE ::
  "('c, 's) cli_lib \<Rightarrow> os_env \<Rightarrow> ('c, 's) Options \<Rightarrow> PasswordReader \<Rightarrow> input \<Rightarrow> 'c \<Rightarrow> bytes \<Rightarrow> bytes \<Rightarrow> bool \<Rightarrow>
     's cli \<Rightarrow> cli_error option \<times> 's cli" where
  "user_create_RunE L E o1 passwords i ctx username role passwordStdin st =
     (if role \<noteq> ''admin'' \<and> role \<noteq> ''viewer'' then (Some (Message ''role must be admin or viewer''), st)
      else with_client L E o1 True (\<lambda>client editors.
        with_password passwords i passwordStdin (\<lambda>password.
          api_call ''create user''
            (PostUsersWithResponse (api L) client ctx
               \<lparr>cur_Password = password, cur_Role = Some role, cur_Username = username\<rparr> editors)
            PostUsersResponse_StatusCode pu_Body 201 (\<lambda>resp.
              print_json (marshal_ptr (show_user L) (pu_JSON201 resp))))) st)"

definition user_list_RunE ::
  "('c, 's) cli_lib \<Rightarrow> os_env \<Rightarrow> ('c, 's) Options \<Rightarrow> 'c \<Rightarrow> 's cli \<Rightarrow> cli_error option \<times> 's cli" where
  "user_list_RunE L E o1 ctx =
     with_client L E o1 True (\<lambda>client editors.
       api_call ''list users'' (GetUsersWithResponse (api L) client ctx editors)
         GetUsersResponse_StatusCode gus_Body 200 (\<lambda>resp.
           print_json (marshal_ptr (marshal_slice (show_user L)) (gus_JSON200 resp))))"

section \<open>Commands as values\<close>

text \<open>A command with the values of its flags and its arguments, and what running it does.\<close>

datatype command =
    CmdLogin bytes bool
  | CmdHealth
  | CmdSatelliteCreate bytes bytes
  | CmdSatelliteGet "bytes list"
  | CmdSatelliteList
  | CmdSatelliteDelete "bytes list"
  | CmdUserCreate bytes bytes bool
  | CmdUserList

definition run_command ::
  "('c, 's) cli_lib \<Rightarrow> os_env \<Rightarrow> ('c, 's) Options \<Rightarrow> PasswordReader \<Rightarrow> input \<Rightarrow> 'c \<Rightarrow> command \<Rightarrow>
     's cli \<Rightarrow> cli_error option \<times> 's cli" where
  "run_command L E o1 passwords i ctx cmd st =
     (case cmd of
        CmdLogin username passwordStdin \<Rightarrow> login_RunE L E o1 passwords i ctx username passwordStdin st
      | CmdHealth \<Rightarrow> health_RunE L E o1 ctx st
      | CmdSatelliteCreate name region \<Rightarrow> satellite_create_RunE L E o1 ctx name region st
      | CmdSatelliteGet args \<Rightarrow>
          satellite_get_RunE L E o1 ctx args st
      | CmdSatelliteList \<Rightarrow> satellite_list_RunE L E o1 ctx st
      | CmdSatelliteDelete args \<Rightarrow>
          satellite_delete_RunE L E o1 ctx args st
      | CmdUserCreate username role passwordStdin \<Rightarrow>
          user_create_RunE L E o1 passwords i ctx username role passwordStdin st
      | CmdUserList \<Rightarrow> user_list_RunE L E o1 ctx st)"

section \<open>Commands without a login\<close>

text \<open>Which commands ask for a token.\<close>

fun requires_login :: "command \<Rightarrow> bool" where
  "requires_login (CmdLogin _ _) = False"
| "requires_login CmdHealth = False"
| "requires_login _ = True"

lemma Options_Client_refused:
  "(case Options_Load E o1 d of Inl _ \<Rightarrow> True | Inr cfg \<Rightarrow> cc_Token cfg = []) \<Longrightarrow> \<exists>e. Options_Client L E o1 True d = Inl e"
  by (auto simp: Options_Client_def split: sum.splits)

lemma with_client_refused:
  "(case Options_Load E o1 (cli_disk st) of Inl _ \<Rightarrow> True | Inr cfg \<Rightarrow> cc_Token cfg = []) \<Longrightarrow>
    \<exists>e. \<forall>k. with_client L E o1 True k st = (Some e, st)"
  using Options_Client_refused [of E o1 "cli_disk st" L] by (auto simp: with_client_def)

lemma run_command_refused:
  assumes "case Options_Load E o1 (cli_disk st) of Inl _ \<Rightarrow> True | Inr cfg \<Rightarrow> cc_Token cfg = []" "requires_login cmd"
  shows "\<exists>e. run_command L E o1 passwords i ctx cmd st = (Some e, st)"
proof -
  obtain e where e: "\<And>k. with_client L E o1 True k st = (Some e, st)" using with_client_refused [OF assms(1)] by blast
  show ?thesis
    using assms(2)
    by (cases cmd) (auto simp: run_command_def satellite_create_RunE_def satellite_get_RunE_def satellite_list_RunE_def
        satellite_delete_RunE_def user_create_RunE_def user_list_RunE_def with_satellite_id_def e
        split: option.splits sum.splits)
qed

text \<open>
  C37. Passwords are read, never shown. What \<open>PasswordReader.Read\<close> writes is the prompt and the line
  end after it, or less, whatever is typed; from standard input it writes nothing. A password it
  returns is not empty, and one from standard input is the first line without its line end.
\<close>

theorem password_is_not_shown:
  "case PasswordReader_Read r i fromStdin out of (res, out') \<Rightarrow>
     w_data out' \<in> (if fromStdin then {w_data out}
       else {w_data out, w_data out @ ''Password: '', w_data out @ ''Password: '' @ [bchr 0x0A]})
     \<and> (case res of
          Inl _ \<Rightarrow> True
        | Inr password \<Rightarrow> (if password = [] then False
            else if fromStdin then password = TrimRight (fst (ReadString i)) [bchr 0x0D, bchr 0x0A]
            else (case (in_Fd i, readTerminal r) of (Some fd, Some term) \<Rightarrow> term fd = Inr password | _ \<Rightarrow> False)))"
  by (auto simp: PasswordReader_Read_def read_prompted_def validate_def write_to_def
      split: option.splits sum.splits prod.splits list.splits)

end
