(* ===== verification/EndToEnd.thy ===== *)
theory EndToEnd
  imports ClientFacts Fleetctl Gates
begin

text \<open>
  The command line client against the server: the transport of the client is a network that hands
  each request to the router of the Control Plane and its answer back. The theorems follow a
  command from the configuration file through the client, the router, the database and back to
  what is printed.
\<close>

section \<open>The network\<close>

text \<open>
  A request arrives as it was sent, without the headers a transport adds on its own; the answer
  carries the status, headers and body the handler left. A handler that panics closes the
  connection. Header values pass unchanged: that \<open>net/http\<close> does not send one with control bytes, and
  drops blanks around it, concerns only tokens that no server has signed.
\<close>

definition to_server :: "'c client_request \<Rightarrow> request" where
  "to_server req = \<lparr>req_Method = cr_Method req, req_Path = url_Path (cr_URL req), req_Header = cr_Header req,
     req_Body = (case cr_Body req of Some b \<Rightarrow> b | None \<Rightarrow> []), req_ctx = [], url_params = []\<rparr>"

definition to_client :: "response_writer \<Rightarrow> http_response" where
  "to_client rw =
     \<lparr>rsp_Status = itoa (status_of rw) @ '' '' @ StatusText (int (status_of rw)), rsp_StatusCode = int (status_of rw),
      rsp_Header = headers_of rw, rsp_Body = Inr (rw_body rw)\<rparr>"

definition network :: "chi \<Rightarrow> mux \<Rightarrow> (nat \<Rightarrow> env) \<Rightarrow> ('c, nat \<times> world) doer" where
  "network C mx \<omega> req s =
     (case run \<omega> (fst s) (ServeHTTP C mx (to_server req) new_writer) (snd s) of
        (Returned rw, s') \<Rightarrow> (Inr (to_client rw), s')
      | (Panicked msg, s') \<Rightarrow> (Inl (TransportError ''EOF''), s'))"

text \<open>
  What the libraries on the two sides promise each other: UUIDs have one text form, a plain path
  segment that all of them read back, times are shown in zones of whole minutes, and chi finds the
  routes of the requests the commands send.
\<close>

definition wire_contract :: "libs \<Rightarrow> ('c, 's) cli_lib \<Rightarrow> bool" where
  "wire_contract S L \<longleftrightarrow>
     host_contract (urls (api L)) \<and> whole_minutes (marshal S) \<and> ids_read_back (marshal S) (read_uuid (api L))
     \<and> (\<forall>i. let p = show_id (marshal S) i in
          plain_segment p \<and> style_param (api L) i = Inr p \<and> show_uuid L i = p
          \<and> parse_uuid L p = Inr i \<and> bind_UUID S p = Inr i \<and> uuid_Parse S p = Inr i)"

definition chi_contract :: "chi \<Rightarrow> bool" where
  "chi_contract C \<longleftrightarrow>
     (\<forall>S d m. chi_Find C (mux_table (server_mux S d m)) ''POST'' (path_of [''auth'', ''login'']) = Some (0, [])
        \<and> chi_Find C (mux_table (server_mux S d m)) ''POST'' (path_of [''satellites'']) = Some (5, [])
        \<and> chi_Find C (mux_table (server_mux S d m)) ''GET'' (path_of [''satellites'']) = Some (6, [])
        \<and> chi_Find C (mux_table (server_mux S d m)) ''POST'' (path_of [''users'']) = Some (11, [])
        \<and> chi_Find C (mux_table (server_mux S d m)) ''GET'' (path_of [''users'']) = Some (12, []))
     \<and> (\<forall>S d m p. plain_segment p \<longrightarrow>
        chi_Find C (mux_table (server_mux S d m)) ''GET'' (path_of [''satellites'', p]) = Some (7, [(''id'', p)])
        \<and> chi_Find C (mux_table (server_mux S d m)) ''DELETE'' (path_of [''satellites'', p]) = Some (9, [(''id'', p)]))"

section \<open>The client of a configuration\<close>

lemma address_last: "plain_address scheme host segs \<Longrightarrow> address scheme host segs \<noteq> [] \<and> last (address scheme host segs) \<noteq> CHR ''/''"
proof -
  assume a: "plain_address scheme host segs"
  then have h: "host \<noteq> []" "list_all host_byte host" using simple_host_bytes by (auto simp: plain_address_def)
  show ?thesis
  proof (cases segs rule: rev_cases)
    case Nil
    then show ?thesis using h host_not_slash [OF h(2)] by (auto simp: address_def dest: last_in_set)
  next
    case (snoc ss s)
    then have "plain_segment s" using a by (simp add: plain_address_def)
    then have "s \<noteq> []" "CHR ''/'' \<notin> set s" using no_slash_in_segment by (auto simp: plain_segment_def)
    then show ?thesis using snoc by (auto simp: address_def dest: last_in_set)
  qed
qed

lemma dropWhile_replicate: "y \<noteq> x \<Longrightarrow> dropWhile (\<lambda>c. c = x) (replicate k x @ y # r) = y # r"
  by (induction k) auto

lemma TrimRight_slashes:
  "s \<noteq> [] \<Longrightarrow> last s \<noteq> CHR ''/'' \<Longrightarrow> TrimRight (s @ replicate k (CHR ''/'')) ''/'' = s"
  by (cases s rule: rev_cases) (simp_all add: TrimRight_def dropWhile_replicate)

text \<open>The client the commands get for a configured server and token.\<close>

definition client_at :: "client_lib \<Rightarrow> ('c, 's) doer \<Rightarrow> bytes \<Rightarrow> ('c, 's) ClientWithResponses" where
  "client_at A doer addr =
     \<lparr>cwr_ClientInterface = Client_methods A \<lparr>cl_Server = addr @ ''/'', cl_Client = Some doer, cl_RequestEditors = []\<rparr>\<rparr>"

lemma Options_Client_at:
  assumes "Options_Load E o1 d = Inr \<lparr>cc_Server = address scheme host segs @ replicate k (CHR ''/''), cc_Token = token\<rparr>"
    and "plain_address scheme host segs" "auth \<Longrightarrow> token \<noteq> []" "transport L o1 = doer"
  shows "Options_Client L E o1 auth d = Inr (client_at (api L) doer (address scheme host segs),
    if token = [] then [] else [bearer_editor token])"
  using assms address_last [OF assms(2)]
  by (simp add: Options_Client_def TrimRight_slashes NewClientWithResponses_def NewClient_def WithHTTPClient_def client_at_def)

lemma canonical_authorization: "canonical_key ''Authorization'' = ''Authorization''"
  by (simp add: canonical_key_def is_token_byte_def byte_def bchr_def Let_def)

definition sent :: "'c \<Rightarrow> bytes \<Rightarrow> 'c client_request \<Rightarrow> 'c client_request" where
  "sent ctx token req = req\<lparr>cr_ctx := Some ctx, cr_Header := header_Set (cr_Header req) ''Authorization'' (''Bearer '' @ token)\<rparr>"

lemma do_request_sent:
  assumes "built = Inr req"
  shows "do_request \<lparr>cl_Server = sv, cl_Client = Some doer, cl_RequestEditors = []\<rparr> ctx [bearer_editor token] built s
    = doer (sent ctx token req) s"
  using assms by (simp add: do_request_def applyEditors_def bearer_editor_def sent_def)

lemma satellite_calls:
  assumes "host_contract (urls A)" "plain_address scheme host segs" "style_param A i = Inr p" "plain_segment p"
  shows "GetSatellitesIdWithResponse A (client_at A doer (address scheme host segs)) ctx i [bearer_editor token]
      = then_parse (ParseGetSatellitesIdResponse A)
          (doer (sent ctx token (api_request scheme host segs ''GET'' [''satellites'', p] None)))"
    and "DeleteSatellitesIdWithResponse (client_at A doer (address scheme host segs)) ctx i [bearer_editor token]
      = then_parse ParseDeleteSatellitesIdResponse
          (doer (sent ctx token (api_request scheme host segs ''DELETE'' [''satellites'', p] None)))"
proof -
  note b = builder_requests [OF assms]
  have "do_request \<lparr>cl_Server = address scheme host segs @ ''/'', cl_Client = Some doer, cl_RequestEditors = []\<rparr> ctx
      [bearer_editor token] (NewGetSatellitesIdRequest A (address scheme host segs @ ''/'') i)
    = doer (sent ctx token (api_request scheme host segs ''GET'' [''satellites'', p] None))"
    by (rule ext) (rule do_request_sent, simp add: b)
  then show "GetSatellitesIdWithResponse A (client_at A doer (address scheme host segs)) ctx i [bearer_editor token]
      = then_parse (ParseGetSatellitesIdResponse A)
          (doer (sent ctx token (api_request scheme host segs ''GET'' [''satellites'', p] None)))"
    by (simp add: GetSatellitesIdWithResponse_def client_at_def Client_methods_def Client_GetSatellitesId_def)
  have "do_request \<lparr>cl_Server = address scheme host segs @ ''/'', cl_Client = Some doer, cl_RequestEditors = []\<rparr> ctx
      [bearer_editor token] (NewDeleteSatellitesIdRequest A (address scheme host segs @ ''/'') i)
    = doer (sent ctx token (api_request scheme host segs ''DELETE'' [''satellites'', p] None))"
    by (rule ext) (rule do_request_sent, simp add: b)
  then show "DeleteSatellitesIdWithResponse (client_at A doer (address scheme host segs)) ctx i [bearer_editor token]
      = then_parse ParseDeleteSatellitesIdResponse
          (doer (sent ctx token (api_request scheme host segs ''DELETE'' [''satellites'', p] None)))"
    by (simp add: DeleteSatellitesIdWithResponse_def client_at_def Client_methods_def Client_DeleteSatellitesId_def)
qed

section \<open>The server's side\<close>

definition by_id_request :: "bytes \<Rightarrow> bytes \<Rightarrow> bytes \<Rightarrow> request" where
  "by_id_request meth p token =
     \<lparr>req_Method = meth, req_Path = path_of [''satellites'', p], req_Header = [(''Authorization'', [''Bearer '' @ token])],
      req_Body = [], req_ctx = [], url_params = []\<rparr>"

lemma to_server_by_id:
  "to_server (sent ctx token (api_request scheme host [] meth [''satellites'', p] None)) = by_id_request meth p token"
  by (simp add: to_server_def sent_def api_request_def by_id_request_def header_Set_def canonical_authorization
      operation_url_def address_url_def)

lemma by_id_principal:
  "bearer_principal J m t (by_id_request meth p token) =
     (case parse_human_token_at J m t token of Inl _ \<Rightarrow> None | Inr pr \<Rightarrow> Some pr)"
  using TrimPrefix_append [of "''Bearer ''" token]
  by (simp add: bearer_principal_def by_id_request_def header_Get_def canonical_authorization HasPrefix_def)

lemma selected_by_id:
  assumes "chi_contract C" "plain_segment p"
  shows "selected C (server_mux S d m) (by_id_request ''GET'' p token) =
      Some (\<lparr>rt_Method = ''GET'', rt_Pattern = ''/satellites/{id}'',
             rt_Handler = gate Authenticated (jwt S) m (siw_GetSatellitesId S (server_wrapper S m))\<rparr>, [(''id'', p)])"
    and "selected C (server_mux S d m) (by_id_request ''DELETE'' p token) =
      Some (\<lparr>rt_Method = ''DELETE'', rt_Pattern = ''/satellites/{id}'',
             rt_Handler = gate Authenticated (jwt S) m (siw_DeleteSatellitesId S (server_wrapper S m))\<rparr>, [(''id'', p)])"
  using assms
  by (simp_all add: selected_def by_id_request_def chi_contract_def server_mux_routes endpoints_def Let_def
      access_of_def HasPrefix_def)

text \<open>What an endpoint behind a live token leaves and answers.\<close>

lemma serve_gated:
  assumes sel: "selected C (server_mux S d m) r = Some (rt, params)" "rt_Handler rt = gate Authenticated (jwt S) m h"
    and live: "bearer_principal (jwt S) m (env_clock (\<omega> (Suc n))) r = Some pr"
    and run: "run \<omega> (Suc (Suc n)) (h (r\<lparr>url_params := params, req_ctx := withPrincipal (req_ctx r) pr\<rparr>) new_writer) w
      = (Returned rw, n', w')"
  shows "\<exists>n'' entry. run \<omega> n (ServeHTTP C (server_mux S d m) r new_writer) w =
      (Returned rw, n'', w'\<lparr>request_log := request_log w' @ [entry]\<rparr>)"
proof -
  have "bearer_principal (jwt S) m (env_clock (\<omega> (Suc n))) (r\<lparr>url_params := params\<rparr>) = Some pr"
    using live by (simp add: bearer_principal_def)
  from run_gate_open [where \<omega> = \<omega> and n = "Suc n" and a = Authenticated, OF this]
  have "run \<omega> (Suc n) (routeHTTP C (server_mux S d m) r new_writer) w = (Returned rw, n', w')"
    using sel run by (simp add: routeHTTP_def)
  then show ?thesis by (auto simp: ServeHTTP_server_mux run_RequestLogger)
qed

definition get_answer :: "libs \<Rightarrow> satellite option \<Rightarrow> response_writer" where
  "get_answer S found =
     (case found of
        Some row \<Rightarrow> writeJSON 200 (marshal_Satellite (marshal S) (sat_ToResponse (Some row))) new_writer
      | None \<Rightarrow> writeError 404 ''NOT_FOUND'' ''satellite not found'' new_writer)"

lemma run_get_endpoint:
  assumes ids: "bind_UUID S p = Inr i" "uuid_Parse S p = Inr i" and fault: "env_fault (\<omega> k) = None"
  shows "run \<omega> k (siw_GetSatellitesId S (server_wrapper S m) ((by_id_request ''GET'' p token)\<lparr>url_params := [(''id'', p)],
      req_ctx := ctx\<rparr>) new_writer) w = (Returned (get_answer S (sat_table w i)), Suc k, w)"
  using assms
  by (auto simp: endpoint_defs URLParam_def get_answer_def sat_endpoint_simps split: option.split)

lemma serve_get:
  assumes C: "chi_contract C" and p: "plain_segment p" "bind_UUID S p = Inr i" "uuid_Parse S p = Inr i"
    and live: "parse_human_token_at (jwt S) m (env_clock (\<omega> (Suc n))) token = Inr pr"
    and fault: "env_fault (\<omega> (Suc (Suc n))) = None"
  shows "\<exists>n' entry. network C (server_mux S d m) \<omega> (sent ctx token (api_request scheme host [] ''GET'' [''satellites'', p] None)) (n, w)
    = (Inr (to_client (get_answer S (sat_table w i))), n', w\<lparr>request_log := request_log w @ [entry]\<rparr>)"
proof -
  have "bearer_principal (jwt S) m (env_clock (\<omega> (Suc n))) (by_id_request ''GET'' p token) = Some pr"
    using live by (simp add: by_id_principal)
  from serve_gated [where S = S and m = m and d = d and \<omega> = \<omega> and n = n and w = w and pr = pr
      and h = "siw_GetSatellitesId S (server_wrapper S m)", OF selected_by_id(1) [OF C p(1)] _ this
      run_get_endpoint [where \<omega> = \<omega>, OF p(2,3) fault]]
  show ?thesis by (auto simp: network_def to_server_by_id)
qed


lemma run_delete_endpoint:
  assumes ids: "bind_UUID S p = Inr i" "uuid_Parse S p = Inr i"
    and fault: "env_fault (\<omega> k) = None" "env_fault (\<omega> (Suc k)) = None"
    and row: "sat_table w i = Some row" "sat_ManagedBy row \<noteq> ''operator''"
  shows "run \<omega> k (siw_DeleteSatellitesId S (server_wrapper S m) ((by_id_request ''DELETE'' p token)\<lparr>url_params := [(''id'', p)],
      req_ctx := ctx\<rparr>) new_writer) w
    = (Returned (WriteHeader 204 new_writer), Suc (Suc k), w\<lparr>satellites := del_where sat_ID i (satellites w)\<rparr>)"
  using assms
  by (simp add: endpoint_defs URLParam_def sat_endpoint_simps)

lemma serve_delete:
  assumes C: "chi_contract C" and p: "plain_segment p" "bind_UUID S p = Inr i" "uuid_Parse S p = Inr i"
    and live: "parse_human_token_at (jwt S) m (env_clock (\<omega> (Suc n))) token = Inr pr"
    and fault: "env_fault (\<omega> (Suc (Suc n))) = None" "env_fault (\<omega> (Suc (Suc (Suc n)))) = None"
    and row: "sat_table w i = Some row" "sat_ManagedBy row \<noteq> ''operator''"
  shows "\<exists>n' entry. network C (server_mux S d m) \<omega> (sent ctx token (api_request scheme host [] ''DELETE'' [''satellites'', p] None)) (n, w)
    = (Inr (to_client (WriteHeader 204 new_writer)), n',
       w\<lparr>satellites := del_where sat_ID i (satellites w), request_log := request_log w @ [entry]\<rparr>)"
proof -
  have "bearer_principal (jwt S) m (env_clock (\<omega> (Suc n))) (by_id_request ''DELETE'' p token) = Some pr"
    using live by (simp add: by_id_principal)
  from serve_gated [where S = S and m = m and d = d and \<omega> = \<omega> and n = n and w = w and pr = pr
      and h = "siw_DeleteSatellitesId S (server_wrapper S m)", OF selected_by_id(2) [OF C p(1)] _ this
      run_delete_endpoint [where \<omega> = \<omega>, OF p(2,3) fault row]]
  show ?thesis by (auto simp: network_def to_server_by_id)
qed

section \<open>Reading the answer\<close>

text \<open>Text that reaches a client as ASCII was ASCII: an invalid byte arrives as U+FFFD.\<close>

lemma sanitize_to_ascii: "ascii (sanitize s) \<Longrightarrow> sanitize s = s"
proof (induction s rule: runes.induct)
  case (1 s)
  show ?case
  proof (cases "s = []")
    case False
    obtain r n where rn: "decode_rune s = (r, n)" by fastforce
    have step: "sanitize s = encode_rune r @ sanitize (drop n s)" using sanitize_step [OF False] rn by simp
    have "\<not> (r = rune_error \<and> n = 1)"
      using 1(2) step by (auto simp: ascii_def rune_error_def encode_rune_def valid_rune_def)
    from encode_decode_rune [OF rn False this] have "encode_rune r = take n s" by simp
    moreover have "sanitize (drop n s) = drop n s" using 1 False rn step by (simp add: ascii_def)
    ultimately show ?thesis using step by simp
  qed simp
qed

lemma sanitize_ascii_iff: "ascii t \<Longrightarrow> sanitize s = t \<longleftrightarrow> s = t"
  by (metis sanitize_to_ascii sanitize_ascii ascii_def)

text \<open>The content type tells the generated client whether a body is JSON.\<close>

lemma content_type_key: "canonical_key ''Content-Type'' = ''Content-Type''" "canonical_key ''X-Content-Type-Options'' = ''X-Content-Type-Options''"
  by (simp_all add: canonical_key_def is_token_byte_def byte_def bchr_def Let_def)

lemma is_json_answers:
  "is_json (to_client (writeJSON c v new_writer))" "is_json (to_client (writeError c code msg new_writer))"
  "\<not> is_json (to_client (http_Error msg c new_writer))"
  by (simp_all add: is_json_def to_client_def headers_of_def writeJSON_def writeError_def http_Error_def EncodeTo_def
      Write_def WriteHeader_def set_header_def new_writer_def Let_def header_Get_Set content_type_key HasPrefix_def
      split: option.split)

lemma to_client_fields:
  "rsp_StatusCode (to_client rw) = int (status_of rw)" "rsp_Body (to_client rw) = Inr (rw_body rw)"
  by (simp_all add: to_client_def)

lemma error_doc: "good_doc (error_body code msg) \<and> doc_depth (error_body code msg) \<le> 100"
  by (simp add: error_body_def)

lemma read_envelope:
  "dec_envelope (wire escape_body (error_body code msg)) = Some \<lparr>env_Code = sanitize code, env_Message = sanitize msg\<rparr>"
  by (simp add: error_body_def dec_envelope_def dec_struct_def envelope_field_def envelope_inner_field_def
      key_matches_names sanitize_names raw_string_def)

lemma StatusError_envelope:
  assumes "s \<notin> set expected" "sanitize msg \<noteq> []"
  shows "StatusError s (encode_json (error_body code msg)) expected
    = Some \<lparr>ae_StatusCode = s, ae_Code = sanitize code, ae_Message = sanitize msg\<rparr>"
  using assms error_doc [of code msg] by (simp add: StatusError_def Unmarshal_text read_envelope)


lemma Unmarshal_empty: "Unmarshal dec [] = None"
  by (simp add: Unmarshal_def parse_raw_def)

lemma EncodeTo_None_body: "rw_body (writeJSON c None new_writer) = []"
  by (simp add: writeJSON_def EncodeTo_def WriteHeader_def set_header_def new_writer_def)

definition get_response :: "libs \<Rightarrow> satellite \<Rightarrow> json \<Rightarrow> GetSatellitesIdResponse" where
  "get_response S row v =
     \<lparr>gsi_Body = encode_json v, gsi_HTTPResponse = Some (to_client (get_answer S (Some row))),
      gsi_JSON200 = Some (satellite_seen (marshal S) (sat_ToResponse (Some row))), gsi_JSON401 = None, gsi_JSON404 = None\<rparr>"

lemma read_satellite_answer:
  assumes "whole_minutes (marshal S)" "ids_read_back (marshal S) (read_uuid A)"
  shows "Unmarshal (dec_Satellite (read_uuid A)) (rw_body (writeJSON c (marshal_Satellite (marshal S) (sat_ToResponse (Some row))) new_writer))
    = (if marshal_Satellite (marshal S) (sat_ToResponse (Some row)) = None then None
       else Some (satellite_seen (marshal S) (sat_ToResponse (Some row))))"
proof (cases "marshal_Satellite (marshal S) (sat_ToResponse (Some row))")
  case None
  then show ?thesis by (simp add: EncodeTo_None_body Unmarshal_empty)
next
  case (Some v)
  then have "good_doc v \<and> doc_depth v \<le> 1"
    using satellite_doc unfolding marshal_Satellite_members by (auto split: if_splits)
  then have "Unmarshal (dec_Satellite (read_uuid A)) (encode_json v)
      = Some (satellite_seen (marshal S) (sat_ToResponse (Some row)))"
    using read_Satellite [OF Some assms] by (simp add: Unmarshal_text)
  with Some show ?thesis by simp
qed

lemma parse_get_found:
  assumes "whole_minutes (marshal S)" "ids_read_back (marshal S) (read_uuid A)"
  shows "ParseGetSatellitesIdResponse A (to_client (get_answer S (Some row))) =
    (case marshal_Satellite (marshal S) (sat_ToResponse (Some row)) of
       None \<Rightarrow> Inl UnmarshalError
     | Some v \<Rightarrow> Inr (get_response S row v))"
  using read_satellite_answer [OF assms, of 200 row]
  by (cases "marshal_Satellite (marshal S) (sat_ToResponse (Some row))")
    (simp_all add: ParseGetSatellitesIdResponse_def get_answer_def to_client_fields is_json_answers fill_def get_response_def)

lemma parse_get_missing:
  "\<exists>resp. ParseGetSatellitesIdResponse A (to_client (get_answer S None)) = Inr resp
    \<and> gsi_Body resp = encode_json (error_body ''NOT_FOUND'' ''satellite not found'')
    \<and> GetSatellitesIdResponse_StatusCode resp = 404"
  using error_doc [of "''NOT_FOUND''" "''satellite not found''"]
  by (simp add: ParseGetSatellitesIdResponse_def get_answer_def to_client_fields is_json_answers fill_def Unmarshal_text
      read_error_body GetSatellitesIdResponse_StatusCode_def response_StatusCode_def)

lemma literal_ascii: "ascii ''NOT_FOUND''" "ascii ''satellite not found''" "ascii ''operator''"
  "ascii ''UNAUTHORIZED''" "ascii ''invalid token''"
  by (simp_all add: ascii_def byte_def)

lemmas sanitize_literals = literal_ascii [unfolded ascii_def, THEN sanitize_ascii]

lemma status_get_missing:
  "StatusError 404 (encode_json (error_body ''NOT_FOUND'' ''satellite not found'')) [200]
    = Some \<lparr>ae_StatusCode = 404, ae_Code = ''NOT_FOUND'', ae_Message = ''satellite not found''\<rparr>"
  by (subst StatusError_envelope) (simp_all add: sanitize_literals)

text \<open>The first call of the get and delete commands, as one case distinction.\<close>

lemma api_call_get:
  assumes wire: "wire_contract S L" and C: "chi_contract C" and addr: "plain_address scheme host []"
    and net: "cli_net st = (n, w)"
    and live: "parse_human_token_at (jwt S) m (env_clock (\<omega> (Suc n))) token = Inr pr"
    and fault: "env_fault (\<omega> (Suc (Suc n))) = None"
  shows "\<exists>n' entry. api_call what
      (GetSatellitesIdWithResponse (api L) (client_at (api L) (network C (server_mux S d m) \<omega>) (address scheme host [])) ctx i
        [bearer_editor token])
      GetSatellitesIdResponse_StatusCode gsi_Body 200 k st =
    (let st' = st\<lparr>cli_net := (n', w\<lparr>request_log := request_log w @ [entry]\<rparr>)\<rparr> in
     case sat_table w i of
       None \<Rightarrow> (Some (APIFailure \<lparr>ae_StatusCode = 404, ae_Code = ''NOT_FOUND'', ae_Message = ''satellite not found''\<rparr>), st')
     | Some row \<Rightarrow>
         (case marshal_Satellite (marshal S) (sat_ToResponse (Some row)) of
            None \<Rightarrow> (Some (Wrapped what (ClientFailure UnmarshalError)), st')
          | Some v \<Rightarrow> k (get_response S row v) st'))"
proof -
  let ?p = "show_id (marshal S) i"
  have p: "plain_segment ?p" "bind_UUID S ?p = Inr i" "uuid_Parse S ?p = Inr i" "style_param (api L) i = Inr ?p"
    and hc: "host_contract (urls (api L))" and wm: "whole_minutes (marshal S)" "ids_read_back (marshal S) (read_uuid (api L))"
    using wire by (auto simp: wire_contract_def Let_def)
  obtain n' entry where served: "network C (server_mux S d m) \<omega>
      (sent ctx token (api_request scheme host [] ''GET'' [''satellites'', ?p] None)) (n, w)
    = (Inr (to_client (get_answer S (sat_table w i))), n', w\<lparr>request_log := request_log w @ [entry]\<rparr>)"
    using serve_get [where \<omega> = \<omega> and n = n and ctx = ctx and scheme = scheme and host = host and d = d and w = w,
        OF C p(1-3) live fault] by blast
  note call = satellite_calls(1) [OF hc addr p(4,1)]
  show ?thesis
  proof (cases "sat_table w i")
    case None
    then show ?thesis using parse_get_missing [of "api L" S] served net status_get_missing
      by (intro exI [of _ n'] exI [of _ entry]) (auto simp: api_call_def call then_parse_def)
  next
    case (Some row)
    then show ?thesis using parse_get_found [OF wm, of row] served net
      by (intro exI [of _ n'] exI [of _ entry]) (auto simp: api_call_def call then_parse_def StatusError_def
          GetSatellitesIdResponse_StatusCode_def response_StatusCode_def get_response_def to_client_fields get_answer_def
          split: option.splits)
  qed
qed


section \<open>Commands\<close>

lemma with_satellite_id_shown:
  "wire_contract S L \<Longrightarrow> with_satellite_id L [show_id (marshal S) i] k st = k i st"
  by (simp add: with_satellite_id_def wire_contract_def Let_def)

lemma with_client_at:
  assumes "Options_Load E o1 (cli_disk st) = Inr \<lparr>cc_Server = address scheme host segs @ replicate q (CHR ''/''), cc_Token = token\<rparr>"
    and "plain_address scheme host segs" "token \<noteq> []" "transport L o1 = doer"
  shows "with_client L E o1 auth k st = k (client_at (api L) doer (address scheme host segs)) [bearer_editor token] st"
  using Options_Client_at [OF assms(1,2) _ assms(4)] assms(3) by (simp add: with_client_def)

text \<open>
  Text columns of the database are UTF-8. What the client shows of such a row is the document the
  server sent.
\<close>

definition utf8_row :: "satellite \<Rightarrow> bool" where
  "utf8_row row \<longleftrightarrow> list_all valid_utf8 [sat_Name row, sat_Region row, sat_Status row, sat_ManagedBy row]"

lemma shown_satellite:
  assumes wire: "wire_contract S L" and utf8: "utf8_row row"
    and doc: "marshal_Satellite (marshal S) (sat_ToResponse (Some row)) = Some v"
  shows "show_satellite L (satellite_seen (marshal S) (sat_ToResponse (Some row))) = Some v"
proof -
  have ids: "show_uuid L = show_id (marshal S)" using wire by (auto simp: wire_contract_def Let_def)
  have v: "v = JObj (satellite_members (marshal S) (sat_ToResponse (Some row)))"
    and times: "printable_time (shown (marshal S) (sat_CreatedAt row))"
      "\<forall>t \<in> set_option (sat_LastSeenAt row). printable_time (shown (marshal S) t)"
    using doc unfolding marshal_Satellite_members by (auto simp: satellite_times_def sat_ToResponse_def split: if_splits)
  then show ?thesis
    using utf8
    by (cases "sat_LastSeenAt row")
      (simp_all add: show_satellite_def marshal_Satellite_with_def satellite_seen_def sat_ToResponse_def v ids utf8_row_def
        satellite_members_def str_member_def opt_member_def concat_members_def marshal_go_time_def sanitize_valid)
qed

lemma shown_response:
  assumes "wire_contract S L" "utf8_row row" "marshal_Satellite (marshal S) (sat_ToResponse (Some row)) = Some v"
  shows "marshal_ptr (show_satellite L) (gsi_JSON200 (get_response S row v)) = Some v"
  using shown_satellite [OF assms] by (simp add: get_response_def marshal_ptr_def)

text \<open>
  C13. \<open>fleetctl satellite get\<close> shows what is stored. With a configuration that names the server (with
  any number of slashes at its end) and holds a live token, the command asks for exactly the
  satellite named on the command line, and prints the document the server renders for the stored
  satellite, indented; a missing satellite is reported with the code and message the server gave, and a
  satellite whose time has no RFC 3339 form as a response that cannot be read. The tables of the
  server are as before; its request log has one more line.
\<close>

theorem satellite_get_end_to_end:
  assumes wire: "wire_contract S L" and C: "chi_contract C" and addr: "plain_address scheme host []"
    and cfg: "Options_Load E o1 (cli_disk st) = Inr \<lparr>cc_Server = address scheme host [] @ replicate q (CHR ''/''), cc_Token = token\<rparr>"
      "token \<noteq> []" "transport L o1 = network C (server_mux S d m) \<omega>"
    and net: "cli_net st = (n, w)"
    and live: "parse_human_token_at (jwt S) m (env_clock (\<omega> (Suc n))) token = Inr pr"
    and fault: "env_fault (\<omega> (Suc (Suc n))) = None"
    and utf8: "\<And>row. sat_table w i = Some row \<Longrightarrow> utf8_row row"
  shows "\<exists>n' entry. satellite_get_RunE L E o1 ctx [show_id (marshal S) i] st =
    (let st' = st\<lparr>cli_net := (n', w\<lparr>request_log := request_log w @ [entry]\<rparr>)\<rparr> in
     case sat_table w i of
       None \<Rightarrow> (Some (APIFailure \<lparr>ae_StatusCode = 404, ae_Code = ''NOT_FOUND'', ae_Message = ''satellite not found''\<rparr>), st')
     | Some row \<Rightarrow>
         (case marshal_Satellite (marshal S) (sat_ToResponse (Some row)) of
            None \<Rightarrow> (Some (Wrapped ''get satellite'' (ClientFailure UnmarshalError)), st')
          | Some v \<Rightarrow> print_json (Some v) st'))"
proof -
  let ?k = "\<lambda>resp. print_json (marshal_ptr (show_satellite L) (gsi_JSON200 resp))"
  obtain n' entry where "satellite_get_RunE L E o1 ctx [show_id (marshal S) i] st =
    (let st' = st\<lparr>cli_net := (n', w\<lparr>request_log := request_log w @ [entry]\<rparr>)\<rparr> in
     case sat_table w i of
       None \<Rightarrow> (Some (APIFailure \<lparr>ae_StatusCode = 404, ae_Code = ''NOT_FOUND'', ae_Message = ''satellite not found''\<rparr>), st')
     | Some row \<Rightarrow>
         (case marshal_Satellite (marshal S) (sat_ToResponse (Some row)) of
            None \<Rightarrow> (Some (Wrapped ''get satellite'' (ClientFailure UnmarshalError)), st')
          | Some v \<Rightarrow> ?k (get_response S row v) st'))"
    using api_call_get [where \<omega> = \<omega> and n = n and what = "''get satellite''" and ctx = ctx and i = i and d = d and k = ?k,
        OF wire C addr net live fault]
    by (auto simp: satellite_get_RunE_def with_satellite_id_shown [OF wire] with_client_at [OF cfg(1) addr cfg(2,3)])
  then show ?thesis
    using shown_response [OF wire utf8]
    by (intro exI [of _ n'] exI [of _ entry]) (simp add: Let_def split: option.split)
qed

lemma seen_operator:
  "Option.bind (gsi_JSON200 (get_response S row v)) gs_ManagedBy = Some Operator_value \<longleftrightarrow> sat_ManagedBy row = ''operator''"
  using sanitize_ascii_iff [OF literal_ascii(3)]
  by (simp add: get_response_def satellite_seen_def sat_ToResponse_def Operator_value_def)

lemma api_call_delete:
  assumes wire: "wire_contract S L" and C: "chi_contract C" and addr: "plain_address scheme host []"
    and net: "cli_net st = (n, w)"
    and live: "parse_human_token_at (jwt S) m (env_clock (\<omega> (Suc n))) token = Inr pr"
    and fault: "env_fault (\<omega> (Suc (Suc n))) = None" "env_fault (\<omega> (Suc (Suc (Suc n)))) = None"
    and row: "sat_table w i = Some row" "sat_ManagedBy row \<noteq> ''operator''"
  shows "\<exists>n' entry. api_call what
      (DeleteSatellitesIdWithResponse (client_at (api L) (network C (server_mux S d m) \<omega>) (address scheme host [])) ctx i
        [bearer_editor token])
      DeleteSatellitesIdResponse_StatusCode dsi_Body 204 (\<lambda>_. k) st =
    k (st\<lparr>cli_net := (n', w\<lparr>satellites := del_where sat_ID i (satellites w), request_log := request_log w @ [entry]\<rparr>)\<rparr>)"
proof -
  let ?p = "show_id (marshal S) i"
  have p: "plain_segment ?p" "bind_UUID S ?p = Inr i" "uuid_Parse S ?p = Inr i" "style_param (api L) i = Inr ?p"
    and hc: "host_contract (urls (api L))"
    using wire by (auto simp: wire_contract_def Let_def)
  obtain n' entry where "network C (server_mux S d m) \<omega>
      (sent ctx token (api_request scheme host [] ''DELETE'' [''satellites'', ?p] None)) (n, w)
    = (Inr (to_client (WriteHeader 204 new_writer)), n', w\<lparr>satellites := del_where sat_ID i (satellites w), request_log := request_log w @ [entry]\<rparr>)"
    using serve_delete [where \<omega> = \<omega> and n = n and ctx = ctx and scheme = scheme and host = host and d = d and w = w,
        OF C p(1-3) live fault row] by blast
  then show ?thesis using net
    by (intro exI [of _ n'] exI [of _ entry])
      (simp add: api_call_def satellite_calls(2) [OF hc addr p(4,1)] then_parse_def ParseDeleteSatellitesIdResponse_def
        to_client_fields StatusError_def DeleteSatellitesIdResponse_StatusCode_def response_StatusCode_def)
qed

text \<open>
  C11. \<open>fleetctl satellite delete\<close> deletes exactly the satellite it names, and never one the
  operator manages. As long as the token is live and the database answers: a missing satellite is
  reported with the server's code, a satellite managed by the operator is reported and stays, and
  any other (whose document can be read) is gone afterwards, no other row having changed, with
  \<open>Satellite deleted\<close> on standard output.
\<close>

theorem satellite_delete_end_to_end:
  assumes wire: "wire_contract S L" and C: "chi_contract C" and addr: "plain_address scheme host []"
    and cfg: "Options_Load E o1 (cli_disk st) = Inr \<lparr>cc_Server = address scheme host [] @ replicate q (CHR ''/''), cc_Token = token\<rparr>"
      "token \<noteq> []" "transport L o1 = network C (server_mux S d m) \<omega>"
    and net: "cli_net st = (n, w)"
    and live: "\<And>j. parse_human_token_at (jwt S) m (env_clock (\<omega> j)) token = Inr pr"
    and fault: "\<And>j. env_fault (\<omega> j) = None"
  shows "\<exists>n' entries. satellite_delete_RunE L E o1 ctx [show_id (marshal S) i] st =
    (let st' = st\<lparr>cli_net := (n', w\<lparr>request_log := request_log w @ entries\<rparr>)\<rparr> in
     case sat_table w i of
       None \<Rightarrow> (Some (APIFailure \<lparr>ae_StatusCode = 404, ae_Code = ''NOT_FOUND'', ae_Message = ''satellite not found''\<rparr>), st')
     | Some row \<Rightarrow>
         if marshal_Satellite (marshal S) (sat_ToResponse (Some row)) = None
         then (Some (Wrapped ''check satellite ownership'' (ClientFailure UnmarshalError)), st')
         else if sat_ManagedBy row = ''operator''
         then (Some (Message ''satellite is managed by the Operator; update its CR in Git instead''), st')
         else (None, println ''Satellite deleted''
                (st\<lparr>cli_net := (n', w\<lparr>satellites := del_where sat_ID i (satellites w), request_log := request_log w @ entries\<rparr>)\<rparr>)))"
proof -
  let ?del = "\<lambda>st. api_call ''delete satellite''
      (DeleteSatellitesIdWithResponse (client_at (api L) (network C (server_mux S d m) \<omega>) (address scheme host [])) ctx i
        [bearer_editor token])
      DeleteSatellitesIdResponse_StatusCode dsi_Body 204 (\<lambda>_ st. (None, println ''Satellite deleted'' st)) st"
  let ?k = "\<lambda>getResp st. if Option.bind (gsi_JSON200 getResp) gs_ManagedBy = Some Operator_value
      then (Some (Message ''satellite is managed by the Operator; update its CR in Git instead''), st) else ?del st"
  obtain n1 e1 where first: "satellite_delete_RunE L E o1 ctx [show_id (marshal S) i] st =
    (let st' = st\<lparr>cli_net := (n1, w\<lparr>request_log := request_log w @ [e1]\<rparr>)\<rparr> in
     case sat_table w i of
       None \<Rightarrow> (Some (APIFailure \<lparr>ae_StatusCode = 404, ae_Code = ''NOT_FOUND'', ae_Message = ''satellite not found''\<rparr>), st')
     | Some row \<Rightarrow>
         (case marshal_Satellite (marshal S) (sat_ToResponse (Some row)) of
            None \<Rightarrow> (Some (Wrapped ''check satellite ownership'' (ClientFailure UnmarshalError)), st')
          | Some v \<Rightarrow> ?k (get_response S row v) st'))"
    using api_call_get [where \<omega> = \<omega> and n = n and what = "''check satellite ownership''" and ctx = ctx and i = i and d = d
        and k = ?k, OF wire C addr net live fault]
    by (auto simp: satellite_delete_RunE_def with_satellite_id_shown [OF wire] with_client_at [OF cfg(1) addr cfg(2,3)])
  show ?thesis
  proof (cases "\<exists>row v. sat_table w i = Some row \<and> marshal_Satellite (marshal S) (sat_ToResponse (Some row)) = Some v
      \<and> sat_ManagedBy row \<noteq> ''operator''")
    case True
    then obtain row v where row: "sat_table w i = Some row" "sat_ManagedBy row \<noteq> ''operator''"
      and v: "marshal_Satellite (marshal S) (sat_ToResponse (Some row)) = Some v" by blast
    let ?st = "st\<lparr>cli_net := (n1, w\<lparr>request_log := request_log w @ [e1]\<rparr>)\<rparr>"
    have row': "sat_table (w\<lparr>request_log := request_log w @ [e1]\<rparr>) i = Some row" using row by simp
    from api_call_delete [where \<omega> = \<omega> and n = n1 and what = "''delete satellite''" and ctx = ctx and i = i and d = d
        and st = ?st and k = "\<lambda>st. (None, println ''Satellite deleted'' st)", OF wire C addr _ live fault fault row' row(2)]
    obtain n2 e2 where "?del ?st = (None, println ''Satellite deleted'' (st\<lparr>cli_net := (n2,
        w\<lparr>satellites := del_where sat_ID i (satellites w), request_log := request_log w @ [e1, e2]\<rparr>)\<rparr>))" by auto
    with row v first show ?thesis
      by (intro exI [of _ n2] exI [of _ "[e1, e2]"]) (simp add: seen_operator Let_def)
  next
    case False
    with first show ?thesis
      by (intro exI [of _ n1] exI [of _ "[e1]"]) (auto simp: seen_operator Let_def split: option.splits)
  qed
qed

lemma rw_body_http_Error: "rw_body (http_Error msg c new_writer) = msg @ [bchr 0x0A]"
  by (simp add: http_Error_def Write_def WriteHeader_def set_header_def new_writer_def Let_def)

end
