(* ===== verification/CliSession.thy ===== *)
theory CliSession
  imports EndToEnd
begin

text \<open>
  Sessions of the command line client: \<open>fleetctl login\<close> against the server, and what the commands
  after it find in the configuration file.
\<close>

section \<open>Login at the server\<close>

definition login_request :: "bytes \<Rightarrow> bytes \<Rightarrow> request" where
  "login_request username password =
     \<lparr>req_Method = ''POST'', req_Path = path_of [''auth'', ''login''], req_Header = [(''Content-Type'', [''application/json''])],
      req_Body = marshal_LoginRequest \<lparr>lr_Username = username, lr_Password = password\<rparr>, req_ctx = [], url_params = []\<rparr>"

lemma to_server_login:
  "to_server ((api_request scheme host [] ''POST'' [''auth'', ''login''] (Some (marshal_LoginRequest
      \<lparr>lr_Username = username, lr_Password = password\<rparr>)))\<lparr>cr_ctx := c\<rparr>) = login_request username password"
  by (simp add: to_server_def api_request_def login_request_def operation_url_def address_url_def)

definition login_answer :: "bytes \<Rightarrow> response_writer" where
  "login_answer token = EncodeTo (Some (login_response token)) (set_header ''Content-Type'' ''application/json'' new_writer)"

lemma serve_login:
  assumes C: "chi_contract C" and utf8: "valid_utf8 username" "valid_utf8 password"
    and fault: "env_fault (\<omega> (Suc n)) = None"
    and user: "sel_where user_Username username (users w) = Some u" "bcrypt_Compare S (user_PasswordHash u) password"
      "NewHumanPrincipal (show_id (marshal S) (user_ID u)) (user_Role u) = Inr p"
    and sign: "lib_SignedString (jwt S) ''HS256'' (human_claims m p (user_Role u) (env_clock (\<omega> (Suc (Suc n))))) (m_secret m) = Inr token"
  shows "\<exists>n' entry. run \<omega> n (ServeHTTP C (server_mux S d m) (login_request username password) new_writer) w
    = (Returned (login_answer token), n', w\<lparr>request_log := request_log w @ [entry]\<rparr>)"
proof -
  let ?r = "login_request username password"
  have "decode_loginRequest (req_Body ?r) = Some \<lparr>lr_Username = username, lr_Password = password\<rparr>"
    using utf8 by (simp add: login_request_def decode_marshal_LoginRequest sanitize_valid)
  from run_Login_ok [where \<omega> = \<omega> and n = "Suc n" and w = new_writer and db = w and L = S and m = m, OF this fault] user sign
  have "run \<omega> (Suc n) (Login S m ?r new_writer) w = (Returned (login_answer token), Suc (Suc (Suc n)), w)"
    by (simp add: login_answer_def)
  moreover have "selected C (server_mux S d m) ?r =
      Some (\<lparr>rt_Method = ''POST'', rt_Pattern = ''/auth/login'', rt_Handler = siw_PostAuthLogin (server_wrapper S m)\<rparr>, [])"
    using C by (simp add: selected_def login_request_def chi_contract_def server_mux_routes endpoints_def Let_def
        access_of_def HasPrefix_def)
  moreover have "?r\<lparr>url_params := []\<rparr> = ?r" by (simp add: login_request_def)
  ultimately have "run \<omega> (Suc n) (routeHTTP C (server_mux S d m) ?r new_writer) w = (Returned (login_answer token), Suc (Suc (Suc n)), w)"
    by (simp add: routeHTTP_def endpoint_defs)
  then show ?thesis by (auto simp: ServeHTTP_server_mux run_RequestLogger)
qed

section \<open>Login at the client\<close>

lemma login_call:
  assumes "host_contract (urls A)" "plain_address scheme host segs" "style_param A i = Inr p" "plain_segment p"
  shows "PostAuthLoginWithResponse (client_at A doer (address scheme host segs)) ctx login []
      = then_parse ParsePostAuthLoginResponse
          (doer ((api_request scheme host segs ''POST'' [''auth'', ''login''] (Some (marshal_LoginRequest login)))\<lparr>cr_ctx := Some ctx\<rparr>))"
  by (simp add: PostAuthLoginWithResponse_def client_at_def Client_methods_def Client_PostAuthLogin_def
      builder_requests [OF assms] do_request_def applyEditors_def fun_eq_iff then_parse_def)

lemma read_login_response:
  assumes "ascii token"
  shows "dec_LoginResponse (wire escape_body (login_response token)) = Some \<lparr>lrs_ExpiresIn = Some 3600, lrs_Token = Some token\<rparr>"
proof -
  have "itoa (nat (HumanTokenTTL div 1000000000)) = ''3600''" by code_simp
  moreover have "parse_int64 ''3600'' = Some 3600" by code_simp
  ultimately show ?thesis using sanitize_ascii assms
    by (simp add: login_response_def dec_LoginResponse_def dec_struct_def LoginResponse_field_def key_matches_names
      sanitize_names raw_string_ptr_def int_ptr_def ascii_def)
qed

lemma login_doc: "good_doc (login_response token) \<and> doc_depth (login_response token) \<le> 100"
proof -
  have "itoa (nat (HumanTokenTTL div 1000000000)) = ''3600''" by code_simp
  moreover have "scan_number ''3600'' = Some (''3600'', [])" by code_simp
  ultimately show ?thesis by (simp add: login_response_def)
qed

lemma login_answer_seen:
  "status_of (login_answer token) = 200" "rw_body (login_answer token) = encode_json (login_response token)"
  "is_json (to_client (login_answer token))"
  by (simp_all add: login_answer_def EncodeTo_def Write_def WriteHeader_def set_header_def new_writer_def Let_def status_of_def
      is_json_def to_client_def headers_of_def header_Get_Set content_type_key HasPrefix_def)

lemma parse_login_answer:
  "ascii token \<Longrightarrow> ParsePostAuthLoginResponse (to_client (login_answer token)) =
    Inr \<lparr>pal_Body = encode_json (login_response token), pal_HTTPResponse = Some (to_client (login_answer token)),
      pal_JSON200 = Some \<lparr>lrs_ExpiresIn = Some 3600, lrs_Token = Some token\<rparr>, pal_JSON401 = None\<rparr>"
  using login_doc [of token]
  by (simp add: ParsePostAuthLoginResponse_def login_answer_seen to_client_fields fill_def Unmarshal_text read_login_response)

section \<open>The configuration after login\<close>

lemma override_loaded:
  "Options_Load E o1 d = Inr cfg \<Longrightarrow> override_server o1 (cfg\<lparr>cc_Token := t\<rparr>) = cfg\<lparr>cc_Token := t\<rparr>"
  by (auto simp: Options_Load_def override_server_def Let_def split: sum.splits option.splits prod.splits if_splits)

text \<open>The files and directories answer, and the configuration has a path.\<close>

definition sound_disk :: "os_env \<Rightarrow> ('c, 's) Options \<Rightarrow> bool" where
  "sound_disk E o1 \<longleftrightarrow>
     (case Options_path E o1 of
        Inl _ \<Rightarrow> False
      | Inr path \<Rightarrow> open_fault E path = None \<and> read_fault E path = None \<and> write_fault E path = None
          \<and> mkdir_fault E (filepath_Dir path) = None)"

lemma save_token_saves:
  assumes disk: "sound_disk E o1" and cfg: "Options_Load E o1 (cli_disk st) = Inr cfg"
    and fit: "lines_fit (print_table L) (cfg\<lparr>cc_Token := token\<rparr>)"
  shows "\<exists>d'. save_token L E o1 token st = (None, println ''Login successful'' (st\<lparr>cli_disk := d'\<rparr>))
    \<and> Options_Load E o1 d' = Inr (cfg\<lparr>cc_Token := token\<rparr>)"
proof -
  obtain path where path: "Options_path E o1 = Inr path"
    and ok: "open_fault E path = None" "read_fault E path = None" "write_fault E path = None"
      "mkdir_fault E (filepath_Dir path) = None"
    using disk by (auto simp: sound_disk_def split: sum.splits)
  obtain d' m where "Options_Save (print_table L) E o1 (cfg\<lparr>cc_Token := token\<rparr>) (cli_disk st) = (None, d')"
    and saved: "d_files d' path = Some (m, config_text (print_table L) (cfg\<lparr>cc_Token := token\<rparr>))"
    using path ok by (auto simp: Options_Save_def MkdirAll_def WriteFile_def Let_def)
  moreover have "Options_Load E o1 d' = Inr (cfg\<lparr>cc_Token := token\<rparr>)"
    using load_saved [OF path ok(1,2) saved] fit override_loaded [OF cfg] by simp
  ultimately show ?thesis using cfg by (auto simp: save_token_def)
qed

text \<open>
  C12. \<open>fleetctl login\<close> stores the token the server signed. If the account exists, the password read
  from the terminal or standard input matches it, and the token can be signed, then the command
  says so, its exit is clean, the tables of the server are as before, and the configuration that
  the next command loads has the same server and exactly that token.
\<close>

theorem login_end_to_end:
  assumes wire: "wire_contract S L" and C: "chi_contract C" and addr: "plain_address scheme host []"
    and cfg: "Options_Load E o1 (cli_disk st) = Inr \<lparr>cc_Server = address scheme host [] @ replicate q (CHR ''/''), cc_Token = old\<rparr>"
      "transport L o1 = network C (server_mux S d m) \<omega>"
    and disk: "sound_disk E o1"
      "lines_fit (print_table L) \<lparr>cc_Server = address scheme host [] @ replicate q (CHR ''/''), cc_Token = token\<rparr>"
    and net: "cli_net st = (n, w)"
    and password: "PasswordReader_Read passwords i fromStdin (cli_stderr st) = (Inr password, err)"
    and utf8: "valid_utf8 username" "valid_utf8 password" "ascii token"
    and fault: "env_fault (\<omega> (Suc n)) = None"
    and user: "sel_where user_Username username (users w) = Some u" "bcrypt_Compare S (user_PasswordHash u) password"
      "NewHumanPrincipal (show_id (marshal S) (user_ID u)) (user_Role u) = Inr p"
    and sign: "lib_SignedString (jwt S) ''HS256'' (human_claims m p (user_Role u) (env_clock (\<omega> (Suc (Suc n))))) (m_secret m) = Inr token"
  shows "\<exists>n' entry d'. login_RunE L E o1 passwords i ctx username fromStdin st =
      (None, println ''Login successful'' (st\<lparr>cli_stderr := err,
         cli_net := (n', w\<lparr>request_log := request_log w @ [entry]\<rparr>), cli_disk := d'\<rparr>))
    \<and> Options_Load E o1 d' = Inr \<lparr>cc_Server = address scheme host [] @ replicate q (CHR ''/''), cc_Token = token\<rparr>"
proof -
  let ?cfg = "\<lparr>cc_Server = address scheme host [] @ replicate q (CHR ''/''), cc_Token = old\<rparr>"
  have hc: "host_contract (urls (api L))" "style_param (api L) 0 = Inr (show_id (marshal S) 0)" "plain_segment (show_id (marshal S) 0)"
    using wire by (auto simp: wire_contract_def Let_def)
  obtain n' entry where served: "run \<omega> n (ServeHTTP C (server_mux S d m) (login_request username password) new_writer) w
    = (Returned (login_answer token), n', w\<lparr>request_log := request_log w @ [entry]\<rparr>)"
    using serve_login [where \<omega> = \<omega> and n = n and S = S and m = m and d = d, OF C utf8(1,2) fault user sign] by blast
  let ?st = "st\<lparr>cli_stderr := err, cli_net := (n', w\<lparr>request_log := request_log w @ [entry]\<rparr>)\<rparr>"
  have "login_RunE L E o1 passwords i ctx username fromStdin st = save_token L E o1 token ?st"
    using served net password
    by (simp add: login_RunE_def with_password_def with_client_def Options_Client_at [OF cfg(1) addr _ cfg(2)] api_call_def
        login_call [OF hc(1) addr hc(2,3)] then_parse_def network_def to_server_login parse_login_answer [OF utf8(3)]
        PostAuthLoginResponse_StatusCode_def response_StatusCode_def to_client_fields login_answer_seen StatusError_def)
  moreover obtain d' where "save_token L E o1 token ?st = (None, println ''Login successful'' (?st\<lparr>cli_disk := d'\<rparr>))"
    "Options_Load E o1 d' = Inr (?cfg\<lparr>cc_Token := token\<rparr>)"
    using save_token_saves [OF disk(1), of ?st ?cfg L token] cfg(1) disk(2) by auto
  ultimately show ?thesis by (intro exI [of _ n'] exI [of _ entry] exI [of _ d']) simp
qed

end
