(* ===== verification/CliTree.thy ===== *)
theory CliTree
  imports Fleetctl
begin

text \<open>
  The command tree of the command line client (\<open>newRootCommand\<close>, \<open>satellite.NewCommand\<close>,
  \<open>user.NewCommand\<close> and the constructors of the commands) with the flags each command declares, and
  \<open>Execute\<close>. Finding a command and reading flags in a command line is cobra's; it is a parameter that
  takes the tree and the arguments, with its documented checks as a contract.
\<close>

section \<open>Commands of cobra\<close>

datatype flag_value = StringValue bytes | BoolValue bool

record flag_decl =
  fd_Name :: bytes
  fd_Default :: flag_value
  fd_Usage :: bytes
  fd_Required :: bool

definition StringVar_flag :: "bytes \<Rightarrow> bytes \<Rightarrow> bytes \<Rightarrow> flag_decl" where
  "StringVar_flag name val usage = \<lparr>fd_Name = name, fd_Default = StringValue val, fd_Usage = usage, fd_Required = False\<rparr>"

definition BoolVar_flag :: "bytes \<Rightarrow> bool \<Rightarrow> bytes \<Rightarrow> flag_decl" where
  "BoolVar_flag name val usage = \<lparr>fd_Name = name, fd_Default = BoolValue val, fd_Usage = usage, fd_Required = False\<rparr>"

definition MarkFlagRequired :: "bytes \<Rightarrow> flag_decl list \<Rightarrow> flag_decl list" where
  "MarkFlagRequired name = map (\<lambda>d. if fd_Name d = name then d\<lparr>fd_Required := True\<rparr> else d)"

datatype positional = DefaultArgs | ExactArgs nat

datatype 'r cobra_Command = Command
  (cmd_Use: bytes) (cmd_Short: bytes) (cmd_Args: positional)
  (cmd_PersistentFlags: "flag_decl list") (cmd_Flags: "flag_decl list")
  (cmd_RunE: "'r option") (cmd_Commands: "'r cobra_Command list")

text \<open>A command is called by the first word of its use line.\<close>

definition cmd_Name :: "'r cobra_Command \<Rightarrow> bytes" where
  "cmd_Name c = takeWhile (\<lambda>b. b \<noteq> CHR '' '') (cmd_Use c)"

fun find_command :: "'r cobra_Command \<Rightarrow> bytes list \<Rightarrow> 'r cobra_Command option" where
  "find_command c [] = Some c"
| "find_command c (n # ns) =
     (case find (\<lambda>k. cmd_Name k = n) (cmd_Commands c) of None \<Rightarrow> None | Some k \<Rightarrow> find_command k ns)"

text \<open>The flags a command accepts: its own and the persistent ones on the way to it.\<close>

fun flags_on_path :: "'r cobra_Command \<Rightarrow> bytes list \<Rightarrow> flag_decl list" where
  "flags_on_path c [] = cmd_Flags c @ cmd_PersistentFlags c"
| "flags_on_path c (n # ns) =
     (case find (\<lambda>k. cmd_Name k = n) (cmd_Commands c) of
        None \<Rightarrow> [] | Some k \<Rightarrow> flags_on_path k ns @ cmd_PersistentFlags c)"

type_synonym flag_values = "bytes \<Rightarrow> flag_value option"

definition value_of :: "flag_decl list \<Rightarrow> flag_values \<Rightarrow> flag_values" where
  "value_of decls given name =
     (case given name of
        Some v \<Rightarrow> Some v
      | None \<Rightarrow> map_option fd_Default (find (\<lambda>d. fd_Name d = name) decls))"

definition string_flag :: "flag_values \<Rightarrow> bytes \<Rightarrow> bytes" where
  "string_flag f name = (case f name of Some (StringValue s) \<Rightarrow> s | _ \<Rightarrow> [])"

definition bool_flag :: "flag_values \<Rightarrow> bytes \<Rightarrow> bool" where
  "bool_flag f name = (case f name of Some (BoolValue b) \<Rightarrow> b | _ \<Rightarrow> False)"

text \<open>
  What cobra makes of a command line: an error, a text of its own (help or a completion script), or a
  command with the flags that were given and the remaining arguments.
\<close>

datatype parsed_line = LineError cli_error | LineHelp bytes | LineRun "bytes list" flag_values "bytes list"

type_synonym 'r cobra = "'r cobra_Command \<Rightarrow> bytes list \<Rightarrow> parsed_line"

fun same_kind :: "flag_value \<Rightarrow> flag_value \<Rightarrow> bool" where
  "same_kind (StringValue _) (StringValue _) = True"
| "same_kind (BoolValue _) (BoolValue _) = True"
| "same_kind _ _ = False"

text \<open>A flag is given with a value of the kind it is declared with.\<close>

definition kinds_fit :: "flag_decl list \<Rightarrow> flag_values \<Rightarrow> bool" where
  "kinds_fit decls given \<longleftrightarrow>
     (\<forall>name v. given name = Some v \<longrightarrow> list_ex (\<lambda>d. fd_Name d = name \<and> same_kind (fd_Default d) v) decls)"

text \<open>
  The checks cobra makes before it runs a command: the command exists and can be run, its arguments
  are as many as it asks for, every required flag is given, and given flags are declared and of
  the declared kind.
\<close>

definition runnable :: "'r cobra_Command \<Rightarrow> bytes list \<Rightarrow> flag_values \<Rightarrow> bytes list \<Rightarrow> bool" where
  "runnable root path given args \<longleftrightarrow>
     (case find_command root path of
        None \<Rightarrow> False
      | Some c \<Rightarrow>
          cmd_RunE c \<noteq> None
          \<and> (case cmd_Args c of DefaultArgs \<Rightarrow> True | ExactArgs n \<Rightarrow> length args = n)
          \<and> list_all (\<lambda>d. fd_Required d \<longrightarrow> given (fd_Name d) \<noteq> None) (flags_on_path root path)
          \<and> kinds_fit (flags_on_path root path) given)"

definition cobra_contract :: "'r cobra \<Rightarrow> bool" where
  "cobra_contract K \<longleftrightarrow>
     (\<forall>root argv path given args. K root argv = LineRun path given args \<longrightarrow> runnable root path given args)"

section \<open>The commands of the client\<close>

type_synonym 's run = "flag_values \<Rightarrow> bytes list \<Rightarrow> 's cli \<Rightarrow> cli_error option \<times> 's cli"

text \<open>\<open>runtime.Options\<close>, filled from the persistent flags; no test transport is set.\<close>

definition root_options :: "flag_values \<Rightarrow> ('c, 's) Options" where
  "root_options f = \<lparr>opt_ConfigPath = string_flag f ''config'', opt_Server = string_flag f ''server'', opt_HTTPClient = None\<rparr>"

definition newLoginCommand ::
  "('c, 's) cli_lib \<Rightarrow> os_env \<Rightarrow> PasswordReader \<Rightarrow> input \<Rightarrow> 'c \<Rightarrow> 's run cobra_Command" where
  "newLoginCommand L E passwords i ctx =
     Command ''login'' ''Authenticate and save the development token'' DefaultArgs []
       (MarkFlagRequired ''username''
         [StringVar_flag ''username'' [] ''username'',
          BoolVar_flag ''password-stdin'' False ''read password from standard input''])
       (Some (\<lambda>f _. login_RunE L E (root_options f) passwords i ctx (string_flag f ''username'') (bool_flag f ''password-stdin'')))
       []"

definition newHealthCommand :: "('c, 's) cli_lib \<Rightarrow> os_env \<Rightarrow> 'c \<Rightarrow> 's run cobra_Command" where
  "newHealthCommand L E ctx =
     Command ''health'' ''Check Control Plane health'' DefaultArgs [] []
       (Some (\<lambda>f _. health_RunE L E (root_options f) ctx)) []"

definition satellite_newCreateCommand :: "('c, 's) cli_lib \<Rightarrow> os_env \<Rightarrow> 'c \<Rightarrow> 's run cobra_Command" where
  "satellite_newCreateCommand L E ctx =
     Command ''create'' ''Create a manually managed satellite'' DefaultArgs []
       (MarkFlagRequired ''region'' (MarkFlagRequired ''name''
         [StringVar_flag ''name'' [] ''satellite name'', StringVar_flag ''region'' [] ''satellite region'']))
       (Some (\<lambda>f _. satellite_create_RunE L E (root_options f) ctx (string_flag f ''name'') (string_flag f ''region''))) []"

definition satellite_newGetCommand :: "('c, 's) cli_lib \<Rightarrow> os_env \<Rightarrow> 'c \<Rightarrow> 's run cobra_Command" where
  "satellite_newGetCommand L E ctx =
     Command ''get <id>'' ''Get a satellite'' (ExactArgs 1) [] []
       (Some (\<lambda>f args. satellite_get_RunE L E (root_options f) ctx args)) []"

definition satellite_newListCommand :: "('c, 's) cli_lib \<Rightarrow> os_env \<Rightarrow> 'c \<Rightarrow> 's run cobra_Command" where
  "satellite_newListCommand L E ctx =
     Command ''list'' ''List satellites'' DefaultArgs [] [] (Some (\<lambda>f _. satellite_list_RunE L E (root_options f) ctx)) []"

definition satellite_newDeleteCommand :: "('c, 's) cli_lib \<Rightarrow> os_env \<Rightarrow> 'c \<Rightarrow> 's run cobra_Command" where
  "satellite_newDeleteCommand L E ctx =
     Command ''delete <id>'' ''Delete a manually managed satellite'' (ExactArgs 1) [] []
       (Some (\<lambda>f args. satellite_delete_RunE L E (root_options f) ctx args)) []"

definition satellite_NewCommand :: "('c, 's) cli_lib \<Rightarrow> os_env \<Rightarrow> 'c \<Rightarrow> 's run cobra_Command" where
  "satellite_NewCommand L E ctx =
     Command ''satellite'' ''Manage satellites (dev/debug only)'' DefaultArgs [] [] None
       [satellite_newCreateCommand L E ctx, satellite_newGetCommand L E ctx, satellite_newListCommand L E ctx,
        satellite_newDeleteCommand L E ctx]"

definition user_newCreateCommand ::
  "('c, 's) cli_lib \<Rightarrow> os_env \<Rightarrow> PasswordReader \<Rightarrow> input \<Rightarrow> 'c \<Rightarrow> 's run cobra_Command" where
  "user_newCreateCommand L E passwords i ctx =
     Command ''create'' ''Create a user (admin only)'' DefaultArgs []
       (MarkFlagRequired ''username''
         [StringVar_flag ''username'' [] ''username'',
          BoolVar_flag ''password-stdin'' False ''read password from standard input'',
          StringVar_flag ''role'' ''viewer'' ''role (admin or viewer)''])
       (Some (\<lambda>f _. user_create_RunE L E (root_options f) passwords i ctx (string_flag f ''username'') (string_flag f ''role'')
          (bool_flag f ''password-stdin'')))
       []"

definition user_newListCommand :: "('c, 's) cli_lib \<Rightarrow> os_env \<Rightarrow> 'c \<Rightarrow> 's run cobra_Command" where
  "user_newListCommand L E ctx =
     Command ''list'' ''List users (admin only)'' DefaultArgs [] [] (Some (\<lambda>f _. user_list_RunE L E (root_options f) ctx)) []"

definition user_NewCommand ::
  "('c, 's) cli_lib \<Rightarrow> os_env \<Rightarrow> PasswordReader \<Rightarrow> input \<Rightarrow> 'c \<Rightarrow> 's run cobra_Command" where
  "user_NewCommand L E passwords i ctx =
     Command ''user'' ''Manage users (dev/debug only)'' DefaultArgs [] [] None
       [user_newCreateCommand L E passwords i ctx, user_newListCommand L E ctx]"

definition newRootCommand ::
  "('c, 's) cli_lib \<Rightarrow> os_env \<Rightarrow> PasswordReader \<Rightarrow> input \<Rightarrow> 'c \<Rightarrow> 's run cobra_Command" where
  "newRootCommand L E passwords i ctx =
     Command ''fleetctl'' ''fleetctl is a dev/debug CLI for FleetControl'' DefaultArgs
       [StringVar_flag ''config'' [] ''config file (default ~/.fleetctl/config.yaml)'',
        StringVar_flag ''server'' [] ''FleetControl API URL (overrides config)'']
       [] None
       [newLoginCommand L E passwords i ctx, newHealthCommand L E ctx, satellite_NewCommand L E ctx,
        user_NewCommand L E passwords i ctx]"

section \<open>Execution\<close>

definition cobra_Execute :: "'s run cobra \<Rightarrow> 's run cobra_Command \<Rightarrow> bytes list \<Rightarrow> 's cli \<Rightarrow> cli_error option \<times> 's cli" where
  "cobra_Execute K root argv st =
     (case K root argv of
        LineError e \<Rightarrow> (Some e, st)
      | LineHelp msg \<Rightarrow> (None, st\<lparr>cli_stdout := snd (write_to msg (cli_stdout st))\<rparr>)
      | LineRun path given args \<Rightarrow>
          (case Option.bind (find_command root path) cmd_RunE of
             None \<Rightarrow> (None, st)
           | Some f \<Rightarrow> f (value_of (flags_on_path root path) given) args st))"

text \<open>
  \<open>Execute\<close>: errors are silenced by cobra, so the error text (given by \<open>show\<close>) is printed once, on
  standard error, with exit code 1. The password reader is the one of the terminal.
\<close>

definition NewRootCommand ::
  "('c, 's) cli_lib \<Rightarrow> os_env \<Rightarrow> (int \<Rightarrow> bool) \<Rightarrow> (int \<Rightarrow> bytes + bytes) \<Rightarrow> input \<Rightarrow> 'c \<Rightarrow> 's run cobra_Command" where
  "NewRootCommand L E term_IsTerminal term_ReadPassword i ctx =
     newRootCommand L E (NewPasswordReader term_IsTerminal term_ReadPassword) i ctx"

definition Execute ::
  "(cli_error \<Rightarrow> bytes) \<Rightarrow> 's run cobra \<Rightarrow> ('c, 's) cli_lib \<Rightarrow> os_env \<Rightarrow> (int \<Rightarrow> bool) \<Rightarrow> (int \<Rightarrow> bytes + bytes) \<Rightarrow>
   input \<Rightarrow> 'c \<Rightarrow> bytes list \<Rightarrow> 's cli \<Rightarrow> nat \<times> 's cli" where
  "Execute show K L E term_IsTerminal term_ReadPassword i ctx argv st =
     (case cobra_Execute K (NewRootCommand L E term_IsTerminal term_ReadPassword i ctx) argv st of
        (None, st') \<Rightarrow> (0, st')
      | (Some e, st') \<Rightarrow> (1, st'\<lparr>cli_stderr := snd (write_to (show e @ [bchr 0x0A]) (cli_stderr st'))\<rparr>))"

section \<open>What a command line does\<close>

text \<open>
  The commands of the client as a specification: the command and the options that a path, the flags
  that were given and the arguments stand for, with the defaults of the flags that were not.
\<close>

definition given_string :: "flag_values \<Rightarrow> bytes \<Rightarrow> bytes \<Rightarrow> bytes" where
  "given_string given name val = (case given name of Some (StringValue s) \<Rightarrow> s | _ \<Rightarrow> val)"

definition given_bool :: "flag_values \<Rightarrow> bytes \<Rightarrow> bool" where
  "given_bool given name \<longleftrightarrow> given name = Some (BoolValue True)"

definition command_of :: "bytes list \<Rightarrow> flag_values \<Rightarrow> bytes list \<Rightarrow> command option" where
  "command_of path given args = map_of
     [([''login''], CmdLogin (given_string given ''username'' []) (given_bool given ''password-stdin'')),
      ([''health''], CmdHealth),
      ([''satellite'', ''create''], CmdSatelliteCreate (given_string given ''name'' []) (given_string given ''region'' [])),
      ([''satellite'', ''get''], CmdSatelliteGet args),
      ([''satellite'', ''list''], CmdSatelliteList),
      ([''satellite'', ''delete''], CmdSatelliteDelete args),
      ([''user'', ''create''], CmdUserCreate (given_string given ''username'' []) (given_string given ''role'' ''viewer'')
         (given_bool given ''password-stdin'')),
      ([''user'', ''list''], CmdUserList)] path"

definition options_of :: "flag_values \<Rightarrow> ('c, 's) Options" where
  "options_of given =
     \<lparr>opt_ConfigPath = given_string given ''config'' [], opt_Server = given_string given ''server'' [], opt_HTTPClient = None\<rparr>"

lemmas tree_defs =
  newRootCommand_def newLoginCommand_def newHealthCommand_def satellite_NewCommand_def satellite_newCreateCommand_def
  satellite_newGetCommand_def satellite_newListCommand_def satellite_newDeleteCommand_def user_NewCommand_def
  user_newCreateCommand_def user_newListCommand_def cmd_Name_def StringVar_flag_def BoolVar_flag_def MarkFlagRequired_def

lemma find_command_leaf [simp]: "find_command (Command u s a p f r []) path = (if path = [] then Some (Command u s a p f r []) else None)"
  by (cases path) simp_all

lemma value_of_flags:
  shows "map_option fd_Default (find (\<lambda>d. fd_Name d = name) decls) = Some (StringValue s) \<Longrightarrow> (\<And>b. given name \<noteq> Some (BoolValue b)) \<Longrightarrow>
      string_flag (value_of decls given) name = given_string given name s"
    and "map_option fd_Default (find (\<lambda>d. fd_Name d = name) decls) = Some (BoolValue False) \<Longrightarrow> (\<And>t. given name \<noteq> Some (StringValue t)) \<Longrightarrow>
      bool_flag (value_of decls given) name = given_bool given name"
  by (auto simp: value_of_def string_flag_def bool_flag_def given_string_def given_bool_def
      split: option.splits flag_value.splits)

lemma same_kind_value: "same_kind v (BoolValue b) = same_kind v (BoolValue False)" "same_kind v (StringValue t) = same_kind v (StringValue [])"
  by (cases v; simp)+

lemma kinds_fitD:
  assumes "kinds_fit decls given"
  shows "\<not> list_ex (\<lambda>d. fd_Name d = name \<and> same_kind (fd_Default d) (BoolValue False)) decls \<Longrightarrow> given name \<noteq> Some (BoolValue b)"
    and "\<not> list_ex (\<lambda>d. fd_Name d = name \<and> same_kind (fd_Default d) (StringValue [])) decls \<Longrightarrow> given name \<noteq> Some (StringValue t)"
proof -
  have given: "list_ex (\<lambda>d. fd_Name d = name \<and> same_kind (fd_Default d) v) decls" if "given name = Some v" for v
    using assms that by (simp add: kinds_fit_def)
  show "\<not> list_ex (\<lambda>d. fd_Name d = name \<and> same_kind (fd_Default d) (BoolValue False)) decls \<Longrightarrow> given name \<noteq> Some (BoolValue b)"
    using given [of "BoolValue b", unfolded same_kind_value(1) [of _ b]] by auto
  show "\<not> list_ex (\<lambda>d. fd_Name d = name \<and> same_kind (fd_Default d) (StringValue [])) decls \<Longrightarrow> given name \<noteq> Some (StringValue t)"
    using given [of "StringValue t", unfolded same_kind_value(2) [of _ t]] by auto
qed

text \<open>The paths that lead to a command that can be run.\<close>

lemma runnable_paths:
  assumes "Option.bind (find_command (newRootCommand L E passwords i ctx) path) cmd_RunE \<noteq> None"
  shows "path \<in> {[''login''], [''health''], [''satellite'', ''create''], [''satellite'', ''get''], [''satellite'', ''list''],
    [''satellite'', ''delete''], [''user'', ''create''], [''user'', ''list'']}"
proof (cases path)
  case Nil
  then show ?thesis using assms by (simp add: tree_defs)
next
  case (Cons n ns)
  then show ?thesis using assms by (cases ns) (auto simp: tree_defs split: if_splits)
qed

lemma tree_runs:
  fixes L :: "('c, 's) cli_lib"
  assumes "runnable (newRootCommand L E passwords i ctx) path given args"
  defines "vals \<equiv> value_of (flags_on_path (newRootCommand L E passwords i ctx) path) given"
  shows "\<exists>cmd. command_of path given args = Some cmd
    \<and> map_option (\<lambda>f. f vals args) (Option.bind (find_command (newRootCommand L E passwords i ctx) path) cmd_RunE)
      = Some (run_command L E (options_of given) passwords i ctx cmd)"
proof -
  let ?root = "newRootCommand L E passwords i ctx"
  have "Option.bind (find_command ?root path) cmd_RunE \<noteq> None"
    using assms(1) by (auto simp: runnable_def split: option.splits)
  then have path: "path \<in> {[''login''], [''health''], [''satellite'', ''create''], [''satellite'', ''get''], [''satellite'', ''list''],
      [''satellite'', ''delete''], [''user'', ''create''], [''user'', ''list'']}" by (rule runnable_paths)
  have "kinds_fit (flags_on_path ?root path) given" using assms(1) by (auto simp: runnable_def split: option.splits)
  note kinds = kinds_fitD [OF this]
  have str: "string_flag vals name = given_string given name s"
    if "map_option fd_Default (find (\<lambda>d. fd_Name d = name) (flags_on_path ?root path)) = Some (StringValue s)"
      "\<not> list_ex (\<lambda>d. fd_Name d = name \<and> same_kind (fd_Default d) (BoolValue False)) (flags_on_path ?root path)" for name s
    unfolding vals_def by (rule value_of_flags(1) [OF that(1)]) (rule kinds(1) [OF that(2)])
  have bool: "bool_flag vals name = given_bool given name"
    if "map_option fd_Default (find (\<lambda>d. fd_Name d = name) (flags_on_path ?root path)) = Some (BoolValue False)"
      "\<not> list_ex (\<lambda>d. fd_Name d = name \<and> same_kind (fd_Default d) (StringValue [])) (flags_on_path ?root path)" for name
    unfolding vals_def by (rule value_of_flags(2) [OF that(1)]) (rule kinds(2) [OF that(2)])
  have opts: "(root_options vals :: ('c, 's) Options) = options_of given"
    using path str [of "''config''" "[]"] str [of "''server''" "[]"]
    by (auto simp: root_options_def options_of_def tree_defs)
  show ?thesis
    using path
  proof (elim insertE)
    assume p: "path = [''login'']"
    then have "string_flag vals ''username'' = given_string given ''username'' []" "bool_flag vals ''password-stdin'' = given_bool given ''password-stdin''"
      by (simp_all add: str bool tree_defs)
    with p opts show ?thesis by (simp add: command_of_def tree_defs run_command_def fun_eq_iff)
  next
    assume p: "path = [''satellite'', ''create'']"
    then have "string_flag vals ''name'' = given_string given ''name'' []" "string_flag vals ''region'' = given_string given ''region'' []"
      by (simp_all add: str tree_defs)
    with p opts show ?thesis by (simp add: command_of_def tree_defs run_command_def fun_eq_iff)
  next
    assume p: "path = [''user'', ''create'']"
    then have "string_flag vals ''username'' = given_string given ''username'' []" "string_flag vals ''role'' = given_string given ''role'' ''viewer''"
      "bool_flag vals ''password-stdin'' = given_bool given ''password-stdin''"
      by (simp_all add: str bool tree_defs)
    with p opts show ?thesis by (simp add: command_of_def tree_defs run_command_def fun_eq_iff)
  qed (use opts in \<open>simp_all add: command_of_def tree_defs run_command_def fun_eq_iff\<close>)
qed

lemma execute_line:
  assumes "cobra_contract K" "K (newRootCommand L E passwords i ctx) argv = LineRun path given args"
  shows "\<exists>cmd. command_of path given args = Some cmd
    \<and> cobra_Execute K (newRootCommand L E passwords i ctx) argv st = run_command L E (options_of given) passwords i ctx cmd st"
proof -
  have "runnable (newRootCommand L E passwords i ctx) path given args" using assms by (simp add: cobra_contract_def)
  from tree_runs [OF this] show ?thesis by (auto simp: cobra_Execute_def assms(2) split: option.split)
qed

text \<open>
  C16. Every command line does what it says. A command line that cobra accepts runs exactly one of
  the eight commands, the one its path names, with the values of the flags that were given and the
  declared defaults of the others (a new user is a viewer, the password is asked for on the terminal); the
  server and the configuration file are those of the persistent flags. A line it does not accept
  leaves everything but the output as it is.
\<close>

theorem command_lines_run_commands:
  assumes "cobra_contract K"
  shows "case K (newRootCommand L E passwords i ctx) argv of
      LineError e \<Rightarrow> cobra_Execute K (newRootCommand L E passwords i ctx) argv st = (Some e, st)
    | LineHelp msg \<Rightarrow> (\<exists>out. cobra_Execute K (newRootCommand L E passwords i ctx) argv st = (None, st\<lparr>cli_stdout := out\<rparr>))
    | LineRun path given args \<Rightarrow>
        (case command_of path given args of
           None \<Rightarrow> False
         | Some cmd \<Rightarrow> cobra_Execute K (newRootCommand L E passwords i ctx) argv st
             = run_command L E (options_of given) passwords i ctx cmd st)"
proof (cases "K (newRootCommand L E passwords i ctx) argv")
  case (LineRun path given args)
  then show ?thesis using execute_line [OF assms LineRun] by (simp add: fun_eq_iff) fastforce
qed (auto simp: cobra_Execute_def)

text \<open>
  C36. Without a token nothing is sent. If the configuration cannot be loaded or holds no token, the
  program, started for a command other than login and health, exits with code 1 and one error on
  standard error, and that is all: no request leaves, no password is asked for, nothing goes to
  standard output and the configuration stays as it is.
\<close>

theorem no_token_no_request:
  fixes L :: "('c, 's) cli_lib"
  assumes "cobra_contract K" "K (NewRootCommand L E term_IsTerminal term_ReadPassword i ctx) argv = LineRun path given args"
    and "path \<notin> {[''login''], [''health'']}"
    and "case Options_Load E (options_of given :: ('c, 's) Options) (cli_disk st) of Inl _ \<Rightarrow> True | Inr cfg \<Rightarrow> cc_Token cfg = []"
  shows "\<exists>e. Execute show K L E term_IsTerminal term_ReadPassword i ctx argv st
    = (1, st\<lparr>cli_stderr := snd (write_to (show e @ [bchr 0x0A]) (cli_stderr st))\<rparr>)"
proof -
  let ?root = "NewRootCommand L E term_IsTerminal term_ReadPassword i ctx"
  obtain cmd where cmd: "command_of path given args = Some cmd"
    "cobra_Execute K ?root argv st = run_command L E (options_of given) (NewPasswordReader term_IsTerminal term_ReadPassword) i ctx cmd st"
    using execute_line [OF assms(1) assms(2) [unfolded NewRootCommand_def]] unfolding NewRootCommand_def by blast
  have "requires_login cmd" using cmd(1) assms(3) by (auto simp: command_of_def split: if_splits)
  then obtain e where "cobra_Execute K ?root argv st = (Some e, st)"
    using run_command_refused [OF assms(4)] unfolding cmd(2) by blast
  then show ?thesis by (auto simp: Execute_def)
qed

end
