(* ===== verification/CliRefusal.thy ===== *)
theory CliRefusal
  imports CliSession CliTree
begin

text \<open>
  Commands the server refuses: every command that needs a login, run with a token the server does
  not accept, and the user commands with the token of an account that is no administrator.
\<close>

section \<open>The requests of the commands\<close>

text \<open>A request of a command as it arrives at the server, with its token.\<close>

definition token_request :: "bytes \<Rightarrow> bytes list \<Rightarrow> bytes option \<Rightarrow> bytes \<Rightarrow> request" where
  "token_request meth segs body token =
     \<lparr>req_Method = meth, req_Path = path_of segs,
      req_Header = (''Authorization'', [''Bearer '' @ token])
        # (case body of None \<Rightarrow> [] | Some _ \<Rightarrow> [(''Content-Type'', [''application/json''])]),
      req_Body = (case body of None \<Rightarrow> [] | Some b \<Rightarrow> b), req_ctx = [], url_params = []\<rparr>"

lemma to_server_token:
  "to_server (sent ctx token (api_request scheme host [] meth segs body)) = token_request meth segs body token"
  by (cases body) (simp_all add: to_server_def sent_def api_request_def token_request_def header_Set_def canonical_authorization
      operation_url_def address_url_def)

lemma token_request_header: "header_Get (req_Header (token_request meth segs body token)) ''Authorization'' = ''Bearer '' @ token"
  by (simp add: token_request_def header_Get_def canonical_authorization)

lemma token_request_principal:
  "bearer_principal J m t (token_request meth segs body token) =
     (case parse_human_token_at J m t token of Inl _ \<Rightarrow> None | Inr pr \<Rightarrow> Some pr)"
  using TrimPrefix_append [of "''Bearer ''" token]
  by (simp add: bearer_principal_def token_request_header HasPrefix_def)

lemma selected_token_request:
  assumes "chi_contract C"
  shows "\<exists>h. selected C (server_mux S d m) (token_request ''POST'' [''satellites''] body token)
      = Some (\<lparr>rt_Method = ''POST'', rt_Pattern = ''/satellites'', rt_Handler = h\<rparr>, [])"
    and "\<exists>h. selected C (server_mux S d m) (token_request ''GET'' [''satellites''] body token)
      = Some (\<lparr>rt_Method = ''GET'', rt_Pattern = ''/satellites'', rt_Handler = h\<rparr>, [])"
    and "\<exists>h. selected C (server_mux S d m) (token_request ''POST'' [''users''] body token)
      = Some (\<lparr>rt_Method = ''POST'', rt_Pattern = ''/users'', rt_Handler = h\<rparr>, [])"
    and "\<exists>h. selected C (server_mux S d m) (token_request ''GET'' [''users''] body token)
      = Some (\<lparr>rt_Method = ''GET'', rt_Pattern = ''/users'', rt_Handler = h\<rparr>, [])"
    and "plain_segment p \<Longrightarrow> \<exists>h. selected C (server_mux S d m) (token_request ''GET'' [''satellites'', p] body token)
      = Some (\<lparr>rt_Method = ''GET'', rt_Pattern = ''/satellites/{id}'', rt_Handler = h\<rparr>, [(''id'', p)])"
  using assms by (simp_all add: selected_def token_request_def chi_contract_def server_mux_routes endpoints_def Let_def)

section \<open>The refusal\<close>

text \<open>
  What the gates of the router refuse, and with which error document. \<open>http.Error\<close> sends it as plain
  text, so the generated client does not parse it; the command finds it in the body.
\<close>

definition refusal :: "jwt_lib \<Rightarrow> JWTManager \<Rightarrow> nanos \<Rightarrow> bytes \<Rightarrow> bool \<Rightarrow> APIError option" where
  "refusal J m t token adminOnly =
     (case parse_human_token_at J m t token of
        Inl _ \<Rightarrow> Some \<lparr>ae_StatusCode = 401, ae_Code = ''UNAUTHORIZED'', ae_Message = ''invalid token''\<rparr>
      | Inr pr \<Rightarrow>
          if adminOnly \<and> p_role pr \<noteq> RoleAdmin
          then Some \<lparr>ae_StatusCode = 403, ae_Code = ''FORBIDDEN'', ae_Message = ''insufficient role''\<rparr>
          else None)"

definition refused_response :: "APIError \<Rightarrow> http_response" where
  "refused_response e =
     to_client (http_Error (json_text (error_body (ae_Code e) (ae_Message e))) (nat (ae_StatusCode e)) new_writer)"

lemma refusal_cases:
  "refusal J m t token a = Some e \<Longrightarrow>
     e = \<lparr>ae_StatusCode = 401, ae_Code = ''UNAUTHORIZED'', ae_Message = ''invalid token''\<rparr>
     \<or> e = \<lparr>ae_StatusCode = 403, ae_Code = ''FORBIDDEN'', ae_Message = ''insufficient role''\<rparr>"
  by (auto simp: refusal_def split: sum.splits if_splits)

lemma serve_refusal:
  assumes sel: "selected C (server_mux S d m) (token_request meth segs body token) = Some (rt, params)"
    and access: "access_of (rt_Pattern rt) \<noteq> Public"
    and refused: "refusal (jwt S) m (env_clock (\<omega> (Suc n))) token (access_of (rt_Pattern rt) = AdminOnly) = Some e"
  shows "\<exists>n' entry. network C (server_mux S d m) \<omega> (sent ctx token (api_request scheme host [] meth segs body)) (n, w)
    = (Inr (refused_response e), n', w\<lparr>request_log := request_log w @ [entry]\<rparr>)"
proof (cases "parse_human_token_at (jwt S) m (env_clock (\<omega> (Suc n))) token")
  case (Inl err)
  let ?r = "token_request meth segs body token"
  have none: "bearer_principal (jwt S) m (env_clock (\<omega> (Suc n))) ?r = None" by (simp add: token_request_principal Inl)
  have "unauthorized ?r new_writer = http_Error (unauthorized_body ''invalid token'') 401 new_writer"
    by (simp add: unauthorized_def token_request_header HasPrefix_def)
  with serve_refused [where \<omega> = \<omega> and n = n and L = S and w = new_writer and db = w, OF sel access none] refused
  show ?thesis by (auto simp: network_def to_server_token refusal_def Inl refused_response_def unauthorized_body_def)
next
  case (Inr pr)
  let ?r = "token_request meth segs body token"
  have "bearer_principal (jwt S) m (env_clock (\<omega> (Suc n))) ?r = Some pr" by (simp add: token_request_principal Inr)
  with serve_forbidden [where \<omega> = \<omega> and n = n and L = S and w = new_writer and db = w and p = pr, OF sel] refused
  show ?thesis
    by (auto simp: network_def to_server_token refusal_def Inr refused_response_def forbidden_body_def split: if_splits)
qed

lemma refused_response_fields:
  "rsp_Body (refused_response e) = Inr (encode_json (error_body (ae_Code e) (ae_Message e)))"
  "\<not> is_json (refused_response e)" "0 \<le> ae_StatusCode e \<Longrightarrow> rsp_StatusCode (refused_response e) = ae_StatusCode e"
  by (simp_all add: refused_response_def to_client_fields is_json_answers rw_body_http_Error encode_json_def)

lemma StatusError_refused:
  assumes "refusal J m t token a = Some e" "expected < 400"
  shows "StatusError (ae_StatusCode e) (encode_json (error_body (ae_Code e) (ae_Message e))) [expected] = Some e"
proof -
  have "ascii ''FORBIDDEN''" "ascii ''insufficient role''" by (simp_all add: ascii_def byte_def)
  then have "sanitize ''FORBIDDEN'' = ''FORBIDDEN''" "sanitize ''insufficient role'' = ''insufficient role''"
    using sanitize_ascii by (auto simp: ascii_def)
  then show ?thesis using refusal_cases [OF assms(1)] assms(2) by (auto simp: StatusError_envelope sanitize_literals)
qed

text \<open>A call whose parser passes on status and body of an answer that is not JSON.\<close>

definition passes_on :: "(http_response \<Rightarrow> client_error + 'r) \<Rightarrow> ('r \<Rightarrow> int) \<Rightarrow> ('r \<Rightarrow> bytes) \<Rightarrow> bool" where
  "passes_on parse code body \<longleftrightarrow>
     (\<forall>rsp b. \<not> is_json rsp \<longrightarrow> rsp_Body rsp = Inr b \<longrightarrow>
        (\<exists>resp. parse rsp = Inr resp \<and> code resp = rsp_StatusCode rsp \<and> body resp = b))"

lemma parsers_pass_on:
  "passes_on (ParseGetSatellitesIdResponse A) GetSatellitesIdResponse_StatusCode gsi_Body"
  "passes_on (ParseGetSatellitesResponse A) GetSatellitesResponse_StatusCode gss_Body"
  "passes_on (ParsePostSatellitesResponse A) PostSatellitesResponse_StatusCode ps_Body"
  "passes_on (ParseGetUsersResponse A) GetUsersResponse_StatusCode gus_Body"
  "passes_on (ParsePostUsersResponse A) PostUsersResponse_StatusCode pu_Body"
  by (simp_all add: passes_on_def ParseGetSatellitesIdResponse_def ParseGetSatellitesResponse_def ParsePostSatellitesResponse_def
      ParseGetUsersResponse_def ParsePostUsersResponse_def GetSatellitesIdResponse_StatusCode_def
      GetSatellitesResponse_StatusCode_def PostSatellitesResponse_StatusCode_def GetUsersResponse_StatusCode_def
      PostUsersResponse_StatusCode_def response_StatusCode_def)

lemma api_call_refused:
  assumes sel: "\<exists>h. selected C (server_mux S d m) (token_request meth segs body token)
        = Some (\<lparr>rt_Method = meth, rt_Pattern = pat, rt_Handler = h\<rparr>, params)" "access_of pat \<noteq> Public"
    and parse: "passes_on parse code rbody"
    and refused: "refusal (jwt S) m (env_clock (\<omega> (Suc n))) token (access_of pat = AdminOnly) = Some e"
    and expected: "expected < 400" and net: "cli_net st = (n, w)"
  shows "\<exists>n' entry. api_call what
      (then_parse parse (network C (server_mux S d m) \<omega> (sent ctx token (api_request scheme host [] meth segs body))))
      code rbody expected k st = (Some (APIFailure e), st\<lparr>cli_net := (n', w\<lparr>request_log := request_log w @ [entry]\<rparr>)\<rparr>)"
proof -
  obtain h where "selected C (server_mux S d m) (token_request meth segs body token)
      = Some (\<lparr>rt_Method = meth, rt_Pattern = pat, rt_Handler = h\<rparr>, params)" using sel(1) by blast
  from serve_refusal [where \<omega> = \<omega> and n = n and ctx = ctx and scheme = scheme and host = host and w = w, OF this] sel(2) refused
  obtain n' entry where served: "network C (server_mux S d m) \<omega> (sent ctx token (api_request scheme host [] meth segs body)) (n, w)
      = (Inr (refused_response e), n', w\<lparr>request_log := request_log w @ [entry]\<rparr>)" by auto
  have "0 \<le> ae_StatusCode e" using refusal_cases [OF refused] by auto
  then obtain resp where "parse (refused_response e) = Inr resp" "code resp = ae_StatusCode e"
    "rbody resp = encode_json (error_body (ae_Code e) (ae_Message e))"
    using parse unfolding passes_on_def by (metis refused_response_fields)
  then show ?thesis
    using served net StatusError_refused [OF refused expected]
    by (intro exI [of _ n'] exI [of _ entry]) (simp add: api_call_def then_parse_def)
qed

section \<open>The commands\<close>

lemma access_classes:
  "access_of ''/satellites'' = Authenticated" "access_of ''/satellites/{id}'' = Authenticated" "access_of ''/users'' = AdminOnly"
  by (simp_all add: access_of_def HasPrefix_def)

lemma token_calls:
  assumes "host_contract (urls A)" "plain_address scheme host segs" "style_param A i = Inr p" "plain_segment p"
  shows "PostSatellitesWithResponse A (client_at A doer (address scheme host segs)) ctx sat [bearer_editor token]
      = then_parse (ParsePostSatellitesResponse A)
          (doer (sent ctx token (api_request scheme host segs ''POST'' [''satellites''] (Some (marshal_CreateSatelliteRequest sat)))))"
    and "GetSatellitesWithResponse A (client_at A doer (address scheme host segs)) ctx [bearer_editor token]
      = then_parse (ParseGetSatellitesResponse A)
          (doer (sent ctx token (api_request scheme host segs ''GET'' [''satellites''] None)))"
    and "PostUsersWithResponse A (client_at A doer (address scheme host segs)) ctx usr [bearer_editor token]
      = then_parse (ParsePostUsersResponse A)
          (doer (sent ctx token (api_request scheme host segs ''POST'' [''users''] (Some (marshal_CreateUserRequest usr)))))"
    and "GetUsersWithResponse A (client_at A doer (address scheme host segs)) ctx [bearer_editor token]
      = then_parse (ParseGetUsersResponse A)
          (doer (sent ctx token (api_request scheme host segs ''GET'' [''users''] None)))"
  by (simp_all add: PostSatellitesWithResponse_def GetSatellitesWithResponse_def PostUsersWithResponse_def GetUsersWithResponse_def
      client_at_def Client_methods_def Client_PostSatellites_def Client_GetSatellites_def Client_PostUsers_def Client_GetUsers_def
      then_parse_def fun_eq_iff do_request_sent [OF builder_requests(4) [OF assms]] do_request_sent [OF builder_requests(5) [OF assms]]
      do_request_sent [OF builder_requests(10) [OF assms]] do_request_sent [OF builder_requests(11) [OF assms]])

text \<open>
  Commands that get as far as a request: an argument that is an id, a known role and a password that
  could be read. The user commands ask for an administrator.
\<close>

fun sends_request :: "('c, 's) cli_lib \<Rightarrow> PasswordReader \<Rightarrow> input \<Rightarrow> writer \<Rightarrow> command \<Rightarrow> bool" where
  "sends_request L r i err (CmdSatelliteGet args) =
     (length args = 1 \<and> (case parse_uuid L (args ! 0) of Inl _ \<Rightarrow> False | Inr _ \<Rightarrow> True))"
| "sends_request L r i err (CmdSatelliteDelete args) =
     (length args = 1 \<and> (case parse_uuid L (args ! 0) of Inl _ \<Rightarrow> False | Inr _ \<Rightarrow> True))"
| "sends_request L r i err (CmdUserCreate _ role fromStdin) =
     ((role = ''admin'' \<or> role = ''viewer'')
      \<and> (case fst (PasswordReader_Read r i fromStdin err) of Inl _ \<Rightarrow> False | Inr _ \<Rightarrow> True))"
| "sends_request L r i err _ = True"

fun admin_command :: "command \<Rightarrow> bool" where
  "admin_command (CmdUserCreate _ _ _) = True"
| "admin_command CmdUserList = True"
| "admin_command _ = False"

text \<open>Standard error after the password was asked for.\<close>

fun asked :: "PasswordReader \<Rightarrow> input \<Rightarrow> writer \<Rightarrow> command \<Rightarrow> writer" where
  "asked r i err (CmdUserCreate _ _ fromStdin) = snd (PasswordReader_Read r i fromStdin err)"
| "asked r i err _ = err"

lemma run_command_refusal:
  assumes wire: "wire_contract S L" and C: "chi_contract C" and addr: "plain_address scheme host []"
    and cfg: "Options_Load E o1 (cli_disk st) = Inr \<lparr>cc_Server = address scheme host [] @ replicate q (CHR ''/''), cc_Token = token\<rparr>"
      "token \<noteq> []" "transport L o1 = network C (server_mux S d m) \<omega>"
    and net: "cli_net st = (n, w)"
    and cmd: "requires_login cmd" "sends_request L passwords i (cli_stderr st) cmd"
    and refused: "refusal (jwt S) m (env_clock (\<omega> (Suc n))) token (admin_command cmd) = Some e"
  shows "\<exists>n' entry. run_command L E o1 passwords i ctx cmd st =
    (Some (APIFailure e), st\<lparr>cli_stderr := asked passwords i (cli_stderr st) cmd,
       cli_net := (n', w\<lparr>request_log := request_log w @ [entry]\<rparr>)\<rparr>)"
proof -
  have hc: "host_contract (urls (api L))" and p: "\<And>j. style_param (api L) j = Inr (show_id (marshal S) j)"
    "\<And>j. plain_segment (show_id (marshal S) j)"
    using wire by (auto simp: wire_contract_def Let_def)
  note calls = token_calls [OF hc addr p] satellite_calls(1) [OF hc addr p]
  note client = with_client_at [OF cfg(1) addr cfg(2,3)]
  note call = api_call_refused [where \<omega> = \<omega> and n = n and ctx = ctx and w = w]
  show ?thesis
  proof (cases cmd)
    case (CmdSatelliteCreate name region)
    then show ?thesis
      using call [OF selected_token_request(1) [OF C] _ parsers_pass_on(3) _ _ net] refused
      by (simp add: run_command_def satellite_create_RunE_def client calls access_classes)
  next
    case (CmdSatelliteGet args)
    then obtain j where "length args = 1" "parse_uuid L (args ! 0) = Inr j" using cmd(2) by (auto split: sum.splits)
    then show ?thesis
      using CmdSatelliteGet call [OF selected_token_request(5) [OF C p(2)] _ parsers_pass_on(1) _ _ net] refused
      by (simp add: run_command_def satellite_get_RunE_def with_satellite_id_def client calls access_classes)
  next
    case CmdSatelliteList
    then show ?thesis
      using call [OF selected_token_request(2) [OF C] _ parsers_pass_on(2) _ _ net] refused
      by (simp add: run_command_def satellite_list_RunE_def client calls access_classes)
  next
    case (CmdSatelliteDelete args)
    then obtain j where "length args = 1" "parse_uuid L (args ! 0) = Inr j" using cmd(2) by (auto split: sum.splits)
    then show ?thesis
      using CmdSatelliteDelete call [OF selected_token_request(5) [OF C p(2)] _ parsers_pass_on(1) _ _ net] refused
      by (simp add: run_command_def satellite_delete_RunE_def with_satellite_id_def client calls access_classes)
  next
    case (CmdUserCreate username role fromStdin)
    then obtain password err where read: "role = ''admin'' \<or> role = ''viewer''"
      "PasswordReader_Read passwords i fromStdin (cli_stderr st) = (Inr password, err)"
      using cmd(2) by (cases "PasswordReader_Read passwords i fromStdin (cli_stderr st)") (auto split: sum.splits)
    have "cli_net (st\<lparr>cli_stderr := err\<rparr>) = (n, w)" using net by simp
    from call [OF selected_token_request(3) [OF C] _ parsers_pass_on(5) _ _ this]
    show ?thesis
      using CmdUserCreate read refused
      by (simp add: run_command_def user_create_RunE_def with_password_def client calls access_classes)
  next
    case CmdUserList
    then show ?thesis
      using call [OF selected_token_request(4) [OF C] _ parsers_pass_on(4) _ _ net] refused
      by (simp add: run_command_def user_list_RunE_def client calls access_classes)
  qed (use cmd in auto)
qed

text \<open>
  C14. A token the server does not accept stops every command at the server. Whatever command that
  needs a login is run, as soon as it gets as far as a request: with an expired or otherwise dead
  token it reports status 401, and a user command with the token of an account that is no
  administrator reports status 403, with the code and message of the server's error document, although the
  server labels that document as plain text and the generated client leaves its \<open>JSON401\<close> and
  \<open>JSON403\<close> fields empty. The tables of the server, the configuration file and standard output are
  as before.
\<close>

theorem refused_end_to_end:
  fixes L :: "('c, nat \<times> world) cli_lib"
  assumes wire: "wire_contract S L" and C: "chi_contract C" and addr: "plain_address scheme host []"
    and cobra: "cobra_contract K" "K (newRootCommand L E passwords i ctx) argv = LineRun path given args"
      "command_of path given args = Some cmd"
    and cfg: "Options_Load E (options_of given :: ('c, nat \<times> world) Options) (cli_disk st)
        = Inr \<lparr>cc_Server = address scheme host [] @ replicate q (CHR ''/''), cc_Token = token\<rparr>"
      "token \<noteq> []" "http_client L DefaultHTTPTimeout = network C (server_mux S d m) \<omega>"
    and net: "cli_net st = (n, w)"
    and cmd: "requires_login cmd" "sends_request L passwords i (cli_stderr st) cmd"
    and refused: "refusal (jwt S) m (env_clock (\<omega> (Suc n))) token (admin_command cmd) = Some e"
  shows "\<exists>n' entry. cobra_Execute K (newRootCommand L E passwords i ctx) argv st =
    (Some (APIFailure e), st\<lparr>cli_stderr := asked passwords i (cli_stderr st) cmd,
       cli_net := (n', w\<lparr>request_log := request_log w @ [entry]\<rparr>)\<rparr>)"
proof -
  have "transport L (options_of given) = network C (server_mux S d m) \<omega>" using cfg(3) by (simp add: transport_def options_of_def)
  from run_command_refusal [where \<omega> = \<omega> and n = n, OF wire C addr cfg(1,2) this net cmd refused]
  show ?thesis using execute_line [OF cobra(1,2), of st] cobra(3) by simp
qed

end
