(* ===== verification/CliCreate.thy ===== *)
theory CliCreate
  imports CliRefusal
begin

text \<open>
  \<open>fleetctl satellite create\<close> against the server: the row it adds, what it prints, and what it reports
  when the name is taken.
\<close>

section \<open>The server's side\<close>

text \<open>The row that the database makes of a name and a region.\<close>

definition new_row :: "env \<Rightarrow> bytes \<Rightarrow> bytes \<Rightarrow> satellite" where
  "new_row e name region =
     \<lparr>sat_ID = env_uuid e, sat_Name = name, sat_Region = region, sat_Status = ''Pending'', sat_ManagedBy = ''manual'',
      sat_LastSeenAt = None, sat_CreatedAt = env_now e\<rparr>"

definition insertable :: "env \<Rightarrow> bytes \<Rightarrow> world \<Rightarrow> bool" where
  "insertable e name w \<longleftrightarrow>
     sel_where sat_ID (env_uuid e) (satellites w) = None \<and> sel_where sat_Name name (satellites w) = None"

definition create_answer :: "libs \<Rightarrow> env \<Rightarrow> bytes \<Rightarrow> bytes \<Rightarrow> world \<Rightarrow> response_writer" where
  "create_answer S e name region w =
     (if insertable e name w
      then writeJSON 201 (marshal_Satellite (marshal S) (sat_ToResponse (Some (new_row e name region)))) new_writer
      else writeError 500 ''CREATE_FAILED'' (env_conflict e) new_writer)"

definition create_effect :: "env \<Rightarrow> bytes \<Rightarrow> bytes \<Rightarrow> world \<Rightarrow> world" where
  "create_effect e name region w =
     (if insertable e name w then w\<lparr>satellites := satellites w @ [new_row e name region]\<rparr> else w)"

abbreviation create_request :: "bytes \<Rightarrow> bytes \<Rightarrow> bytes \<Rightarrow> request" where
  "create_request name region token \<equiv>
     token_request ''POST'' [''satellites''] (Some (marshal_CreateSatelliteRequest \<lparr>csr_Name = name, csr_Region = region\<rparr>)) token"

lemma run_create_endpoint:
  assumes utf8: "valid_utf8 name" "valid_utf8 region" and fault: "env_fault (\<omega> k) = None"
  shows "run \<omega> k (siw_PostSatellites (server_wrapper S m) ((create_request name region token)\<lparr>url_params := params, req_ctx := ctx\<rparr>)
      new_writer) w = (Returned (create_answer S (\<omega> k) name region w), Suc k, create_effect (\<omega> k) name region w)"
  using assms
  by (auto simp: endpoint_defs token_request_def decode_marshal_CreateSatelliteRequest sanitize_valid sat_endpoint_simps
      sat_insert_def sat_ToDomainCreate_def create_answer_def create_effect_def insertable_def new_row_def)

lemma serve_create:
  assumes C: "chi_contract C" and utf8: "valid_utf8 name" "valid_utf8 region"
    and live: "parse_human_token_at (jwt S) m (env_clock (\<omega> (Suc n))) token = Inr pr"
    and fault: "env_fault (\<omega> (Suc (Suc n))) = None"
  shows "\<exists>n' entry. network C (server_mux S d m) \<omega> (sent ctx token (api_request scheme host [] ''POST'' [''satellites'']
      (Some (marshal_CreateSatelliteRequest \<lparr>csr_Name = name, csr_Region = region\<rparr>)))) (n, w)
    = (Inr (to_client (create_answer S (\<omega> (Suc (Suc n))) name region w)), n',
       create_effect (\<omega> (Suc (Suc n))) name region w\<lparr>request_log := request_log w @ [entry]\<rparr>)"
proof -
  let ?r = "create_request name region token"
  have sel: "selected C (server_mux S d m) ?r = Some (\<lparr>rt_Method = ''POST'', rt_Pattern = ''/satellites'',
      rt_Handler = gate Authenticated (jwt S) m (siw_PostSatellites (server_wrapper S m))\<rparr>, [])"
    using C by (simp add: selected_def token_request_def chi_contract_def server_mux_routes endpoints_def access_classes Let_def)
  have "bearer_principal (jwt S) m (env_clock (\<omega> (Suc n))) ?r = Some pr" using live by (simp add: token_request_principal)
  from serve_gated [where S = S and m = m and d = d and \<omega> = \<omega> and n = n and w = w and pr = pr
      and h = "siw_PostSatellites (server_wrapper S m)", OF sel _ this
      run_create_endpoint [where \<omega> = \<omega>, OF utf8 fault]]
  show ?thesis by (auto simp: network_def to_server_token create_effect_def)
qed

section \<open>The command\<close>

text \<open>What the command makes of the answer 500.\<close>

definition create_failure :: "bytes \<Rightarrow> APIError" where
  "create_failure msg =
     (if sanitize msg = [] then \<lparr>ae_StatusCode = 500, ae_Code = [], ae_Message = ''Internal Server Error''\<rparr>
      else \<lparr>ae_StatusCode = 500, ae_Code = ''CREATE_FAILED'', ae_Message = sanitize msg\<rparr>)"

lemma status_create_failure:
  "StatusError 500 (encode_json (error_body ''CREATE_FAILED'' msg)) [201] = Some (create_failure msg)"
proof -
  have "sanitize ''CREATE_FAILED'' = ''CREATE_FAILED''" using sanitize_ascii by (simp add: ascii_def byte_def)
  moreover have "StatusText 500 = ''Internal Server Error''" by code_simp
  ultimately show ?thesis
    using error_doc [of "''CREATE_FAILED''" msg] by (simp add: StatusError_def Unmarshal_text read_envelope create_failure_def)
qed

text \<open>
  C15. \<open>fleetctl satellite create\<close> adds exactly one satellite. With a live token and a database that
  answers: if the name is free, the table gets one row more, with the given name and region, pending
  and manually managed, and the command prints the document of that row, indented (if its creation
  time has no RFC 3339 form the row is there all the same and the command reports an answer it
  cannot read); if the name is taken, nothing changes and the command reports status 500 with the
  database's message.
\<close>

theorem satellite_create_end_to_end:
  assumes wire: "wire_contract S L" and C: "chi_contract C" and addr: "plain_address scheme host []"
    and cfg: "Options_Load E o1 (cli_disk st) = Inr \<lparr>cc_Server = address scheme host [] @ replicate q (CHR ''/''), cc_Token = token\<rparr>"
      "token \<noteq> []" "transport L o1 = network C (server_mux S d m) \<omega>"
    and net: "cli_net st = (n, w)"
    and live: "parse_human_token_at (jwt S) m (env_clock (\<omega> (Suc n))) token = Inr pr"
    and fault: "env_fault (\<omega> (Suc (Suc n))) = None"
    and utf8: "valid_utf8 name" "valid_utf8 region"
  shows "\<exists>n' entry. satellite_create_RunE L E o1 ctx name region st =
    (let e = \<omega> (Suc (Suc n)); row = new_row e name region;
         st' = (\<lambda>rows. st\<lparr>cli_net := (n', w\<lparr>satellites := satellites w @ rows, request_log := request_log w @ [entry]\<rparr>)\<rparr>) in
     if insertable e name w
     then (case marshal_Satellite (marshal S) (sat_ToResponse (Some row)) of
             None \<Rightarrow> (Some (Wrapped ''create satellite'' (ClientFailure UnmarshalError)), st' [row])
           | Some v \<Rightarrow> print_json (Some v) (st' [row]))
     else (Some (APIFailure (create_failure (env_conflict e))), st' []))"
proof -
  let ?e = "\<omega> (Suc (Suc n))" let ?row = "new_row ?e name region"
  have hc: "host_contract (urls (api L))" and p: "\<And>j. style_param (api L) j = Inr (show_id (marshal S) j)"
    "\<And>j. plain_segment (show_id (marshal S) j)" and wm: "whole_minutes (marshal S)" "ids_read_back (marshal S) (read_uuid (api L))"
    using wire by (auto simp: wire_contract_def Let_def)
  obtain n' entry where served: "network C (server_mux S d m) \<omega> (sent ctx token (api_request scheme host [] ''POST'' [''satellites'']
      (Some (marshal_CreateSatelliteRequest \<lparr>csr_Name = name, csr_Region = region\<rparr>)))) (n, w)
    = (Inr (to_client (create_answer S ?e name region w)), n', create_effect ?e name region w\<lparr>request_log := request_log w @ [entry]\<rparr>)"
    using serve_create [where \<omega> = \<omega> and n = n and ctx = ctx and scheme = scheme and host = host and d = d and w = w,
        OF C utf8 live fault] by blast
  have "utf8_row ?row" using utf8 by (simp add: utf8_row_def new_row_def valid_utf8_ascii byte_def)
  then have shown: "marshal_ptr (show_satellite L) (Some (satellite_seen (marshal S) (sat_ToResponse (Some ?row)))) = Some v"
    if "marshal_Satellite (marshal S) (sat_ToResponse (Some ?row)) = Some v" for v
    using shown_satellite [OF wire _ that] by (simp add: marshal_ptr_def)
  show ?thesis
    using served net read_satellite_answer [OF wm, of 201 ?row] shown status_create_failure
    by (intro exI [of _ n'] exI [of _ entry])
      (auto simp: satellite_create_RunE_def with_client_at [OF cfg(1) addr cfg(2,3)] token_calls(1) [OF hc addr p] api_call_def
        then_parse_def ParsePostSatellitesResponse_def create_answer_def create_effect_def to_client_fields is_json_answers fill_def
        PostSatellitesResponse_StatusCode_def response_StatusCode_def StatusError_def Let_def split: option.splits)
qed

end
