(* ===== verification/CliSample.thy ===== *)
theory CliSample
  imports CliCreate Sample
begin

text \<open>
  A concrete deployment of server, router and command line client for worked examples of the
  theorems about commands: identifiers are printed as 39 decimal digits, the client's configuration
  is a file that names the server, and the server is the one of the sample deployment.
\<close>

definition sample_show :: "uuid \<Rightarrow> bytes" where
  "sample_show i = pad_int 39 (unat i)"

definition sample_read :: "bytes \<Rightarrow> bytes + uuid" where
  "sample_read s = (if s \<noteq> [] \<and> list_all is_digit s then Inr (word_of_nat (digits_value s)) else Inl ''invalid UUID'')"

definition sample_server :: libs where
  "sample_server = sample_libs\<lparr>uuid_Parse := sample_read, bind_UUID := sample_read,
     marshal := \<lparr>zone = (\<lambda>_. 0), show_id = sample_show\<rparr>,
     jwt := sample_jwt\<lparr>lib_SignedString := (\<lambda>alg c key. Inr ''tok'')\<rparr>\<rparr>"

definition router_sample :: chi where
  "router_sample = \<lparr>chi_Find = (\<lambda>table meth path.
     if meth = ''POST'' \<and> path = ''/auth/login'' then Some (0, [])
     else if path = ''/satellites'' then Some (if meth = ''POST'' then 5 else 6, [])
     else if path = ''/users'' then Some (if meth = ''POST'' then 11 else 12, [])
     else if meth = ''GET'' \<and> HasPrefix path ''/satellites/'' then Some (7, [(''id'', TrimPrefix path ''/satellites/'')])
     else if meth = ''DELETE'' \<and> HasPrefix path ''/satellites/'' then Some (9, [(''id'', TrimPrefix path ''/satellites/'')])
     else None), chi_Miss = (\<lambda>r. http_Error ''404 page not found'' 404)\<rparr>"

definition sample_api :: client_lib where
  "sample_api = \<lparr>urls = \<lparr>parseHost = (\<lambda>scheme h. Inr h)\<rparr>, style_param = (\<lambda>i. Inr (sample_show i)),
     read_uuid = (\<lambda>s. case sample_read s of Inl _ \<Rightarrow> None | Inr i \<Rightarrow> Some i)\<rparr>"

definition sample_os :: os_env where
  "sample_os = \<lparr>HOME = ''/home/ann'', umask = 0x12, open_fault = (\<lambda>_. None), read_fault = (\<lambda>_. None),
     mkdir_fault = (\<lambda>_. None), write_fault = (\<lambda>_. None)\<rparr>"

definition mux_sample :: mux where
  "mux_sample = server_mux sample_server \<lparr>openapi_Spec = [], swaggerUIHTML = []\<rparr> sample_manager"

definition sample_cli_lib :: "(unit, nat \<times> world) cli_lib" where
  "sample_cli_lib = \<lparr>api = sample_api, http_client = (\<lambda>_. network router_sample mux_sample (\<lambda>_. sample_env)),
     print_table = (\<lambda>_. False), parse_uuid = sample_read, show_uuid = sample_show\<rparr>"

definition sample_options :: "(unit, nat \<times> world) Options" where
  "sample_options = \<lparr>opt_ConfigPath = ''c'', opt_Server = [],
     opt_HTTPClient = None\<rparr>"

definition sample_cli_config :: "bytes \<Rightarrow> cli_Config" where
  "sample_cli_config token = \<lparr>cc_Server = ''http://fleet:8080'', cc_Token = token\<rparr>"

definition sample_disk :: "bytes \<Rightarrow> disk" where
  "sample_disk token = \<lparr>d_files = [''c'' \<mapsto> (0x180, config_text (\<lambda>_. False) (sample_cli_config token))], d_made = []\<rparr>"

definition sample_cli :: "bytes \<Rightarrow> (nat \<times> world) cli" where
  "sample_cli token = \<lparr>cli_disk = sample_disk token, cli_stdout = \<lparr>w_data = [], w_faults = []\<rparr>,
     cli_stderr = \<lparr>w_data = [], w_faults = []\<rparr>, cli_net = (0, sample_world)\<rparr>"

text \<open>
  A reader of command lines that takes the words as the path of a command, with a configuration file
  and a username as the only flags, and runs what may be run.
\<close>

definition config_flags :: flag_values where
  "config_flags = [''config'' \<mapsto> StringValue ''c'']"

definition create_flags :: flag_values where
  "create_flags = [''config'' \<mapsto> StringValue ''c'', ''username'' \<mapsto> StringValue ''bob'']"

definition sample_cobra :: "'r cobra" where
  "sample_cobra root argv =
     (let given = (if argv = [''user'', ''create''] then create_flags else config_flags)
      in if runnable root argv given [] then LineRun argv given [] else LineError (Message ''unknown command''))"

abbreviation sample_root :: "(nat \<times> world) run cobra_Command" where
  "sample_root \<equiv> newRootCommand sample_cli_lib sample_os (NewPasswordReader (\<lambda>_. True) (\<lambda>_. Inr ''pw''))
     \<lparr>in_data = [], in_error = None, in_Fd = Some 0\<rparr> ()"

lemma sample_cobra_contract: "cobra_contract sample_cobra"
  by (simp add: cobra_contract_def sample_cobra_def Let_def)

lemma sample_lines:
  "sample_cobra (newRootCommand L E pw i ctx) [''user'', ''list''] = LineRun [''user'', ''list''] config_flags []"
  "sample_cobra (newRootCommand L E pw i ctx) [''user'', ''create''] = LineRun [''user'', ''create''] create_flags []"
  by (simp_all add: sample_cobra_def runnable_def kinds_fit_def tree_defs config_flags_def create_flags_def)

lemma sample_given:
  "options_of config_flags = sample_options"
  "options_of create_flags = sample_options"
  by (simp_all add: options_of_def given_string_def sample_options_def config_flags_def create_flags_def)

lemma sample_command: "command_of [''user'', ''create''] create_flags [] = Some (CmdUserCreate ''bob'' ''viewer'' False)"
  by (simp add: command_of_def given_string_def given_bool_def create_flags_def)

section \<open>The contracts hold\<close>

lemma sample_read_show: "sample_read (sample_show i) = Inr i"
proof -
  have "unat i < 2 ^ 128" using unsigned_less [of i] by simp
  also have "\<dots> < 10 ^ 39" by simp
  finally have "unat i < 10 ^ 39" .
  moreover have "pad_int 39 (unat i) \<noteq> []" using pad_int_digits(1) [of 39 "unat i"] by fastforce
  ultimately show ?thesis by (simp add: sample_read_def sample_show_def digits_value_pad pad_int_digits)
qed

lemma sample_show_segment: "plain_segment (sample_show i)"
proof -
  have l: "length (sample_show i) = 39" "list_all is_digit (sample_show i)" by (simp_all add: sample_show_def pad_int_digits)
  then have "list_all plain_byte (sample_show i)" using is_digit_plain by (auto simp: list_all_iff)
  moreover have "sample_show i \<noteq> []" "sample_show i \<noteq> ''.''" "sample_show i \<noteq> ''..''" using l(1) by auto
  ultimately show ?thesis by (simp add: plain_segment_def)
qed

lemma sample_show_ascii: "ascii (sample_show i)"
  using pad_int_digits(2) [of 39 "unat i"] by (auto simp: ascii_def sample_show_def list_all_iff is_digit_def)

lemma sample_wire: "wire_contract sample_server sample_cli_lib"
  by (simp add: wire_contract_def sample_server_def sample_cli_lib_def sample_api_def host_contract_def whole_minutes_def
      ids_read_back_def sample_read_show sample_show_segment sample_show_ascii Let_def)

lemma router_sample_contract: "chi_contract router_sample"
  by (simp add: chi_contract_def router_sample_def HasPrefix_def TrimPrefix_def)

lemma sample_address: "address ''http'' ''fleet:8080'' [] @ replicate 0 (CHR ''/'') = ''http://fleet:8080''"
  "plain_address ''http'' ''fleet:8080'' []"
  by (simp_all add: address_def plain_address_def simple_host_def cut_at_def is_digit_def plain_byte_def is_alnum_def byte_def)

lemma sample_path: "Options_path sample_os sample_options = Inr ''c''"
  by (simp add: Options_path_def sample_options_def)

lemma sample_load:
  assumes "length token \<le> 16381"
  shows "Options_Load sample_os sample_options (cli_disk (sample_cli token)) =
    Inr \<lparr>cc_Server = address ''http'' ''fleet:8080'' [] @ replicate 0 (CHR ''/''), cc_Token = token\<rparr>"
proof -
  have "lines_fit (\<lambda>_. False) (sample_cli_config token)" using assms by (intro lines_fit_short) (simp_all add: sample_cli_config_def)
  then have "Options_Load sample_os sample_options (sample_disk token) = Inr (sample_cli_config token)"
    using load_saved [OF sample_path] by (simp add: sample_os_def sample_disk_def override_server_def sample_options_def)
  then show ?thesis by (simp only: sample_address(1)) (simp add: sample_cli_def sample_cli_config_def)
qed

lemma sample_http:
  "transport sample_cli_lib sample_options = network router_sample (server_mux sample_server
     \<lparr>openapi_Spec = [], swaggerUIHTML = []\<rparr> sample_manager) (\<lambda>_. sample_env)"
  "http_client sample_cli_lib DefaultHTTPTimeout = network router_sample (server_mux sample_server
     \<lparr>openapi_Spec = [], swaggerUIHTML = []\<rparr> sample_manager) (\<lambda>_. sample_env)"
  by (simp_all add: transport_def sample_options_def mux_sample_def sample_cli_lib_def)

lemma sample_net: "cli_net (sample_cli token) = (0, sample_world)"
  by (simp add: sample_cli_def)

lemma sample_server_parse:
  "parse_human_token_at (jwt sample_server) sample_manager (env_clock sample_env) token
    = parse_human_token_at sample_jwt sample_manager 5 token"
  by (simp add: parse_human_token_at_def sample_server_def sample_env_def)

lemma sample_bad_token: "parse_human_token_at sample_jwt sample_manager 5 ''bad'' = Inl (ErrInvalidToken ''validation failed'')"
  by (simp add: parse_human_token_at_def sample_jwt_def sample_payload_def)

lemma sample_fault: "env_fault sample_env = None"
  by (simp add: sample_env_def)

section \<open>The theorems on the sample\<close>

lemma sample_row: "sat_table sample_world 7 = Some sample_satellite"
  by (simp add: sample_world_def sample_satellite_def sel_where_def)

lemma sample_utf8_row: "utf8_row sample_satellite"
  by (simp add: utf8_row_def sample_satellite_def) (intro conjI valid_utf8_ascii; simp add: byte_def)

lemma sample_marshal: "marshal_Satellite (marshal sample_server) (sat_ToResponse (Some sample_satellite)) \<noteq> None"
proof -
  have "printable_time (db_time 0 3)" by code_simp
  then show ?thesis
    by (simp add: marshal_Satellite_members satellite_times_def sat_ToResponse_def sample_satellite_def shown_def sample_server_def)
qed

theorem satellite_get_end_to_end_witness:
  "case satellite_get_RunE sample_cli_lib sample_os sample_options () [show_id (marshal sample_server) 7] (sample_cli ''tok'') of
     (e, st) \<Rightarrow> e = None \<and> satellites (snd (cli_net st)) = [sample_satellite]"
  using satellite_get_end_to_end [where \<omega> = "\<lambda>_. sample_env" and i = 7 and n = 0 and w = sample_world and ctx = "()",
      OF sample_wire router_sample_contract sample_address(2) sample_load [of "''tok''"] _ sample_http(1) sample_net
        trans [OF sample_server_parse sample_parse(1)] sample_fault]
    sample_row sample_marshal sample_utf8_row
  by (auto simp: Let_def print_json_def output_JSON_def write_to_def sample_cli_def sample_world_def)

theorem satellite_delete_end_to_end_witness:
  "case satellite_delete_RunE sample_cli_lib sample_os sample_options () [show_id (marshal sample_server) 7] (sample_cli ''tok'') of
     (e, st) \<Rightarrow> e = Some (Message ''satellite is managed by the Operator; update its CR in Git instead'')
       \<and> satellites (snd (cli_net st)) = [sample_satellite]"
  using satellite_delete_end_to_end [where \<omega> = "\<lambda>_. sample_env" and i = 7 and n = 0 and w = sample_world and ctx = "()",
      OF sample_wire router_sample_contract sample_address(2) sample_load [of "''tok''"] _ sample_http(1) sample_net
        trans [OF sample_server_parse sample_parse(1)] sample_fault]
    sample_row sample_marshal
  by (auto simp: Let_def sample_world_def sample_satellite_def)

theorem refused_end_to_end_witness:
  "fst (cobra_Execute sample_cobra sample_root [''user'', ''create''] (sample_cli ''bad''))
    = Some (APIFailure \<lparr>ae_StatusCode = 401, ae_Code = ''UNAUTHORIZED'', ae_Message = ''invalid token''\<rparr>)"
proof -
  have "refusal (jwt sample_server) sample_manager (env_clock sample_env) ''bad'' True
      = Some \<lparr>ae_StatusCode = 401, ae_Code = ''UNAUTHORIZED'', ae_Message = ''invalid token''\<rparr>"
    by (simp add: refusal_def sample_server_parse sample_bad_token)
  moreover have "sends_request sample_cli_lib (NewPasswordReader (\<lambda>_. True) (\<lambda>_. Inr ''pw''))
      \<lparr>in_data = [], in_error = None, in_Fd = Some 0\<rparr> (cli_stderr (sample_cli ''bad'')) (CmdUserCreate ''bob'' ''viewer'' False)"
    by (simp add: PasswordReader_Read_def NewPasswordReader_def read_prompted_def validate_def write_to_def sample_cli_def)
  ultimately show ?thesis
    using refused_end_to_end [where \<omega> = "\<lambda>_. sample_env" and n = 0 and w = sample_world and cmd = "CmdUserCreate ''bob'' ''viewer'' False"
        and i = "\<lparr>in_data = [], in_error = None, in_Fd = Some 0\<rparr>" and passwords = "NewPasswordReader (\<lambda>_. True) (\<lambda>_. Inr ''pw'')",
        OF sample_wire router_sample_contract sample_address(2) sample_cobra_contract sample_lines(2), unfolded sample_given(2),
        OF sample_command sample_load [of "''bad''"] _ sample_http(2) sample_net]
    by (auto simp del: sends_request.simps)
qed

theorem satellite_create_end_to_end_witness:
  "satellites (snd (cli_net (snd (satellite_create_RunE sample_cli_lib sample_os sample_options () ''north'' ''hn''
     ((sample_cli ''tok'')\<lparr>cli_net := (0, sample_world\<lparr>satellites := []\<rparr>)\<rparr>))))) = [new_row sample_env ''north'' ''hn'']"
proof -
  have load: "Options_Load sample_os sample_options (cli_disk ((sample_cli ''tok'')\<lparr>cli_net := (0, sample_world\<lparr>satellites := []\<rparr>)\<rparr>)) =
      Inr \<lparr>cc_Server = address ''http'' ''fleet:8080'' [] @ replicate 0 (CHR ''/''), cc_Token = ''tok''\<rparr>"
    using sample_load [of "''tok''"] by simp
  have "insertable sample_env ''north'' (sample_world\<lparr>satellites := []\<rparr>)" by (simp add: insertable_def sel_where_def)
  moreover have "valid_utf8 ''north''" "valid_utf8 ''hn''" by (simp_all add: valid_utf8_ascii byte_def)
  ultimately show ?thesis
    using satellite_create_end_to_end [where \<omega> = "\<lambda>_. sample_env" and n = 0 and ctx = "()" and name = "''north''" and region = "''hn''",
        OF sample_wire router_sample_contract sample_address(2) load _ sample_http(1) _
          trans [OF sample_server_parse sample_parse(1)] sample_fault]
    by (auto simp: Let_def print_json_def case_prod_beta split: option.splits)
qed

theorem no_token_no_request_witness:
  "\<exists>e :: cli_error. Execute (\<lambda>_. ''error'') sample_cobra sample_cli_lib sample_os (\<lambda>_. True) (\<lambda>_. Inr ''pw'')
      \<lparr>in_data = [], in_error = None, in_Fd = Some 0\<rparr> () [''user'', ''list''] (sample_cli [])
    = (1, (sample_cli [])\<lparr>cli_stderr := snd (write_to (''error'' @ [bchr 0x0A]) (cli_stderr (sample_cli [])))\<rparr>)"
proof -
  have "sample_cobra (NewRootCommand sample_cli_lib sample_os (\<lambda>_. True) (\<lambda>_. Inr ''pw'')
      \<lparr>in_data = [], in_error = None, in_Fd = Some 0\<rparr> ()) [''user'', ''list''] = LineRun [''user'', ''list''] config_flags []"
    by (simp add: NewRootCommand_def sample_lines)
  from no_token_no_request [OF sample_cobra_contract this, of "sample_cli []" "\<lambda>_. ''error''"]
  show ?thesis by (simp add: sample_given sample_load)
qed

theorem command_lines_run_commands_witness:
  "cobra_Execute sample_cobra sample_root [''user'', ''create''] (sample_cli ''tok'')
    = run_command sample_cli_lib sample_os sample_options (NewPasswordReader (\<lambda>_. True) (\<lambda>_. Inr ''pw''))
        \<lparr>in_data = [], in_error = None, in_Fd = Some 0\<rparr> () (CmdUserCreate ''bob'' ''viewer'' False) (sample_cli ''tok'')"
  using command_lines_run_commands [OF sample_cobra_contract, of sample_cli_lib sample_os "NewPasswordReader (\<lambda>_. True) (\<lambda>_. Inr ''pw'')"
      "\<lparr>in_data = [], in_error = None, in_Fd = Some 0\<rparr>" "()" "[''user'', ''create'']" "sample_cli ''tok''"]
  by (simp add: sample_lines sample_given sample_command)

lemma sample_subject: "NewHumanPrincipal (show_id (marshal sample_server) 7) ''admin''
    = Inr \<lparr>p_kind = ''human'', p_subject = sample_show 7, p_role = ''admin'', p_satelliteID = 0\<rparr>"
proof -
  have "sample_show 7 \<noteq> []" using sample_show_segment [of 7] by (simp add: plain_segment_def)
  moreover have "TrimSpace (sample_show 7) = sample_show 7"
  proof (rule TrimSpace_id)
    have "\<forall>c \<in> set (sample_show 7). is_digit c" by (simp add: sample_show_def pad_int_digits flip: list_all_iff)
    then have "is_digit (hd (sample_show 7))" "is_digit (last (sample_show 7))" using \<open>sample_show 7 \<noteq> []\<close> by simp_all
    then show "byte (hd (sample_show 7)) < 0x80" "\<not> is_space (byte (hd (sample_show 7)))"
      "byte (last (sample_show 7)) < 0x80" "\<not> is_space (byte (last (sample_show 7)))"
      by (auto simp: is_digit_def is_space_def)
  qed fact
  ultimately show ?thesis by (auto simp: NewHumanPrincipal_Inr_iff sample_server_def role_defs)
qed

theorem login_end_to_end_witness:
  "case login_RunE sample_cli_lib sample_os sample_options (NewPasswordReader (\<lambda>_. True) (\<lambda>_. Inr ''pw''))
       \<lparr>in_data = ''pw'' @ [bchr 0x0A], in_error = None, in_Fd = None\<rparr> () ''ann'' True (sample_cli []) of
     (e, st) \<Rightarrow> e = None \<and> Options_Load sample_os sample_options (cli_disk st)
       = Inr \<lparr>cc_Server = ''http://fleet:8080'', cc_Token = ''tok''\<rparr>"
proof -
  have fits: "lines_fit (print_table sample_cli_lib) \<lparr>cc_Server =
      address ''http'' ''fleet:8080'' [] @ replicate 0 (CHR ''/''), cc_Token = ''tok''\<rparr>"
    by (intro lines_fit_short) (simp_all add: address_def)
  have sound: "sound_disk sample_os sample_options" using sample_path by (simp add: sound_disk_def sample_os_def)
  have pw: "PasswordReader_Read (NewPasswordReader (\<lambda>_. True) (\<lambda>_. Inr ''pw''))
      \<lparr>in_data = ''pw'' @ [bchr 0x0A], in_error = None, in_Fd = None\<rparr> True (cli_stderr (sample_cli []))
    = (Inr ''pw'', cli_stderr (sample_cli []))"
    by (simp add: PasswordReader_Read_def ReadString_def validate_def TrimRight_def byte_def bchr_def char_of_def)
  have utf8: "valid_utf8 ''ann''" "valid_utf8 ''pw''" "ascii ''tok''"
    by (rule valid_utf8_ascii; simp add: byte_def)+ (simp add: ascii_def byte_def)
  have user: "sel_where user_Username ''ann'' (users sample_world) = Some sample_user"
    "bcrypt_Compare sample_server (user_PasswordHash sample_user) ''pw''"
    "NewHumanPrincipal (show_id (marshal sample_server) (user_ID sample_user)) (user_Role sample_user)
      = Inr \<lparr>p_kind = ''human'', p_subject = sample_show 7, p_role = ''admin'', p_satelliteID = 0\<rparr>"
    using sample_subject by (simp_all add: sample_world_def sample_user_def sel_where_def sample_server_def sample_libs_def)
  have sign: "lib_SignedString (jwt sample_server) ''HS256'' (human_claims sample_manager
      \<lparr>p_kind = ''human'', p_subject = sample_show 7, p_role = ''admin'', p_satelliteID = 0\<rparr> (user_Role sample_user)
      (env_clock sample_env)) (m_secret sample_manager) = Inr ''tok''"
    by (simp add: sample_server_def)
  show ?thesis
    using login_end_to_end [where \<omega> = "\<lambda>_. sample_env" and ctx = "()" and n = 0 and w = sample_world,
        OF sample_wire router_sample_contract sample_address(2) sample_load sample_http(1) sound fits sample_net pw utf8
          sample_fault user sign]
    by (auto simp: address_def println_def)
qed

theorem client_requests_witness:
  "NewGetSatellitesIdRequest sample_api ''https://fleet:8443/v1/'' 7
    = Inr (api_request ''https'' ''fleet:8443'' [''v1''] ''GET'' [''satellites'', sample_show 7] None :: unit client_request)"
proof -
  have "host_contract (urls sample_api)" "style_param sample_api 7 = Inr (sample_show 7)"
    by (simp_all add: sample_api_def host_contract_def)
  moreover have "plain_address ''https'' ''fleet:8443'' [''v1'']"
    by (simp add: plain_address_def simple_host_def cut_at_def is_digit_def plain_byte_def is_alnum_def byte_def plain_segment_def)
  moreover have addr: "address ''https'' ''fleet:8443'' [''v1''] @ ''/'' = ''https://fleet:8443/v1/''" by (simp add: address_def)
  ultimately show ?thesis
    by (intro client_requests [of sample_api "''https''" "''fleet:8443''" "[''v1'']" 7 "sample_show 7", unfolded addr,
        THEN conjunct2, THEN conjunct2, THEN conjunct2, THEN conjunct2, THEN conjunct2, THEN conjunct1] sample_show_segment)
qed

end
