(* ===== verification/JsonIndent.thy ===== *)
theory JsonIndent
  imports CliOutput
begin

text \<open>
  Indented documents are documents: what \<open>output.JSON\<close> prints reads back as the value it was printed
  from, in the same way as the compact text the server sends.
\<close>

section \<open>White space\<close>

lemma skip_ws_blanks [simp]: "skip_ws (concat (replicate k ''  '') @ s) = skip_ws s"
  by (induction k) (simp_all add: byte_def)

lemma skip_ws_new_line [simp]: "skip_ws (new_line k @ s) = skip_ws s"
  by (simp add: new_line_def)

lemma parse_value_new_line [simp]: "parse_value q f d (new_line k @ s) = parse_value q f d s"
  by (cases f) simp_all

lemma parse_value_blank [simp]: "parse_value q f d (CHR '' '' # s) = parse_value q f d s"
  by (cases f) (simp_all add: byte_def)

lemma member_name_new_line [simp]: "member_name (new_line k @ s) = member_name s"
  by (simp add: member_name_def)

lemma delimits_new_line [simp]: "delimits (new_line k @ s)"
  by (simp add: delimits_def new_line_def)

section \<open>Reading indented text\<close>

abbreviation indented_member :: "nat \<Rightarrow> bytes \<times> json \<Rightarrow> bytes" where
  "indented_member k \<equiv> \<lambda>(n, v). quote_json n @ '': '' @ indent_text k v"

lemma indent_text_start:
  "good_doc v \<Longrightarrow> indent_text k v \<noteq> [] \<and> byte (hd (indent_text k v)) \<notin> {0x20, 0x09, 0x0D, 0x0A, 0x5D, 0x7D}"
  using json_text_start [of v] by (cases v) (auto simp: byte_def)

lemma join_lines_start: "\<exists>t. join_lines k (x # xs) = new_line k @ x @ t"
  by (cases xs) simp_all

context literal_printer
begin

definition reads_indented :: "nat \<Rightarrow> nat \<Rightarrow> json \<Rightarrow> bytes \<Rightarrow> bool" where
  "reads_indented d k v rest \<longleftrightarrow>
     (\<exists>f0. \<forall>f \<ge> f0. parse_value read_literal f d (indent_text k v @ rest) = Some (wire printed v, rest))"

lemma reads_indentedD:
  "reads_indented d k v rest \<Longrightarrow>
    \<exists>f0. \<forall>f \<ge> f0. parse_value read_literal f d (indent_text k v @ rest) = Some (wire printed v, rest)"
  by (simp add: reads_indented_def)

lemma parse_elems_lines:
  assumes "\<And>v rest. v \<in> set vs \<Longrightarrow> delimits rest \<Longrightarrow> reads_indented d k v rest" "vs \<noteq> []"
  shows "\<exists>f0. \<forall>f \<ge> f0. parse_elems read_literal f d (join_lines k (map (indent_text k) vs) @ new_line j @ '']'' @ rest)
    = Some (map (wire printed) vs, rest)"
  using assms
proof (induction vs rule: induct_list012)
  case (2 v)
  then obtain f0 where "\<forall>f \<ge> f0. parse_value read_literal f d (indent_text k v @ new_line j @ CHR '']'' # rest)
      = Some (wire printed v, new_line j @ CHR '']'' # rest)"
    using reads_indentedD [of d k v] by fastforce
  then show ?case by (intro enough_Suc [of f0]) simp
next
  case (3 v w vs)
  let ?tail = "join_lines k (map (indent_text k) (w # vs)) @ new_line j @ '']'' @ rest"
  obtain f0 where f0: "\<forall>f \<ge> f0. parse_value read_literal f d (indent_text k v @ CHR '','' # ?tail) = Some (wire printed v, CHR '','' # ?tail)"
    using reads_indentedD [of d k v] 3(3) by fastforce
  obtain f1 where f1: "\<forall>f \<ge> f1. parse_elems read_literal f d ?tail = Some (map (wire printed) (w # vs), rest)"
    using 3(2,3) by fastforce
  show ?case
    using f0 f1 by (intro enough_Suc [of "max f0 f1"]) simp
qed simp

lemma parse_members_lines:
  assumes "\<And>n v rest. (n, v) \<in> set ms \<Longrightarrow> delimits rest \<Longrightarrow> reads_indented d k v rest" "ms \<noteq> []"
  shows "\<exists>f0. \<forall>f \<ge> f0. parse_members read_literal f d (join_lines k (map (indented_member k) ms) @ new_line j @ ''}'' @ rest)
    = Some (map (\<lambda>(n, v). (sanitize n, wire printed v)) ms, rest)"
  using assms
proof (induction ms rule: induct_list012)
  case (2 m)
  obtain n v where m: "m = (n, v)" by (cases m)
  with 2 obtain f0 where "\<forall>f \<ge> f0. parse_value read_literal f d (indent_text k v @ new_line j @ CHR ''}'' # rest)
      = Some (wire printed v, new_line j @ CHR ''}'' # rest)"
    using reads_indentedD [of d k v] by fastforce
  then show ?case
    using member_name_quote [of n] by (intro enough_Suc [of f0]) (simp add: m)
next
  case (3 m m' ms)
  obtain n v where m: "m = (n, v)" by (cases m)
  let ?tail = "join_lines k (map (indented_member k) (m' # ms)) @ new_line j @ ''}'' @ rest"
  obtain f0 where f0: "\<forall>f \<ge> f0. parse_value read_literal f d (indent_text k v @ CHR '','' # ?tail) = Some (wire printed v, CHR '','' # ?tail)"
    using reads_indentedD [of d k v] 3(3) m by fastforce
  obtain f1 where f1: "\<forall>f \<ge> f1. parse_members read_literal f d ?tail = Some (map (\<lambda>(n, v). (sanitize n, wire printed v)) (m' # ms), rest)"
    using 3(2,3) by fastforce
  show ?case
    using f0 f1 member_name_quote [of n] by (intro enough_Suc [of "max f0 f1"]) (simp add: m)
qed simp

lemma reads_indented_array:
  assumes "\<And>v rest. v \<in> set vs \<Longrightarrow> delimits rest \<Longrightarrow> reads_indented (Suc d) (Suc k) v rest" "list_all good_doc vs" "d < max_depth"
  shows "reads_indented d k (JArr vs) rest"
proof (cases vs)
  case Nil
  then show ?thesis using assms(3) unfolding reads_indented_def by (intro enough_Suc [of 0]) (simp add: byte_def)
next
  case (Cons v us)
  let ?text = "join_lines (Suc k) (map (indent_text (Suc k)) vs) @ new_line k @ '']'' @ rest"
  obtain f0 where f0: "\<forall>f \<ge> f0. parse_elems read_literal f (Suc d) ?text = Some (map (wire printed) vs, rest)"
    using parse_elems_lines [of vs "Suc d" "Suc k" k rest] assms(1) Cons by auto
  obtain t where "?text = new_line (Suc k) @ indent_text (Suc k) v @ t"
    using join_lines_start [of "Suc k" "indent_text (Suc k) v" "map (indent_text (Suc k)) us"] Cons by auto
  then have "\<exists>b r. skip_ws ?text = b # r \<and> byte b \<noteq> 0x5D"
    using indent_text_start [of v "Suc k"] assms(2) Cons by (cases "indent_text (Suc k) v") auto
  moreover have "indent_text k (JArr vs) @ rest = CHR ''['' # ?text" using Cons by simp
  ultimately show ?thesis unfolding reads_indented_def
    using f0 assms(3) by (intro enough_Suc [of f0]) (auto simp: byte_def)
qed

lemma reads_indented_object:
  assumes "\<And>n v rest. (n, v) \<in> set ms \<Longrightarrow> delimits rest \<Longrightarrow> reads_indented (Suc d) (Suc k) v rest" "d < max_depth"
  shows "reads_indented d k (JObj ms) rest"
proof (cases ms)
  case Nil
  then show ?thesis using assms(2) unfolding reads_indented_def by (intro enough_Suc [of 0]) (simp add: byte_def)
next
  case (Cons m us)
  let ?text = "join_lines (Suc k) (map (indented_member (Suc k)) ms) @ new_line k @ ''}'' @ rest"
  obtain f0 where f0: "\<forall>f \<ge> f0. parse_members read_literal f (Suc d) ?text = Some (map (\<lambda>(n, v). (sanitize n, wire printed v)) ms, rest)"
    using parse_members_lines [of ms "Suc d" "Suc k" k rest] assms(1) Cons by auto
  obtain t where "?text = new_line (Suc k) @ indented_member (Suc k) m @ t"
    using join_lines_start [of "Suc k" "indented_member (Suc k) m" "map (indented_member (Suc k)) us"] Cons by auto
  then have "\<exists>b r. skip_ws ?text = b # r \<and> byte b \<noteq> 0x7D"
    by (cases m) (auto simp: quote_json_def byte_def)
  moreover have "indent_text k (JObj ms) @ rest = CHR ''{'' # ?text" using Cons by simp
  ultimately show ?thesis unfolding reads_indented_def
    using f0 assms(2) by (intro enough_Suc [of f0]) (auto simp: byte_def)
qed

lemma reads_indented_scalar:
  assumes "delimits rest" "good_doc v" "\<And>vs. v \<noteq> JArr vs" "\<And>ms. v \<noteq> JObj ms"
  shows "reads_indented d k v rest"
proof -
  have "indent_text k v = json_text v" using assms(3,4) by (cases v) auto
  then show ?thesis using readsD [OF reads_scalar [OF assms]] by (simp add: reads_indented_def)
qed

lemma reads_indented_doc: "\<lbrakk>good_doc v; d + doc_depth v \<le> max_depth; delimits rest\<rbrakk> \<Longrightarrow> reads_indented d k v rest"
proof (induction v arbitrary: d k rest rule: doc_depth.induct)
  case (1 vs)
  show ?case
  proof (rule reads_indented_array)
    fix v and rest' :: bytes
    assume v: "v \<in> set vs" "delimits rest'"
    then have "Suc d + doc_depth v \<le> max_depth" using depth_of_part [where f = doc_depth] 1(3) by fastforce
    then show "reads_indented (Suc d) (Suc k) v rest'" using 1 v by (simp add: list_all_iff)
  qed (use 1 in simp_all)
next
  case (2 ms)
  show ?case
  proof (rule reads_indented_object)
    fix n v and rest' :: bytes
    assume "(n, v) \<in> set ms" "delimits rest'"
    moreover from this(1) have "Suc d + doc_depth v \<le> max_depth"
      using depth_of_part [where f = "\<lambda>(k, v). doc_depth v" and x = "(n, v)"] 2(3) by fastforce
    ultimately show "reads_indented (Suc d) (Suc k) v rest'" using 2 by (auto simp: list_all_iff)
  qed (use 2 in simp)
qed (rule reads_indented_scalar; simp)+

lemma parse_indented:
  assumes "good_doc v" "doc_depth v \<le> max_depth" "delimits rest"
  shows "parse_value read_literal (2 * length (indent_text k v @ rest) + 2) 0 (indent_text k v @ rest) = Some (wire printed v, rest)"
proof -
  obtain f0 where "\<forall>f \<ge> f0. parse_value read_literal f 0 (indent_text k v @ rest) = Some (wire printed v, rest)"
    using reads_indentedD [OF reads_indented_doc [of v 0 rest]] assms by auto
  then show ?thesis
    using fuel_enough [of "indent_text k v @ rest" "max f0 (2 * length (indent_text k v @ rest) + 2)"] by simp
qed

end

text \<open>
  C17. What is printed can be read. Whatever document \<open>output.JSON\<close> prints (of nesting up to the limit of the
  JSON reader, with numbers that are JSON numbers), the indented text it writes is decoded, into any type, exactly as the
  compact text of the server is: a script that reads the output of a command gets the value the server sent.
\<close>

theorem printed_documents_read_back:
  assumes "good_doc v" "doc_depth v \<le> max_depth"
  shows "case output_JSON (Some v) out of
      (Some _, out') \<Rightarrow> w_data out' = w_data out
    | (None, out') \<Rightarrow> (\<exists>written. w_data out' = w_data out @ written \<and> Unmarshal dec written = Unmarshal dec (encode_json v))"
proof -
  have "Unmarshal dec (indent_text 0 v @ [bchr 0x0A]) = dec (wire escape_body v)"
    using raw.parse_indented [OF assms delimits_newline, of 0] by (simp add: Unmarshal_def parse_raw_def)
  moreover have "Unmarshal dec (encode_json v) = dec (wire escape_body v)"
    using parse_raw_text [OF assms delimits_newline] by (simp add: Unmarshal_def encode_json_def)
  ultimately show ?thesis
    by (auto simp: output_JSON_def write_to_def split: list.splits option.splits)
qed

text \<open>A satellite with an owner and an empty list.\<close>

definition printed_sample :: json where
  "printed_sample = JObj [(''name'', JStr ''edge''), (''tags'', JArr []), (''count'', JNum ''2'')]"

theorem printed_documents_read_back_witness:
  "\<exists>written. w_data (snd (output_JSON (Some printed_sample) \<lparr>w_data = [], w_faults = []\<rparr>)) = written
     \<and> Unmarshal Some written = Unmarshal Some (encode_json printed_sample)"
proof -
  have "scan_number ''2'' = Some (''2'', [])" by code_simp
  then have "good_doc printed_sample" "doc_depth printed_sample \<le> max_depth" by (simp_all add: printed_sample_def max_depth_def)
  from printed_documents_read_back [OF this, of "\<lparr>w_data = [], w_faults = []\<rparr>" Some]
  show ?thesis by (auto simp: output_JSON_def write_to_def)
qed

end
