(* ===== verification/E2eUtils.thy ===== *)
theory E2eUtils
  imports CliConfig "HOL-Library.Sublist"
begin

text \<open>
  The helpers of the operator's end-to-end tests (\<open>operator/test/utils/utils.go\<close>): running external
  programs in the project directory, installing cert-manager, loading images, and uncommenting
  parts of a file. The external programs are a parameter that acts on a state of its own.
\<close>

section \<open>Strings\<close>

fun Index :: "bytes \<Rightarrow> bytes \<Rightarrow> nat option" where
  "Index [] sub = (if sub = [] then Some 0 else None)"
| "Index (c # s) sub = (if HasPrefix (c # s) sub then Some 0 else map_option Suc (Index s sub))"

fun Join :: "bytes list \<Rightarrow> bytes \<Rightarrow> bytes" where
  "Join [] sep = []"
| "Join [x] sep = x"
| "Join (x # y # zs) sep = x @ sep @ Join (y # zs) sep"

text \<open>\<open>strings.ReplaceAll\<close> of a text that is not empty by nothing.\<close>

function remove_all :: "bytes \<Rightarrow> bytes \<Rightarrow> bytes" where
  "remove_all s old =
     (case s of
        [] \<Rightarrow> []
      | c # cs \<Rightarrow> if old \<noteq> [] \<and> HasPrefix s old then remove_all (drop (length old) s) old else c # remove_all cs old)"
  by pat_completeness auto
termination
  by (relation "measure (length \<circ> fst)") auto

declare remove_all.simps [simp del]

text \<open>\<open>strings.SplitSeq\<close> at line ends.\<close>

function split_newline :: "bytes \<Rightarrow> bytes list" where
  "split_newline s =
     (case dropWhile (\<lambda>c. byte c \<noteq> 0x0A) s of
        [] \<Rightarrow> [s]
      | _ # rest \<Rightarrow> takeWhile (\<lambda>c. byte c \<noteq> 0x0A) s # split_newline rest)"
  by pat_completeness auto
termination
proof (relation "measure length")
  show "(rest, s) \<in> measure length" if "dropWhile (\<lambda>c. byte c \<noteq> 0x0A) s = c # rest" for s c rest
    using length_dropWhile_le [of "\<lambda>c. byte c \<noteq> 0x0A" s] that by simp
qed simp

declare split_newline.simps [simp del]

section \<open>Errors, programs and the test process\<close>

datatype utils_error =
    SystemError bytes
  | GetwdFailed utils_error
  | CommandFailed bytes bytes utils_error
  | ReadFileFailed bytes utils_error
  | TargetNotFound bytes
  | WriteFileFailed bytes utils_error

text \<open>Their texts; \<open>q\<close> is the table of printable runes that quoting depends on.\<close>

primrec error_text :: "(nat \<Rightarrow> bool) \<Rightarrow> utils_error \<Rightarrow> bytes" where
  "error_text q (SystemError msg) = msg"
| "error_text q (GetwdFailed e) = ''failed to get current working directory: '' @ error_text q e"
| "error_text q (CommandFailed command output e) =
     Quote q command @ '' failed with error '' @ Quote q output @ '': '' @ error_text q e"
| "error_text q (ReadFileFailed name e) = ''failed to read file '' @ Quote q name @ '': '' @ error_text q e"
| "error_text q (TargetNotFound target) = ''unable to find the code '' @ Quote q target @ '' to be uncommented''"
| "error_text q (WriteFileFailed name e) = ''failed to write file '' @ Quote q name @ '': '' @ error_text q e"

record exec_Cmd =
  ex_Args :: "bytes list"
  ex_Dir :: bytes
  ex_Env :: "bytes list"

definition exec_Command :: "bytes \<Rightarrow> bytes list \<Rightarrow> exec_Cmd" where
  "exec_Command name args = \<lparr>ex_Args = name # args, ex_Dir = [], ex_Env = []\<rparr>"

text \<open>
  The operating system: the current directory as \<open>os.Getwd\<close> reports it, changing it, the environment
  variables, and what running a program gives (its combined output and an error) and does.
\<close>

record 'x test_os =
  os_Getwd :: "bytes \<Rightarrow> bytes \<times> bytes option"
  os_Chdir :: "bytes \<Rightarrow> bytes \<Rightarrow> bytes + bytes"
  os_variables :: "(bytes \<times> bytes) list"
  CombinedOutput :: "exec_Cmd \<Rightarrow> 'x \<Rightarrow> (bytes \<times> bytes option) \<times> 'x"
  quote_table :: "nat \<Rightarrow> bool"

record 'x test_process =
  tp_cwd :: bytes
  tp_GinkgoWriter :: bytes
  tp_external :: 'x

definition Environ :: "'x test_os \<Rightarrow> bytes list" where
  "Environ U = map (\<lambda>(k, v). k @ ''='' @ v) (os_variables U)"

definition LookupEnv :: "'x test_os \<Rightarrow> bytes \<Rightarrow> bytes option" where
  "LookupEnv U k = map_of (os_variables U) k"

definition ginkgo_line :: "bytes \<Rightarrow> 'x test_process \<Rightarrow> 'x test_process" where
  "ginkgo_line msg s = s\<lparr>tp_GinkgoWriter := tp_GinkgoWriter s @ msg @ [bchr 0x0A]\<rparr>"

definition warnError :: "'x test_os \<Rightarrow> utils_error \<Rightarrow> 'x test_process \<Rightarrow> 'x test_process" where
  "warnError U e = ginkgo_line (''warning: '' @ error_text (quote_table U) e)"

section \<open>Running programs\<close>

definition GetProjectDir :: "'x test_os \<Rightarrow> 'x test_process \<Rightarrow> bytes \<times> utils_error option" where
  "GetProjectDir U s =
     (case os_Getwd U (tp_cwd s) of
        (wd, Some e) \<Rightarrow> (wd, Some (GetwdFailed (SystemError e)))
      | (wd, None) \<Rightarrow> (remove_all wd ''/test/e2e'', None))"

definition Run :: "'x test_os \<Rightarrow> exec_Cmd \<Rightarrow> 'x test_process \<Rightarrow> (bytes \<times> utils_error option) \<times> 'x test_process" where
  "Run U cmd s =
     (let dir = fst (GetProjectDir U s);
          s1 = (case os_Chdir U (tp_cwd s) dir of
                  Inl e \<Rightarrow> ginkgo_line (''chdir dir: '' @ Quote (quote_table U) e) s
                | Inr cwd \<Rightarrow> s\<lparr>tp_cwd := cwd\<rparr>);
          cmd1 = cmd\<lparr>ex_Dir := dir, ex_Env := Environ U @ [''GO111MODULE=on'']\<rparr>;
          command = Join (ex_Args cmd) '' '';
          s2 = ginkgo_line (''running: '' @ Quote (quote_table U) command) s1
      in case CombinedOutput U cmd1 (tp_external s2) of
           ((output, err), x) \<Rightarrow>
             ((output, map_option (\<lambda>e. CommandFailed command output (SystemError e)) err), s2\<lparr>tp_external := x\<rparr>))"

definition certmanagerVersion :: bytes where
  "certmanagerVersion = ''v1.20.2''"

definition certmanagerURL :: bytes where
  "certmanagerURL = ''https://github.com/cert-manager/cert-manager/releases/download/'' @ certmanagerVersion @ ''/cert-manager.yaml''"

definition run_or_warn :: "'x test_os \<Rightarrow> exec_Cmd \<Rightarrow> 'x test_process \<Rightarrow> 'x test_process" where
  "run_or_warn U cmd s =
     (case Run U cmd s of
        ((_, None), s1) \<Rightarrow> s1
      | ((_, Some e), s1) \<Rightarrow> warnError U e s1)"

definition kubeSystemLeases :: "bytes list" where
  "kubeSystemLeases = [''cert-manager-cainjector-leader-election'', ''cert-manager-controller'']"

definition UninstallCertManager :: "'x test_os \<Rightarrow> 'x test_process \<Rightarrow> 'x test_process" where
  "UninstallCertManager U s =
     fold (\<lambda>lease. run_or_warn U (exec_Command ''kubectl''
         [''delete'', ''lease'', lease, ''-n'', ''kube-system'', ''--ignore-not-found'', ''--force'', ''--grace-period=0'']))
       kubeSystemLeases
       (run_or_warn U (exec_Command ''kubectl'' [''delete'', ''-f'', certmanagerURL]) s)"

definition InstallCertManager :: "'x test_os \<Rightarrow> 'x test_process \<Rightarrow> utils_error option \<times> 'x test_process" where
  "InstallCertManager U s =
     (case Run U (exec_Command ''kubectl'' [''apply'', ''-f'', certmanagerURL]) s of
        ((_, Some e), s1) \<Rightarrow> (Some e, s1)
      | ((_, None), s1) \<Rightarrow>
          (case Run U (exec_Command ''kubectl''
                  [''wait'', ''deployment.apps/cert-manager-webhook'', ''--for'', ''condition=Available'',
                   ''--namespace'', ''cert-manager'', ''--timeout'', ''5m'']) s1 of
             ((_, err), s2) \<Rightarrow> (err, s2)))"

definition GetNonEmptyLines :: "bytes \<Rightarrow> bytes list" where
  "GetNonEmptyLines output = filter (\<lambda>element. element \<noteq> []) (split_newline output)"

definition certManagerCRDs :: "bytes list" where
  "certManagerCRDs =
     [''certificates.cert-manager.io'', ''issuers.cert-manager.io'', ''clusterissuers.cert-manager.io'',
      ''certificaterequests.cert-manager.io'', ''orders.acme.cert-manager.io'', ''challenges.acme.cert-manager.io'']"

definition IsCertManagerCRDsInstalled :: "'x test_os \<Rightarrow> 'x test_process \<Rightarrow> bool \<times> 'x test_process" where
  "IsCertManagerCRDsInstalled U s =
     (case Run U (exec_Command ''kubectl'' [''get'', ''crds'']) s of
        ((_, Some _), s1) \<Rightarrow> (False, s1)
      | ((output, None), s1) \<Rightarrow>
          (list_ex (\<lambda>crd. list_ex (\<lambda>line. Contains line crd) (GetNonEmptyLines output)) certManagerCRDs, s1))"

definition LoadImageToKindClusterWithName ::
  "'x test_os \<Rightarrow> bytes \<Rightarrow> 'x test_process \<Rightarrow> utils_error option \<times> 'x test_process" where
  "LoadImageToKindClusterWithName U name s =
     (let cluster = (case LookupEnv U ''KIND_CLUSTER'' of Some v \<Rightarrow> v | None \<Rightarrow> ''kind'');
          kindBinary = (case LookupEnv U ''KIND'' of Some v \<Rightarrow> v | None \<Rightarrow> ''kind'')
      in case Run U (exec_Command kindBinary [''load'', ''docker-image'', name, ''--name'', cluster]) s of
           ((_, err), s1) \<Rightarrow> (err, s1))"

section \<open>Uncommenting\<close>

text \<open>
  The lines of the target are read with \<open>bufio.Scanner\<close>, whose error is not looked at; writing to a
  \<open>bytes.Buffer\<close> does not fail.
\<close>

definition UncommentCode :: "os_env \<Rightarrow> bytes \<Rightarrow> bytes \<Rightarrow> bytes \<Rightarrow> disk \<Rightarrow> utils_error option \<times> disk" where
  "UncommentCode E filename target pfx d =
     (case (open_fault E filename, d_files d filename, read_fault E filename) of
        (Some msg, _, _) \<Rightarrow> (Some (ReadFileFailed filename (SystemError msg)), d)
      | (None, None, _) \<Rightarrow> (Some (ReadFileFailed filename (SystemError (''open '' @ filename @ '': no such file or directory''))), d)
      | (None, Some _, Some msg) \<Rightarrow> (Some (ReadFileFailed filename (SystemError msg)), d)
      | (None, Some (_, content), None) \<Rightarrow>
          (case Index content target of
             None \<Rightarrow> (Some (TargetNotFound target), d)
           | Some idx \<Rightarrow>
               (case fst (scan_lines target) of
                  [] \<Rightarrow> (None, d)
                | lines \<Rightarrow>
                    let out = take idx content @ Join (map (\<lambda>l. TrimPrefix l pfx) lines) [bchr 0x0A]
                        @ drop (idx + length target) content
                    in case WriteFile E filename out 0x1A4 d of
                         (err, d1) \<Rightarrow>
                           (map_option (\<lambda>e. WriteFileFailed filename
                              (SystemError (case e of WriteFileError msg \<Rightarrow> msg | _ \<Rightarrow> []))) err, d1))))"

section \<open>Searching lines\<close>

lemma Contains_iff: "Contains s sub \<longleftrightarrow> sublist sub s"
proof (induction s)
  case (Cons c s)
  have "HasPrefix (c # s) sub \<longleftrightarrow> prefix sub (c # s)" by (metis HasPrefixE HasPrefix_append prefix_def)
  then show ?case using Cons by (simp add: sublist_Cons_right)
qed auto

lemma sublist_line:
  assumes "\<forall>c \<in> set sub. byte c \<noteq> 0x0A" "sub \<noteq> []" "byte b = 0x0A"
  shows "sublist sub (l @ b # rest) \<longleftrightarrow> sublist sub l \<or> sublist sub rest"
proof
  assume "sublist sub (l @ b # rest)"
  then consider "sublist sub l" | "sublist sub (b # rest)" | x y where "sub = x @ y" "suffix x l" "prefix y (b # rest)"
    by (auto simp: sublist_append)
  then show "sublist sub l \<or> sublist sub rest"
  proof cases
    case 2
    then show ?thesis using assms by (cases sub) (auto simp: sublist_Cons_right)
  next
    case 3
    then have "y = []" using assms by (cases y) auto
    with 3 show ?thesis by (simp add: suffix_imp_sublist)
  qed simp
qed (metis append_Cons append_assoc append_Nil sublist_append_leftI sublist_append_rightI sublist_order.order_trans)

lemma lines_contain:
  assumes "\<forall>c \<in> set sub. byte c \<noteq> 0x0A" "sub \<noteq> []"
  shows "list_ex (\<lambda>l. Contains l sub) (split_newline s) \<longleftrightarrow> Contains s sub"
proof (induction s rule: split_newline.induct)
  case (1 s)
  let ?P = "\<lambda>c. byte c \<noteq> 0x0A"
  show ?case
  proof (cases "dropWhile ?P s")
    case Nil
    show ?thesis unfolding split_newline.simps [of s] Nil by simp
  next
    case (Cons b rest)
    then have "byte b = 0x0A" "s = takeWhile ?P s @ b # rest"
      using hd_dropWhile [of ?P s] takeWhile_dropWhile_id [of ?P s] by (simp, metis)
    then have "sublist sub s \<longleftrightarrow> sublist sub (takeWhile ?P s) \<or> sublist sub rest"
      using sublist_line [OF assms, of b "takeWhile ?P s" rest] by simp
    then show ?thesis using 1 [OF Cons] unfolding split_newline.simps [of s] Cons by (simp add: Contains_iff)
  qed
qed

lemma nonempty_lines_contain:
  assumes "\<forall>c \<in> set sub. byte c \<noteq> 0x0A" "sub \<noteq> []"
  shows "list_ex (\<lambda>l. Contains l sub) (GetNonEmptyLines s) \<longleftrightarrow> Contains s sub"
proof -
  have "\<not> Contains [] sub" using assms(2) by simp
  then show ?thesis
    using lines_contain [OF assms, of s] by (auto simp: GetNonEmptyLines_def list_ex_iff)
qed

text \<open>
  C33. Looking for cert-manager. It counts as installed exactly if listing the custom resource
  definitions succeeds and its output, as a whole, contains the name of one of the six definitions:
  going through the lines one by one misses none and finds nothing else.
\<close>

theorem IsCertManagerCRDsInstalled_iff:
  "fst (IsCertManagerCRDsInstalled U s) \<longleftrightarrow>
     (case fst (Run U (exec_Command ''kubectl'' [''get'', ''crds'']) s) of
        (output, err) \<Rightarrow> err = None \<and> list_ex (Contains output) certManagerCRDs)"
proof -
  have crds: "list_all (\<lambda>crd. list_all (\<lambda>c. byte c \<noteq> 0x0A) crd \<and> crd \<noteq> []) certManagerCRDs"
    by (simp add: certManagerCRDs_def byte_def)
  have "list_ex (\<lambda>crd. list_ex (\<lambda>l. Contains l crd) (GetNonEmptyLines out)) certManagerCRDs \<longleftrightarrow>
      list_ex (Contains out) certManagerCRDs" for out
    using nonempty_lines_contain crds by (fastforce simp: list_ex_iff list_all_iff)
  then show ?thesis
    by (simp add: IsCertManagerCRDsInstalled_def split: prod.splits option.splits)
qed

section \<open>Uncommenting undoes commenting\<close>

text \<open>A line as the scanner gives it back: without a line end, and with no carriage return before it.\<close>

definition plain_line :: "bytes \<Rightarrow> bool" where
  "plain_line l \<longleftrightarrow> (\<forall>c \<in> set l. byte c \<noteq> 0x0A) \<and> drop_cr l = l"

lemma scan_one:
  assumes "plain_line l"
  shows "scan_lines (l @ bchr 0x0A # t) = (if MaxScanTokenSize \<le> length l then ([], True) else apfst (Cons l) (scan_lines t))"
  using assms takeWhile_line [of l t] by (subst scan_lines.simps) (simp add: plain_line_def Let_def)

lemma scan_last:
  assumes "plain_line l" "l \<noteq> []"
  shows "scan_lines l = (if MaxScanTokenSize \<le> length l then ([], True) else ([l], False))"
proof -
  have tw: "takeWhile (\<lambda>c. byte c \<noteq> 0x0A) l = l" using assms by (simp add: plain_line_def)
  have nil: "scan_lines [] = ([], False)" by (simp add: scan_lines.simps)
  show ?thesis using assms by (subst scan_lines.simps) (simp add: tw nil plain_line_def Let_def)
qed

lemma scan_joined:
  assumes "list_all plain_line ls" "ls \<noteq> []" "last ls \<noteq> []"
  shows "fst (scan_lines (Join ls [bchr 0x0A])) = takeWhile (\<lambda>l. length l < MaxScanTokenSize) ls"
  using assms
proof (induction ls rule: induct_list012)
  case (3 x y zs)
  then show ?case by (simp add: scan_one)
qed (simp_all add: scan_last)

text \<open>
  C32. Uncommenting undoes commenting. If a block of lines stands in a file with a comment prefix
  before each line, uncommenting it (at its first occurrence) leaves the file with the lines
  themselves there, everything before and after them, the mode of the file and all other files as
  they were. That holds for lines below the 64 KiB of the scanner; since the scanner's error is not
  looked at, a longer line and all lines of the block after it are lost from the file without an
  error, and nothing happens at all if the first is that long.
\<close>

theorem uncommenting_undoes_commenting:
  assumes stored: "d_files d filename = Some (m, before @ target @ after)"
    and faults: "open_fault E filename = None" "read_fault E filename = None" "write_fault E filename = None"
    and first: "Index (before @ target @ after) target = Some (length before)"
    and block: "target = Join (map ((@) pfx) ls) [bchr 0x0A]" "ls \<noteq> []" "pfx @ last ls \<noteq> []"
      "list_all (\<lambda>l. plain_line (pfx @ l)) ls"
  shows "let kept = takeWhile (\<lambda>l. length (pfx @ l) < MaxScanTokenSize) ls in
    UncommentCode E filename target pfx d =
      (None, if kept = [] then d
         else d\<lparr>d_files := (d_files d)(filename := Some (m, before @ Join kept [bchr 0x0A] @ after))\<rparr>)"
proof -
  let ?kept = "takeWhile (\<lambda>l. length (pfx @ l) < MaxScanTokenSize) ls"
  have "fst (scan_lines target) = takeWhile (\<lambda>l. length l < MaxScanTokenSize) (map ((@) pfx) ls)"
    unfolding block(1) using block(2-4) by (intro scan_joined) (simp_all add: list_all_iff last_map)
  also have "\<dots> = map ((@) pfx) ?kept" by (simp add: takeWhile_map o_def)
  finally have lines: "fst (scan_lines target) = map ((@) pfx) ?kept" .
  show ?thesis
  proof (cases ?kept)
    case Nil
    then show ?thesis using lines by (simp add: UncommentCode_def stored faults first)
  next
    case (Cons l us)
    have "map (\<lambda>l. TrimPrefix l pfx) (map ((@) pfx) ?kept) = ?kept" by (simp add: o_def)
    then show ?thesis using lines Cons
      by (simp add: UncommentCode_def stored faults first WriteFile_def Let_def split: list.split)
  qed
qed

text \<open>Two commented lines of a kustomization.\<close>

definition commented_file :: bytes where
  "commented_file = ''resources:'' @ [bchr 0x0A] @ ''#- ../crd'' @ [bchr 0x0A] @ ''#- ../webhook'' @ [bchr 0x0A] @ ''- ../rbac''"

definition uncommented_file :: bytes where
  "uncommented_file = ''resources:'' @ [bchr 0x0A] @ ''- ../crd'' @ [bchr 0x0A] @ ''- ../webhook'' @ [bchr 0x0A] @ ''- ../rbac''"

theorem uncommenting_undoes_commenting_witness:
  "UncommentCode fresh_os ''k.yaml'' (''#- ../crd'' @ [bchr 0x0A] @ ''#- ../webhook'') ''#''
      \<lparr>d_files = [''k.yaml'' \<mapsto> (0x1A4, commented_file)], d_made = []\<rparr>
    = (None, \<lparr>d_files = [''k.yaml'' \<mapsto> (0x1A4, uncommented_file)], d_made = []\<rparr>)"
proof -
  let ?before = "''resources:'' @ [bchr 0x0A]" and ?target = "''#- ../crd'' @ [bchr 0x0A] @ ''#- ../webhook''"
    and ?after = "[bchr 0x0A] @ ''- ../rbac''"
  have "Index (?before @ ?target @ ?after) ?target = Some (length ?before)" by code_simp
  moreover have "list_all (\<lambda>l. plain_line (''#'' @ l)) [''- ../crd'', ''- ../webhook'']" by code_simp
  ultimately show ?thesis
    using uncommenting_undoes_commenting [of "\<lparr>d_files = [''k.yaml'' \<mapsto> (0x1A4, commented_file)], d_made = []\<rparr>" "''k.yaml''" "0x1A4"
        ?before ?target ?after fresh_os "''#''" "[''- ../crd'', ''- ../webhook'']"]
    by (simp add: commented_file_def uncommented_file_def fresh_os_def MaxScanTokenSize_def)
qed

end
