(* ===== verification/Spec2Isabelle.thy ===== *)
theory Spec2Isabelle
  imports Fleet Operator OperatorMain DeepCopy CliSample JsonIndent E2eUtils
begin

text \<open>
  FleetControl: the Control Plane, its command line client and its Kubernetes operator.

  \<^bold>\<open>The program.\<close> FleetControl keeps a register of satellites (remote sites) and of user accounts.
  \<^item> The Control Plane (\<open>api/\<close>) is an HTTP server over PostgreSQL. \<open>cmd/server/main.go\<close> reads the
    environment, builds a token manager, connects to the database and listens with the router of
    \<open>internal/httpserver\<close>. A request passes the request logger, for all but the public paths the
    bearer-token middleware, for the user paths the administrator gate, the generated wrapper that
    binds path parameters, and then a handler, a service and a repository of \<open>internal/satellite\<close> or
    \<open>internal/user\<close>, which executes SQL statements.
  \<^item> The client \<open>fleetctl/\<close> keeps a server address and a token in a configuration file and calls the
    API through the generated client \<open>api/gen/client.gen.go\<close>.
  \<^item> The operator \<open>operator/\<close> reconciles a custom resource in a Kubernetes cluster. It shares no code
    and no state with the other two.

  \<^bold>\<open>Theories.\<close> Paths are below \<open>src/\<close>; definitions have the names of the Go functions, with a prefix
  for the receiver where two packages share a name (\<open>satService_Update\<close> is \<open>Service.Update\<close> of the
  satellite package, \<open>pg_sat_Update\<close> that of its \<open>PostgresRepository\<close>).
  \<^item> \<open>Prelude\<close>: byte strings, error values, tables with a key column, simplification collections.
  \<^item> \<open>GoStrings\<close>, \<open>Strconv\<close>, \<open>Json\<close>, \<open>JsonRoundTrip\<close>, \<open>GoTime\<close>, \<open>Calendar\<close>, \<open>GoUrl\<close>, \<open>Http\<close>: what the
    sources use of Go's library: trimming, case folding and UTF-8, quoted strings, the JSON decoder and encoder, RFC
    3339 times, URLs with reference resolution, headers, response writers and contexts. Shown:
    printed JSON parses back, printed times read back, \<open>Unquote\<close> inverts \<open>Quote\<close>.
  \<^item> \<open>Models\<close>, \<open>ClientModels\<close>: \<open>api/gen/models.gen.go\<close> and the domain structs; decoding of requests by the
    server and of responses by the client.
  \<^item> \<open>Effects\<close>, \<open>Concurrency\<close>: programs as trees of calls to clock, random source, log and database;
    \<open>run\<close> executes one alone, \<open>step\<close> one call of it, and the inductive \<open>interleaving\<close> a pool of requests
    in any order, with any faults. The locale \<open>store_invariant\<close> carries a property of the tables
    from single statements to every interleaving; it is interpreted for the uniqueness of keys, known roles, enumerated
    values, untouched tables and the satellites of the operator.
  \<^item> \<open>Principal\<close>, \<open>Jwt\<close>, \<open>Auth\<close>: \<open>api/internal/auth\<close>: principals, token manager, middleware, role
    gate and login.
  \<^item> \<open>Satellite\<close>, \<open>User\<close>: \<open>api/internal/satellite\<close>, \<open>api/internal/user\<close>: SQL statements, repositories,
    services, mappers and handlers. The repository interface is a locale each; it is interpreted on
    the PostgreSQL repository, and the services are proved against the locale's laws to refine
    operations on a map from ids to rows.
  \<^item> \<open>Service\<close>, \<open>ServerGen\<close>, \<open>Router\<close>, \<open>Gates\<close>: configuration, health, version, documentation pages, request
    logger; \<open>api/gen/server.gen.go\<close>; the assembly and start-up; and who reaches which endpoint.
  \<^item> \<open>Fleet\<close>: the Control Plane as an abstract machine, an inductive step relation on two maps (register, move,
    retire, heartbeat, enrol, dismiss), and the simulation of the server's statements by its steps.
  \<^item> \<open>Client\<close>, \<open>ClientFacts\<close>: \<open>api/gen/client.gen.go\<close> and the requests it sends.
  \<^item> \<open>CliConfig\<close>, \<open>CliOutput\<close>, \<open>Fleetctl\<close>, \<open>CliTree\<close>: \<open>fleetctl/internal\<close> and the eight commands of \<open>fleetctl/cmd\<close>,
    on a disk, two output streams and a network; the command tree with its flags and \<open>Execute\<close>. \<open>JsonIndent\<close>: the
    indented documents the commands print, read back.
  \<^item> \<open>EndToEnd\<close>, \<open>CliSession\<close>, \<open>CliRefusal\<close>, \<open>CliCreate\<close>: the commands with the server's router as their network.
  \<^item> \<open>Operator\<close>, \<open>DeepCopy\<close>, \<open>OperatorMain\<close>: the custom resource and \<open>Reconcile\<close>, its generated deep copies on
    an explicit heap (locale \<open>deep_copier\<close>), and the start of the operator. \<open>E2eUtils\<close>: the helpers of its
    end-to-end tests (\<open>operator/test/utils\<close>).
  \<^item> \<open>Sample\<close>, \<open>CliSample\<close>: a concrete deployment on which the theorems with hypotheses are instantiated.

  \<^bold>\<open>State.\<close> The record \<open>world\<close> is the two tables, as lists of rows, and the request log. Handlers map a request and a
  response writer to a program whose result is the written response or a panic; Go's error
  returns are sums. Requests share nothing but the tables, one statement at a time, so the order of
  statements of different requests is arbitrary in the theorems about interleavings.

  \<^bold>\<open>What is shown.\<close>
  \<^item> Over all interleavings: satellites of the operator are protected from requests without its
    header, keys stay unique, stored values stay within the generated enumerations, and every
    execution of the server is a run of the fleet machine.
  \<^item> Per request: no table changes without a live token, none of the users' without an administrator's;
    each handler's status and effect on every branch, faults included; what every request body decodes
    to; login errors look alike; a malformed id panics.
  \<^item> Tokens: what is accepted, for how long, and that a login's token admits its bearer.
  \<^item> Commands: which command a command line runs and with which values; get, create, delete and login followed from the configuration file to the database and
    back; every command with a token the server refuses, and without a token; the configuration file
    and the printed documents read back; passwords are not shown.
  \<^item> Operator: outcome, idempotence and errors of a reconciliation; deep copies share no memory; what a running
    operator has registered and how it serves metrics. Test helpers: uncommenting undoes commenting, and when
    cert-manager counts as installed.

  \<^bold>\<open>Bounds.\<close> The JSON parser recurses on fuel, two units per byte and two more, which
  \<open>Models\<close> shows to be enough: more fuel gives the same result. Its nesting limit of
  10000 is Go's own, as is the line limit of 64 KiB of \<open>bufio.Scanner\<close>. Everything else is structural
  or has a termination proof. Times are integers in nanoseconds; PostgreSQL's are in microseconds.
  Ids are 128-bit words.

  \<^bold>\<open>Parameters.\<close> Code outside the repository is an argument: chi's route matching, which the theorems about the server leave
  arbitrary and those about commands require to find the routes of the requests they send, pgx and PostgreSQL faults, bcrypt, golang-jwt
  (signing and parsing, with two contracts), the uuid package, the oapi-codegen runtime, the host syntax of \<open>net/url\<close>,
  Unicode's table of printable runes, cobra's reading of a command line (with its documented checks as a
  contract), the terminal, the file system's faults, apimachinery's deep copies and scheme, the
  Kubernetes API server, controller-runtime and the flags of its logger, and the programs the end-to-end tests run.

  \<^bold>\<open>Not modelled.\<close> The long help text of \<open>fleetctl\<close>; the interface \<open>ClientWithResponsesInterface\<close>, which repeats the methods; the accept loop of
  \<open>net/http\<close> after the server has started to listen; the running manager of the operator; the constructors that only
  store their arguments; the one-off script \<open>api/scripts/hash.go\<close>, which prints one bcrypt hash, and the embedded OpenAPI document.
\<close>

section \<open>Admission\<close>

definition sample_chi :: "nat \<Rightarrow> (bytes \<times> bytes) list \<Rightarrow> chi" where
  "sample_chi i params = \<lparr>chi_Find = (\<lambda>_ _ _. Some (i, params)), chi_Miss = (\<lambda>_ w. w)\<rparr>"

definition sample_pages :: pages where
  "sample_pages = \<lparr>openapi_Spec = ''openapi: 3.0.3'', swaggerUIHTML = ''<html>''\<rparr>"

abbreviation sample_mux :: mux where
  "sample_mux \<equiv> server_mux sample_libs sample_pages sample_manager"

definition sample_route :: "nat \<Rightarrow> route" where
  "sample_route i = mux_routes sample_mux ! i"

lemma sample_selected:
  "i < 14 \<Longrightarrow> selected (sample_chi i params) sample_mux r = Some (sample_route i, params)"
  by (simp add: selected_def sample_chi_def sample_route_def server_mux_routes endpoints_def Let_def)

lemma sample_access:
  "access_of (rt_Pattern (sample_route 6)) = Authenticated"
  "access_of (rt_Pattern (sample_route 13)) = AdminOnly"
  by (simp_all add: sample_route_def server_mux_routes endpoints_def Let_def access_of_def HasPrefix_def)

lemma sample_jwt_sel [simp]: "jwt sample_libs = sample_jwt"
  by (simp add: sample_libs_def)

lemma sample_clock [simp]: "env_clock sample_env = 5"
  by (simp add: sample_env_def)

text \<open>
  C3. Token gate. Whatever route chi selects, if it is not a public one and the request carries no
  bearer token that is live when the middleware reads the clock, the answer is 401, no table
  changes, and the request is logged once with that status.
\<close>

theorem token_gate:
  assumes sel: "selected C (server_mux L d m) r = Some (rt, params)"
    and gated: "access_of (rt_Pattern rt) \<noteq> Public"
    and token: "bearer_principal (jwt L) m (env_clock (\<omega> (Suc n))) r = None"
  shows "\<exists>w n' entry. run \<omega> n (ServeHTTP C (server_mux L d m) r new_writer) db =
      (Returned w, n', db\<lparr>request_log := request_log db @ [entry]\<rparr>)
    \<and> status_of w = 401 \<and> log_status entry = 401 \<and> log_path entry = req_Path r"
  using serve_refused [where \<omega> = \<omega> and n = n, OF assms, of new_writer db] by auto

theorem token_gate_witness:
  "\<exists>w n' entry. run (\<lambda>_. sample_env) 0
      (ServeHTTP (sample_chi 6 []) sample_mux (sample_request ''GET'' ''/satellites'' []) new_writer) sample_world =
      (Returned w, n', sample_world\<lparr>request_log := request_log sample_world @ [entry]\<rparr>)
    \<and> status_of w = 401 \<and> log_status entry = 401
    \<and> log_path entry = req_Path (sample_request ''GET'' ''/satellites'' [])"
  by (rule token_gate [OF sample_selected]) (simp_all add: sample_access sample_bearer)

text \<open>
  C4. Role gate. On the user-management routes a live token of a human who is not an administrator
  gets 403, no table changes, and the request is logged once with that status.
\<close>

theorem role_gate:
  assumes sel: "selected C (server_mux L d m) r = Some (rt, params)"
    and gated: "access_of (rt_Pattern rt) = AdminOnly"
    and token: "bearer_principal (jwt L) m (env_clock (\<omega> (Suc n))) r = Some p" "p_role p \<noteq> RoleAdmin"
  shows "\<exists>w n' entry. run \<omega> n (ServeHTTP C (server_mux L d m) r new_writer) db =
      (Returned w, n', db\<lparr>request_log := request_log db @ [entry]\<rparr>)
    \<and> status_of w = 403 \<and> log_status entry = 403 \<and> log_path entry = req_Path r"
  using serve_forbidden [where \<omega> = \<omega> and n = n, OF assms, of new_writer db] by auto

theorem role_gate_witness:
  "\<exists>w n' entry. run (\<lambda>_. sample_env) 0
      (ServeHTTP (sample_chi 13 [(''id'', ''7'')]) sample_mux (sample_request ''DELETE'' ''/users/7'' ''vtok'') new_writer) sample_world =
      (Returned w, n', sample_world\<lparr>request_log := request_log sample_world @ [entry]\<rparr>)
    \<and> status_of w = 403 \<and> log_status entry = 403
    \<and> log_path entry = req_Path (sample_request ''DELETE'' ''/users/7'' ''vtok'')"
  by (rule role_gate [OF sample_selected, where p = "sample_principal ''viewer''"])
     (simp_all add: sample_access sample_bearer, simp add: sample_principal_def role_defs)

text \<open>
  C22. The router implements the access policy: its route table is the list of the fourteen
  endpoints, each behind the policy of its path (login, health, version and documentation public;
  satellites for any live token; users for administrators), and every request goes through the
  request logger first.
\<close>

theorem router_implements_policy:
  "mux_routes (server_mux L d m) =
     map (\<lambda>(method, pat, h). \<lparr>rt_Method = method, rt_Pattern = pat,
                              rt_Handler = policy (access_of pat) (jwt L) m h\<rparr>) (endpoints L d m)
   \<and> mux_middlewares (server_mux L d m) = [RequestLogger]"
  by (simp add: server_mux_routes server_mux_middlewares gate_is_policy)

text \<open>
  C2. Every change has an author. Whatever request is served and whatever chi selects: without a
  live bearer token neither table changes; a live token of a non-administrator leaves the users
  alone; and no single request changes both tables.
\<close>

theorem change_needs_authority:
  "case run \<omega> n (ServeHTTP C (server_mux L d m) r w) db of (out, n', db') \<Rightarrow>
     (case bearer_principal (jwt L) m (env_clock (\<omega> (Suc n))) r of
        None \<Rightarrow> satellites db' = satellites db \<and> users db' = users db
      | Some p \<Rightarrow> (if p_role p = RoleAdmin then satellites db' = satellites db \<or> users db' = users db
                  else users db' = users db))"
  using serve_tables by (metis (no_types, lifting) case_prodI2)

section \<open>Concurrent requests\<close>

text \<open>
  C1. Operator-managed satellites are safe from everybody else, under every interleaving. However
  many requests without the operator header arrive and however their database calls interleave,
  with any faults, every satellite the operator manages keeps its name, region, owner and creation
  time, and no satellite becomes operator-managed.
\<close>

theorem operator_satellites_protected:
  assumes "interleaving (\<lambda>p. \<exists>r. p = ServeHTTP C (server_mux L d m) r new_writer \<and> \<not> fromOperator r) [] w0 ps w"
    and "distinct (map sat_ID (satellites w0))"
  shows "operator_rows_kept w0 w \<and> operator_ids w = operator_ids w0"
proof -
  have "operator_safe w0 w"
    by (rule protect.interleaving_keeps [OF assms(1), of w0, THEN conjunct2])
       (auto simp: serve_guarded operator_safe_start [OF assms(2)])
  then show ?thesis using operator_safe_ids by (auto simp: operator_safe_def)
qed

abbreviation delete_request :: request where
  "delete_request \<equiv> sample_request ''DELETE'' ''/satellites/7'' ''tok''"

lemma delete_request_plain: "\<not> fromOperator delete_request"
proof -
  have "canonical_key operatorHeader = ''X-Fleetcontrol-Operator''" by code_simp
  then show ?thesis by (simp add: fromOperator_def header_Get_def sample_request_def)
qed

lemma alone_in_pool:
  assumes "P p" "run \<omega> n p w = (a, n', w')"
  shows "interleaving P [] w [Done a] w'"
  using interleaving.arrive [of P "[]" w "[]" w p] interleaving.start [of P "[]" w] assms
  by (auto intro: run_from_interleaving)

theorem operator_satellites_protected_witness:
  "operator_rows_kept sample_world
     (snd (snd (run (\<lambda>_. sample_env) 0 (ServeHTTP (sample_chi 9 [(''id'', ''7'')]) sample_mux delete_request new_writer) sample_world)))"
proof -
  let ?run = "run (\<lambda>_. sample_env) 0 (ServeHTTP (sample_chi 9 [(''id'', ''7'')]) sample_mux delete_request new_writer) sample_world"
  have "?run = (fst ?run, fst (snd ?run), snd (snd ?run))" by simp
  from operator_satellites_protected [OF alone_in_pool [OF _ this]]
  show ?thesis using delete_request_plain by (force simp: sample_world_def)
qed

text \<open>
  C8. The server implements the fleet machine. From a store whose keys are unique, however many
  requests arrive and however their database calls interleave, with any faults, what the store went
  through is a run of the abstract machine: satellites are registered (pending, manually managed,
  under an unused id and name), moved, retired and marked ready by heartbeats, accounts enrolled
  with a known role and dismissed, one at a time and in no other way; and unless requests with the operator
  header are among them, no satellite the operator manages is moved or retired.
\<close>

theorem executions_are_fleet_runs:
  assumes "interleaving (\<lambda>p. \<exists>r. p = ServeHTTP C (server_mux L d m) r new_writer \<and> (op \<or> \<not> fromOperator r)) [] w0 ps w"
    and "db_ok w0"
  shows "(fleet_step op)\<^sup>*\<^sup>* (fleet_of w0) (fleet_of w)"
proof -
  have "simulated op w0 w"
    by (rule fleet.interleaving_keeps [OF assms(1), of op w0, THEN conjunct2])
       (use serve_simulated simulated_start [OF assms(2)] in \<open>auto simp: serve_enumerated\<close>)
  then show ?thesis by (simp add: simulated_def)
qed

theorem executions_are_fleet_runs_witness:
  "(fleet_step False)\<^sup>*\<^sup>* (fleet_of sample_world)
     (fleet_of (snd (snd (run (\<lambda>_. sample_env) 0 (ServeHTTP (sample_chi 9 [(''id'', ''7'')]) sample_mux delete_request new_writer) sample_world))))"
proof -
  let ?run = "run (\<lambda>_. sample_env) 0 (ServeHTTP (sample_chi 9 [(''id'', ''7'')]) sample_mux delete_request new_writer) sample_world"
  have "?run = (fst ?run, fst (snd ?run), snd (snd ?run))" by simp
  from executions_are_fleet_runs [OF alone_in_pool [OF _ this]]
  show ?thesis using delete_request_plain by (force simp: sample_world_def db_ok_def)
qed

text \<open>
  C9. The store stays consistent under every interleaving of requests: ids, satellite names and
  usernames stay unique and every account keeps an admin or viewer role.
\<close>

theorem store_stays_consistent:
  assumes "interleaving (\<lambda>p. \<exists>r. p = ServeHTTP C (server_mux L d m) r new_writer) [] w0 ps w"
    and "db_ok w0" "roles_known w0"
  shows "db_ok w \<and> roles_known w"
proof
  show "db_ok w"
    by (rule schema.interleaving_keeps [OF assms(1), THEN conjunct2]) (auto simp: within_any assms(2))
  show "roles_known w"
    by (rule roles.interleaving_keeps [OF assms(1), THEN conjunct2])
       (use serve_roles assms(3) in auto)
qed

theorem store_stays_consistent_witness:
  "db_ok (snd (snd (run (\<lambda>_. sample_env) 0 (ServeHTTP (sample_chi 9 [(''id'', ''7'')]) sample_mux delete_request new_writer) sample_world)))"
proof -
  let ?run = "run (\<lambda>_. sample_env) 0 (ServeHTTP (sample_chi 9 [(''id'', ''7'')]) sample_mux delete_request new_writer) sample_world"
  have "?run = (fst ?run, fst (snd ?run), snd (snd ?run))" by simp
  from store_stays_consistent [OF alone_in_pool [OF _ this]]
  show ?thesis by (force simp: sample_world_def sample_user_def db_ok_def roles_known_def)
qed

text \<open>
  C10. Stored values stay in the enumerations of the API. Under every interleaving of requests every
  satellite has one of the four statuses and one of the two owners of the OpenAPI document, and
  every account one of the two roles, so that the enumerated fields of every response have a value
  the document allows.
\<close>

theorem stored_values_enumerated:
  assumes "interleaving (\<lambda>p. \<exists>r. p = ServeHTTP C (server_mux L d m) r new_writer) [] w0 ps w" "enumerated w0"
  shows "list_all (\<lambda>s. let resp = sat_ToResponse (Some s) in
        (\<exists>st \<in> set SatelliteStatus_values. gs_Status resp = Some st)
        \<and> (\<exists>o1 \<in> set SatelliteManagedBy_values. gs_ManagedBy resp = Some o1)) (satellites w)
    \<and> list_all (\<lambda>u. user_Role u \<in> set UserRole_values) (users w)"
proof -
  have "enumerated w"
    by (rule enums.interleaving_keeps [OF assms(1), THEN conjunct2]) (use serve_enumerated assms(2) in auto)
  then show ?thesis by (auto simp: enumerated_def list_all_iff sat_ToResponse_def)
qed

theorem stored_values_enumerated_witness:
  "list_all (\<lambda>u. user_Role u \<in> set UserRole_values)
     (users (snd (snd (run (\<lambda>_. sample_env) 0 (ServeHTTP (sample_chi 9 [(''id'', ''7'')]) sample_mux delete_request new_writer) sample_world))))"
proof -
  let ?run = "run (\<lambda>_. sample_env) 0 (ServeHTTP (sample_chi 9 [(''id'', ''7'')]) sample_mux delete_request new_writer) sample_world"
  have "?run = (fst ?run, fst (snd ?run), snd (snd ?run))" by simp
  from stored_values_enumerated [OF alone_in_pool [OF _ this]]
  show ?thesis by (force simp: sample_world_def sample_user_def sample_satellite_def enumerated_def enum_values)
qed

section \<open>Login and admission\<close>

definition carries :: "request \<Rightarrow> bytes \<Rightarrow> bool" where
  "carries r token \<longleftrightarrow> header_Get (req_Header r) ''Authorization'' = ''Bearer '' @ token"

lemma bearer_principal_carries:
  "carries r token \<Longrightarrow>
     bearer_principal J m now r =
       (case parse_human_token_at J m now token of Inl _ \<Rightarrow> None | Inr p \<Rightarrow> Some p)"
  by (simp add: carries_def bearer_principal_def HasPrefix_def TrimPrefix_def)

text \<open>
  C5. From login to admission. When the account exists, its password matches and the token can
  be signed, login answers 200 with that token, and for the next 3599 seconds every request that
  carries the token as its bearer is admitted as that account with the account's role; from 3600
  seconds on it is not admitted.
\<close>

theorem login_token_admits:
  assumes lib: "jwt_accepts_only_valid (jwt L)" "jwt_reads_back (jwt L)"
    and utf8: "list_all valid_utf8 [show_id (marshal L) (user_ID u), m_issuer m, m_audience m]"
    and body: "decode_loginRequest (req_Body r) = Some req"
    and row: "env_fault (\<omega> n) = None" "sel_where user_Username (lr_Username req) (users db) = Some u"
      "bcrypt_Compare L (user_PasswordHash u) (lr_Password req)"
    and sign: "run \<omega> (Suc n) (GenerateHumanToken (jwt L) m (show_id (marshal L) (user_ID u)) (user_Role u)) db =
      (Inr token, n', db')"
    and req': "carries r' token"
  shows "\<exists>w. run \<omega> n (Login L m r new_writer) db = (Returned w, Suc (Suc n), db)
      \<and> status_of w = 200 \<and> rw_body w = encode_json (login_response token)
      \<and> (\<forall>now. env_clock (\<omega> (Suc n)) \<le> now \<and> now \<le> env_clock (\<omega> (Suc n)) + 3599 * 1000000000 \<longrightarrow>
           bearer_principal (jwt L) m now r' =
             Some \<lparr>p_kind = ActorHuman, p_subject = show_id (marshal L) (user_ID u), p_role = user_Role u,
                   p_satelliteID = uuid_Nil\<rparr>)
      \<and> (\<forall>now \<ge> env_clock (\<omega> (Suc n)) + 3600 * 1000000000. bearer_principal (jwt L) m now r' = None)"
proof -
  let ?t = "env_clock (\<omega> (Suc n))"
  obtain p where p: "NewHumanPrincipal (show_id (marshal L) (user_ID u)) (user_Role u) = Inr p"
    and s: "lib_SignedString (jwt L) ''HS256'' (human_claims m p (user_Role u) ?t) (m_secret m) = Inr token"
    using sign by (auto simp: GenerateHumanToken_def split: sum.splits)
  note accepted = issued_token_accepted_iff [OF lib p utf8 s]
  have pr: "p = \<lparr>p_kind = ActorHuman, p_subject = show_id (marshal L) (user_ID u), p_role = user_Role u,
      p_satelliteID = uuid_Nil\<rparr>"
    using p by (simp add: NewHumanPrincipal_Inr_iff)
  have "run \<omega> n (Login L m r new_writer) db =
      (Returned (EncodeTo (Some (login_response token)) (set_header ''Content-Type'' ''application/json'' new_writer)),
       Suc (Suc n), db)"
    by (rule run_Login_ok [OF body row(1,2,3) p s])
  moreover have "status_of (EncodeTo (Some j) (set_header k v new_writer)) = 200"
    "rw_body (EncodeTo (Some j) (set_header k v new_writer)) = encode_json j" for j k v
    by (simp_all add: status_of_def EncodeTo_def Write_def WriteHeader_def set_header_def new_writer_def Let_def)
  ultimately show ?thesis
    using NewNumericDate_bounds [of ?t]
    by (auto simp: bearer_principal_carries [OF req'] accepted pr distrib_right)
qed

definition login_body :: bytes where
  "login_body = (let q = [CHR 0x22] in
     ''{'' @ q @ ''username'' @ q @ '':'' @ q @ ''ann'' @ q @ '','' @ q @ ''password'' @ q @ '':'' @ q @ ''pw'' @ q @ ''}'')"

lemma decode_login_body: "decode_loginRequest login_body = Some \<lparr>lr_Username = ''ann'', lr_Password = ''pw''\<rparr>"
  by code_simp

theorem login_token_admits_witness:
  "\<exists>w. run (\<lambda>_. sample_env\<lparr>env_clock := 0\<rparr>) 0
       (Login sample_libs sample_manager ((sample_request ''POST'' ''/auth/login'' [])\<lparr>req_Body := login_body\<rparr>) new_writer)
       sample_world = (Returned w, 2, sample_world)
     \<and> status_of w = 200 \<and> rw_body w = encode_json (login_response ''tok'')"
proof -
  have "run (\<lambda>_. sample_env\<lparr>env_clock := 0\<rparr>) (Suc 0)
      (GenerateHumanToken (jwt sample_libs) sample_manager (show_id (marshal sample_libs) (user_ID sample_user))
        (user_Role sample_user)) sample_world = (Inr ''tok'', 2, sample_world)"
    by (simp add: GenerateHumanToken_def NewHumanPrincipal_def newPrincipal_def principal_Validate_def sample_libs_def
        zero_principal_def role_defs sample_jwt_def sample_claims_def sample_principal_def sample_manager_def
        sample_user_def)
  from login_token_admits [OF _ _ _ _ _ _ _ this, of
      "(sample_request ''POST'' ''/auth/login'' [])\<lparr>req_Body := login_body\<rparr>" "\<lparr>lr_Username = ''ann'', lr_Password = ''pw''\<rparr>"
      "sample_request ''GET'' ''/satellites'' ''tok''"]
  have "\<exists>w. run (\<lambda>_. sample_env\<lparr>env_clock := 0\<rparr>) 0
       (Login sample_libs sample_manager ((sample_request ''POST'' ''/auth/login'' [])\<lparr>req_Body := login_body\<rparr>) new_writer)
       sample_world = (Returned w, Suc (Suc 0), sample_world)
     \<and> status_of w = 200 \<and> rw_body w = encode_json (login_response ''tok'')"
    using sample_jwt_accepts_only_valid sample_jwt_reads_back
    by (auto simp: decode_login_body sample_world_def sample_user_def sample_env_def sample_libs_def sample_manager_def
        carries_def sample_request_def header_Get_def sample_canonical)
  then show ?thesis by (simp add: numeral_2_eq_2)
qed

text \<open>
  C25. A created account can log in. After an account was created with a name and a password, and
  provided bcrypt accepts the password for a hash it made from it, a login with them answers 200
  with the token signed for the account's id and role.
\<close>

theorem created_account_logs_in:
  assumes bcrypt: "\<And>salt hash. bcrypt_Generate L salt pw = Inr hash \<Longrightarrow> bcrypt_Compare L hash pw"
    and create: "run \<omega> n (userService_Create L user_PostgresRepository name pw role) db0 = (Inr (Some u), n', db)"
    and body: "decode_loginRequest (req_Body r) = Some \<lparr>lr_Username = name, lr_Password = pw\<rparr>"
    and fault_free: "env_fault (\<omega> k) = None"
    and subject: "TrimSpace (show_id (marshal L) (user_ID u)) \<noteq> []"
    and sign: "lib_SignedString (jwt L) ''HS256''
      (human_claims m \<lparr>p_kind = ActorHuman, p_subject = show_id (marshal L) (user_ID u), p_role = role,
                       p_satelliteID = uuid_Nil\<rparr> role (env_clock (\<omega> (Suc k)))) (m_secret m) = Inr token"
  shows "run \<omega> k (Login L m r w) db =
    (Returned (EncodeTo (Some (login_response token)) (set_header ''Content-Type'' ''application/json'' w)),
     Suc (Suc k), db)"
proof (rule run_Login_ok [where \<omega> = \<omega> and n = k, OF body fault_free])
  note made = created_account_found [OF create]
  show "sel_where user_Username (lr_Username \<lparr>lr_Username = name, lr_Password = pw\<rparr>) (users db) = Some u"
    using made(1) by simp
  show "bcrypt_Compare L (user_PasswordHash u) (lr_Password \<lparr>lr_Username = name, lr_Password = pw\<rparr>)"
    using bcrypt [OF made(2)] by simp
  show "NewHumanPrincipal (show_id (marshal L) (user_ID u)) (user_Role u) =
      Inr \<lparr>p_kind = ActorHuman, p_subject = show_id (marshal L) (user_ID u), p_role = role, p_satelliteID = uuid_Nil\<rparr>"
    using made(3,4) subject by (auto simp: NewHumanPrincipal_Inr_iff role_defs)
  show "lib_SignedString (jwt L) ''HS256''
      (human_claims m \<lparr>p_kind = ActorHuman, p_subject = show_id (marshal L) (user_ID u), p_role = role,
        p_satelliteID = uuid_Nil\<rparr> (user_Role u) (env_clock (\<omega> (Suc k)))) (m_secret m) = Inr token"
    using sign made(3) by simp
qed

theorem created_account_logs_in_witness:
  "fst (run (\<lambda>_. sample_env\<lparr>env_clock := 0\<rparr>) 2
     (Login sample_libs sample_manager ((sample_request ''POST'' ''/auth/login'' [])\<lparr>req_Body := login_body\<rparr>) new_writer)
     (sample_world\<lparr>users := [sample_user\<lparr>user_CreatedAt := 11\<rparr>]\<rparr>)) =
   Returned (EncodeTo (Some (login_response ''tok'')) (set_header ''Content-Type'' ''application/json'' new_writer))"
proof -
  have create: "run (\<lambda>_. sample_env\<lparr>env_clock := 0\<rparr>) 0 (userService_Create sample_libs user_PostgresRepository ''ann'' ''pw'' ''admin'')
      (sample_world\<lparr>users := []\<rparr>) =
      (Inr (Some (sample_user\<lparr>user_CreatedAt := 11\<rparr>)), 2, sample_world\<lparr>users := [sample_user\<lparr>user_CreatedAt := 11\<rparr>]\<rparr>)"
    by (simp add: userService_Create_def sample_libs_def sample_env_def pg_user_Create_def under_fault_def user_insert_def
        sample_world_def sample_user_def Let_def)
  have sign: "lib_SignedString (jwt sample_libs) ''HS256''
      (human_claims sample_manager \<lparr>p_kind = ActorHuman, p_subject = show_id (marshal sample_libs) (user_ID (sample_user\<lparr>user_CreatedAt := 11\<rparr>)),
        p_role = ''admin'', p_satelliteID = uuid_Nil\<rparr> ''admin'' (env_clock ((\<lambda>_. sample_env\<lparr>env_clock := 0\<rparr>) (Suc 2))))
      (m_secret sample_manager) = Inr ''tok''"
    by (simp add: sample_jwt_def sample_claims_def sample_principal_def sample_manager_def role_defs sample_libs_def)
  have bcrypt: "bcrypt_Generate sample_libs salt ''pw'' = Inr hash \<Longrightarrow> bcrypt_Compare sample_libs hash ''pw''" for salt hash
    by (simp add: sample_libs_def)
  have subject: "TrimSpace (show_id (marshal sample_libs) (user_ID (sample_user\<lparr>user_CreatedAt := 11\<rparr>))) \<noteq> []"
    by (simp add: sample_libs_def)
  show ?thesis
    by (subst created_account_logs_in [OF bcrypt create _ _ subject sign])
       (simp_all add: decode_login_body sample_env_def sample_request_def)
qed

section \<open>Malformed path ids\<close>

text \<open>
  C28. A malformed path id takes the request down. The router builds the generated wrapper without
  an error handler, so an admitted request to any of the five routes with an id, whose id does
  not bind as a UUID, panics with a nil dereference in place of an answer; the handlers' own
  INVALID_ID branch is not reached and the request is not logged.
\<close>

theorem malformed_id_panics:
  assumes sel: "selected C (server_mux L d m) r = Some (rt, params)"
    and route: "rt_Pattern rt \<in> {''/satellites/{id}'', ''/satellites/{id}/heartbeat'', ''/users/{id}''}"
    and who: "bearer_principal (jwt L) m (env_clock (\<omega> (Suc n))) r = Some p"
      "rt_Pattern rt = ''/users/{id}'' \<Longrightarrow> p_role p = RoleAdmin"
    and bad: "bind_UUID L (URLParam (r\<lparr>url_params := params\<rparr>) ''id'') = Inl err"
  shows "\<exists>n'. run \<omega> n (ServeHTTP C (server_mux L d m) r w) db = (Panicked nil_dereference, n', db)"
proof -
  have gated: "access_of (rt_Pattern rt) \<noteq> Public"
    using route by (auto simp: access_of_def HasPrefix_def)
  have role: "p_role p = RoleAdmin" if "access_of (rt_Pattern rt) = AdminOnly"
    using that route who(2) by (auto simp: access_of_def HasPrefix_def)
  obtain h where h: "(rt_Method rt, rt_Pattern rt, h) \<in> set (endpoints L d m)"
    "run \<omega> (Suc n) (routeHTTP C (server_mux L d m) r w) db =
       run \<omega> (Suc (Suc n)) (h (r\<lparr>url_params := params, req_ctx := withPrincipal (req_ctx r) p\<rparr>) w) db"
    by (rule serve_admitted [where \<omega> = \<omega> and n = n, OF sel gated who(1) role])
  have "(rt_Method rt, rt_Pattern rt, h) \<in> set (id_operations L (server_wrapper L m))"
    by (rule endpoints_with_id [OF h(1) route])
  moreover have "bind_UUID L (URLParam (r\<lparr>url_params := params, req_ctx := ctx\<rparr>) ''id'') = Inl err" for ctx
    using bad by (simp add: URLParam_def)
  ultimately have "h (r\<lparr>url_params := params, req_ctx := withPrincipal (req_ctx r) p\<rparr>) w = Done (Panicked nil_dereference)"
    using id_operations_bind_error [of L _ err w "server_wrapper L m"]
    by (fastforce simp: list_all_iff server_wrapper_def)
  then show ?thesis using h(2) by (simp add: ServeHTTP_server_mux run_RequestLogger)
qed

theorem malformed_id_panics_witness:
  "\<exists>n'. run (\<lambda>_. sample_env) 0
     (ServeHTTP (sample_chi 13 [(''id'', ''x'')]) sample_mux (sample_request ''DELETE'' ''/users/x'' ''tok'') new_writer)
     sample_world = (Panicked nil_dereference, n', sample_world)"
proof (rule malformed_id_panics [OF sample_selected])
  show "rt_Pattern (sample_route 13) \<in> {''/satellites/{id}'', ''/satellites/{id}/heartbeat'', ''/users/{id}''}"
    by (simp add: sample_route_def server_mux_routes endpoints_def Let_def)
  show "bearer_principal (jwt sample_libs) sample_manager (env_clock sample_env) (sample_request ''DELETE'' ''/users/x'' ''tok'') =
      Some (sample_principal ''admin'')"
    by (simp add: sample_bearer)
qed (simp_all add: sample_principal_def role_defs sample_libs_def URLParam_def)

section \<open>Start-up\<close>

text \<open>
  C30. The server only listens when it is fit to: its address comes from the configured port, and
  the mux it serves is the assembled one with a token manager whose secret is the configured one,
  at least 32 bytes and not blank, and whose issuer and audience are not empty. Every other
  start ends with the JWT or database error, or with the logger's panic, and never listens.
\<close>

theorem main_listens_only_if_fit:
  "case fst (run \<omega> n (main L d logger_New pgxpool_New en) db) of
     Listening addr mx \<Rightarrow>
       logger_New = None \<and> addr = '':'' @ getEnv en ''PORT'' ''8080''
       \<and> (\<exists>tokens. mx = server_mux L d tokens \<and> m_secret tokens = Getenv en ''JWT_SECRET'' \<and> manager_ok tokens)
       \<and> pgxpool_New (cfg_DBUrl (Load en)) = None \<and> env_fault (\<omega> n) = None
   | Fatal msg err \<Rightarrow>
       (msg = ''invalid JWT configuration'' \<and> (\<exists>reason. err = ErrInvalidJWTConfig reason))
       \<or> (msg = ''failed to connect to db'' \<and> (\<exists>text. err = PgError text))
   | Crashed msg \<Rightarrow> logger_New = Some msg"
proof (cases logger_New)
  case None
  let ?cfg = "\<lparr>cfg_Secret = cfg_JWTSecret (Load en), cfg_Issuer = cfg_JWTIssuer (Load en),
    cfg_Audience = cfg_JWTAudience (Load en)\<rparr>"
  show ?thesis
  proof (cases "NewJWTManager ?cfg")
    case (Inl err)
    moreover from this have "\<exists>reason. err = ErrInvalidJWTConfig reason"
      by (auto simp: NewJWTManager_def Let_def split: if_splits)
    ultimately show ?thesis using None by (simp add: main_def Let_def)
  next
    case (Inr tokens)
    moreover have "m_secret tokens = Getenv en ''JWT_SECRET''"
      using Inr by (auto simp: NewJWTManager_def Let_def Load_def split: if_splits)
    ultimately show ?thesis
      using None NewJWTManager_ok [OF Inr]
      by (auto simp: main_def Let_def Connect_def under_fault_def ping_def Load_def split: option.splits fault.splits)
  qed
qed (simp add: main_def Let_def)

end
